(* ===== verification/Prelude.thy ===== *)
theory Prelude
  imports Main "HOL-Library.State_Monad" "HOL-Library.Word" "HOL-Library.Sublist"
begin

section \<open>Prelude: effectful code, weakest preconditions, shared facts\<close>

text \<open>
  The program's functions that talk to the outside (the Kubernetes API, the lakeFS API, the
  clock, the random generator) are modelled in the state monad of the library
  (\<open>('s, 'a) state\<close>): the world \<open>'s\<close> is threaded through every call. This theory holds what all
  components share: the short names for the monad, the weakest precondition \<open>wp\<close> with one
  simplification rule per way of composing programs, the notion of a program that keeps an
  observation of the world, loops over lists, and the collections the components extend.
\<close>

subsection \<open>Programs\<close>

abbreviation return :: "'a \<Rightarrow> ('s, 'a) state" where
  "return \<equiv> State_Monad.return"

text \<open>The outcome of a Go call with a second error result: \<open>Inl\<close> the error, \<open>Inr\<close> the value.\<close>

type_synonym ('e, 'a) result = "'e + 'a"

text \<open>Rules that split a goal \<open>wp m Q s\<close> along the calls of an interface.\<close>

named_theorems wp_intros "introduction rules for the weakest precondition of a call"

text \<open>Facts that a program keeps an observation of the world.\<close>

named_theorems keeps_intros "introduction rules for keeps"

text \<open>Definitions of the projections that name the parts of an API object.\<close>

named_theorems obj_simps "simplification rules for API objects"

subsection \<open>Weakest preconditions\<close>

definition wp :: "('s, 'a) state \<Rightarrow> ('a \<Rightarrow> 's \<Rightarrow> bool) \<Rightarrow> 's \<Rightarrow> bool" where
  "wp m Q s = (case run_state m s of (a, t) \<Rightarrow> Q a t)"

lemma wp_return [simp]: "wp (return a) Q s = Q a s"
  by (simp add: wp_def)

lemma wp_True [simp]: "wp m (\<lambda>a t. True) s"
  by (simp add: wp_def)

lemma wp_bind [simp]: "wp (State_Monad.bind m f) Q s = wp m (\<lambda>a. wp (f a) Q) s"
  by (simp add: wp_def split: prod.splits)

lemma wp_if [simp]: "wp (if b then m else n) Q s = (if b then wp m Q s else wp n Q s)"
  by simp

lemma wp_case_option [simp]:
  "wp (case x of None \<Rightarrow> m | Some y \<Rightarrow> f y) Q s =
     (case x of None \<Rightarrow> wp m Q s | Some y \<Rightarrow> wp (f y) Q s)"
  by (simp split: option.splits)

lemma wp_case_sum [simp]:
  "wp (case x of Inl e \<Rightarrow> f e | Inr y \<Rightarrow> g y) Q s =
     (case x of Inl e \<Rightarrow> wp (f e) Q s | Inr y \<Rightarrow> wp (g y) Q s)"
  by (simp split: sum.splits)

lemma wp_case_prod [simp]:
  "wp (case x of (a, b) \<Rightarrow> f a b) Q s = (case x of (a, b) \<Rightarrow> wp (f a b) Q s)"
  by (simp split: prod.splits)

lemma wp_case_list [simp]:
  "wp (case xs of [] \<Rightarrow> m | y # ys \<Rightarrow> f y ys) Q s =
     (case xs of [] \<Rightarrow> wp m Q s | y # ys \<Rightarrow> wp (f y ys) Q s)"
  by (simp split: list.splits)

lemma wp_Let [simp]: "wp (Let x f) Q s = (let y = x in wp (f y) Q s)"
  by (simp add: Let_def)

lemma wp_mono: "wp m Q s \<Longrightarrow> (\<And>a t. Q a t \<Longrightarrow> R a t) \<Longrightarrow> wp m R s"
  by (auto simp: wp_def)

lemma wp_conj: "wp m Q s \<Longrightarrow> wp m R s \<Longrightarrow> wp m (\<lambda>a t. Q a t \<and> R a t) s"
  by (auto simp: wp_def)

text \<open>From the weakest precondition to a statement about a run, and back.\<close>

lemma wp_run: "wp m Q s \<Longrightarrow> run_state m s = (a, t) \<Longrightarrow> Q a t"
  by (simp add: wp_def)

lemma wp_runI: "(\<And>a t. run_state m s = (a, t) \<Longrightarrow> Q a t) \<Longrightarrow> wp m Q s"
  by (auto simp: wp_def split: prod.splits)

lemma wp_run_conv: "run_state m s = (a, t) \<Longrightarrow> wp m Q s = Q a t"
  by (simp add: wp_def)

text \<open>The same for programs whose result is known, and for a pair of results.\<close>

lemma wp_fstD: "wp m (\<lambda>a _. a = x) s \<Longrightarrow> fst (run_state m s) = x"
  by (simp add: wp_def case_prod_beta)

lemma wp_pairD: "wp m (\<lambda>(a, b) t. P a b t) s \<Longrightarrow> case run_state m s of ((a, b), t) \<Rightarrow> P a b t"
  by (simp add: wp_def split: prod.splits)

text \<open>For a run whose result is known, a promise about that result holds of the run.\<close>

lemma run_mp:
  "case p of (res, t) \<Rightarrow> res = x \<longrightarrow> Q res t \<Longrightarrow> fst p = x \<Longrightarrow> case p of (res, t) \<Rightarrow> Q res t"
  by (cases p) simp

subsection \<open>Programs that keep an observation of the world\<close>

definition keeps :: "('s \<Rightarrow> 'v) \<Rightarrow> ('s, 'a) state \<Rightarrow> bool" where
  "keeps f m \<longleftrightarrow> (\<forall>s. f (snd (run_state m s)) = f s)"

lemma keepsI: "(\<And>s a t. run_state m s = (a, t) \<Longrightarrow> f t = f s) \<Longrightarrow> keeps f m"
  by (metis keeps_def prod.collapse)

lemma keepsD: "keeps f m \<Longrightarrow> run_state m s = (a, t) \<Longrightarrow> f t = f s"
  by (metis keeps_def snd_conv)

lemma keeps_wp: "keeps f m \<Longrightarrow> wp m (\<lambda>_ t. f t = f s) s"
  by (auto simp: wp_def dest: keepsD split: prod.splits)

lemma keeps_return [keeps_intros]: "keeps f (return a)"
  by (simp add: keeps_def)

lemma keeps_bind [keeps_intros]:
  "keeps f m \<Longrightarrow> (\<And>a. keeps f (g a)) \<Longrightarrow> keeps f (State_Monad.bind m g)"
  by (auto simp: keeps_def split: prod.splits) (metis snd_conv)

lemma keeps_if [keeps_intros]:
  "(b \<Longrightarrow> keeps f m) \<Longrightarrow> (\<not> b \<Longrightarrow> keeps f n) \<Longrightarrow> keeps f (if b then m else n)"
  by simp

lemma keeps_case_option [keeps_intros]:
  "(x = None \<Longrightarrow> keeps f m) \<Longrightarrow> (\<And>y. x = Some y \<Longrightarrow> keeps f (g y)) \<Longrightarrow>
   keeps f (case x of None \<Rightarrow> m | Some y \<Rightarrow> g y)"
  by (simp split: option.splits)

lemma keeps_case_sum [keeps_intros]:
  "(\<And>e. x = Inl e \<Longrightarrow> keeps f (g e)) \<Longrightarrow> (\<And>y. x = Inr y \<Longrightarrow> keeps f (h y)) \<Longrightarrow>
   keeps f (case x of Inl e \<Rightarrow> g e | Inr y \<Rightarrow> h y)"
  by (simp split: sum.splits)

lemma keeps_case_prod [keeps_intros]:
  "(\<And>a b. x = (a, b) \<Longrightarrow> keeps f (g a b)) \<Longrightarrow> keeps f (case x of (a, b) \<Rightarrow> g a b)"
  by (simp split: prod.splits)

lemma keeps_case_list [keeps_intros]:
  "(xs = [] \<Longrightarrow> keeps f m) \<Longrightarrow> (\<And>y ys. xs = y # ys \<Longrightarrow> keeps f (g y ys)) \<Longrightarrow>
   keeps f (case xs of [] \<Rightarrow> m | y # ys \<Rightarrow> g y ys)"
  by (simp split: list.splits)

lemma keeps_Let [keeps_intros]:
  "(\<And>y. y = x \<Longrightarrow> keeps f (g y)) \<Longrightarrow> keeps f (Let x g)"
  by (simp add: Let_def)

subsection \<open>Loops over lists\<close>

text \<open>\<open>for _, x := range xs { body(x) }\<close> with no early exit.\<close>

primrec forEach :: "'a list \<Rightarrow> ('a \<Rightarrow> ('s, unit) state) \<Rightarrow> ('s, unit) state" where
  "forEach [] body = return ()"
| "forEach (x # xs) body = State_Monad.bind (body x) (\<lambda>_. forEach xs body)"

lemma keeps_forEach [keeps_intros]:
  "(\<And>x. x \<in> set xs \<Longrightarrow> keeps f (body x)) \<Longrightarrow> keeps f (forEach xs body)"
  by (induction xs) (auto intro!: keeps_intros)

text \<open>
  The loop rule: an invariant over the elements still to be visited. The invariant may speak of
  the remaining list, so what the loop has done is what is not in it any more.
\<close>

lemma wp_forEach:
  assumes step: "\<And>y ys t. Inv (y # ys) t \<Longrightarrow> wp (body y) (\<lambda>_. Inv ys) t"
  shows "Inv xs s \<Longrightarrow> wp (forEach xs body) (\<lambda>_. Inv []) s"
proof (induction xs arbitrary: s)
  case Nil
  then show ?case by simp
next
  case (Cons y ys)
  from step [OF Cons.prems] have "wp (body y) (\<lambda>_. Inv ys) s" .
  then show ?case by (auto intro: wp_mono Cons.IH)
qed

text \<open>
  A loop that appends to a slice and may return early with an error: \<open>body\<close> yields what it appends
  for one element.
\<close>

primrec collect :: "'a list \<Rightarrow> ('a \<Rightarrow> ('s, ('e, 'b list) result) state) \<Rightarrow> ('s, ('e, 'b list) result) state" where
  "collect [] body = return (Inr [])"
| "collect (x # xs) body = State_Monad.bind (body x) (\<lambda>r.
     case r of
       Inl e \<Rightarrow> return (Inl e)
     | Inr ys \<Rightarrow> State_Monad.bind (collect xs body) (\<lambda>r.
         case r of Inl e \<Rightarrow> return (Inl e) | Inr zs \<Rightarrow> return (Inr (ys @ zs))))"

lemma keeps_collect [keeps_intros]:
  "(\<And>x. x \<in> set xs \<Longrightarrow> keeps f (body x)) \<Longrightarrow> keeps f (collect xs body)"
  by (induction xs) (auto intro!: keeps_intros)

text \<open>
  If every step leaves the invariant in place and yields a list that \<open>P\<close> allows, or fails with an
  error that \<open>F\<close> allows, the loop yields the concatenation of such lists, or fails.
\<close>

lemma wp_collect_rel:
  assumes step: "\<And>x t. x \<in> set xs \<Longrightarrow> Inv t \<Longrightarrow>
      wp (body x) (\<lambda>r t. Inv t \<and> (case r of Inl e \<Rightarrow> F e | Inr ys \<Rightarrow> P x ys)) t"
  shows "Inv s \<Longrightarrow> wp (collect xs body)
      (\<lambda>r t. Inv t \<and> (case r of Inl e \<Rightarrow> F e
         | Inr zs \<Rightarrow> \<exists>yss. list_all2 P xs yss \<and> zs = concat yss)) s"
  using step
proof (induction xs arbitrary: s)
  case Nil
  then show ?case by simp
next
  case (Cons x xs)
  have "wp (body x) (\<lambda>r t. Inv t \<and> (case r of Inl e \<Rightarrow> F e | Inr ys \<Rightarrow> P x ys)) s"
    using Cons.prems by simp
  then show ?case
    by (auto elim!: wp_mono split: sum.splits intro!: wp_mono [OF Cons.IH] Cons.prems(2))
      (metis concat.simps(2) list.rel_intros(2))
qed

lemma wp_collect:
  assumes "\<And>x t. x \<in> set xs \<Longrightarrow> Inv t \<Longrightarrow>
      wp (body x) (\<lambda>r t. Inv t \<and> (case r of Inl e \<Rightarrow> F e | Inr ys \<Rightarrow> ys = out x)) t"
    and "Inv s"
  shows "wp (collect xs body)
      (\<lambda>r t. Inv t \<and> (case r of Inl e \<Rightarrow> F e | Inr ys \<Rightarrow> ys = concat (map out xs))) s"
proof -
  have "list_all2 (\<lambda>x ys. ys = out x) xs yss \<Longrightarrow> concat yss = concat (map out xs)" for yss
    by (induction xs yss rule: list_all2_induct) auto
  then show ?thesis
    using wp_collect_rel [where xs = xs and P = "\<lambda>x ys. ys = out x", OF assms]
    by (auto elim!: wp_mono split: sum.splits)
qed

lemma wp_collect_set:
  assumes "\<And>x t. x \<in> set xs \<Longrightarrow> Inv t \<Longrightarrow>
      wp (body x) (\<lambda>r t. Inv t \<and> (case r of Inl e \<Rightarrow> F e | Inr ys \<Rightarrow> set ys = out x)) t"
    and "Inv s"
  shows "wp (collect xs body)
      (\<lambda>r t. Inv t \<and> (case r of Inl e \<Rightarrow> F e | Inr ys \<Rightarrow> set ys = (\<Union>x \<in> set xs. out x))) s"
proof -
  have "list_all2 (\<lambda>x ys. set ys = out x) xs yss \<Longrightarrow> set (concat yss) = (\<Union>x \<in> set xs. out x)" for yss
    by (induction xs yss rule: list_all2_induct) auto
  note all = this
  show ?thesis
  proof (rule wp_mono [OF wp_collect_rel [where xs = xs and P = "\<lambda>x ys. set ys = out x", OF assms]])
    fix r and t
    assume r: "Inv t \<and> (case r of Inl e \<Rightarrow> F e
      | Inr zs \<Rightarrow> \<exists>yss. list_all2 (\<lambda>x ys. set ys = out x) xs yss \<and> zs = concat yss)"
    show "Inv t \<and> (case r of Inl e \<Rightarrow> F e | Inr ys \<Rightarrow> set ys = (\<Union>x \<in> set xs. out x))"
    proof (cases r)
      case (Inr zs)
      with r obtain yss where "list_all2 (\<lambda>x ys. set ys = out x) xs yss" and "zs = concat yss" by auto
      with all Inr r show ?thesis by simp
    qed (use r in simp)
  qed
qed

subsection \<open>Shared facts on lists and options\<close>

lemma find_Some_conv:
  "find P xs = Some x \<Longrightarrow> x \<in> set xs \<and> P x"
  by (auto simp: find_Some_iff)

end
