(* ===== verification/ApiTypes.thy ===== *)
theory ApiTypes
  imports GoStrings
begin

section \<open>The custom resources (api/v1beta1)\<close>

text \<open>
  The Go structs as records. Go embeds \<open>metav1.ObjectMeta\<close> in every resource; here every resource
  extends the record \<open>ObjectMeta\<close>, so \<open>Name\<close>, \<open>Namespace\<close> and the other metadata fields apply to
  all of them. Of \<open>ObjectMeta\<close> and of the Kubernetes core types only the fields the source reads or
  writes are kept; values that are only passed on (resource requirements, volume mounts, ...) are
  opaque strings. A \<open>*T\<close> field is an option, a Go map is an option (nil or not) of a map.
  Times are nanoseconds since the Unix epoch.
\<close>

subsection \<open>Metadata, conditions, status\<close>

type_synonym time = int

text \<open>Go's zero time, the creation time of an object that was never stored.\<close>

definition zeroTime :: time where
  "zeroTime = - 62135596800 * 1000000000"

text \<open>\<open>time.Time.Unix\<close> and \<open>time.Time.After\<close>.\<close>

definition Unix :: "time \<Rightarrow> int" where
  "Unix t = t div 1000000000"

definition After :: "time \<Rightarrow> time \<Rightarrow> bool" where
  "After t u \<longleftrightarrow> t > u"

type_synonym gomap = "(string \<rightharpoonup> string) option"

record OwnerReference =
  or_UID :: string
  or_Controller :: bool

record ObjectMeta =
  Name :: string
  Namespace :: string
  UID :: string
  Generation :: int
  CreationTimestamp :: time
  DeletionTimestamp :: "time option"
  Finalizers :: "string list"
  Labels :: gomap
  OwnerReferences :: "OwnerReference list"

record Condition =
  cond_Type :: string
  cond_Status :: string
  cond_ObservedGeneration :: int
  cond_LastTransitionTime :: time
  cond_Reason :: string
  cond_Message :: string

text \<open>The status of users, groups, roles, role bindings and GC policies; others extend it.\<close>

record Status =
  ObservedGeneration :: int
  Conditions :: "Condition list"

text \<open>Kubernetes keys: \<open>types.NamespacedName\<close>, namespace first.\<close>

type_synonym NamespacedName = "string \<times> string"

definition NamespacedName_String :: "NamespacedName \<Rightarrow> string" where
  "NamespacedName_String k = fst k @ ''/'' @ snd k"

subsection \<open>Users, groups, roles, role bindings\<close>

record LakeFSUserSpec =
  us_ExternalID :: string
  us_FriendlyName :: string

record LakeFSUser = ObjectMeta +
  user_Spec :: LakeFSUserSpec
  user_Status :: Status

record LakeFSUserReference =
  ur_Name :: string

record LakeFSGroupSpec =
  gs_ExternalID :: string
  gs_Users :: "LakeFSUserReference list"
  gs_Description :: string

record LakeFSGroup = ObjectMeta +
  group_Spec :: LakeFSGroupSpec
  group_Status :: Status

record LakeFSPolicyStatement =
  ps_Effect :: string
  ps_Resource :: string
  ps_Action :: "string list"

record LakeFSPolicyTemplate =
  pt_Name :: string
  pt_Statement :: "LakeFSPolicyStatement list"

record LakeFSRoleSpec =
  rs_Description :: string
  rs_Policies :: "LakeFSPolicyTemplate list"

record LakeFSRole = ObjectMeta +
  role_Spec :: LakeFSRoleSpec
  role_Status :: Status

type_synonym LakeFSRoleBindingSubjectKind = string

definition LakeFSRoleBindingSubjectKindUser :: LakeFSRoleBindingSubjectKind where
  "LakeFSRoleBindingSubjectKindUser = ''LakeFSUser''"

definition LakeFSRoleBindingSubjectKindGroup :: LakeFSRoleBindingSubjectKind where
  "LakeFSRoleBindingSubjectKindGroup = ''LakeFSGroup''"

record LakeFSRoleBindingSubject =
  sb_Kind :: LakeFSRoleBindingSubjectKind
  sb_Name :: string

record LakeFSRoleReference =
  rr_Name :: string

record LakeFSRoleBindingSpec =
  bs_Subject :: LakeFSRoleBindingSubject
  bs_RoleRef :: LakeFSRoleReference
  bs_Repository :: string

record LakeFSRoleBinding = ObjectMeta +
  binding_Spec :: LakeFSRoleBindingSpec
  binding_Status :: Status

subsection \<open>Credentials\<close>

record LakeFSSecretReference =
  sr_Name :: string
  sr_Key :: string

record LakeFSCredentialSpec =
  cs_UserRef :: LakeFSUserReference
  cs_AccessKeyID :: string
  cs_SecretRef :: LakeFSSecretReference
  cs_ExpiresAt :: "time option"
  cs_Revoked :: bool

record LakeFSCredentialStatus = Status +
  cst_SecretName :: string
  cst_SecretKey :: string

record LakeFSCredential = ObjectMeta +
  cred_Spec :: LakeFSCredentialSpec
  cred_Status :: LakeFSCredentialStatus

definition SecretKey :: "LakeFSCredentialSpec \<Rightarrow> string" where
  "SecretKey r = (if sr_Key (cs_SecretRef r) = '''' then ''secretAccessKey'' else sr_Key (cs_SecretRef r))"

lemma SecretKey_nonempty [simp]: "SecretKey r \<noteq> []"
  by (simp add: SecretKey_def)

text \<open>\<open>corev1.Secret\<close>: its data maps names to byte strings.\<close>

record Secret = ObjectMeta +
  Type :: string
  Data :: gomap

subsection \<open>Repositories\<close>

record LakeFSRepositoryCredentialSecretReference =
  rc_Name :: string
  rc_Namespace :: string
  rc_AccessKeyIDKey :: string
  rc_SecretAccessKeyKey :: string

record LakeFSGCPolicyReference =
  gr_Name :: string

record LakeFSRepositoryGCSpec =
  gc_Enabled :: "bool option"
  gc_PolicyRef :: LakeFSGCPolicyReference

record LakeFSRepositorySpec =
  rp_Repository :: string
  rp_Endpoint :: string
  rp_StorageNamespace :: string
  rp_DefaultBranch :: string
  rp_SampleData :: bool
  rp_CredentialsSecretRef :: LakeFSRepositoryCredentialSecretReference
  rp_GC :: LakeFSRepositoryGCSpec

record LakeFSRepositoryStatus = Status +
  rst_Repository :: string
  rst_GCPolicy :: string
  rst_GCCronJob :: string

record LakeFSRepository = ObjectMeta +
  repo_Spec :: LakeFSRepositorySpec
  repo_Status :: LakeFSRepositoryStatus

definition DefaultGCPolicyName :: string where
  "DefaultGCPolicyName = ''default''"

definition RepositoryName :: "LakeFSRepository \<Rightarrow> string" where
  "RepositoryName r = (if rp_Repository (repo_Spec r) \<noteq> '''' then rp_Repository (repo_Spec r) else Name r)"

definition DefaultBranchName :: "LakeFSRepository \<Rightarrow> string" where
  "DefaultBranchName r =
     (if rp_DefaultBranch (repo_Spec r) \<noteq> '''' then rp_DefaultBranch (repo_Spec r) else ''main'')"

definition GCEnabled :: "LakeFSRepository \<Rightarrow> bool" where
  "GCEnabled r = (case gc_Enabled (rp_GC (repo_Spec r)) of None \<Rightarrow> True | Some b \<Rightarrow> b)"

definition GCPolicyName :: "LakeFSRepository \<Rightarrow> string" where
  "GCPolicyName r =
     (if gr_Name (gc_PolicyRef (rp_GC (repo_Spec r))) \<noteq> ''''
      then gr_Name (gc_PolicyRef (rp_GC (repo_Spec r))) else DefaultGCPolicyName)"

definition CredentialsSecretNamespace :: "LakeFSRepository \<Rightarrow> string" where
  "CredentialsSecretNamespace r =
     (if rc_Namespace (rp_CredentialsSecretRef (repo_Spec r)) \<noteq> ''''
      then rc_Namespace (rp_CredentialsSecretRef (repo_Spec r)) else Namespace r)"

definition AccessKeyIDDataKey :: "LakeFSRepositoryCredentialSecretReference \<Rightarrow> string" where
  "AccessKeyIDDataKey r = (if rc_AccessKeyIDKey r \<noteq> '''' then rc_AccessKeyIDKey r else ''accessKeyId'')"

definition SecretAccessKeyDataKey :: "LakeFSRepositoryCredentialSecretReference \<Rightarrow> string" where
  "SecretAccessKeyDataKey r =
     (if rc_SecretAccessKeyKey r \<noteq> '''' then rc_SecretAccessKeyKey r else ''secretAccessKey'')"

subsection \<open>Garbage-collection policies\<close>

text \<open>Kubernetes values the source only passes on.\<close>

type_synonym PullPolicy = string
type_synonym EnvFromSource = string
type_synonym ResourceRequirements = string
type_synonym VolumeMount = string
type_synonym EmptyDirVolumeSource = string

record SecretKeySelector =
  sks_Name :: string
  sks_Key :: string

record EnvVar =
  ev_Name :: string
  ev_Value :: string
  ev_SecretKeyRef :: "SecretKeySelector option"

record LakeFSGCRetentionRule =
  rule_BranchID :: string
  rule_RetentionDays :: int

record LakeFSGCRetentionSpec =
  ret_DefaultRetentionDays :: int
  ret_Branches :: "LakeFSGCRetentionRule list"

record LakeFSGCSparkConf =
  conf_Name :: string
  conf_Value :: string

record LakeFSGCSparkSpec =
  spark_ClassName :: string
  spark_JarURL :: string
  spark_Packages :: "string list"
  spark_Conf :: "LakeFSGCSparkConf list"
  spark_Args :: "string list"

record LakeFSGCInitContainerSpec =
  ic_Name :: string
  ic_Image :: string
  ic_ImagePullPolicy :: PullPolicy
  ic_Command :: "string list"
  ic_Args :: "string list"
  ic_Env :: "EnvVar list"
  ic_VolumeMounts :: "VolumeMount list"

record LakeFSGCVolumeSpec =
  vol_Name :: string
  vol_EmptyDir :: "EmptyDirVolumeSource option"

record LakeFSGCJobSpec =
  job_Image :: string
  job_Command :: "string list"
  job_ImagePullPolicy :: PullPolicy
  job_ServiceAccountName :: string
  job_InitContainers :: "LakeFSGCInitContainerSpec list"
  job_Env :: "EnvVar list"
  job_EnvFrom :: "EnvFromSource list"
  job_Resources :: ResourceRequirements
  job_VolumeMounts :: "VolumeMount list"
  job_Volumes :: "LakeFSGCVolumeSpec list"
  job_SuccessfulJobsHistoryLimit :: "int option"
  job_FailedJobsHistoryLimit :: "int option"
  job_BackoffLimit :: "int option"
  job_TTLSecondsAfterFinished :: "int option"

record LakeFSGCPolicySpec =
  gp_Schedule :: string
  gp_Suspend :: "bool option"
  gp_Retention :: LakeFSGCRetentionSpec
  gp_Spark :: LakeFSGCSparkSpec
  gp_Job :: LakeFSGCJobSpec

record LakeFSGCPolicy = ObjectMeta +
  gcp_Spec :: LakeFSGCPolicySpec
  gcp_Status :: Status

text \<open>The package's constants.\<close>

definition DefaultGCSchedule :: string where
  "DefaultGCSchedule = ''0 3 * * *''"

definition DefaultGCRetentionDays :: int where
  "DefaultGCRetentionDays = 14"

definition DefaultGCSparkImage :: string where
  "DefaultGCSparkImage = ''ghcr.io/versioneer-tech/lakefs-oss-contrib/gc-spark:latest''"

definition DefaultGCSparkCommand :: string where
  "DefaultGCSparkCommand = ''/opt/spark/bin/spark-submit''"

definition DefaultGCSparkJarURL :: string where
  "DefaultGCSparkJarURL = ''/opt/lakefs-gc/lakefs-spark-client.jar''"

definition DefaultGCSparkClass :: string where
  "DefaultGCSparkClass = ''io.treeverse.gc.GarbageCollection''"

definition DefaultGCSparkIvyDir :: string where
  "DefaultGCSparkIvyDir = ''/tmp/.ivy2''"

definition DefaultGCSuccessfulJobs :: int where
  "DefaultGCSuccessfulJobs = 1"

definition DefaultGCFailedJobs :: int where
  "DefaultGCFailedJobs = 3"

definition DefaultGCBackoffLimit :: int where
  "DefaultGCBackoffLimit = 1"

definition DefaultGCTTLSeconds :: int where
  "DefaultGCTTLSeconds = 86400"

text \<open>The accessors that fill in the defaults.\<close>

definition Schedule :: "LakeFSGCPolicy \<Rightarrow> string" where
  "Schedule p = (if gp_Schedule (gcp_Spec p) \<noteq> '''' then gp_Schedule (gcp_Spec p) else DefaultGCSchedule)"

definition DefaultRetentionDays :: "LakeFSGCPolicy \<Rightarrow> int" where
  "DefaultRetentionDays p =
     (if ret_DefaultRetentionDays (gp_Retention (gcp_Spec p)) > 0
      then ret_DefaultRetentionDays (gp_Retention (gcp_Spec p)) else DefaultGCRetentionDays)"

definition SparkImage :: "LakeFSGCPolicy \<Rightarrow> string" where
  "SparkImage p =
     (if job_Image (gp_Job (gcp_Spec p)) \<noteq> '''' then job_Image (gp_Job (gcp_Spec p)) else DefaultGCSparkImage)"

definition SparkCommand :: "LakeFSGCPolicy \<Rightarrow> string list" where
  "SparkCommand p =
     (if length (job_Command (gp_Job (gcp_Spec p))) > 0 then job_Command (gp_Job (gcp_Spec p))
      else [DefaultGCSparkCommand])"

definition SparkClassName :: "LakeFSGCPolicy \<Rightarrow> string" where
  "SparkClassName p =
     (if spark_ClassName (gp_Spark (gcp_Spec p)) \<noteq> '''' then spark_ClassName (gp_Spark (gcp_Spec p))
      else DefaultGCSparkClass)"

definition SparkJarURL :: "LakeFSGCPolicy \<Rightarrow> string" where
  "SparkJarURL p =
     (if spark_JarURL (gp_Spark (gcp_Spec p)) \<noteq> '''' then spark_JarURL (gp_Spark (gcp_Spec p))
      else DefaultGCSparkJarURL)"

definition SparkPackages :: "LakeFSGCPolicy \<Rightarrow> string list" where
  "SparkPackages p =
     (if length (spark_Packages (gp_Spark (gcp_Spec p))) > 0 then spark_Packages (gp_Spark (gcp_Spec p))
      else [])"

subsection \<open>Cron jobs\<close>

text \<open>
  \<open>batchv1.CronJob\<close> with the pod template flattened: the fields the repository controller sets.
\<close>

record Volume =
  v_Name :: string
  v_EmptyDir :: "EmptyDirVolumeSource option"

record Container =
  c_Name :: string
  c_Image :: string
  c_ImagePullPolicy :: PullPolicy
  c_Command :: "string list"
  c_Args :: "string list"
  c_Env :: "EnvVar list"
  c_EnvFrom :: "EnvFromSource list"
  c_Resources :: ResourceRequirements
  c_VolumeMounts :: "VolumeMount list"

record CronJobSpec =
  cj_Schedule :: string
  cj_Suspend :: "bool option"
  cj_ConcurrencyPolicy :: string
  cj_SuccessfulJobsHistoryLimit :: "int option"
  cj_FailedJobsHistoryLimit :: "int option"
  cj_JobLabels :: gomap
  cj_BackoffLimit :: "int option"
  cj_TTLSecondsAfterFinished :: "int option"
  cj_PodLabels :: gomap
  cj_RestartPolicy :: string
  cj_ServiceAccountName :: string
  cj_InitContainers :: "Container list"
  cj_Volumes :: "Volume list"
  cj_Containers :: "Container list"

record CronJob = ObjectMeta +
  cronjob_Spec :: CronJobSpec

end
