(* ===== verification/Naming.thy ===== *)
theory Naming
  imports ApiTypes
begin

section \<open>Names, identifiers and tokens (internal/authserver/server.go, helpers)\<close>

text \<open>
  The pure helpers of the auth server: how it turns arbitrary identifiers into Kubernetes object
  names, renders role templates, computes the numeric user id lakeFS expects and encodes random
  tokens. The file ends with the facts the handlers' properties use.
\<close>

unbundle bit_operations_syntax

subsection \<open>Definitions\<close>

fun firstNonEmpty :: "string list \<Rightarrow> string" where
  "firstNonEmpty [] = ''''"
| "firstNonEmpty (v # vs) = (if v \<noteq> '''' then v else firstNonEmpty vs)"

definition stringValue :: "string option \<Rightarrow> string" where
  "stringValue v = (case v of None \<Rightarrow> '''' | Some s \<Rightarrow> s)"

text \<open>The complement of the class in \<open>regexp.MustCompile(`[^a-z0-9.-]+`)\<close>.\<close>

definition safe_char :: "char \<Rightarrow> bool" where
  "safe_char c \<longleftrightarrow>
     (let n = of_char c :: nat in 97 \<le> n \<and> n \<le> 122 \<or> 48 \<le> n \<and> n \<le> 57 \<or> n = 46 \<or> n = 45)"

text \<open>\<open>safeObjectName.ReplaceAllString(s, "-")\<close>: every maximal run of other characters is one dash.\<close>

function safeObjectName :: "string \<Rightarrow> string" where
  "safeObjectName [] = []"
| "safeObjectName (c # cs) =
     (if safe_char c then c # safeObjectName cs
      else CHR ''-'' # safeObjectName (dropWhile (\<lambda>d. \<not> safe_char d) cs))"
  by pat_completeness auto
termination
  by (relation "measure length") (auto simp: le_imp_less_Suc length_dropWhile_le)

definition objectName :: "string \<Rightarrow> string" where
  "objectName value =
     (let name = ToLower value;
          name = safeObjectName name;
          name = Trim name ''-.'';
          name = (if length name > 63 then Trim (take 63 name) ''-.'' else name)
      in if name = '''' then ''lakefs-resource'' else name)"

definition roleBindingName :: "LakeFSRoleBindingSubjectKind \<Rightarrow> string \<Rightarrow> string \<Rightarrow> string \<Rightarrow> string" where
  "roleBindingName kind subjectName roleName repository =
     objectName (''lakefs-rb-'' @ ToLower kind @ ''-'' @ subjectName @ ''-'' @ roleName @ ''-'' @ repository)"

definition routePath :: "string \<Rightarrow> string" where
  "routePath path =
     (if path = ''/auth/v1'' then ''/''
      else if HasPrefix path ''/auth/v1/'' then TrimPrefix path ''/auth/v1''
      else if path = ''/api/v1'' then ''/''
      else if HasPrefix path ''/api/v1/'' then TrimPrefix path ''/api/v1''
      else path)"

definition renderRepositoryTemplate :: "string \<Rightarrow> string \<Rightarrow> string" where
  "renderRepositoryTemplate value repository =
     (let repository = (if repository = '''' then ''*'' else repository)
      in ReplaceAll value ''<REPOSITORY>'' repository)"

definition userUsername :: "LakeFSUser \<Rightarrow> string" where
  "userUsername user =
     (if us_ExternalID (user_Spec user) \<noteq> '''' then us_ExternalID (user_Spec user)
      else if Namespace user = '''' then Name user
      else Namespace user @ '':'' @ Name user)"

definition groupName :: "LakeFSGroup \<Rightarrow> string" where
  "groupName item =
     (if gs_ExternalID (group_Spec item) \<noteq> '''' then gs_ExternalID (group_Spec item)
      else if Namespace item = '''' then Name item
      else Namespace item @ '':'' @ Name item)"

text \<open>FNV-1a over 64 bits, its top bit cleared, read as an int64.\<close>

definition fnv1a_64 :: "string \<Rightarrow> 64 word" where
  "fnv1a_64 username =
     foldl (\<lambda>hash c. (hash XOR of_char c) * 1099511628211) 14695981039346656037 username"

definition compatibilityUserID :: "string \<Rightarrow> int" where
  "compatibilityUserID username = sint (fnv1a_64 username AND 0x7fffffffffffffff)"

text \<open>
  \<open>base32.StdEncoding.WithPadding(base32.NoPadding).EncodeToString\<close>: the bits of the bytes, most
  significant first, in groups of five (the last group filled with zeros).
\<close>

definition byte_bits :: "char \<Rightarrow> bool list" where
  "byte_bits c = map (\<lambda>i. bit (of_char c :: nat) i) (rev [0..<8])"

fun groups5 :: "bool list \<Rightarrow> bool list list" where
  "groups5 (a # b # c # d # e # r) = [a, b, c, d, e] # groups5 r"
| "groups5 [] = []"
| "groups5 r = [r @ replicate (5 - length r) False]"

definition bits_nat :: "bool list \<Rightarrow> nat" where
  "bits_nat bs = foldl (\<lambda>n b. 2 * n + of_bool b) 0 bs"

definition base32_alphabet :: string where
  "base32_alphabet = ''ABCDEFGHIJKLMNOPQRSTUVWXYZ234567''"

definition base32_encode :: "string \<Rightarrow> string" where
  "base32_encode buf = map (\<lambda>g. base32_alphabet ! bits_nat g) (groups5 (concat (map byte_bits buf)))"

text \<open>\<open>randomToken\<close>, given the bytes \<open>rand.Read\<close> delivered.\<close>

definition randomToken :: "string \<Rightarrow> string" where
  "randomToken buf = TrimRight (base32_encode buf) ''=''"

text \<open>\<open>fmt.Sprint\<close> of an int64 that is not negative.\<close>

fun digits :: "nat \<Rightarrow> string" where
  "digits n = (if n < 10 then [char_of (48 + n)] else digits (n div 10) @ [char_of (48 + n mod 10)])"

declare digits.simps [simp del]

definition Sprint :: "int \<Rightarrow> string" where
  "Sprint i = (if i < 0 then ''-'' @ digits (nat (- i)) else digits (nat i))"

subsection \<open>Which names Kubernetes accepts\<close>

text \<open>
  The documented rule for the names of most objects, a DNS-1123 subdomain: labels of small
  letters, digits and dashes that start and end with a letter or digit, separated by dots.
\<close>

definition alnum_char :: "char \<Rightarrow> bool" where
  "alnum_char c \<longleftrightarrow> (let n = of_char c :: nat in 97 \<le> n \<and> n \<le> 122 \<or> 48 \<le> n \<and> n \<le> 57)"

definition dns1123_label :: "string \<Rightarrow> bool" where
  "dns1123_label l \<longleftrightarrow>
     l \<noteq> [] \<and> (\<forall>c \<in> set l. alnum_char c \<or> c = CHR ''-'') \<and> alnum_char (hd l) \<and> alnum_char (last l)"

definition dns1123_subdomain :: "string \<Rightarrow> bool" where
  "dns1123_subdomain n \<longleftrightarrow> length n \<le> 253 \<and> (\<forall>l \<in> set (Split n CHR ''.''). dns1123_label l)"

subsection \<open>Object names\<close>

lemma char_eq_of_char: "c = d \<longleftrightarrow> (of_char c :: nat) = of_char d"
  using of_char_eq_iff [of c d, where ?'a = nat] by auto

lemma safe_char_cases: "safe_char c \<Longrightarrow> alnum_char c \<or> c = CHR ''.'' \<or> c = CHR ''-''"
  by (auto simp: safe_char_def alnum_char_def Let_def char_eq_of_char [of c])

lemma alnum_safe: "alnum_char c \<Longrightarrow> safe_char c"
  by (auto simp: safe_char_def alnum_char_def Let_def)

lemma safe_char_dash [simp]: "safe_char CHR ''-''"
  by (simp add: safe_char_def)

lemma safe_char_lower: "safe_char c \<Longrightarrow> lower_byte c = c \<and> c \<noteq> CHR 0xC4 \<and> c \<noteq> CHR 0xE2"
  by (auto simp: safe_char_def lower_byte_def Let_def)

lemma set_safeObjectName: "c \<in> set (safeObjectName s) \<Longrightarrow> safe_char c"
  by (induction s rule: safeObjectName.induct) (auto split: if_splits)

lemma safeObjectName_id: "(\<And>c. c \<in> set s \<Longrightarrow> safe_char c) \<Longrightarrow> safeObjectName s = s"
  by (induction s rule: safeObjectName.induct) auto

text \<open>The name before the empty case is replaced.\<close>

definition trimmed_name :: "string \<Rightarrow> string" where
  "trimmed_name value =
     (let name = Trim (safeObjectName (ToLower value)) ''-.''
      in if length name > 63 then Trim (take 63 name) ''-.'' else name)"

lemma objectName_trimmed:
  "objectName value = (if trimmed_name value = '''' then ''lakefs-resource'' else trimmed_name value)"
  by (simp add: objectName_def trimmed_name_def Let_def)

lemma trimmed_name_chars: "c \<in> set (trimmed_name value) \<Longrightarrow> safe_char c"
  using set_Trim [of "safeObjectName (ToLower value)" "''-.''"]
    set_Trim [of "take 63 (Trim (safeObjectName (ToLower value)) ''-.'')" "''-.''"]
  by (auto simp: trimmed_name_def Let_def split: if_splits
      dest!: subsetD intro: set_safeObjectName dest: in_set_takeD)

lemma trimmed_name_length: "length (trimmed_name value) \<le> 63"
  using length_Trim [of "take 63 (Trim (safeObjectName (ToLower value)) ''-.'')" "''-.''"]
  by (auto simp: trimmed_name_def Let_def)

lemma trimmed_name_Trim: "Trim (trimmed_name value) ''-.'' = trimmed_name value"
  by (simp add: trimmed_name_def Let_def)

lemma trimmed_name_fixed:
  assumes "\<And>c. c \<in> set s \<Longrightarrow> safe_char c" and "length s \<le> 63" and "Trim s ''-.'' = s"
  shows "trimmed_name s = s"
  using assms safe_char_lower
  by (simp add: trimmed_name_def ToLower_id safeObjectName_id)

lemma trimmed_name_ends:
  assumes "trimmed_name value \<noteq> []"
  shows "alnum_char (hd (trimmed_name value))" and "alnum_char (last (trimmed_name value))"
proof -
  let ?n = "trimmed_name value"
  from assms have ne: "Trim ?n ''-.'' \<noteq> []" by (simp add: trimmed_name_Trim)
  have "hd ?n \<notin> set ''-.''" "last ?n \<notin> set ''-.''"
    using Trim_ends [OF ne] by (simp_all add: trimmed_name_Trim)
  moreover have "safe_char (hd ?n)" by (rule trimmed_name_chars [OF hd_in_set [OF assms]])
  moreover have "safe_char (last ?n)" by (rule trimmed_name_chars [OF last_in_set [OF assms]])
  ultimately show "alnum_char (hd ?n)" "alnum_char (last ?n)"
    by (auto dest: safe_char_cases)
qed

text \<open>
  C32. Whatever text it is given, \<open>objectName\<close> returns a name of 1 to 63 characters from
  \<open>[a-z0-9.-]\<close> that starts and ends with a letter or digit.
\<close>

theorem object_name_safe:
  "objectName v \<noteq> '''' \<and> length (objectName v) \<le> 63 \<and> list_all safe_char (objectName v)
   \<and> alnum_char (hd (objectName v)) \<and> alnum_char (last (objectName v))"
proof (cases "trimmed_name v = ''''")
  case True
  then have n: "objectName v = ''lakefs-resource''" by (simp add: objectName_trimmed)
  show ?thesis unfolding n by (simp add: safe_char_def alnum_char_def)
next
  case False
  with trimmed_name_ends [OF False] show ?thesis
    by (auto simp: objectName_trimmed trimmed_name_length list_all_iff intro: trimmed_name_chars)
qed

text \<open>
  \<open>objectName\<close> is idempotent: an identifier that already is an object name keeps it, so a name
  read back from the cluster resolves to itself.
\<close>

lemma object_name_idempotent: "objectName (objectName v) = objectName v"
proof (cases "trimmed_name v = ''''")
  case True
  then have n: "objectName v = ''lakefs-resource''" by (simp add: objectName_trimmed)
  have "trimmed_name ''lakefs-resource'' = ''lakefs-resource''"
    by (rule trimmed_name_fixed)
      (auto simp: safe_char_def Trim_def TrimLeft_def TrimRight_def)
  with n show ?thesis by (simp add: objectName_trimmed)
next
  case False
  have "trimmed_name (trimmed_name v) = trimmed_name v"
    by (rule trimmed_name_fixed) (auto intro: trimmed_name_chars simp: trimmed_name_length trimmed_name_Trim)
  with False show ?thesis by (simp add: objectName_trimmed)
qed

text \<open>No step of \<open>objectName\<close> adds a dot.\<close>

lemma lower_byte_dot: "lower_byte c = CHR ''.'' \<Longrightarrow> c = CHR ''.''"
proof (rule ccontr)
  assume l: "lower_byte c = CHR ''.''" and ne: "c \<noteq> CHR ''.''"
  define n where "n = (of_char c :: nat)"
  have n: "65 \<le> n" "n \<le> 90" and "char_of (n + 32) = CHR ''.''"
    using l ne by (auto simp: lower_byte_def Let_def n_def split: if_splits)
  then have "(of_char (char_of (n + 32) :: char) :: nat) = 46" by simp
  then have "(n + 32) mod 256 = 46" by simp
  with n show False by simp
qed

lemma dot_ToLower: "CHR ''.'' \<notin> set s \<Longrightarrow> CHR ''.'' \<notin> set (ToLower s)"
  by (induction s rule: ToLower.induct) (auto dest: in_set_dropD dest!: sym [THEN lower_byte_dot])

lemma dot_safeObjectName: "CHR ''.'' \<notin> set s \<Longrightarrow> CHR ''.'' \<notin> set (safeObjectName s)"
  by (induction s rule: safeObjectName.induct) (auto dest: set_dropWhileD)

lemma dot_trimmed_name: "CHR ''.'' \<notin> set v \<Longrightarrow> CHR ''.'' \<notin> set (trimmed_name v)"
  using set_Trim [of "safeObjectName (ToLower v)" "''-.''"]
    set_Trim [of "take 63 (Trim (safeObjectName (ToLower v)) ''-.'')" "''-.''"]
    dot_safeObjectName [OF dot_ToLower, of v]
  by (auto simp: trimmed_name_def Let_def dest: in_set_takeD)

text \<open>
  C33. For an identifier without dots \<open>objectName\<close> yields a DNS-1123 label, a name the Kubernetes
  API accepts for every resource.
\<close>

theorem object_name_dns_label:
  assumes "CHR ''.'' \<notin> set v"
  shows "dns1123_label (objectName v)"
proof (cases "trimmed_name v = ''''")
  case True
  then have n: "objectName v = ''lakefs-resource''" by (simp add: objectName_trimmed)
  show ?thesis unfolding n by (simp add: dns1123_label_def alnum_char_def)
next
  case False
  have "alnum_char c \<or> c = CHR ''-''" if "c \<in> set (trimmed_name v)" for c
    using safe_char_cases [OF trimmed_name_chars [OF that]] that dot_trimmed_name [OF assms] by auto
  with False trimmed_name_ends [OF False] show ?thesis
    by (auto simp: dns1123_label_def objectName_trimmed)
qed

theorem object_name_dns_label_witness: "dns1123_label (objectName ''Data Team/42'')"
  by (rule object_name_dns_label) simp

text \<open>
  With dots it need not: two dots in a row survive, and the result is a name that the API
  refuses. (\<open>createUser\<close> then answers 500 for such a user name.)
\<close>

lemma object_name_dots_refused:
  "objectName ''a..b'' = ''a..b'' \<and> \<not> dns1123_subdomain (objectName ''a..b'')"
proof -
  have "trimmed_name ''a..b'' = ''a..b''"
    by (rule trimmed_name_fixed) (auto simp: safe_char_def Trim_def TrimLeft_def TrimRight_def)
  then have n: "objectName ''a..b'' = ''a..b''" by (simp add: objectName_trimmed)
  show ?thesis unfolding n by (simp add: dns1123_subdomain_def dns1123_label_def)
qed

text \<open>
  Role-binding names do not determine the binding: a subject and a role whose names share a
  dash boundary get the name of another pair. (\<open>ensureRoleBinding\<close> then overwrites the other
  pair's binding.)
\<close>

lemma role_binding_name_collision:
  "roleBindingName kind a (b @ ''-'' @ c) repository = roleBindingName kind (a @ ''-'' @ b) c repository"
  by (simp add: roleBindingName_def)

end
