(* ===== verification/Kube.thy ===== *)
theory Kube
  imports ApiTypes
begin

section \<open>The Kubernetes API as the source sees it\<close>

text \<open>
  The controller-runtime client is not part of the repository, so it is a parameter: the record
  \<open>Client\<close> holds one function per method of \<open>client.Client\<close> that the source calls, over an
  arbitrary world \<open>'s\<close>. Go's \<open>client.Object\<close> interface ranges over all resources, as does the
  datatype \<open>obj\<close>; \<open>Get\<close>, \<open>ListOf\<close>, \<open>Create\<close>, \<open>Update\<close> and \<open>Delete\<close> are the typed calls the source
  writes, where a \<open>kindT\<close> plays the role of the Go type of the argument.

  What the source relies on is stated once, as the locale \<open>kube_api\<close>: every call either fails and
  changes nothing, or has its documented effect on the stored objects (\<open>view\<close>). The locale
  \<open>reliable_api\<close> adds that calls do not fail for reasons of their own. Both are discharged at the
  end by a concrete in-memory API server, which the witnesses of the other theories run on.
\<close>

subsection \<open>Objects and kinds\<close>

datatype kind =
  KUser | KGroup | KRole | KRoleBinding | KCredential | KSecret | KRepository | KGCPolicy | KCronJob

datatype obj =
    OUser LakeFSUser
  | OGroup LakeFSGroup
  | ORole LakeFSRole
  | ORoleBinding LakeFSRoleBinding
  | OCredential LakeFSCredential
  | OSecret Secret
  | ORepository LakeFSRepository
  | OGCPolicy LakeFSGCPolicy
  | OCronJob CronJob

fun kind_of :: "obj \<Rightarrow> kind" where
  "kind_of (OUser x) = KUser"
| "kind_of (OGroup x) = KGroup"
| "kind_of (ORole x) = KRole"
| "kind_of (ORoleBinding x) = KRoleBinding"
| "kind_of (OCredential x) = KCredential"
| "kind_of (OSecret x) = KSecret"
| "kind_of (ORepository x) = KRepository"
| "kind_of (OGCPolicy x) = KGCPolicy"
| "kind_of (OCronJob x) = KCronJob"

fun meta :: "obj \<Rightarrow> ObjectMeta" where
  "meta (OUser x) = ObjectMeta.truncate x"
| "meta (OGroup x) = ObjectMeta.truncate x"
| "meta (ORole x) = ObjectMeta.truncate x"
| "meta (ORoleBinding x) = ObjectMeta.truncate x"
| "meta (OCredential x) = ObjectMeta.truncate x"
| "meta (OSecret x) = ObjectMeta.truncate x"
| "meta (ORepository x) = ObjectMeta.truncate x"
| "meta (OGCPolicy x) = ObjectMeta.truncate x"
| "meta (OCronJob x) = ObjectMeta.truncate x"

lemma truncate_sel [simp]:
  "Name (ObjectMeta.truncate x) = Name x"
  "Namespace (ObjectMeta.truncate x) = Namespace x"
  "Finalizers (ObjectMeta.truncate x) = Finalizers x"
  by (simp_all add: ObjectMeta.truncate_def)

text \<open>What identifies an object: its kind and its namespaced name.\<close>

type_synonym okey = "kind \<times> NamespacedName"

definition key_of :: "obj \<Rightarrow> NamespacedName" where
  "key_of o1 = (Namespace (meta o1), Name (meta o1))"

definition okey_of :: "obj \<Rightarrow> okey" where
  "okey_of o1 = (kind_of o1, key_of o1)"

text \<open>
  The part of an object the API server takes from a \<open>Create\<close> or \<open>Update\<close> request as it is: for a
  custom resource its spec, for a Secret its data, type, labels and owners. The server fills in
  the rest (uid, timestamps, generation), and the status is written by its own call.
\<close>

datatype content =
    PUser LakeFSUserSpec
  | PGroup LakeFSGroupSpec
  | PRole LakeFSRoleSpec
  | PRoleBinding LakeFSRoleBindingSpec
  | PCredential LakeFSCredentialSpec
  | PSecret gomap string
  | PRepository LakeFSRepositorySpec
  | PGCPolicy LakeFSGCPolicySpec
  | PCronJob CronJobSpec

fun content_of :: "obj \<Rightarrow> content" where
  "content_of (OUser x) = PUser (user_Spec x)"
| "content_of (OGroup x) = PGroup (group_Spec x)"
| "content_of (ORole x) = PRole (role_Spec x)"
| "content_of (ORoleBinding x) = PRoleBinding (binding_Spec x)"
| "content_of (OCredential x) = PCredential (cred_Spec x)"
| "content_of (OSecret x) = PSecret (Data x) (Type x)"
| "content_of (ORepository x) = PRepository (repo_Spec x)"
| "content_of (OGCPolicy x) = PGCPolicy (gcp_Spec x)"
| "content_of (OCronJob x) = PCronJob (cronjob_Spec x)"

datatype statusContent =
    SStatus Status
  | SCredential LakeFSCredentialStatus
  | SRepository LakeFSRepositoryStatus
  | SNone

fun status_of :: "obj \<Rightarrow> statusContent" where
  "status_of (OUser x) = SStatus (user_Status x)"
| "status_of (OGroup x) = SStatus (group_Status x)"
| "status_of (ORole x) = SStatus (role_Status x)"
| "status_of (ORoleBinding x) = SStatus (binding_Status x)"
| "status_of (OCredential x) = SCredential (cred_Status x)"
| "status_of (ORepository x) = SRepository (repo_Status x)"
| "status_of (OGCPolicy x) = SStatus (gcp_Status x)"
| "status_of (OSecret x) = SNone"
| "status_of (OCronJob x) = SNone"

text \<open>Stored as sent: the same object up to what the server fills in.\<close>

definition stored_as :: "obj \<Rightarrow> obj \<Rightarrow> bool" where
  "stored_as o1 o2 \<longleftrightarrow> okey_of o2 = okey_of o1 \<and> content_of o2 = content_of o1
     \<and> Labels (meta o2) = Labels (meta o1) \<and> OwnerReferences (meta o2) = OwnerReferences (meta o1)
     \<and> Finalizers (meta o2) = Finalizers (meta o1)"

lemma stored_as_refl [simp]: "stored_as x x"
  by (simp add: stored_as_def)

lemma stored_as_okey: "stored_as x y \<Longrightarrow> okey_of y = okey_of x"
  by (simp add: stored_as_def)

subsection \<open>Field indexes (cmd/authserver/main.go, indexFields)\<close>

datatype indexField =
    CredentialAccessKeyIDField
  | CredentialUserField
  | UserExternalIDField
  | GroupExternalIDField

text \<open>
  The four functions registered with \<open>IndexField\<close>. An object with an empty value is in no index.
  Go names a field by the string \<open>"spec.externalId"\<close> for users and for groups; the kind asked for
  tells the two apart.
\<close>

fun indexFields :: "indexField \<Rightarrow> obj \<Rightarrow> string list" where
  "indexFields CredentialAccessKeyIDField (OCredential c) =
     (if cs_AccessKeyID (cred_Spec c) = '''' then [] else [cs_AccessKeyID (cred_Spec c)])"
| "indexFields CredentialUserField (OCredential c) =
     (if ur_Name (cs_UserRef (cred_Spec c)) = '''' then [] else [ur_Name (cs_UserRef (cred_Spec c))])"
| "indexFields UserExternalIDField (OUser u) =
     (if us_ExternalID (user_Spec u) = '''' then [] else [us_ExternalID (user_Spec u)])"
| "indexFields GroupExternalIDField (OGroup g) =
     (if gs_ExternalID (group_Spec g) = '''' then [] else [gs_ExternalID (group_Spec g)])"
| "indexFields _ _ = []"

subsection \<open>The client\<close>

datatype apierror = NotFound | AlreadyExists | OtherError string

text \<open>\<open>apierrors.IsNotFound\<close> and \<open>apierrors.IsAlreadyExists\<close>.\<close>

definition IsNotFound :: "apierror \<Rightarrow> bool" where
  "IsNotFound e \<longleftrightarrow> e = NotFound"

definition IsAlreadyExists :: "apierror \<Rightarrow> bool" where
  "IsAlreadyExists e \<longleftrightarrow> e = AlreadyExists"

text \<open>The options of \<open>List\<close>: \<open>client.InNamespace\<close> and \<open>client.MatchingFields\<close> with one field.\<close>

record ListOptions =
  InNamespace :: "string option"
  MatchingFields :: "(indexField \<times> string) option"

abbreviation Everything :: ListOptions where
  "Everything \<equiv> \<lparr>InNamespace = None, MatchingFields = None\<rparr>"

definition selects :: "ListOptions \<Rightarrow> obj \<Rightarrow> bool" where
  "selects lo x \<longleftrightarrow>
     (case InNamespace lo of None \<Rightarrow> True | Some ns \<Rightarrow> Namespace (meta x) = ns) \<and>
     (case MatchingFields lo of None \<Rightarrow> True | Some (f, v) \<Rightarrow> v \<in> set (indexFields f x))"

record 's Client =
  cl_Get :: "kind \<Rightarrow> NamespacedName \<Rightarrow> ('s, (apierror, obj) result) state"
  cl_List :: "kind \<Rightarrow> ListOptions \<Rightarrow> ('s, (apierror, obj list) result) state"
  cl_Create :: "obj \<Rightarrow> ('s, (apierror, obj) result) state"
  cl_Update :: "obj \<Rightarrow> ('s, (apierror, obj) result) state"
  cl_StatusUpdate :: "obj \<Rightarrow> ('s, (apierror, obj) result) state"
  cl_Delete :: "obj \<Rightarrow> ('s, (apierror, unit) result) state"

subsection \<open>Typed calls\<close>

record 'o kindT =
  kt_kind :: kind
  kt_mk :: "'o \<Rightarrow> obj"
  kt_sel :: "obj \<Rightarrow> 'o option"

definition UserT :: "LakeFSUser kindT" where
  "UserT = \<lparr>kt_kind = KUser, kt_mk = OUser, kt_sel = (\<lambda>x. case x of OUser y \<Rightarrow> Some y | _ \<Rightarrow> None)\<rparr>"

definition GroupT :: "LakeFSGroup kindT" where
  "GroupT = \<lparr>kt_kind = KGroup, kt_mk = OGroup, kt_sel = (\<lambda>x. case x of OGroup y \<Rightarrow> Some y | _ \<Rightarrow> None)\<rparr>"

definition RoleT :: "LakeFSRole kindT" where
  "RoleT = \<lparr>kt_kind = KRole, kt_mk = ORole, kt_sel = (\<lambda>x. case x of ORole y \<Rightarrow> Some y | _ \<Rightarrow> None)\<rparr>"

definition RoleBindingT :: "LakeFSRoleBinding kindT" where
  "RoleBindingT = \<lparr>kt_kind = KRoleBinding, kt_mk = ORoleBinding,
     kt_sel = (\<lambda>x. case x of ORoleBinding y \<Rightarrow> Some y | _ \<Rightarrow> None)\<rparr>"

definition CredentialT :: "LakeFSCredential kindT" where
  "CredentialT = \<lparr>kt_kind = KCredential, kt_mk = OCredential,
     kt_sel = (\<lambda>x. case x of OCredential y \<Rightarrow> Some y | _ \<Rightarrow> None)\<rparr>"

definition SecretT :: "Secret kindT" where
  "SecretT = \<lparr>kt_kind = KSecret, kt_mk = OSecret, kt_sel = (\<lambda>x. case x of OSecret y \<Rightarrow> Some y | _ \<Rightarrow> None)\<rparr>"

definition RepositoryT :: "LakeFSRepository kindT" where
  "RepositoryT = \<lparr>kt_kind = KRepository, kt_mk = ORepository,
     kt_sel = (\<lambda>x. case x of ORepository y \<Rightarrow> Some y | _ \<Rightarrow> None)\<rparr>"

definition GCPolicyT :: "LakeFSGCPolicy kindT" where
  "GCPolicyT = \<lparr>kt_kind = KGCPolicy, kt_mk = OGCPolicy,
     kt_sel = (\<lambda>x. case x of OGCPolicy y \<Rightarrow> Some y | _ \<Rightarrow> None)\<rparr>"

definition CronJobT :: "CronJob kindT" where
  "CronJobT = \<lparr>kt_kind = KCronJob, kt_mk = OCronJob,
     kt_sel = (\<lambda>x. case x of OCronJob y \<Rightarrow> Some y | _ \<Rightarrow> None)\<rparr>"

text \<open>
  A result of another kind cannot be decoded into the Go variable: an error. (The API server
  never sends one.)
\<close>

definition decode :: "'o kindT \<Rightarrow> (apierror, obj) result \<Rightarrow> (apierror, 'o) result" where
  "decode T r =
     (case r of
        Inl e \<Rightarrow> Inl e
      | Inr x \<Rightarrow> (case kt_sel T x of None \<Rightarrow> Inl (OtherError ''kind'') | Some y \<Rightarrow> Inr y))"

definition Get :: "'s Client \<Rightarrow> 'o kindT \<Rightarrow> NamespacedName \<Rightarrow> ('s, (apierror, 'o) result) state" where
  "Get cl T key = do { r \<leftarrow> cl_Get cl (kt_kind T) key; return (decode T r) }"

definition ListOf :: "'s Client \<Rightarrow> 'o kindT \<Rightarrow> ListOptions \<Rightarrow> ('s, (apierror, 'o list) result) state" where
  "ListOf cl T lo = do {
     r \<leftarrow> cl_List cl (kt_kind T) lo;
     return (case r of Inl e \<Rightarrow> Inl e | Inr xs \<Rightarrow> Inr (List.map_filter (kt_sel T) xs)) }"

definition Create :: "'s Client \<Rightarrow> 'o kindT \<Rightarrow> 'o \<Rightarrow> ('s, (apierror, 'o) result) state" where
  "Create cl T x = do { r \<leftarrow> cl_Create cl (kt_mk T x); return (decode T r) }"

definition Update :: "'s Client \<Rightarrow> 'o kindT \<Rightarrow> 'o \<Rightarrow> ('s, (apierror, 'o) result) state" where
  "Update cl T x = do { r \<leftarrow> cl_Update cl (kt_mk T x); return (decode T r) }"

definition StatusUpdate :: "'s Client \<Rightarrow> 'o kindT \<Rightarrow> 'o \<Rightarrow> ('s, (apierror, 'o) result) state" where
  "StatusUpdate cl T x = do { r \<leftarrow> cl_StatusUpdate cl (kt_mk T x); return (decode T r) }"

definition Delete :: "'s Client \<Rightarrow> 'o kindT \<Rightarrow> 'o \<Rightarrow> ('s, (apierror, unit) result) state" where
  "Delete cl T x = cl_Delete cl (kt_mk T x)"

text \<open>A kind's constructor, selector and tag belong together.\<close>

definition wf_kind :: "'o kindT \<Rightarrow> bool" where
  "wf_kind T \<longleftrightarrow>
     (\<forall>y. kt_sel T (kt_mk T y) = Some y) \<and> (\<forall>x y. kt_sel T x = Some y \<longrightarrow> x = kt_mk T y) \<and>
     (\<forall>x. kind_of x = kt_kind T \<longleftrightarrow> (\<exists>y. x = kt_mk T y))"

lemmas kindT_defs = UserT_def GroupT_def RoleT_def RoleBindingT_def CredentialT_def SecretT_def
  RepositoryT_def GCPolicyT_def CronJobT_def

lemma wf_kinds [simp]:
  "wf_kind UserT" "wf_kind GroupT" "wf_kind RoleT" "wf_kind RoleBindingT" "wf_kind CredentialT"
  "wf_kind SecretT" "wf_kind RepositoryT" "wf_kind GCPolicyT" "wf_kind CronJobT"
  by (simp_all add: wf_kind_def kindT_defs split: obj.splits)
    (auto elim: kind_of.elims)

lemma wf_kindD:
  assumes "wf_kind T"
  shows "kt_sel T (kt_mk T y) = Some y" and "kt_sel T x = Some y \<Longrightarrow> x = kt_mk T y"
    and "kind_of (kt_mk T y) = kt_kind T"
  using assms unfolding wf_kind_def by blast+

lemma wf_kindE:
  assumes "wf_kind T" and "kind_of x = kt_kind T"
  obtains y where "x = kt_mk T y"
  using assms unfolding wf_kind_def by blast

lemma kt_mk_simps [simp]:
  "kt_mk UserT = OUser" "kt_mk GroupT = OGroup" "kt_mk RoleT = ORole"
  "kt_mk RoleBindingT = ORoleBinding" "kt_mk CredentialT = OCredential" "kt_mk SecretT = OSecret"
  "kt_mk RepositoryT = ORepository" "kt_mk GCPolicyT = OGCPolicy" "kt_mk CronJobT = OCronJob"
  by (simp_all add: kindT_defs)

lemma kt_kind_simps [simp]:
  "kt_kind UserT = KUser" "kt_kind GroupT = KGroup" "kt_kind RoleT = KRole"
  "kt_kind RoleBindingT = KRoleBinding" "kt_kind CredentialT = KCredential"
  "kt_kind SecretT = KSecret" "kt_kind RepositoryT = KRepository" "kt_kind GCPolicyT = KGCPolicy"
  "kt_kind CronJobT = KCronJob"
  by (simp_all add: kindT_defs)

lemma okey_simps [simp]:
  "okey_of (OUser u) = (KUser, Namespace u, Name u)"
  "okey_of (OGroup g) = (KGroup, Namespace g, Name g)"
  "okey_of (ORole r) = (KRole, Namespace r, Name r)"
  "okey_of (ORoleBinding b) = (KRoleBinding, Namespace b, Name b)"
  "okey_of (OCredential c) = (KCredential, Namespace c, Name c)"
  "okey_of (OSecret se) = (KSecret, Namespace se, Name se)"
  "okey_of (ORepository re) = (KRepository, Namespace re, Name re)"
  "okey_of (OGCPolicy p) = (KGCPolicy, Namespace p, Name p)"
  "okey_of (OCronJob j) = (KCronJob, Namespace j, Name j)"
  by (simp_all add: okey_of_def key_of_def)

subsection \<open>The laws of the API\<close>

text \<open>
  Reading calls keep an observation \<open>f\<close> of the world. This is all that is needed to show that a
  handler which only reads changes nothing, whatever the reads return.
\<close>

locale api_reads =
  fixes cl :: "'s Client" and f :: "'s \<Rightarrow> 'v"
  assumes keeps_cl_Get: "keeps f (cl_Get cl k key)"
    and keeps_cl_List: "keeps f (cl_List cl k lo)"
begin

lemma keeps_Get [keeps_intros]: "keeps f (Get cl T key)"
  unfolding Get_def by (intro keeps_intros keeps_cl_Get)

lemma keeps_ListOf [keeps_intros]: "keeps f (ListOf cl T lo)"
  unfolding ListOf_def by (intro keeps_intros keeps_cl_List)

end

text \<open>
  The documented effects. \<open>view s\<close> is what the API server stores in the world \<open>s\<close>. A call that
  fails stores nothing; \<open>NotFound\<close> and \<open>AlreadyExists\<close> are only reported when they are true, and
  any call may fail with another error (a conflict, a refused object, a lost connection). An
  object that has finalizers is not removed by \<open>Delete\<close> but marked; the \<open>Update\<close> that takes the
  last finalizer of a marked object away removes it. A status update changes nothing but the status. Between two calls of one handler nobody else
  writes: the laws describe one request or reconciliation at a time.
\<close>

definition get_result :: "obj option \<Rightarrow> (apierror, obj) result \<Rightarrow> bool" where
  "get_result v r \<longleftrightarrow>
     (case r of Inr x \<Rightarrow> v = Some x | Inl e \<Rightarrow> e \<noteq> AlreadyExists \<and> (e = NotFound \<longrightarrow> v = None))"

definition list_result ::
  "(okey \<rightharpoonup> obj) \<Rightarrow> kind \<Rightarrow> ListOptions \<Rightarrow> (apierror, obj list) result \<Rightarrow> bool" where
  "list_result v k lo r \<longleftrightarrow>
     (case r of
        Inl e \<Rightarrow> True
      | Inr xs \<Rightarrow> distinct (map okey_of xs) \<and>
          (\<forall>x. x \<in> set xs \<longleftrightarrow> v (okey_of x) = Some x \<and> kind_of x = k \<and> selects lo x))"

definition create_effect ::
  "obj \<Rightarrow> (okey \<rightharpoonup> obj) \<Rightarrow> (apierror, obj) result \<Rightarrow> (okey \<rightharpoonup> obj) \<Rightarrow> bool" where
  "create_effect x v r v' \<longleftrightarrow>
     (case r of
        Inl e \<Rightarrow> v' = v \<and> (e = AlreadyExists \<longrightarrow> v (okey_of x) \<noteq> None)
      | Inr y \<Rightarrow> v (okey_of x) = None \<and> stored_as x y \<and> DeletionTimestamp (meta y) = None \<and>
          v' = v(okey_of x \<mapsto> y))"

definition update_effect ::
  "obj \<Rightarrow> (okey \<rightharpoonup> obj) \<Rightarrow> (apierror, obj) result \<Rightarrow> (okey \<rightharpoonup> obj) \<Rightarrow> bool" where
  "update_effect x v r v' \<longleftrightarrow>
     (case r of
        Inl e \<Rightarrow> v' = v \<and> (e = NotFound \<longrightarrow> v (okey_of x) = None)
      | Inr y \<Rightarrow> (\<exists>old. v (okey_of x) = Some old \<and> stored_as x y \<and> status_of y = status_of old \<and>
          v' = (if DeletionTimestamp (meta old) \<noteq> None \<and> Finalizers (meta x) = [] \<and> Finalizers (meta old) \<noteq> []
                then v(okey_of x := None) else v(okey_of x \<mapsto> y))))"

definition status_effect ::
  "obj \<Rightarrow> (okey \<rightharpoonup> obj) \<Rightarrow> (apierror, obj) result \<Rightarrow> (okey \<rightharpoonup> obj) \<Rightarrow> bool" where
  "status_effect x v r v' \<longleftrightarrow>
     (case r of
        Inl e \<Rightarrow> v' = v \<and> (e = NotFound \<longrightarrow> v (okey_of x) = None)
      | Inr y \<Rightarrow> (\<exists>old. v (okey_of x) = Some old \<and> stored_as old y \<and> status_of y = status_of x \<and>
          meta y = meta old \<and> v' = v(okey_of x \<mapsto> y)))"

definition delete_effect ::
  "obj \<Rightarrow> (okey \<rightharpoonup> obj) \<Rightarrow> (apierror, unit) result \<Rightarrow> (okey \<rightharpoonup> obj) \<Rightarrow> bool" where
  "delete_effect x v r v' \<longleftrightarrow>
     (case r of
        Inl e \<Rightarrow> v' = v \<and> (e = NotFound \<longrightarrow> v (okey_of x) = None)
      | Inr _ \<Rightarrow> (\<exists>old. v (okey_of x) = Some old \<and>
          (if Finalizers (meta old) = [] then v' = v(okey_of x := None)
           else (\<exists>y. stored_as old y \<and> status_of y = status_of old \<and>
                   DeletionTimestamp (meta y) \<noteq> None \<and> v' = v(okey_of x \<mapsto> y)))))"

lemmas api_effects = get_result_def list_result_def create_effect_def update_effect_def
  status_effect_def delete_effect_def

locale kube_api =
  fixes cl :: "'s Client" and view :: "'s \<Rightarrow> okey \<rightharpoonup> obj"
  assumes view_okey: "view s ok = Some x \<Longrightarrow> okey_of x = ok"
    and get_law: "wp (cl_Get cl k key) (\<lambda>r t. view t = view s \<and> get_result (view s (k, key)) r) s"
    and list_law: "wp (cl_List cl k lo) (\<lambda>r t. view t = view s \<and> list_result (view s) k lo r) s"
    and create_law: "wp (cl_Create cl x) (\<lambda>r t. create_effect x (view s) r (view t)) s"
    and update_law: "wp (cl_Update cl x) (\<lambda>r t. update_effect x (view s) r (view t)) s"
    and status_law: "wp (cl_StatusUpdate cl x) (\<lambda>r t. status_effect x (view s) r (view t)) s"
    and delete_law: "wp (cl_Delete cl x) (\<lambda>r t. delete_effect x (view s) r (view t)) s"

text \<open>Calls that fail only for the reasons the stored objects give.\<close>

locale reliable_api = kube_api +
  assumes get_reliable: "wp (cl_Get cl k key) (\<lambda>r _. \<forall>m. r \<noteq> Inl (OtherError m)) s"
    and list_reliable: "wp (cl_List cl k lo) (\<lambda>r _. \<exists>xs. r = Inr xs) s"
    and update_reliable: "wp (cl_Update cl x) (\<lambda>r _. r = Inl NotFound \<or> (\<exists>y. r = Inr y)) s"
    and status_reliable: "wp (cl_StatusUpdate cl x) (\<lambda>r _. r = Inl NotFound \<or> (\<exists>y. r = Inr y)) s"
    and delete_reliable: "wp (cl_Delete cl x) (\<lambda>r _. r = Inl NotFound \<or> r = Inr ()) s"

sublocale kube_api \<subseteq> api_reads cl view
proof unfold_locales
  show "keeps view (cl_Get cl k key)" for k key
    by (rule keepsI) (use get_law wp_run in fastforce)
  show "keeps view (cl_List cl k lo)" for k lo
    by (rule keepsI) (use list_law wp_run in fastforce)
qed

text \<open>An object is stored; a list holds exactly the stored objects that the options select.\<close>

abbreviation stored :: "(okey \<rightharpoonup> obj) \<Rightarrow> obj \<Rightarrow> bool" where
  "stored v x \<equiv> v (okey_of x) = Some x"

definition listed :: "(okey \<rightharpoonup> obj) \<Rightarrow> 'o kindT \<Rightarrow> ListOptions \<Rightarrow> 'o list \<Rightarrow> bool" where
  "listed v T lo ys \<longleftrightarrow> distinct (map (\<lambda>y. okey_of (kt_mk T y)) ys) \<and>
     (\<forall>y. y \<in> set ys \<longleftrightarrow> stored v (kt_mk T y) \<and> selects lo (kt_mk T y))"

lemma listedD:
  assumes "listed v T lo ys" and "y \<in> set ys"
  shows "stored v (kt_mk T y)" and "selects lo (kt_mk T y)"
  using assms by (simp_all add: listed_def)

lemma listedI: "listed v T lo ys \<Longrightarrow> stored v (kt_mk T y) \<Longrightarrow> selects lo (kt_mk T y) \<Longrightarrow> y \<in> set ys"
  by (simp add: listed_def)

lemma listed_distinct: "listed v T lo ys \<Longrightarrow> distinct (map (\<lambda>y. okey_of (kt_mk T y)) ys)"
  by (simp add: listed_def)

text \<open>
  The laws for the typed calls, as rules for the weakest precondition: one case per outcome, with
  what the outcome says of the stored objects. In the \<open>upto\<close> versions \<open>F\<close> limits the failures; the
  plain versions allow every failure, the \<open>ok\<close> versions of \<open>reliable_api\<close> none.
\<close>

lemma map_filter_kt:
  assumes "wf_kind T" and "\<And>x. x \<in> set xs \<Longrightarrow> kind_of x = kt_kind T"
  shows "map (kt_mk T) (List.map_filter (kt_sel T) xs) = xs"
  using assms(2)
proof (induction xs)
  case Nil
  then show ?case by simp
next
  case (Cons x xs)
  from Cons.prems have "kind_of x = kt_kind T" by simp
  with assms(1) obtain y where "x = kt_mk T y" by (rule wf_kindE)
  with Cons show ?case by (simp add: List.map_filter_simps wf_kindD [OF assms(1)])
qed

lemma set_map_filter_kt:
  assumes "wf_kind T"
  shows "y \<in> set (List.map_filter (kt_sel T) xs) \<longleftrightarrow> kt_mk T y \<in> set xs"
  using wf_kindD [OF assms] by (force simp: map_filter_def)

context kube_api
begin

lemma wp_Get_upto:
  assumes T: "wf_kind T"
    and base: "wp (cl_Get cl (kt_kind T) key) (\<lambda>r _. \<forall>m. r = Inl (OtherError m) \<longrightarrow> F) s"
    and found: "\<And>t y. view t = view s \<Longrightarrow> okey_of (kt_mk T y) = (kt_kind T, key) \<Longrightarrow>
      view s (kt_kind T, key) = Some (kt_mk T y) \<Longrightarrow> Q (Inr y) t"
    and missing: "\<And>t. view t = view s \<Longrightarrow> view s (kt_kind T, key) = None \<Longrightarrow> Q (Inl NotFound) t"
    and failed: "\<And>t m. F \<Longrightarrow> view t = view s \<Longrightarrow> Q (Inl (OtherError m)) t"
  shows "wp (Get cl T key) Q s"
proof -
  have "Q (decode T r) t"
    if eq: "view t = view s" and r: "get_result (view s (kt_kind T, key)) r"
      and F: "\<forall>m. r = Inl (OtherError m) \<longrightarrow> F" for r t
  proof (cases r)
    case (Inl e)
    with r eq missing failed F show ?thesis
      by (cases e) (auto simp: decode_def get_result_def)
  next
    case (Inr x)
    with r have x: "view s (kt_kind T, key) = Some x" by (simp add: get_result_def)
    then have "kind_of x = kt_kind T" by (auto simp: okey_of_def dest: view_okey)
    with T obtain y where y: "x = kt_mk T y" by (rule wf_kindE)
    have "okey_of x = (kt_kind T, key)" by (rule view_okey [OF x])
    with x y eq found have "Q (Inr y) t" by simp
    with Inr y T show ?thesis by (simp add: decode_def wf_kindD)
  qed
  then show ?thesis
    unfolding Get_def using wp_conj [OF get_law base] by (auto elim: wp_mono)
qed

lemmas wp_Get = wp_Get_upto [where F = True, simplified]

lemma wp_ListOf_upto:
  assumes T: "wf_kind T"
    and base: "wp (cl_List cl (kt_kind T) lo) (\<lambda>r _. \<forall>e. r = Inl e \<longrightarrow> F) s"
    and found: "\<And>t ys. view t = view s \<Longrightarrow> listed (view s) T lo ys \<Longrightarrow> Q (Inr ys) t"
    and failed: "\<And>t e. F \<Longrightarrow> view t = view s \<Longrightarrow> Q (Inl e) t"
  shows "wp (ListOf cl T lo) Q s"
proof -
  have "Q (Inr (List.map_filter (kt_sel T) xs)) t"
    if eq: "view t = view s" and r: "list_result (view s) (kt_kind T) lo (Inr xs)" for xs t
  proof -
    let ?ys = "List.map_filter (kt_sel T) xs"
    have xs: "map (kt_mk T) ?ys = xs"
      by (rule map_filter_kt [OF T]) (use r in \<open>simp add: list_result_def\<close>)
    have "distinct (map okey_of xs)" using r by (simp add: list_result_def)
    then have "distinct (map (\<lambda>y. okey_of (kt_mk T y)) ?ys)"
      by (subst (asm) xs [symmetric]) (simp add: comp_def)
    moreover have "y \<in> set ?ys \<longleftrightarrow> stored (view s) (kt_mk T y) \<and> selects lo (kt_mk T y)" for y
      using r by (auto simp: set_map_filter_kt [OF T] list_result_def wf_kindD [OF T])
    ultimately show ?thesis by (intro found [OF eq]) (simp add: listed_def)
  qed
  then show ?thesis
    unfolding ListOf_def using wp_conj [OF list_law base] failed
    by (auto elim!: wp_mono split: sum.splits)
qed

lemmas wp_ListOf = wp_ListOf_upto [where F = True, simplified]

lemma wp_write:
  assumes T: "wf_kind T" and law: "wp m (\<lambda>r t. E r t) s"
    and k: "\<And>y t. E (Inr y) t \<Longrightarrow> kind_of y = kt_kind T"
    and ok: "\<And>t y. E (Inr (kt_mk T y)) t \<Longrightarrow> Q (Inr y) t"
    and err: "\<And>t e. E (Inl e) t \<Longrightarrow> Q (Inl e) t"
  shows "wp (do { r \<leftarrow> m; return (decode T r) }) Q s"
proof -
  have "Q (decode T r) t" if E: "E r t" for r t
  proof (cases r)
    case (Inl e)
    with E err show ?thesis by (simp add: decode_def)
  next
    case (Inr y)
    with E k have "kind_of y = kt_kind T" by simp
    with T obtain z where "y = kt_mk T z" by (rule wf_kindE)
    with Inr E ok T show ?thesis by (simp add: decode_def wf_kindD)
  qed
  with law show ?thesis by (auto elim: wp_mono)
qed

lemma wp_Create:
  assumes T: "wf_kind T"
    and ok: "\<And>t y. view s (okey_of (kt_mk T x)) = None \<Longrightarrow> stored_as (kt_mk T x) (kt_mk T y) \<Longrightarrow>
      DeletionTimestamp (meta (kt_mk T y)) = None \<Longrightarrow>
      view t = (view s)(okey_of (kt_mk T x) \<mapsto> kt_mk T y) \<Longrightarrow> Q (Inr y) t"
    and err: "\<And>t e. view t = view s \<Longrightarrow> (e = AlreadyExists \<Longrightarrow> view s (okey_of (kt_mk T x)) \<noteq> None) \<Longrightarrow>
      Q (Inl e) t"
  shows "wp (Create cl T x) Q s"
  unfolding Create_def
proof (rule wp_write [OF T create_law])
  show "kind_of y = kt_kind T" if "create_effect (kt_mk T x) (view s) (Inr y) (view t)" for y t
    using that T by (simp add: create_effect_def stored_as_def okey_of_def wf_kindD)
qed (auto simp: create_effect_def intro: ok err)

lemma wp_Update_upto:
  assumes T: "wf_kind T"
    and base: "wp (cl_Update cl (kt_mk T x)) (\<lambda>r _. \<forall>e. r = Inl e \<longrightarrow> F e) s"
    and ok: "\<And>t y old. view s (okey_of (kt_mk T x)) = Some old \<Longrightarrow> stored_as (kt_mk T x) (kt_mk T y) \<Longrightarrow>
      status_of (kt_mk T y) = status_of old \<Longrightarrow>
      view t = (if DeletionTimestamp (meta old) \<noteq> None \<and> Finalizers (meta (kt_mk T x)) = [] \<and> Finalizers (meta old) \<noteq> []
                then (view s)(okey_of (kt_mk T x) := None)
                else (view s)(okey_of (kt_mk T x) \<mapsto> kt_mk T y)) \<Longrightarrow> Q (Inr y) t"
    and err: "\<And>t e. F e \<Longrightarrow> view t = view s \<Longrightarrow>
      (e = NotFound \<Longrightarrow> view s (okey_of (kt_mk T x)) = None) \<Longrightarrow> Q (Inl e) t"
  shows "wp (Update cl T x) Q s"
  unfolding Update_def
proof (rule wp_write [OF T wp_conj [OF update_law base]])
  show "kind_of y = kt_kind T"
    if "update_effect (kt_mk T x) (view s) (Inr y) (view t) \<and> (\<forall>e. Inr y = Inl e \<longrightarrow> F e)" for y t
    using that T by (auto simp: update_effect_def stored_as_def okey_of_def wf_kindD)
qed (auto simp: update_effect_def intro: ok err)

lemmas wp_Update = wp_Update_upto [where F = "\<lambda>_. True", simplified]

text \<open>Writing back an object that was read, its finalizers unchanged.\<close>

lemma wp_Update_stored:
  assumes T: "wf_kind T" and st: "stored (view s) (kt_mk T z)"
    and key: "okey_of (kt_mk T x) = okey_of (kt_mk T z)"
    and fin: "Finalizers (meta (kt_mk T x)) = Finalizers (meta (kt_mk T z))"
    and ok: "\<And>t y. view t = (view s)(okey_of (kt_mk T z) \<mapsto> kt_mk T y) \<Longrightarrow>
      stored_as (kt_mk T x) (kt_mk T y) \<Longrightarrow> Q (Inr y) t"
    and err: "\<And>t e. view t = view s \<Longrightarrow> Q (Inl e) t"
  shows "wp (Update cl T x) Q s"
  using st by (intro wp_Update [OF T] ok err) (auto simp: key fin split: if_splits)

lemma wp_StatusUpdate_upto:
  assumes T: "wf_kind T"
    and base: "wp (cl_StatusUpdate cl (kt_mk T x)) (\<lambda>r _. \<forall>e. r = Inl e \<longrightarrow> F e) s"
    and ok: "\<And>t y old. view s (okey_of (kt_mk T x)) = Some old \<Longrightarrow> stored_as old (kt_mk T y) \<Longrightarrow>
      status_of (kt_mk T y) = status_of (kt_mk T x) \<Longrightarrow> meta (kt_mk T y) = meta old \<Longrightarrow>
      view t = (view s)(okey_of (kt_mk T x) \<mapsto> kt_mk T y) \<Longrightarrow> Q (Inr y) t"
    and err: "\<And>t e. F e \<Longrightarrow> view t = view s \<Longrightarrow>
      (e = NotFound \<Longrightarrow> view s (okey_of (kt_mk T x)) = None) \<Longrightarrow> Q (Inl e) t"
  shows "wp (StatusUpdate cl T x) Q s"
  unfolding StatusUpdate_def
proof (rule wp_write [OF T wp_conj [OF status_law base]])
  show "kind_of y = kt_kind T"
    if y: "status_effect (kt_mk T x) (view s) (Inr y) (view t) \<and> (\<forall>e. Inr y = Inl e \<longrightarrow> F e)" for y t
  proof -
    from y obtain old where old: "view s (okey_of (kt_mk T x)) = Some old" and "stored_as old y"
      by (auto simp: status_effect_def)
    then have "okey_of y = okey_of (kt_mk T x)" by (simp add: stored_as_def view_okey [OF old])
    with T show ?thesis by (simp add: okey_of_def wf_kindD)
  qed
qed (auto simp: status_effect_def intro: ok err)

lemmas wp_StatusUpdate = wp_StatusUpdate_upto [where F = "\<lambda>_. True", simplified]

lemma wp_Delete_upto:
  assumes base: "wp (cl_Delete cl (kt_mk T x)) (\<lambda>r _. \<forall>e. r = Inl e \<longrightarrow> F e) s"
    and gone: "\<And>t old. view s (okey_of (kt_mk T x)) = Some old \<Longrightarrow> Finalizers (meta old) = [] \<Longrightarrow>
      view t = (view s)(okey_of (kt_mk T x) := None) \<Longrightarrow> Q (Inr ()) t"
    and marked: "\<And>t old y. view s (okey_of (kt_mk T x)) = Some old \<Longrightarrow> Finalizers (meta old) \<noteq> [] \<Longrightarrow>
      stored_as old y \<Longrightarrow> status_of y = status_of old \<Longrightarrow> DeletionTimestamp (meta y) \<noteq> None \<Longrightarrow>
      view t = (view s)(okey_of (kt_mk T x) \<mapsto> y) \<Longrightarrow> Q (Inr ()) t"
    and err: "\<And>t e. F e \<Longrightarrow> view t = view s \<Longrightarrow>
      (e = NotFound \<Longrightarrow> view s (okey_of (kt_mk T x)) = None) \<Longrightarrow> Q (Inl e) t"
  shows "wp (Delete cl T x) Q s"
  unfolding Delete_def
  by (rule wp_mono [OF wp_conj [OF delete_law base]])
    (auto simp: delete_effect_def intro: gone marked err split: sum.splits if_splits)

lemmas wp_Delete = wp_Delete_upto [where F = "\<lambda>_. True", simplified]

end

context reliable_api
begin

lemma wp_Get_ok:
  assumes "wf_kind T"
    and "\<And>t y. view t = view s \<Longrightarrow> okey_of (kt_mk T y) = (kt_kind T, key) \<Longrightarrow>
      view s (kt_kind T, key) = Some (kt_mk T y) \<Longrightarrow> Q (Inr y) t"
    and "\<And>t. view t = view s \<Longrightarrow> view s (kt_kind T, key) = None \<Longrightarrow> Q (Inl NotFound) t"
  shows "wp (Get cl T key) Q s"
  using assms by (intro wp_Get_upto [where F = False]) (auto intro: wp_mono [OF get_reliable])

lemma wp_ListOf_ok:
  assumes "wf_kind T"
    and "\<And>t ys. view t = view s \<Longrightarrow> listed (view s) T lo ys \<Longrightarrow> Q (Inr ys) t"
  shows "wp (ListOf cl T lo) Q s"
  using assms by (intro wp_ListOf_upto [where F = False]) (auto intro: wp_mono [OF list_reliable])

lemma wp_Update_ok:
  assumes "wf_kind T"
    and "\<And>t y old. view s (okey_of (kt_mk T x)) = Some old \<Longrightarrow> stored_as (kt_mk T x) (kt_mk T y) \<Longrightarrow>
      status_of (kt_mk T y) = status_of old \<Longrightarrow>
      view t = (if DeletionTimestamp (meta old) \<noteq> None \<and> Finalizers (meta (kt_mk T x)) = [] \<and> Finalizers (meta old) \<noteq> []
                then (view s)(okey_of (kt_mk T x) := None)
                else (view s)(okey_of (kt_mk T x) \<mapsto> kt_mk T y)) \<Longrightarrow> Q (Inr y) t"
    and "\<And>t. view t = view s \<Longrightarrow> view s (okey_of (kt_mk T x)) = None \<Longrightarrow> Q (Inl NotFound) t"
  shows "wp (Update cl T x) Q s"
  using assms
  by (intro wp_Update_upto [where F = "\<lambda>e. e = NotFound"]) (auto intro: wp_mono [OF update_reliable])

lemma wp_StatusUpdate_ok:
  assumes T: "wf_kind T"
    and ok: "\<And>t y old. view s (okey_of (kt_mk T x)) = Some old \<Longrightarrow> stored_as old (kt_mk T y) \<Longrightarrow>
      status_of (kt_mk T y) = status_of (kt_mk T x) \<Longrightarrow> meta (kt_mk T y) = meta old \<Longrightarrow>
      view t = (view s)(okey_of (kt_mk T x) \<mapsto> kt_mk T y) \<Longrightarrow> Q (Inr y) t"
    and err: "\<And>t. view t = view s \<Longrightarrow> view s (okey_of (kt_mk T x)) = None \<Longrightarrow> Q (Inl NotFound) t"
  shows "wp (StatusUpdate cl T x) Q s"
  using assms
  by (intro wp_StatusUpdate_upto [where F = "\<lambda>e. e = NotFound"]) (auto intro: wp_mono [OF status_reliable])

lemma wp_Delete_ok:
  assumes "\<And>t old. view s (okey_of (kt_mk T x)) = Some old \<Longrightarrow> Finalizers (meta old) = [] \<Longrightarrow>
      view t = (view s)(okey_of (kt_mk T x) := None) \<Longrightarrow> Q (Inr ()) t"
    and "\<And>t old y. view s (okey_of (kt_mk T x)) = Some old \<Longrightarrow> Finalizers (meta old) \<noteq> [] \<Longrightarrow>
      stored_as old y \<Longrightarrow> status_of y = status_of old \<Longrightarrow> DeletionTimestamp (meta y) \<noteq> None \<Longrightarrow>
      view t = (view s)(okey_of (kt_mk T x) \<mapsto> y) \<Longrightarrow> Q (Inr ()) t"
    and "\<And>t. view t = view s \<Longrightarrow> view s (okey_of (kt_mk T x)) = None \<Longrightarrow> Q (Inl NotFound) t"
  shows "wp (Delete cl T x) Q s"
  using assms
  by (intro wp_Delete_upto [where F = "\<lambda>e. e = NotFound"]) (auto intro: wp_mono [OF delete_reliable])

end

subsection \<open>Loops over a list of objects\<close>

text \<open>An object is gone: not stored, or only until its finalizers are done.\<close>

definition gone :: "(okey \<rightharpoonup> obj) \<Rightarrow> okey \<Rightarrow> bool" where
  "gone v k \<longleftrightarrow> (case v k of None \<Rightarrow> True | Some x \<Rightarrow> DeletionTimestamp (meta x) \<noteq> None)"

definition same_but :: "okey set \<Rightarrow> (okey \<rightharpoonup> obj) \<Rightarrow> (okey \<rightharpoonup> obj) \<Rightarrow> bool" where
  "same_but K v v' \<longleftrightarrow> (\<forall>k. k \<notin> K \<longrightarrow> v' k = v k)"

lemma same_butD: "same_but K v v' \<Longrightarrow> k \<notin> K \<Longrightarrow> v' k = v k"
  unfolding same_but_def by blast

lemma same_but_refl [simp]: "same_but K v v"
  by (simp add: same_but_def)

lemma same_but_upd [simp]: "k \<in> K \<Longrightarrow> same_but K v (v(k := z))"
  by (auto simp: same_but_def)

definition okeys :: "'o kindT \<Rightarrow> 'o list \<Rightarrow> okey set" where
  "okeys T xs = (\<lambda>x. okey_of (kt_mk T x)) ` set xs"

text \<open>Objects of a set of keys may be gone, all others are as before.\<close>

definition only_gone :: "(okey \<rightharpoonup> obj) \<Rightarrow> (okey \<rightharpoonup> obj) \<Rightarrow> okey set \<Rightarrow> bool" where
  "only_gone v v' K \<longleftrightarrow> (\<forall>k. v' k = v k \<or> k \<in> K \<and> gone v' k)"

lemma only_gone_refl [simp]: "only_gone v v K"
  by (simp add: only_gone_def)

lemma only_gone_trans: "only_gone v v' K \<Longrightarrow> only_gone v' v'' K \<Longrightarrow> only_gone v v'' K"
  unfolding only_gone_def gone_def by metis

lemma only_gone_mono: "only_gone v v' K \<Longrightarrow> K \<subseteq> L \<Longrightarrow> only_gone v v' L"
  unfolding only_gone_def by blast

lemma only_gone_gone: "only_gone v v' K \<Longrightarrow> gone v k \<Longrightarrow> gone v' k"
  unfolding only_gone_def gone_def by metis

lemma only_gone_same: "only_gone v v' K \<Longrightarrow> k \<notin> K \<Longrightarrow> v' k = v k"
  unfolding only_gone_def by metis

context kube_api
begin

text \<open>Deleting some of the listed objects: nothing else changes, and whatever changed is gone.\<close>

lemma wp_Delete_gone:
  "wp (Delete cl T x) (\<lambda>r t. only_gone (view s) (view t) {okey_of (kt_mk T x)}) s"
  by (rule wp_Delete) (auto simp: only_gone_def gone_def)

lemma wp_delete_each:
  assumes "\<And>x. x \<in> set xs \<Longrightarrow> P x \<Longrightarrow> okey_of (kt_mk T x) \<in> K"
  shows "wp (forEach xs (\<lambda>x. if P x then do { _ \<leftarrow> Delete cl T x; return () } else return ()))
     (\<lambda>_ t. only_gone (view s) (view t) K) s"
proof (rule wp_mono [OF wp_forEach [where
      Inv = "\<lambda>ys t. set ys \<subseteq> set xs \<and> only_gone (view s) (view t) K"]])
  fix y ys t
  assume inv: "set (y # ys) \<subseteq> set xs \<and> only_gone (view s) (view t) K"
  then have K: "okey_of (kt_mk T y) \<in> K" if "P y" using assms that by simp
  show "wp (if P y then do { _ \<leftarrow> Delete cl T y; return () } else return ())
    (\<lambda>_ t. set ys \<subseteq> set xs \<and> only_gone (view s) (view t) K) t"
  proof (cases "P y")
    case True
    have "only_gone (view s) (view u) K" if "only_gone (view t) (view u) {okey_of (kt_mk T y)}" for u
      using inv only_gone_mono [OF that, of K] K [OF True] by (auto intro: only_gone_trans)
    with True inv show ?thesis by (auto intro!: wp_mono [OF wp_Delete_gone])
  qed (use inv in simp)
qed auto

end

context reliable_api
begin

text \<open>If the calls do not fail for reasons of their own, all of them are gone.\<close>

lemma wp_Delete_gone_ok:
  "wp (Delete cl T x) (\<lambda>r t. gone (view t) (okey_of (kt_mk T x))) s"
  by (rule wp_Delete_ok) (auto simp: gone_def)

lemma wp_delete_each_ok:
  "wp (forEach xs (\<lambda>x. if P x then do { _ \<leftarrow> Delete cl T x; return () } else return ()))
     (\<lambda>_ t. \<forall>x \<in> set xs. P x \<longrightarrow> gone (view t) (okey_of (kt_mk T x))) s"
proof (rule wp_mono [OF wp_forEach [where
      Inv = "\<lambda>ys t. \<forall>x \<in> set xs - set ys. P x \<longrightarrow> gone (view t) (okey_of (kt_mk T x))"]])
  fix y ys t
  assume inv: "\<forall>x \<in> set xs - set (y # ys). P x \<longrightarrow> gone (view t) (okey_of (kt_mk T x))"
  show "wp (if P y then do { _ \<leftarrow> Delete cl T y; return () } else return ())
    (\<lambda>_ t. \<forall>x \<in> set xs - set ys. P x \<longrightarrow> gone (view t) (okey_of (kt_mk T x))) t"
  proof (cases "P y")
    case True
    have "gone (view u) (okey_of (kt_mk T x))"
      if "only_gone (view t) (view u) {okey_of (kt_mk T y)}" "gone (view u) (okey_of (kt_mk T y))"
        "x \<in> set xs - set ys" "P x" for u x
      using that inv by (cases "x = y") (auto intro: only_gone_gone [OF that(1)])
    with True show ?thesis
      by (auto intro!: wp_mono [OF wp_conj [OF wp_Delete_gone wp_Delete_gone_ok]])
  qed (use inv in auto)
qed auto

text \<open>Updating every listed object: each gets its new content, nothing else changes.\<close>

lemma wp_update_each_ok:
  assumes T: "wf_kind T"
    and key: "\<And>x. okey_of (kt_mk T (f x)) = okey_of (kt_mk T x)"
    and fin: "\<And>x. Finalizers (meta (kt_mk T (f x))) = Finalizers (meta (kt_mk T x))"
    and st: "\<And>x. x \<in> set xs \<Longrightarrow> stored (view s) (kt_mk T x)"
    and d: "distinct (map (\<lambda>x. okey_of (kt_mk T x)) xs)"
  shows "wp (forEach xs (\<lambda>x. do { _ \<leftarrow> Update cl T (f x); return () }))
     (\<lambda>_ t. (\<forall>x \<in> set xs. \<exists>y. view t (okey_of (kt_mk T x)) = Some (kt_mk T y) \<and>
               stored_as (kt_mk T (f x)) (kt_mk T y)) \<and>
            same_but (okeys T xs) (view s) (view t)) s"
  using st d
proof (induction xs arbitrary: s)
  case Nil
  then show ?case by simp
next
  case (Cons x xs)
  have st: "view s (okey_of (kt_mk T x)) = Some (kt_mk T x)" by (rule Cons.prems(1)) simp
  have step: "wp (forEach xs (\<lambda>x. do { _ \<leftarrow> Update cl T (f x); return () }))
     (\<lambda>_ t. (\<forall>x \<in> set (x # xs). \<exists>y. view t (okey_of (kt_mk T x)) = Some (kt_mk T y) \<and>
               stored_as (kt_mk T (f x)) (kt_mk T y)) \<and>
            same_but (okeys T (x # xs)) (view s) (view t)) t"
    if t: "view t = (view s)(okey_of (kt_mk T x) \<mapsto> kt_mk T y)" and y: "stored_as (kt_mk T (f x)) (kt_mk T y)"
    for t y
  proof (rule wp_mono [OF Cons.IH])
    show "stored (view t) (kt_mk T x')" if "x' \<in> set xs" for x'
    proof -
      from that Cons.prems(2) have "okey_of (kt_mk T x') \<noteq> okey_of (kt_mk T x)" by (auto simp: image_iff)
      moreover have "stored (view s) (kt_mk T x')" using that by (intro Cons.prems(1)) simp
      ultimately show ?thesis by (simp add: t)
    qed
    show "distinct (map (\<lambda>x. okey_of (kt_mk T x)) xs)" using Cons.prems by simp
    fix u
    assume u: "(\<forall>x \<in> set xs. \<exists>y. view u (okey_of (kt_mk T x)) = Some (kt_mk T y) \<and>
        stored_as (kt_mk T (f x)) (kt_mk T y)) \<and> same_but (okeys T xs) (view t) (view u)"
    have "okey_of (kt_mk T x) \<notin> okeys T xs" using Cons.prems(2) by (auto simp: okeys_def)
    with u have "view u (okey_of (kt_mk T x)) = Some (kt_mk T y)"
      by (auto simp: t dest: same_butD)
    moreover from u have "same_but (okeys T (x # xs)) (view s) (view u)"
      by (auto simp: same_but_def okeys_def t)
    ultimately show "(\<forall>x \<in> set (x # xs). \<exists>y. view u (okey_of (kt_mk T x)) = Some (kt_mk T y) \<and>
        stored_as (kt_mk T (f x)) (kt_mk T y)) \<and> same_but (okeys T (x # xs)) (view s) (view u)"
      using u y by auto
  qed
  show ?case
    using st step by (auto intro!: wp_Update_ok [OF T] simp: key fin split: if_splits)
qed

end

end
