(* ===== verification/AuthTypes.thy ===== *)
theory AuthTypes
  imports Naming Kube
begin

section \<open>The auth server's data (internal/authserver/server.go, lines 28-134 and 1278-1406)\<close>

text \<open>
  The wire types of the auth API, the decoding of request bodies, the server's configuration, the
  requests and responses, and the pure conversions between wire types and custom resources.
\<close>

subsection \<open>Wire types\<close>

record credentialsWithSecret =
  cw_AccessKeyID :: string
  cw_SecretAccessKey :: string
  cw_CreationDate :: int
  cw_UserID :: int
  cw_UserName :: string

record credential =
  cr_AccessKeyID :: string
  cr_CreationDate :: int

record user =
  u_Username :: string
  u_CreationDate :: int
  u_FriendlyName :: string
  u_Email :: string
  u_ExternalID :: string
  u_EncryptedPassword :: string

record createUserRequest =
  cu_Username :: string
  cu_FriendlyName :: "string option"
  cu_Email :: "string option"
  cu_ExternalID :: "string option"
  cu_ExternalIDV2 :: "string option"

record group =
  g_ID :: string
  g_Name :: string
  g_CreationDate :: int
  g_Description :: string

record createGroupRequest =
  cg_ID :: string
  cg_Name :: string
  cg_Description :: string

record statement =
  st_Effect :: string
  st_Resource :: string
  st_Action :: "string list"

record policy =
  p_Name :: string
  p_CreationDate :: int
  p_Statement :: "statement list"

record pagination =
  pg_HasMore :: bool
  pg_NextOffset :: string
  pg_Results :: int
  pg_MaxPerPage :: int

record 'a paginatedResponse =
  pr_Pagination :: pagination
  pr_Results :: "'a list"

definition newPaginatedResponse :: "'a list \<Rightarrow> 'a paginatedResponse" where
  "newPaginatedResponse results =
     \<lparr>pr_Pagination = \<lparr>pg_HasMore = False, pg_NextOffset = '''', pg_Results = int (length results),
                       pg_MaxPerPage = 100\<rparr>,
      pr_Results = results\<rparr>"

subsection \<open>Decoding request bodies (encoding/json)\<close>

text \<open>
  \<open>json.NewDecoder(r.Body).Decode(&request)\<close>: the scanner turns the body into a value (or fails),
  which is matched with the fields of the request type. A key selects the field whose tag is equal
  to it, or else the field whose tag is equal up to case; other keys are ignored; a later key
  overrides an earlier one. \<open>null\<close> leaves a field as it is (and sets a pointer to nil). A value of
  the wrong type is an error that \<open>Decode\<close> reports after it has gone through the rest, so that the
  handler sees only that there was one. A number is kept as its literal.
\<close>

datatype json =
    JNull
  | JBool bool
  | JNumber string
  | JString string
  | JArray "json list"
  | JObject "(string \<times> json) list"

text \<open>Keys up to case: the letters of ASCII, and the two other runes that fold to them.\<close>

fun foldName :: "string \<Rightarrow> string" where
  "foldName [] = []"
| "foldName (c # cs) =
     (if c = CHR 0xC5 \<and> take 1 cs = [CHR 0xBF] then CHR ''s'' # foldName (drop 1 cs)
      else if c = CHR 0xE2 \<and> take 2 cs = [CHR 0x84, CHR 0xAA] then CHR ''k'' # foldName (drop 2 cs)
      else lower_byte c # foldName cs)"

definition field_for :: "string list \<Rightarrow> string \<Rightarrow> string option" where
  "field_for tags key =
     (if key \<in> set tags then Some key else find (\<lambda>t. foldName t = foldName key) tags)"

text \<open>A decoder changes the value it decodes into, or fails.\<close>

definition decode_string :: "json \<Rightarrow> string \<Rightarrow> string option" where
  "decode_string j old = (case j of JNull \<Rightarrow> Some old | JString s \<Rightarrow> Some s | _ \<Rightarrow> None)"

definition decode_string_ptr :: "json \<Rightarrow> string option \<Rightarrow> string option option" where
  "decode_string_ptr j old =
     (case j of JNull \<Rightarrow> Some None | JString s \<Rightarrow> Some (Some s) | _ \<Rightarrow> None)"

definition digit_char :: "char \<Rightarrow> bool" where
  "digit_char c \<longleftrightarrow> 48 \<le> (of_char c :: nat) \<and> (of_char c :: nat) \<le> 57"

definition parse_digits :: "string \<Rightarrow> int option" where
  "parse_digits s =
     (if s \<noteq> [] \<and> list_all digit_char s then Some (foldl (\<lambda>n c. 10 * n + (int (of_char c) - 48)) 0 s)
      else None)"

text \<open>\<open>strconv.ParseInt(s, 10, 64)\<close> on a JSON number literal.\<close>

definition parse_int64 :: "string \<Rightarrow> int option" where
  "parse_int64 s =
     (case (if HasPrefix s ''-'' then map_option uminus (parse_digits (drop 1 s)) else parse_digits s) of
        None \<Rightarrow> None
      | Some i \<Rightarrow> if - (2 ^ 63) \<le> i \<and> i < 2 ^ 63 then Some i else None)"

definition decode_int64 :: "json \<Rightarrow> int \<Rightarrow> int option" where
  "decode_int64 j old = (case j of JNull \<Rightarrow> Some old | JNumber l \<Rightarrow> parse_int64 l | _ \<Rightarrow> None)"

text \<open>Into a slice: \<open>null\<close> makes it nil, an array replaces it element by element.\<close>

definition decode_list :: "(json \<Rightarrow> 'a option) \<Rightarrow> json \<Rightarrow> 'a list option" where
  "decode_list dec j =
     (case j of
        JNull \<Rightarrow> Some []
      | JArray js \<Rightarrow> List.those (map dec js)
      | _ \<Rightarrow> None)"

text \<open>Into a struct: \<open>step\<close> decodes one tagged field.\<close>

fun decode_fields ::
  "string list \<Rightarrow> (string \<Rightarrow> json \<Rightarrow> 'a \<Rightarrow> 'a option) \<Rightarrow> (string \<times> json) list \<Rightarrow> 'a \<Rightarrow> 'a option" where
  "decode_fields tags step [] x = Some x"
| "decode_fields tags step ((key, j) # fs) x =
     (case field_for tags key of
        None \<Rightarrow> decode_fields tags step fs x
      | Some t \<Rightarrow>
          (case step t j x of None \<Rightarrow> None | Some y \<Rightarrow> decode_fields tags step fs y))"

definition decode_struct ::
  "string list \<Rightarrow> (string \<Rightarrow> json \<Rightarrow> 'a \<Rightarrow> 'a option) \<Rightarrow> json \<Rightarrow> 'a \<Rightarrow> 'a option" where
  "decode_struct tags step j x =
     (case j of JNull \<Rightarrow> Some x | JObject fs \<Rightarrow> decode_fields tags step fs x | _ \<Rightarrow> None)"

definition decode_createUserRequest :: "json \<Rightarrow> createUserRequest option" where
  "decode_createUserRequest j =
     decode_struct [''username'', ''friendly_name'', ''email'', ''external_id'', ''externalId'']
       (\<lambda>t j x.
          if t = ''username'' then map_option (\<lambda>v. x\<lparr>cu_Username := v\<rparr>) (decode_string j (cu_Username x))
          else if t = ''friendly_name'' then
            map_option (\<lambda>v. x\<lparr>cu_FriendlyName := v\<rparr>) (decode_string_ptr j (cu_FriendlyName x))
          else if t = ''email'' then map_option (\<lambda>v. x\<lparr>cu_Email := v\<rparr>) (decode_string_ptr j (cu_Email x))
          else if t = ''external_id'' then
            map_option (\<lambda>v. x\<lparr>cu_ExternalID := v\<rparr>) (decode_string_ptr j (cu_ExternalID x))
          else map_option (\<lambda>v. x\<lparr>cu_ExternalIDV2 := v\<rparr>) (decode_string_ptr j (cu_ExternalIDV2 x)))
       j \<lparr>cu_Username = '''', cu_FriendlyName = None, cu_Email = None, cu_ExternalID = None,
          cu_ExternalIDV2 = None\<rparr>"

definition decode_createGroupRequest :: "json \<Rightarrow> createGroupRequest option" where
  "decode_createGroupRequest j =
     decode_struct [''id'', ''name'', ''description'']
       (\<lambda>t j x.
          if t = ''id'' then map_option (\<lambda>v. x\<lparr>cg_ID := v\<rparr>) (decode_string j (cg_ID x))
          else if t = ''name'' then map_option (\<lambda>v. x\<lparr>cg_Name := v\<rparr>) (decode_string j (cg_Name x))
          else map_option (\<lambda>v. x\<lparr>cg_Description := v\<rparr>) (decode_string j (cg_Description x)))
       j \<lparr>cg_ID = '''', cg_Name = '''', cg_Description = ''''\<rparr>"

definition decode_statement :: "json \<Rightarrow> statement option" where
  "decode_statement j =
     decode_struct [''effect'', ''resource'', ''action'']
       (\<lambda>t j x.
          if t = ''effect'' then map_option (\<lambda>v. x\<lparr>st_Effect := v\<rparr>) (decode_string j (st_Effect x))
          else if t = ''resource'' then
            map_option (\<lambda>v. x\<lparr>st_Resource := v\<rparr>) (decode_string j (st_Resource x))
          else map_option (\<lambda>v. x\<lparr>st_Action := v\<rparr>) (decode_list (\<lambda>j. decode_string j '''') j))
       j \<lparr>st_Effect = '''', st_Resource = '''', st_Action = []\<rparr>"

definition decode_policy :: "json \<Rightarrow> policy option" where
  "decode_policy j =
     decode_struct [''name'', ''creation_date'', ''statement'']
       (\<lambda>t j x.
          if t = ''name'' then map_option (\<lambda>v. x\<lparr>p_Name := v\<rparr>) (decode_string j (p_Name x))
          else if t = ''creation_date'' then
            map_option (\<lambda>v. x\<lparr>p_CreationDate := v\<rparr>) (decode_int64 j (p_CreationDate x))
          else map_option (\<lambda>v. x\<lparr>p_Statement := v\<rparr>) (decode_list decode_statement j))
       j \<lparr>p_Name = '''', p_CreationDate = 0, p_Statement = []\<rparr>"

subsection \<open>Requests, responses, server\<close>

text \<open>
  A request as the handlers read it: the method, the decoded path, the decoded query parameters
  in order, and the first JSON value of the body (\<open>None\<close> where scanning it fails).
\<close>

record Request =
  r_Method :: string
  r_Path :: string
  r_Query :: "(string \<times> string) list"
  r_Body :: "json option"

text \<open>\<open>r.URL.Query().Get(key)\<close>: the first value, or the empty string.\<close>

definition query_Get :: "Request \<Rightarrow> string \<Rightarrow> string" where
  "query_Get r key = (case map_of (r_Query r) key of None \<Rightarrow> '''' | Some v \<Rightarrow> v)"

definition Decode :: "(json \<Rightarrow> 'a option) \<Rightarrow> Request \<Rightarrow> 'a option" where
  "Decode dec r = (case r_Body r of None \<Rightarrow> None | Some j \<Rightarrow> dec j)"

text \<open>
  What a handler writes: the status and a value to be encoded, where the constructor tells the Go
  type of the value. \<open>NoBody\<close> is a bare \<open>WriteHeader\<close>.
\<close>

datatype body =
    NoBody
  | ErrorBody string
  | VersionBody "(string \<times> string) list"
  | UserBody user
  | UsersBody "user paginatedResponse"
  | GroupBody group
  | GroupsBody "group paginatedResponse"
  | PolicyBody policy
  | PoliciesBody "policy paginatedResponse"
  | CredentialBody credential
  | CredentialsBody "credential paginatedResponse"
  | SecretBody credentialsWithSecret

datatype outcome = Respond (code: nat) (payload: body) | Panicked string

definition writeJSON :: "nat \<Rightarrow> body \<Rightarrow> ('s, outcome) state" where
  "writeJSON status value = return (Respond status value)"

definition writeError :: "nat \<Rightarrow> string \<Rightarrow> ('s, outcome) state" where
  "writeError status message = writeJSON status (ErrorBody message)"

definition WriteHeader :: "nat \<Rightarrow> ('s, outcome) state" where
  "WriteHeader status = return (Respond status NoBody)"

lemmas write_defs [simp] = writeError_def writeJSON_def WriteHeader_def

text \<open>\<open>http.Status...\<close> and \<open>http.Method...\<close>.\<close>

abbreviation "StatusOK \<equiv> 200 :: nat"
abbreviation "StatusCreated \<equiv> 201 :: nat"
abbreviation "StatusAccepted \<equiv> 202 :: nat"
abbreviation "StatusNoContent \<equiv> 204 :: nat"
abbreviation "StatusBadRequest \<equiv> 400 :: nat"
abbreviation "StatusNotFound \<equiv> 404 :: nat"
abbreviation "StatusMethodNotAllowed \<equiv> 405 :: nat"
abbreviation "StatusConflict \<equiv> 409 :: nat"
abbreviation "StatusInternalServerError \<equiv> 500 :: nat"

abbreviation "MethodGet \<equiv> ''GET''"
abbreviation "MethodPost \<equiv> ''POST''"
abbreviation "MethodPut \<equiv> ''PUT''"
abbreviation "MethodDelete \<equiv> ''DELETE''"

record 's Server =
  client :: "'s Client"
  bindAddress :: string
  defaultUserNamespace :: string

type_synonym 's Option = "'s Server \<Rightarrow> 's Server"

definition WithDefaultUserNamespace :: "string \<Rightarrow> 's Option" where
  "WithDefaultUserNamespace namespace =
     (\<lambda>s. if namespace \<noteq> '''' then s\<lparr>defaultUserNamespace := namespace\<rparr> else s)"

definition New :: "'s Client \<Rightarrow> string \<Rightarrow> 's Option list \<Rightarrow> 's Server" where
  "New k8sClient addr options =
     fold (\<lambda>option server. option server) options
       \<lparr>client = k8sClient, bindAddress = addr, defaultUserNamespace = ''lakefs-oss-contrib-system''\<rparr>"

text \<open>
  What else a handler reads from outside: the clock, the random generator (\<open>None\<close> where it fails),
  and how often the 200 ms ticker of \<open>waitForCredentialSecret\<close> wins against the end of the context
  (at most 50 times within its timeout of 10 s).
\<close>

record 's Runtime =
  env_Now :: "('s, time) state"
  env_RandRead :: "nat \<Rightarrow> ('s, string option) state"
  env_Ticks :: nat

subsection \<open>Conversions\<close>

definition userFromUser :: "LakeFSUser \<Rightarrow> user" where
  "userFromUser item =
     \<lparr>u_Username = userUsername item, u_CreationDate = Unix (CreationTimestamp item),
      u_FriendlyName = us_FriendlyName (user_Spec item), u_Email = us_ExternalID (user_Spec item),
      u_ExternalID = us_ExternalID (user_Spec item), u_EncryptedPassword = ''''\<rparr>"

definition groupFromGroup :: "LakeFSGroup \<Rightarrow> group" where
  "groupFromGroup item =
     (let name = groupName item
      in \<lparr>g_ID = name, g_Name = name, g_CreationDate = Unix (CreationTimestamp item),
          g_Description = gs_Description (group_Spec item)\<rparr>)"

text \<open>The metadata of an object literal: everything but the given fields is Go's zero value.\<close>

definition new_meta :: "string \<Rightarrow> string \<Rightarrow> ObjectMeta" where
  "new_meta name namespace =
     \<lparr>Name = name, Namespace = namespace, UID = '''', Generation = 0, CreationTimestamp = zeroTime,
      DeletionTimestamp = None, Finalizers = [], Labels = None, OwnerReferences = []\<rparr>"

definition new_status :: Status where
  "new_status = \<lparr>ObservedGeneration = 0, Conditions = []\<rparr>"

definition roleFromPolicy :: "string \<Rightarrow> policy \<Rightarrow> LakeFSRole" where
  "roleFromPolicy namespace item =
     ObjectMeta.extend (new_meta (objectName (''lakefs-policy-'' @ p_Name item)) namespace)
       \<lparr>role_Spec =
          \<lparr>rs_Description = ''lakeFS setup policy '' @ p_Name item,
           rs_Policies =
             [\<lparr>pt_Name = p_Name item,
               pt_Statement =
                 map (\<lambda>st. \<lparr>ps_Effect = st_Effect st, ps_Resource = st_Resource st, ps_Action = st_Action st\<rparr>)
                   (p_Statement item)\<rparr>]\<rparr>,
        role_Status = new_status\<rparr>"

definition policiesFromRole :: "LakeFSRole \<Rightarrow> string \<Rightarrow> policy list" where
  "policiesFromRole role repository =
     map (\<lambda>template.
        \<lparr>p_Name = renderRepositoryTemplate (pt_Name template) repository,
         p_CreationDate = Unix (CreationTimestamp role),
         p_Statement =
           map (\<lambda>rst. \<lparr>st_Effect = ps_Effect rst,
                       st_Resource = renderRepositoryTemplate (ps_Resource rst) repository,
                       st_Action = ps_Action rst\<rparr>)
             (pt_Statement template)\<rparr>)
       (rs_Policies (role_Spec role))"

definition userMatchesListQuery :: "user \<Rightarrow> Request \<Rightarrow> bool" where
  "userMatchesListQuery item r =
     (let ident = query_Get r ''id'' in
      if ident \<noteq> '''' \<and> Sprint (compatibilityUserID (u_Username item)) \<noteq> ident then False
      else let email = query_Get r ''email'' in
      if email \<noteq> '''' \<and> u_Email item \<noteq> email then False
      else let externalID = firstNonEmpty [query_Get r ''external_id'', query_Get r ''externalId''] in
      if externalID \<noteq> '''' \<and> u_ExternalID item \<noteq> externalID then False
      else let pre = query_Get r ''prefix'' in
      if pre \<noteq> '''' \<and> \<not> HasPrefix (u_Username item) pre then False
      else True)"

definition repositoryScope :: "Request \<Rightarrow> string" where
  "repositoryScope r = firstNonEmpty [query_Get r ''repository'', query_Get r ''repo'', ''*'']"

end
