(* ===== verification/Secrets.thy ===== *)
theory Secrets
  imports AuthTypes
begin

section \<open>The Kubernetes secret of a credential\<close>

text \<open>
  The secret of an access key is written by the auth server (\<open>ensureCredentialSecret\<close> of
  internal/authserver/server.go) and by the credential controller (\<open>ensureSecret\<close> of
  internal/controller/lakefscredential_controller.go), both by the same kind of steps on the secret
  and a flag \<open>changed\<close>. This theory holds the steps and what they keep.
\<close>

subsection \<open>Maps and secrets\<close>

text \<open>\<open>string(m[key])\<close> of a Go map: a missing key reads as the empty string, as does a nil map.\<close>

definition map_at :: "gomap \<Rightarrow> string \<Rightarrow> string" where
  "map_at m key = (case m of None \<Rightarrow> '''' | Some f \<Rightarrow> (case f key of None \<Rightarrow> '''' | Some v \<Rightarrow> v))"

text \<open>\<open>m[key] = v\<close> of a Go map that is not nil.\<close>

definition map_put :: "gomap \<Rightarrow> string \<Rightarrow> string \<Rightarrow> gomap" where
  "map_put m key v = (case m of None \<Rightarrow> None | Some f \<Rightarrow> Some (f(key \<mapsto> v)))"

definition new_secret :: "string \<Rightarrow> string \<Rightarrow> gomap \<Rightarrow> gomap \<Rightarrow> Secret" where
  "new_secret name namespace labels data =
     ObjectMeta.extend ((new_meta name namespace)\<lparr>Labels := labels\<rparr>) \<lparr>Type = ''Opaque'', Data = data\<rparr>"

lemma new_secret_simps [simp]:
  "Name (new_secret n ns l d) = n" "Namespace (new_secret n ns l d) = ns" "Data (new_secret n ns l d) = d"
  by (simp_all add: new_secret_def ObjectMeta.extend_def new_meta_def)

subsection \<open>The steps\<close>

text \<open>Each changes the secret and sets the flag, or does nothing.\<close>

definition data_made :: "Secret \<times> bool \<Rightarrow> Secret \<times> bool" where
  "data_made p = (if Data (fst p) = None then ((fst p)\<lparr>Data := Some Map.empty\<rparr>, True) else p)"

definition data_set :: "string \<Rightarrow> string \<Rightarrow> Secret \<times> bool \<Rightarrow> Secret \<times> bool" where
  "data_set key v p =
     (if map_at (Data (fst p)) key \<noteq> v then ((fst p)\<lparr>Data := map_put (Data (fst p)) key v\<rparr>, True) else p)"

definition labels_made :: "Secret \<times> bool \<Rightarrow> Secret \<times> bool" where
  "labels_made p = (if Labels (fst p) = None then ((fst p)\<lparr>Labels := Some Map.empty\<rparr>, True) else p)"

definition label_set :: "string \<Rightarrow> string \<Rightarrow> Secret \<times> bool \<Rightarrow> Secret \<times> bool" where
  "label_set key v p =
     (if map_at (Labels (fst p)) key \<noteq> v
      then ((fst p)\<lparr>Labels := map_put (Labels (fst p)) key v\<rparr>, True) else p)"

lemma map_at_simps [simp]:
  "map_at (Some f) k = (case f k of None \<Rightarrow> '''' | Some v \<Rightarrow> v)"
  "map_put (Some f) k v = Some (f(k \<mapsto> v))"
  by (simp_all add: map_at_def map_put_def)

lemma map_put_not_None [simp]: "map_put m k v = None \<longleftrightarrow> m = None"
  by (cases m) (simp_all add: map_put_def)

lemma map_at_put: "m \<noteq> None \<Longrightarrow> map_at (map_put m k v) j = (if j = k then v else map_at m j)"
  by (cases m) simp_all

lemma truncate_Data [simp]: "ObjectMeta.truncate (x\<lparr>Data := m\<rparr>) = ObjectMeta.truncate x"
  by (simp add: ObjectMeta.truncate_def)

text \<open>No step touches the identity of the secret, and a step that sets no flag changes nothing.\<close>

definition tame :: "(Secret \<times> bool \<Rightarrow> Secret \<times> bool) \<Rightarrow> bool" where
  "tame f \<longleftrightarrow> (\<forall>p. Name (fst (f p)) = Name (fst p) \<and> Namespace (fst (f p)) = Namespace (fst p) \<and>
     Finalizers (fst (f p)) = Finalizers (fst p) \<and> (\<not> snd (f p) \<longrightarrow> f p = p))"

lemma tame_steps: "tame data_made" "tame (data_set k v)" "tame labels_made" "tame (label_set k v)"
  by (simp_all add: tame_def data_made_def data_set_def labels_made_def label_set_def)

lemma tameD: "tame f \<Longrightarrow> Name (fst (f p)) = Name (fst p) \<and> Namespace (fst (f p)) = Namespace (fst p) \<and>
     Finalizers (fst (f p)) = Finalizers (fst p) \<and> (\<not> snd (f p) \<longrightarrow> f p = p)"
  unfolding tame_def by (rule spec)

lemma tame_comp:
  assumes "tame f" and "tame g"
  shows "tame (\<lambda>p. f (g p))"
  unfolding tame_def
proof (rule allI)
  fix p
  show "Name (fst (f (g p))) = Name (fst p) \<and> Namespace (fst (f (g p))) = Namespace (fst p) \<and>
     Finalizers (fst (f (g p))) = Finalizers (fst p) \<and> (\<not> snd (f (g p)) \<longrightarrow> f (g p) = p)"
    using tameD [OF assms(1), of "g p"] tameD [OF assms(2), of p] by (cases "snd (f (g p))") auto
qed

lemma fill_secret_tame: "tame f \<Longrightarrow> f (sec, False) = (sec', ch) \<Longrightarrow>
    Name sec' = Name sec \<and> Namespace sec' = Namespace sec \<and> Finalizers sec' = Finalizers sec \<and> (\<not> ch \<longrightarrow> sec' = sec)"
  using tameD [of f "(sec, False)"] by auto

text \<open>What a credential's secret holds after it was ensured.\<close>

definition holds_secret :: "LakeFSCredential \<Rightarrow> string \<Rightarrow> gomap \<Rightarrow> bool" where
  "holds_secret c v m \<longleftrightarrow> map_at m (SecretKey (cred_Spec c)) = v \<and>
     (SecretKey (cred_Spec c) \<noteq> ''accessKeyId'' \<longrightarrow> map_at m ''accessKeyId'' = cs_AccessKeyID (cred_Spec c))"

lemma Data_steps [simp]:
  "Data (fst (label_set k v p)) = Data (fst p)" "Data (fst (labels_made p)) = Data (fst p)"
  "Data (fst (data_made p)) \<noteq> None"
  "Data (fst (data_set k v p)) = None \<longleftrightarrow> Data (fst p) = None"
  by (simp_all add: label_set_def labels_made_def data_made_def data_set_def)

lemma map_at_data_set:
  "Data (fst p) \<noteq> None \<Longrightarrow>
   map_at (Data (fst (data_set k v p))) j = (if j = k then v else map_at (Data (fst p)) j)"
  by (simp add: data_set_def map_at_put)

definition secret_key :: "LakeFSCredential \<Rightarrow> okey" where
  "secret_key c = (KSecret, Namespace c, sr_Name (cs_SecretRef (cred_Spec c)))"

subsection \<open>Credentials that can be used\<close>

text \<open>A credential that may authenticate: it is neither revoked nor past its expiry at \<open>T\<close>.\<close>

definition usable :: "time \<Rightarrow> LakeFSCredential \<Rightarrow> bool" where
  "usable T c \<longleftrightarrow> \<not> cs_Revoked (cred_Spec c) \<and>
     (case cs_ExpiresAt (cred_Spec c) of None \<Rightarrow> True | Some e \<Rightarrow> T < e)"

text \<open>The credential is stored, with its user and a secret that holds its secret key.\<close>

definition backed_by ::
  "(okey \<rightharpoonup> obj) \<Rightarrow> LakeFSCredential \<Rightarrow> LakeFSUser \<Rightarrow> Secret \<Rightarrow> bool" where
  "backed_by v c u sec \<longleftrightarrow> stored v (OCredential c) \<and>
     v (KUser, Namespace c, ur_Name (cs_UserRef (cred_Spec c))) = Some (OUser u) \<and>
     v (KSecret, Namespace c, sr_Name (cs_SecretRef (cred_Spec c))) = Some (OSecret sec) \<and>
     map_at (Data sec) (SecretKey (cred_Spec c)) \<noteq> ''''"

end
