(* ===== verification/RefStore.thy ===== *)
theory RefStore
  imports Kube
begin

section \<open>A concrete API server\<close>

text \<open>
  An in-memory API server that satisfies the laws of \<open>kube_api\<close> and \<open>reliable_api\<close>: a list of
  objects, the first one with a key counting. It is not part of the program; it shows that the
  hypotheses under which the program's properties are proved can hold, and the witnesses run the
  program on it. The world may carry more than the stored objects (the record is extensible).
\<close>

record world =
  w_objs :: "obj list"

type_synonym 'z w = "'z world_scheme"

definition ref_view :: "'z w \<Rightarrow> okey \<rightharpoonup> obj" where
  "ref_view s k = find (\<lambda>x. okey_of x = k) (w_objs s)"

fun dedup :: "obj list \<Rightarrow> obj list" where
  "dedup [] = []"
| "dedup (x # xs) = x # filter (\<lambda>y. okey_of y \<noteq> okey_of x) (dedup xs)"

definition stampM :: "'z ObjectMeta_scheme \<Rightarrow> 'z ObjectMeta_scheme" where
  "stampM m = m\<lparr>CreationTimestamp := 0, DeletionTimestamp := None\<rparr>"

definition markM :: "'z ObjectMeta_scheme \<Rightarrow> 'z ObjectMeta_scheme" where
  "markM m = m\<lparr>DeletionTimestamp := Some 0\<rparr>"

fun stamp :: "obj \<Rightarrow> obj" where
  "stamp (OUser x) = OUser (stampM x)"
| "stamp (OGroup x) = OGroup (stampM x)"
| "stamp (ORole x) = ORole (stampM x)"
| "stamp (ORoleBinding x) = ORoleBinding (stampM x)"
| "stamp (OCredential x) = OCredential (stampM x)"
| "stamp (OSecret x) = OSecret (stampM x)"
| "stamp (ORepository x) = ORepository (stampM x)"
| "stamp (OGCPolicy x) = OGCPolicy (stampM x)"
| "stamp (OCronJob x) = OCronJob (stampM x)"

fun mark :: "obj \<Rightarrow> obj" where
  "mark (OUser x) = OUser (markM x)"
| "mark (OGroup x) = OGroup (markM x)"
| "mark (ORole x) = ORole (markM x)"
| "mark (ORoleBinding x) = ORoleBinding (markM x)"
| "mark (OCredential x) = OCredential (markM x)"
| "mark (OSecret x) = OSecret (markM x)"
| "mark (ORepository x) = ORepository (markM x)"
| "mark (OGCPolicy x) = OGCPolicy (markM x)"
| "mark (OCronJob x) = OCronJob (markM x)"

text \<open>\<open>with_status st x\<close> is \<open>x\<close> with the status of \<open>st\<close>.\<close>

definition set_status :: "statusContent \<Rightarrow> obj \<Rightarrow> obj" where
  "set_status c x =
     (case x of
        OUser y \<Rightarrow> (case c of SStatus st \<Rightarrow> OUser (y\<lparr>user_Status := st\<rparr>) | _ \<Rightarrow> x)
      | OGroup y \<Rightarrow> (case c of SStatus st \<Rightarrow> OGroup (y\<lparr>group_Status := st\<rparr>) | _ \<Rightarrow> x)
      | ORole y \<Rightarrow> (case c of SStatus st \<Rightarrow> ORole (y\<lparr>role_Status := st\<rparr>) | _ \<Rightarrow> x)
      | ORoleBinding y \<Rightarrow> (case c of SStatus st \<Rightarrow> ORoleBinding (y\<lparr>binding_Status := st\<rparr>) | _ \<Rightarrow> x)
      | OGCPolicy y \<Rightarrow> (case c of SStatus st \<Rightarrow> OGCPolicy (y\<lparr>gcp_Status := st\<rparr>) | _ \<Rightarrow> x)
      | OCredential y \<Rightarrow> (case c of SCredential st \<Rightarrow> OCredential (y\<lparr>cred_Status := st\<rparr>) | _ \<Rightarrow> x)
      | ORepository y \<Rightarrow> (case c of SRepository st \<Rightarrow> ORepository (y\<lparr>repo_Status := st\<rparr>) | _ \<Rightarrow> x)
      | _ \<Rightarrow> x)"

definition with_status :: "obj \<Rightarrow> obj \<Rightarrow> obj" where
  "with_status st x = set_status (status_of st) x"

definition put_obj :: "obj \<Rightarrow> obj list \<Rightarrow> obj list" where
  "put_obj x xs = x # filter (\<lambda>y. okey_of y \<noteq> okey_of x) xs"

definition del_obj :: "okey \<Rightarrow> obj list \<Rightarrow> obj list" where
  "del_obj k xs = filter (\<lambda>y. okey_of y \<noteq> k) xs"

definition ref_Get :: "kind \<Rightarrow> NamespacedName \<Rightarrow> ('z w, (apierror, obj) result) state" where
  "ref_Get k key = State (\<lambda>s.
     (case ref_view s (k, key) of None \<Rightarrow> Inl NotFound | Some x \<Rightarrow> Inr x, s))"

definition ref_List :: "kind \<Rightarrow> ListOptions \<Rightarrow> ('z w, (apierror, obj list) result) state" where
  "ref_List k lo = State (\<lambda>s. (Inr (filter (\<lambda>x. kind_of x = k \<and> selects lo x) (dedup (w_objs s))), s))"

definition ref_Create :: "obj \<Rightarrow> ('z w, (apierror, obj) result) state" where
  "ref_Create x = State (\<lambda>s.
     case ref_view s (okey_of x) of
       Some _ \<Rightarrow> (Inl AlreadyExists, s)
     | None \<Rightarrow> (Inr (stamp x), s\<lparr>w_objs := w_objs s @ [stamp x]\<rparr>))"

definition ref_Update :: "obj \<Rightarrow> ('z w, (apierror, obj) result) state" where
  "ref_Update x = State (\<lambda>s.
     case ref_view s (okey_of x) of
       None \<Rightarrow> (Inl NotFound, s)
     | Some old \<Rightarrow>
         (Inr (with_status old x),
          if DeletionTimestamp (meta old) \<noteq> None \<and> Finalizers (meta x) = [] \<and> Finalizers (meta old) \<noteq> []
          then s\<lparr>w_objs := del_obj (okey_of x) (w_objs s)\<rparr>
          else s\<lparr>w_objs := put_obj (with_status old x) (w_objs s)\<rparr>))"

definition ref_StatusUpdate :: "obj \<Rightarrow> ('z w, (apierror, obj) result) state" where
  "ref_StatusUpdate x = State (\<lambda>s.
     case ref_view s (okey_of x) of
       None \<Rightarrow> (Inl NotFound, s)
     | Some old \<Rightarrow>
         (Inr (with_status x old), s\<lparr>w_objs := put_obj (with_status x old) (w_objs s)\<rparr>))"

definition ref_Delete :: "obj \<Rightarrow> ('z w, (apierror, unit) result) state" where
  "ref_Delete x = State (\<lambda>s.
     case ref_view s (okey_of x) of
       None \<Rightarrow> (Inl NotFound, s)
     | Some old \<Rightarrow>
         (Inr (),
          if Finalizers (meta old) = [] then s\<lparr>w_objs := del_obj (okey_of x) (w_objs s)\<rparr>
          else s\<lparr>w_objs := put_obj (mark old) (w_objs s)\<rparr>))"

definition ref_client :: "'z w Client" where
  "ref_client = \<lparr>cl_Get = ref_Get, cl_List = ref_List, cl_Create = ref_Create, cl_Update = ref_Update,
     cl_StatusUpdate = ref_StatusUpdate, cl_Delete = ref_Delete\<rparr>"

lemmas ref_defs = ref_client_def ref_Get_def ref_List_def ref_Create_def ref_Update_def
  ref_StatusUpdate_def ref_Delete_def

subsection \<open>The laws hold\<close>

lemma okey_of_stamp [simp]: "okey_of (stamp x) = okey_of x"
  by (cases x) (simp_all add: stampM_def)

lemma okey_of_mark [simp]: "okey_of (mark x) = okey_of x"
  by (cases x) (simp_all add: markM_def)

lemma okey_of_with_status [simp]: "okey_of (with_status st x) = okey_of x"
  by (cases x) (simp_all add: with_status_def set_status_def split: statusContent.split)

lemma stored_as_stamp: "stored_as x (stamp x)"
  by (cases x) (simp_all add: stored_as_def stampM_def ObjectMeta.truncate_def)

lemma stored_as_mark: "stored_as x (mark x)"
  by (cases x) (simp_all add: stored_as_def markM_def ObjectMeta.truncate_def)

lemma stored_as_with_status: "stored_as x (with_status st x)"
  by (cases x) (simp_all add: stored_as_def with_status_def set_status_def ObjectMeta.truncate_def
      split: statusContent.split)

lemma status_of_mark [simp]: "status_of (mark x) = status_of x"
  by (cases x) (simp_all add: markM_def)

lemma DeletionTimestamp_stamp [simp]: "DeletionTimestamp (meta (stamp x)) = None"
  by (cases x) (simp_all add: stampM_def ObjectMeta.truncate_def)

lemma DeletionTimestamp_mark [simp]: "DeletionTimestamp (meta (mark x)) = Some 0"
  by (cases x) (simp_all add: markM_def ObjectMeta.truncate_def)

lemma DeletionTimestamp_with_status [simp]:
  "DeletionTimestamp (meta (with_status st x)) = DeletionTimestamp (meta x)"
  by (cases x) (simp_all add: with_status_def set_status_def ObjectMeta.truncate_def
      split: statusContent.split)

lemma meta_with_status [simp]: "meta (with_status st x) = meta x"
  by (cases x) (simp_all add: with_status_def set_status_def ObjectMeta.truncate_def
      split: statusContent.split)

lemma status_of_with_status:
  "kind_of st = kind_of x \<Longrightarrow> status_of (with_status st x) = status_of st"
  by (cases x) (cases st; simp add: with_status_def set_status_def)+

lemma find_okey_append:
  "find (\<lambda>x. okey_of x = k) (xs @ [y]) =
     (case find (\<lambda>x. okey_of x = k) xs of
        None \<Rightarrow> if okey_of y = k then Some y else None | Some x \<Rightarrow> Some x)"
  by (induction xs) auto

lemma find_del_obj:
  "find (\<lambda>x. okey_of x = k) (del_obj k' xs) = (if k = k' then None else find (\<lambda>x. okey_of x = k) xs)"
  by (induction xs) (auto simp: del_obj_def)

lemma find_put_obj:
  "find (\<lambda>x. okey_of x = k) (put_obj y xs) =
     (if k = okey_of y then Some y else find (\<lambda>x. okey_of x = k) xs)"
  using find_del_obj [of k "okey_of y" xs] by (auto simp: put_obj_def del_obj_def)

lemma ref_view_update [simp]:
  "ref_view (s\<lparr>w_objs := put_obj y (w_objs s)\<rparr>) = (ref_view s)(okey_of y \<mapsto> y)"
  "ref_view (s\<lparr>w_objs := del_obj k (w_objs s)\<rparr>) = (ref_view s)(k := None)"
  by (auto simp: ref_view_def fun_eq_iff find_put_obj find_del_obj)

lemma ref_view_create:
  "ref_view s (okey_of y) = None \<Longrightarrow>
   ref_view (s\<lparr>w_objs := w_objs s @ [y]\<rparr>) = (ref_view s)(okey_of y \<mapsto> y)"
  by (auto simp: ref_view_def fun_eq_iff find_okey_append split: option.splits)

lemma ref_view_okey: "ref_view s k = Some x \<Longrightarrow> okey_of x = k"
  by (auto simp: ref_view_def dest: find_Some_conv)

lemma set_dedup: "x \<in> set (dedup xs) \<longleftrightarrow> find (\<lambda>y. okey_of y = okey_of x) xs = Some x"
  by (induction xs) auto

lemma mem_dedup_view: "x \<in> set (dedup (w_objs s)) \<longleftrightarrow> ref_view s (okey_of x) = Some x"
  by (simp add: set_dedup ref_view_def)

lemma distinct_dedup: "distinct (map okey_of (dedup xs))"
  by (induction xs) (auto simp: distinct_map inj_on_def)

interpretation ref: reliable_api ref_client ref_view
proof
  fix s :: "'z w" and ok x
  show "ref_view s ok = Some x \<Longrightarrow> okey_of x = ok" by (rule ref_view_okey)
next
  fix s :: "'z w" and k key
  show "wp (cl_Get ref_client k key) (\<lambda>r t. ref_view t = ref_view s \<and> get_result (ref_view s (k, key)) r) s"
    by (simp add: wp_def ref_defs get_result_def split: option.splits)
  show "wp (cl_Get ref_client k key) (\<lambda>r _. \<forall>m. r \<noteq> Inl (OtherError m)) s"
    by (simp add: wp_def ref_defs split: option.splits)
next
  fix s :: "'z w" and k lo
  show "wp (cl_List ref_client k lo) (\<lambda>r t. ref_view t = ref_view s \<and> list_result (ref_view s) k lo r) s"
    using distinct_dedup [of "w_objs s"]
    by (auto simp: wp_def ref_defs list_result_def mem_dedup_view distinct_map_filter)
  show "wp (cl_List ref_client k lo) (\<lambda>r _. \<exists>xs. r = Inr xs) s"
    by (simp add: wp_def ref_defs)
next
  fix s :: "'z w" and x
  show "wp (cl_Create ref_client x) (\<lambda>r t. create_effect x (ref_view s) r (ref_view t)) s"
    using ref_view_create [of s "stamp x"]
    by (auto simp: wp_def ref_defs create_effect_def stored_as_stamp split: option.splits)
  have kind: "kind_of old = kind_of x" if "ref_view s (okey_of x) = Some old" for old
    using ref_view_okey [OF that] by (simp add: okey_of_def)
  show "wp (cl_Update ref_client x) (\<lambda>r t. update_effect x (ref_view s) r (ref_view t)) s"
    using status_of_with_status [OF kind]
    by (cases "ref_view s (okey_of x)")
      (auto simp: wp_def ref_defs update_effect_def stored_as_with_status)
  show "wp (cl_StatusUpdate ref_client x) (\<lambda>r t. status_effect x (ref_view s) r (ref_view t)) s"
    using status_of_with_status [OF kind [symmetric]] ref_view_okey [of s "okey_of x"]
    by (cases "ref_view s (okey_of x)")
      (simp_all add: wp_def ref_defs status_effect_def stored_as_with_status)
  show "wp (cl_Delete ref_client x) (\<lambda>r t. delete_effect x (ref_view s) r (ref_view t)) s"
  proof (cases "ref_view s (okey_of x)")
    case None
    then show ?thesis by (simp add: wp_def ref_defs delete_effect_def)
  next
    case (Some old)
    have "okey_of old = okey_of x" by (rule ref_view_okey [OF Some])
    with Some show ?thesis
      by (auto simp: wp_def ref_defs delete_effect_def stored_as_mark
          intro!: exI [where x = "mark old"])
  qed
  show "wp (cl_Update ref_client x) (\<lambda>r _. r = Inl NotFound \<or> (\<exists>y. r = Inr y)) s"
    by (simp add: wp_def ref_defs split: option.splits)
  show "wp (cl_StatusUpdate ref_client x) (\<lambda>r _. r = Inl NotFound \<or> (\<exists>y. r = Inr y)) s"
    by (simp add: wp_def ref_defs split: option.splits)
  show "wp (cl_Delete ref_client x) (\<lambda>r _. r = Inl NotFound \<or> r = Inr ()) s"
    by (simp add: wp_def ref_defs split: option.splits)
qed

end
