(* ===== verification/Resolve.thy ===== *)
theory Resolve
  imports Secrets RefStore
begin

section \<open>Lookups and grants (internal/authserver/server.go, lines 1015-1272)\<close>

text \<open>
  How the auth server finds users, groups, credentials and policies among the stored resources,
  and how it writes and removes role bindings and memberships. Every function takes the server,
  whose client is arbitrary; the lemmas about their effects are proved in the locale \<open>auth_api\<close>,
  where that client obeys the laws of the Kubernetes API.
\<close>

subsection \<open>Definitions\<close>

definition resolveCredential :: "'s Server \<Rightarrow> string \<Rightarrow> ('s, LakeFSCredential option) state" where
  "resolveCredential srv accessKeyID = do {
     credentials \<leftarrow> ListOf (client srv) CredentialT
       \<lparr>InNamespace = None, MatchingFields = Some (CredentialAccessKeyIDField, accessKeyID)\<rparr>;
     return (case credentials of Inl _ \<Rightarrow> None | Inr [] \<Rightarrow> None | Inr (c # _) \<Rightarrow> Some c) }"

definition resolveUser :: "'s Server \<Rightarrow> string \<Rightarrow> ('s, LakeFSUser option) state" where
  "resolveUser srv userID = do {
     users \<leftarrow> ListOf (client srv) UserT
       \<lparr>InNamespace = None, MatchingFields = Some (UserExternalIDField, userID)\<rparr>;
     (case (case users of Inl _ \<Rightarrow> None | Inr us \<Rightarrow> find (\<lambda>u. userUsername u = userID) us) of
        Some u \<Rightarrow> return (Some u)
      | None \<Rightarrow> do {
          direct \<leftarrow> (if ContainsByte userID CHR '':'' then do {
                       got \<leftarrow> Get (client srv) UserT
                         (SplitN2 userID CHR '':'' ! 0, SplitN2 userID CHR '':'' ! 1);
                       return (case got of Inl _ \<Rightarrow> None | Inr u \<Rightarrow> Some u) }
                     else return None);
          (case direct of
             Some u \<Rightarrow> return (Some u)
           | None \<Rightarrow> do {
               users \<leftarrow> ListOf (client srv) UserT Everything;
               return (case users of
                   Inl _ \<Rightarrow> None
                 | Inr us \<Rightarrow> find (\<lambda>u. userUsername u = userID \<or> Name u = userID) us) }) }) }"

definition resolveGroup :: "'s Server \<Rightarrow> string \<Rightarrow> ('s, LakeFSGroup option) state" where
  "resolveGroup srv groupID = do {
     groups \<leftarrow> ListOf (client srv) GroupT
       \<lparr>InNamespace = None, MatchingFields = Some (GroupExternalIDField, groupID)\<rparr>;
     (case (case groups of Inl _ \<Rightarrow> None | Inr gs \<Rightarrow> find (\<lambda>g. groupName g = groupID) gs) of
        Some g \<Rightarrow> return (Some g)
      | None \<Rightarrow> do {
          direct \<leftarrow> (if ContainsByte groupID CHR '':'' then do {
                       got \<leftarrow> Get (client srv) GroupT
                         (SplitN2 groupID CHR '':'' ! 0, SplitN2 groupID CHR '':'' ! 1);
                       return (case got of Inl _ \<Rightarrow> None | Inr g \<Rightarrow> Some g) }
                     else return None);
          (case direct of
             Some g \<Rightarrow> return (Some g)
           | None \<Rightarrow> do {
               groups \<leftarrow> ListOf (client srv) GroupT Everything;
               return (case groups of
                   Inl _ \<Rightarrow> None
                 | Inr gs \<Rightarrow>
                     find (\<lambda>g. groupName g = groupID \<or> Name g = groupID
                               \<or> Name g = objectName (''group-'' @ groupID)) gs) }) }) }"

definition ensureGroup ::
  "'s Server \<Rightarrow> string \<Rightarrow> string \<Rightarrow> ('s, (apierror, LakeFSGroup) result) state" where
  "ensureGroup srv groupID description = do {
     found \<leftarrow> resolveGroup srv groupID;
     (case found of
        Some g \<Rightarrow> return (Inr g)
      | None \<Rightarrow> do {
          let group = ObjectMeta.extend
            (new_meta (objectName (''group-'' @ groupID)) (defaultUserNamespace srv))
            \<lparr>group_Spec = \<lparr>gs_ExternalID = groupID, gs_Users = [],
                           gs_Description = firstNonEmpty [description, groupID]\<rparr>,
             group_Status = new_status\<rparr>;
          created \<leftarrow> Create (client srv) GroupT group;
          (case created of
             Inr g \<Rightarrow> return (Inr g)
           | Inl e \<Rightarrow>
               if \<not> IsAlreadyExists e then return (Inl e)
               else Get (client srv) GroupT (Namespace group, Name group)) }) }"

definition resolveRoleForPolicy :: "'s Server \<Rightarrow> string \<Rightarrow> string \<Rightarrow> ('s, LakeFSRole option) state" where
  "resolveRoleForPolicy srv policyID repository = do {
     roles \<leftarrow> ListOf (client srv) RoleT Everything;
     return (case roles of
         Inl _ \<Rightarrow> None
       | Inr rs \<Rightarrow> find (\<lambda>role. list_ex (\<lambda>item. p_Name item = policyID) (policiesFromRole role repository)) rs) }"

definition resolvePolicy :: "'s Server \<Rightarrow> string \<Rightarrow> ('s, policy option) state" where
  "resolvePolicy srv policyID = do {
     role \<leftarrow> resolveRoleForPolicy srv policyID ''*'';
     return (case role of
         None \<Rightarrow> None
       | Some role \<Rightarrow> find (\<lambda>item. p_Name item = policyID) (policiesFromRole role ''*'')) }"

definition groupsForUser :: "'s Server \<Rightarrow> LakeFSUser \<Rightarrow> ('s, (apierror, LakeFSGroup list) result) state" where
  "groupsForUser srv u = do {
     groups \<leftarrow> ListOf (client srv) GroupT \<lparr>InNamespace = Some (Namespace u), MatchingFields = None\<rparr>;
     return (case groups of
         Inl e \<Rightarrow> Inl e
       | Inr gs \<Rightarrow> Inr (filter (\<lambda>g. list_ex (\<lambda>member. ur_Name member = Name u) (gs_Users (group_Spec g))) gs)) }"

definition effectivePoliciesForSubject ::
  "'s Server \<Rightarrow> string \<Rightarrow> LakeFSRoleBindingSubjectKind \<Rightarrow> string \<Rightarrow> ('s, (apierror, policy list) result) state"
where
  "effectivePoliciesForSubject srv namespace kind name = do {
     bindings \<leftarrow> ListOf (client srv) RoleBindingT \<lparr>InNamespace = Some namespace, MatchingFields = None\<rparr>;
     (case bindings of
        Inl e \<Rightarrow> return (Inl e)
      | Inr bs \<Rightarrow> collect bs (\<lambda>binding.
          if sb_Kind (bs_Subject (binding_Spec binding)) \<noteq> kind
             \<or> sb_Name (bs_Subject (binding_Spec binding)) \<noteq> name
          then return (Inr [])
          else do {
            role \<leftarrow> Get (client srv) RoleT (namespace, rr_Name (bs_RoleRef (binding_Spec binding)));
            return (case role of
                Inl e \<Rightarrow> if IsNotFound e then Inr [] else Inl e
              | Inr r \<Rightarrow> Inr (policiesFromRole r (bs_Repository (binding_Spec binding)))) })) }"

definition effectivePoliciesForUser ::
  "'s Server \<Rightarrow> LakeFSUser \<Rightarrow> ('s, (apierror, policy list) result) state" where
  "effectivePoliciesForUser srv u = do {
     own \<leftarrow> effectivePoliciesForSubject srv (Namespace u) LakeFSRoleBindingSubjectKindUser (Name u);
     (case own of
        Inl e \<Rightarrow> return (Inl e)
      | Inr results \<Rightarrow> do {
          groups \<leftarrow> groupsForUser srv u;
          (case groups of
             Inl e \<Rightarrow> return (Inl e)
           | Inr gs \<Rightarrow> do {
               more \<leftarrow> collect gs (\<lambda>g.
                 effectivePoliciesForSubject srv (Namespace u) LakeFSRoleBindingSubjectKindGroup (Name g));
               return (case more of Inl e \<Rightarrow> Inl e | Inr ps \<Rightarrow> Inr (results @ ps)) }) }) }"

text \<open>Object literals: the source's composite literals of each kind.\<close>

definition new_user :: "string \<Rightarrow> string \<Rightarrow> LakeFSUserSpec \<Rightarrow> LakeFSUser" where
  "new_user name namespace spec =
     ObjectMeta.extend (new_meta name namespace) \<lparr>user_Spec = spec, user_Status = new_status\<rparr>"

definition new_credential :: "string \<Rightarrow> string \<Rightarrow> LakeFSCredentialSpec \<Rightarrow> LakeFSCredential" where
  "new_credential name namespace spec =
     ObjectMeta.extend (new_meta name namespace)
       \<lparr>cred_Spec = spec,
        cred_Status = Status.extend new_status \<lparr>cst_SecretName = '''', cst_SecretKey = ''''\<rparr>\<rparr>"

definition new_binding ::
  "string \<Rightarrow> string \<Rightarrow> LakeFSRoleBindingSpec \<Rightarrow> LakeFSRoleBinding" where
  "new_binding name namespace spec =
     ObjectMeta.extend (new_meta name namespace) \<lparr>binding_Spec = spec, binding_Status = new_status\<rparr>"

definition ensureRoleBinding ::
  "'s Server \<Rightarrow> string \<Rightarrow> LakeFSRoleBindingSubjectKind \<Rightarrow> string \<Rightarrow> string \<Rightarrow> string \<Rightarrow>
   ('s, apierror option) state" where
  "ensureRoleBinding srv namespace kind subjectName roleName repository = do {
     let name = roleBindingName kind subjectName roleName repository;
     let binding = new_binding name namespace
       \<lparr>bs_Subject = \<lparr>sb_Kind = kind, sb_Name = subjectName\<rparr>, bs_RoleRef = \<lparr>rr_Name = roleName\<rparr>,
        bs_Repository = repository\<rparr>;
     created \<leftarrow> Create (client srv) RoleBindingT binding;
     (case created of
        Inr _ \<Rightarrow> return None
      | Inl e \<Rightarrow>
          if \<not> IsAlreadyExists e then return (Some e)
          else do {
            existing \<leftarrow> Get (client srv) RoleBindingT (namespace, name);
            (case existing of
               Inl getErr \<Rightarrow> return (Some getErr)
             | Inr ex \<Rightarrow> do {
                 updated \<leftarrow> Update (client srv) RoleBindingT (ex\<lparr>binding_Spec := binding_Spec binding\<rparr>);
                 return (case updated of Inl e \<Rightarrow> Some e | Inr _ \<Rightarrow> None) }) }) }"

definition deleteRoleBinding ::
  "'s Server \<Rightarrow> string \<Rightarrow> LakeFSRoleBindingSubjectKind \<Rightarrow> string \<Rightarrow> string \<Rightarrow> string \<Rightarrow> ('s, unit) state" where
  "deleteRoleBinding srv namespace kind subjectName roleName repository = do {
     let binding = new_binding (roleBindingName kind subjectName roleName repository) namespace
       \<lparr>bs_Subject = \<lparr>sb_Kind = '''', sb_Name = ''''\<rparr>, bs_RoleRef = \<lparr>rr_Name = ''''\<rparr>, bs_Repository = ''''\<rparr>;
     _ \<leftarrow> Delete (client srv) RoleBindingT binding;
     return () }"

definition deleteRoleBindingsForSubject ::
  "'s Server \<Rightarrow> string \<Rightarrow> LakeFSRoleBindingSubjectKind \<Rightarrow> string \<Rightarrow> ('s, unit) state" where
  "deleteRoleBindingsForSubject srv namespace kind subjectName = do {
     bindings \<leftarrow> ListOf (client srv) RoleBindingT \<lparr>InNamespace = Some namespace, MatchingFields = None\<rparr>;
     (case bindings of
        Inl _ \<Rightarrow> return ()
      | Inr bs \<Rightarrow> forEach bs (\<lambda>b.
          if sb_Kind (bs_Subject (binding_Spec b)) = kind \<and> sb_Name (bs_Subject (binding_Spec b)) = subjectName
          then do { _ \<leftarrow> Delete (client srv) RoleBindingT b; return () }
          else return ())) }"

definition deleteRoleBindingsForRole :: "'s Server \<Rightarrow> string \<Rightarrow> string \<Rightarrow> ('s, unit) state" where
  "deleteRoleBindingsForRole srv namespace roleName = do {
     bindings \<leftarrow> ListOf (client srv) RoleBindingT \<lparr>InNamespace = Some namespace, MatchingFields = None\<rparr>;
     (case bindings of
        Inl _ \<Rightarrow> return ()
      | Inr bs \<Rightarrow> forEach bs (\<lambda>b.
          if rr_Name (bs_RoleRef (binding_Spec b)) = roleName
          then do { _ \<leftarrow> Delete (client srv) RoleBindingT b; return () }
          else return ())) }"

text \<open>The loop that keeps the members other than the named user.\<close>

definition without_member :: "string \<Rightarrow> LakeFSGroup \<Rightarrow> LakeFSGroup" where
  "without_member name g =
     g\<lparr>group_Spec := (group_Spec g)
         \<lparr>gs_Users := filter (\<lambda>member. ur_Name member \<noteq> name) (gs_Users (group_Spec g))\<rparr>\<rparr>"

definition removeUserFromGroups :: "'s Server \<Rightarrow> LakeFSUser \<Rightarrow> ('s, unit) state" where
  "removeUserFromGroups srv u = do {
     groups \<leftarrow> groupsForUser srv u;
     (case groups of
        Inl _ \<Rightarrow> return ()
      | Inr gs \<Rightarrow> forEach gs (\<lambda>g. do {
          _ \<leftarrow> Update (client srv) GroupT (without_member (Name u) g);
          return () })) }"

definition deleteCredentialsForUser :: "'s Server \<Rightarrow> LakeFSUser \<Rightarrow> ('s, unit) state" where
  "deleteCredentialsForUser srv u = do {
     credentials \<leftarrow> ListOf (client srv) CredentialT
       \<lparr>InNamespace = Some (Namespace u), MatchingFields = Some (CredentialUserField, Name u)\<rparr>;
     (case credentials of
        Inl _ \<Rightarrow> return ()
      | Inr cs \<Rightarrow> forEach cs (\<lambda>c. do { _ \<leftarrow> Delete (client srv) CredentialT c; return () })) }"

subsection \<open>Reading only\<close>

text \<open>Whatever the reads return, a lookup changes nothing.\<close>

locale auth_reads = api_reads "client srv" f
  for srv :: "'s Server" and f :: "'s \<Rightarrow> 'v"
begin

lemma keeps_lookups [keeps_intros]:
  "keeps f (resolveCredential srv k)" "keeps f (resolveUser srv k)" "keeps f (resolveGroup srv k)"
  "keeps f (resolveRoleForPolicy srv k repo)" "keeps f (resolvePolicy srv k)"
  "keeps f (groupsForUser srv u)" "keeps f (effectivePoliciesForSubject srv ns kind n)"
  "keeps f (effectivePoliciesForUser srv u)"
  unfolding resolveCredential_def resolveUser_def resolveGroup_def resolveRoleForPolicy_def
    resolvePolicy_def groupsForUser_def effectivePoliciesForSubject_def effectivePoliciesForUser_def
  by (intro keeps_intros keeps_Get keeps_ListOf)+

end

subsection \<open>Lookups\<close>

text \<open>
  The contract of a lookup: it changes nothing, and what it returns is stored and answers to the
  identifier. A total lookup finds something whenever there is something that answers.
\<close>

locale lookup =
  fixes resolve :: "'k \<Rightarrow> ('s, 'o option) state"
    and mk :: "'o \<Rightarrow> obj" and view :: "'s \<Rightarrow> okey \<rightharpoonup> obj" and answers :: "'k \<Rightarrow> 'o \<Rightarrow> bool"
  assumes resolve_law: "wp (resolve k)
    (\<lambda>r t. view t = view s \<and> (\<forall>x. r = Some x \<longrightarrow> stored (view s) (mk x) \<and> answers k x)) s"
begin

lemma wp_resolve:
  assumes "\<And>t. view t = view s \<Longrightarrow> Q None t"
    and "\<And>t x. view t = view s \<Longrightarrow> stored (view s) (mk x) \<Longrightarrow> answers k x \<Longrightarrow> Q (Some x) t"
  shows "wp (resolve k) Q s"
  by (rule wp_mono [OF resolve_law]) (metis assms option.exhaust)

end

locale total_lookup = lookup +
  assumes resolve_total: "wp (resolve k)
    (\<lambda>r _. r = None \<longrightarrow> (\<forall>x. stored (view s) (mk x) \<longrightarrow> \<not> answers k x)) s"
begin

lemma wp_resolve_total:
  assumes "\<And>t. view t = view s \<Longrightarrow> (\<And>x. stored (view s) (mk x) \<Longrightarrow> \<not> answers k x) \<Longrightarrow> Q None t"
    and "\<And>t x. view t = view s \<Longrightarrow> stored (view s) (mk x) \<Longrightarrow> answers k x \<Longrightarrow> Q (Some x) t"
  shows "wp (resolve k) Q s"
  by (rule wp_mono [OF wp_conj [OF resolve_law resolve_total]]) (metis assms option.exhaust)

end

text \<open>Which objects answer to an identifier.\<close>

definition direct_key :: "string \<Rightarrow> 'z ObjectMeta_scheme \<Rightarrow> bool" where
  "direct_key k x \<longleftrightarrow> CHR '':'' \<in> set k \<and> Namespace x = SplitN2 k CHR '':'' ! 0
     \<and> Name x = SplitN2 k CHR '':'' ! 1"

definition user_answers :: "string \<Rightarrow> LakeFSUser \<Rightarrow> bool" where
  "user_answers k u \<longleftrightarrow> userUsername u = k \<or> Name u = k \<or> direct_key k u"

definition group_answers :: "string \<Rightarrow> LakeFSGroup \<Rightarrow> bool" where
  "group_answers k g \<longleftrightarrow>
     groupName g = k \<or> Name g = k \<or> Name g = objectName (''group-'' @ k) \<or> direct_key k g"

definition credential_answers :: "string \<Rightarrow> LakeFSCredential \<Rightarrow> bool" where
  "credential_answers k c \<longleftrightarrow> cs_AccessKeyID (cred_Spec c) = k \<and> k \<noteq> ''''"

definition role_answers :: "string \<times> string \<Rightarrow> LakeFSRole \<Rightarrow> bool" where
  "role_answers k r \<longleftrightarrow> list_ex (\<lambda>item. p_Name item = fst k) (policiesFromRole r (snd k))"

locale auth_api = kube_api "client srv" view
  for srv :: "'s Server" and view :: "'s \<Rightarrow> okey \<rightharpoonup> obj"

sublocale auth_api \<subseteq> auth_reads srv view ..

lemma find_NoneD: "find P xs = None \<Longrightarrow> x \<in> set xs \<Longrightarrow> \<not> P x"
  by (auto simp: find_None_iff)

text \<open>What a list holds is stored, for each kind.\<close>

lemmas listed_stored =
  listedD(1) [where T = UserT, simplified] listedD(1) [where T = GroupT, simplified]
  listedD(1) [where T = RoleT, simplified] listedD(1) [where T = RoleBindingT, simplified]
  listedD(1) [where T = CredentialT, simplified]

sublocale auth_api \<subseteq> credentials: lookup "resolveCredential srv" OCredential view credential_answers
proof unfold_locales
  show "wp (resolveCredential srv k) (\<lambda>r t. view t = view s \<and>
      (\<forall>x. r = Some x \<longrightarrow> stored (view s) (OCredential x) \<and> credential_answers k x)) s" for k s
    unfolding resolveCredential_def wp_bind wp_return
    by (rule wp_ListOf)
      (auto simp: selects_def credential_answers_def split: list.splits if_splits
        dest: listedD [OF _ list.set_intros(1)])
qed

sublocale auth_api \<subseteq> users: lookup "resolveUser srv" OUser view user_answers
proof unfold_locales
  show "wp (resolveUser srv k) (\<lambda>r t. view t = view s \<and>
      (\<forall>x. r = Some x \<longrightarrow> stored (view s) (OUser x) \<and> user_answers k x)) s" for k s
    unfolding resolveUser_def
    by (auto intro!: wp_ListOf wp_Get dest!: find_Some_conv split: option.splits
        simp: user_answers_def direct_key_def ContainsByte_def)
      (auto dest: listed_stored)
qed

sublocale auth_api \<subseteq> groups: lookup "resolveGroup srv" OGroup view group_answers
proof unfold_locales
  show "wp (resolveGroup srv k) (\<lambda>r t. view t = view s \<and>
      (\<forall>x. r = Some x \<longrightarrow> stored (view s) (OGroup x) \<and> group_answers k x)) s" for k s
    unfolding resolveGroup_def
    by (auto intro!: wp_ListOf wp_Get dest!: find_Some_conv split: option.splits
        simp: group_answers_def direct_key_def ContainsByte_def)
      (auto dest: listed_stored)
qed

sublocale auth_api \<subseteq>
  roles: lookup "\<lambda>k. resolveRoleForPolicy srv (fst k) (snd k)" ORole view role_answers
proof unfold_locales
  show "wp (resolveRoleForPolicy srv (fst k) (snd k)) (\<lambda>r t. view t = view s \<and>
      (\<forall>x. r = Some x \<longrightarrow> stored (view s) (ORole x) \<and> role_answers k x)) s" for k s
    unfolding resolveRoleForPolicy_def
    by (auto intro!: wp_ListOf dest!: find_Some_conv simp: role_answers_def dest: listed_stored)
qed

text \<open>A selection of a stored list that reads nothing else.\<close>

definition member_of :: "string \<Rightarrow> LakeFSGroup \<Rightarrow> bool" where
  "member_of name g \<longleftrightarrow> list_ex (\<lambda>member. ur_Name member = name) (gs_Users (group_Spec g))"

text \<open>
  What a subject is granted: the policies of the roles that its bindings name, each rendered for
  the binding's repository. Bindings and roles count only in the subject's namespace.
\<close>

definition grants ::
  "(okey \<rightharpoonup> obj) \<Rightarrow> string \<Rightarrow> LakeFSRoleBindingSubjectKind \<Rightarrow> string \<Rightarrow> policy set" where
  "grants v ns kind name =
     {p. \<exists>b r. stored v (ORoleBinding b) \<and> Namespace b = ns
        \<and> bs_Subject (binding_Spec b) = \<lparr>sb_Kind = kind, sb_Name = name\<rparr>
        \<and> v (KRole, ns, rr_Name (bs_RoleRef (binding_Spec b))) = Some (ORole r)
        \<and> p \<in> set (policiesFromRole r (bs_Repository (binding_Spec b)))}"

text \<open>What a user is granted: directly, and through the groups of its namespace it is a member of.\<close>

definition user_grants :: "(okey \<rightharpoonup> obj) \<Rightarrow> LakeFSUser \<Rightarrow> policy set" where
  "user_grants v u =
     grants v (Namespace u) LakeFSRoleBindingSubjectKindUser (Name u) \<union>
     (\<Union>g \<in> {g. stored v (OGroup g) \<and> Namespace g = Namespace u \<and> member_of (Name u) g}.
        grants v (Namespace u) LakeFSRoleBindingSubjectKindGroup (Name g))"

lemma subject_eq:
  "bs_Subject x = \<lparr>sb_Kind = kind, sb_Name = name\<rparr> \<longleftrightarrow>
     sb_Kind (bs_Subject x) = kind \<and> sb_Name (bs_Subject x) = name"
  by (metis LakeFSRoleBindingSubject.surjective LakeFSRoleBindingSubject.select_convs old.unit.exhaust)

context auth_api
begin

lemma wp_groupsForUser:
  assumes "\<And>t gs. view t = view s \<Longrightarrow> distinct (map (\<lambda>g. okey_of (OGroup g)) gs) \<Longrightarrow>
      set gs = {g. stored (view s) (OGroup g) \<and> Namespace g = Namespace u \<and> member_of (Name u) g} \<Longrightarrow>
      Q (Inr gs) t"
    and "\<And>t e. view t = view s \<Longrightarrow> Q (Inl e) t"
  shows "wp (groupsForUser srv u) Q s"
proof -
  have "Q (Inr (filter (\<lambda>g. list_ex (\<lambda>member. ur_Name member = Name u) (gs_Users (group_Spec g))) gs)) t"
    if t: "view t = view s"
      and l: "listed (view s) GroupT \<lparr>InNamespace = Some (Namespace u), MatchingFields = None\<rparr> gs" for t gs
  proof (rule assms(1) [OF t])
    show "distinct (map (\<lambda>g. okey_of (OGroup g))
        (filter (\<lambda>g. list_ex (\<lambda>member. ur_Name member = Name u) (gs_Users (group_Spec g))) gs))"
      using listed_distinct [OF l] by (auto intro: distinct_map_filter)
  qed (use l in \<open>auto simp: listed_def selects_def member_of_def\<close>)
  then show ?thesis
    unfolding groupsForUser_def by (auto intro!: wp_ListOf assms(2))
qed

lemma wp_effectivePoliciesForSubject:
  assumes "\<And>t ps. view t = view s \<Longrightarrow> set ps = grants (view s) ns kind name \<Longrightarrow> Q (Inr ps) t"
    and "\<And>t e. view t = view s \<Longrightarrow> Q (Inl e) t"
  shows "wp (effectivePoliciesForSubject srv ns kind name) Q s"
proof -
  let ?mine = "\<lambda>b. sb_Kind (bs_Subject (binding_Spec b)) = kind \<and> sb_Name (bs_Subject (binding_Spec b)) = name"
  define out where "out b =
    (if ?mine b then
       (case view s (KRole, ns, rr_Name (bs_RoleRef (binding_Spec b))) of
          Some (ORole r) \<Rightarrow> policiesFromRole r (bs_Repository (binding_Spec b)) | _ \<Rightarrow> [])
     else [])" for b :: LakeFSRoleBinding
  have "wp (collect bs (\<lambda>binding.
          if sb_Kind (bs_Subject (binding_Spec binding)) \<noteq> kind
             \<or> sb_Name (bs_Subject (binding_Spec binding)) \<noteq> name
          then return (Inr [])
          else do {
            role \<leftarrow> Get (client srv) RoleT (ns, rr_Name (bs_RoleRef (binding_Spec binding)));
            return (case role of
                Inl e \<Rightarrow> if IsNotFound e then Inr [] else Inl e
              | Inr r \<Rightarrow> Inr (policiesFromRole r (bs_Repository (binding_Spec binding)))) })) Q t"
    if t: "view t = view s"
      and l: "listed (view s) RoleBindingT \<lparr>InNamespace = Some ns, MatchingFields = None\<rparr> bs" for t bs
  proof (rule wp_mono [OF wp_collect [where Inv = "\<lambda>t. view t = view s" and F = "\<lambda>_. True" and out = out]])
    fix r :: "(apierror, policy list) result" and t
    assume r: "view t = view s \<and> (case r of Inl e \<Rightarrow> True | Inr ps \<Rightarrow> ps = concat (map out bs))"
    have "set (concat (map out bs)) = grants (view s) ns kind name"
      using l by (auto simp: grants_def out_def listed_def selects_def subject_eq
          split: option.splits obj.splits if_splits) (force split: obj.splits)+
    with r assms show "Q r t" by (auto split: sum.splits)
  qed (use t in \<open>auto intro!: wp_Get simp: out_def IsNotFound_def\<close>)
  then show ?thesis
    unfolding effectivePoliciesForSubject_def using assms(2) by (auto intro!: wp_ListOf)
qed

lemma wp_effectivePoliciesForUser:
  assumes "\<And>t ps. view t = view s \<Longrightarrow> set ps = user_grants (view s) u \<Longrightarrow> Q (Inr ps) t"
    and "\<And>t e. view t = view s \<Longrightarrow> Q (Inl e) t"
  shows "wp (effectivePoliciesForUser srv u) Q s"
proof -
  let ?own = "grants (view s) (Namespace u) LakeFSRoleBindingSubjectKindUser (Name u)"
  let ?of = "\<lambda>g. grants (view s) (Namespace u) LakeFSRoleBindingSubjectKindGroup (Name g)"
  let ?body = "\<lambda>g. effectivePoliciesForSubject srv (Namespace u) LakeFSRoleBindingSubjectKindGroup (Name g)"
  have "wp (collect gs ?body)
      (\<lambda>more. wp (return (case more of Inl e \<Rightarrow> Inl e | Inr qs \<Rightarrow> Inr (ps @ qs))) Q) t"
    if t: "view t = view s" and ps: "set ps = ?own"
      and gs: "set gs = {g. stored (view s) (OGroup g) \<and> Namespace g = Namespace u \<and> member_of (Name u) g}"
    for gs :: "LakeFSGroup list" and ps t
  proof (rule wp_mono [OF wp_collect_set [where Inv = "\<lambda>t. view t = view s" and F = "\<lambda>_. True" and out = ?of]])
    fix r :: "(apierror, policy list) result" and t
    assume r: "view t = view s \<and>
      (case r of Inl e \<Rightarrow> True | Inr qs \<Rightarrow> set qs = (\<Union>g \<in> set gs. ?of g))"
    then show "wp (return (case r of Inl e \<Rightarrow> Inl e | Inr qs \<Rightarrow> Inr (ps @ qs))) Q t"
      using assms by (auto simp: user_grants_def ps gs split: sum.splits)
  qed (use t in \<open>auto intro!: wp_effectivePoliciesForSubject\<close>)
  then show ?thesis
    unfolding effectivePoliciesForUser_def wp_bind
    by (auto intro!: wp_effectivePoliciesForSubject wp_groupsForUser assms(2))
qed

end

subsection \<open>Writing and removing grants\<close>

definition binding_key :: "string \<Rightarrow> LakeFSRoleBindingSubjectKind \<Rightarrow> string \<Rightarrow> string \<Rightarrow> string \<Rightarrow> okey" where
  "binding_key ns kind subjectName roleName repository =
     (KRoleBinding, ns, roleBindingName kind subjectName roleName repository)"

definition binding_spec :: "LakeFSRoleBindingSubjectKind \<Rightarrow> string \<Rightarrow> string \<Rightarrow> string \<Rightarrow> LakeFSRoleBindingSpec" where
  "binding_spec kind subjectName roleName repository =
     \<lparr>bs_Subject = \<lparr>sb_Kind = kind, sb_Name = subjectName\<rparr>, bs_RoleRef = \<lparr>rr_Name = roleName\<rparr>,
      bs_Repository = repository\<rparr>"

lemma new_meta_simps [simp]:
  "Name (ObjectMeta.extend (new_meta n ns) x) = n"
  "Namespace (ObjectMeta.extend (new_meta n ns) x) = ns"
  "CreationTimestamp (ObjectMeta.extend (new_meta n ns) x) = zeroTime"
  by (simp_all add: ObjectMeta.extend_def new_meta_def)

lemma new_binding_simps [simp]:
  "Name (new_binding n ns spec) = n" "Namespace (new_binding n ns spec) = ns"
  "binding_Spec (new_binding n ns spec) = spec"
  by (simp_all add: new_binding_def ObjectMeta.extend_def new_meta_def)

lemma new_user_simps [simp]:
  "Name (new_user n ns spec) = n" "Namespace (new_user n ns spec) = ns"
  "user_Spec (new_user n ns spec) = spec"
  by (simp_all add: new_user_def ObjectMeta.extend_def new_meta_def)

lemma new_credential_simps [simp]:
  "Name (new_credential n ns spec) = n" "Namespace (new_credential n ns spec) = ns"
  "cred_Spec (new_credential n ns spec) = spec"
  by (simp_all add: new_credential_def ObjectMeta.extend_def new_meta_def)

text \<open>The bindings of a subject, the bindings of a role, the credentials of a user.\<close>

definition subject_bindings ::
  "(okey \<rightharpoonup> obj) \<Rightarrow> string \<Rightarrow> LakeFSRoleBindingSubjectKind \<Rightarrow> string \<Rightarrow> LakeFSRoleBinding set" where
  "subject_bindings v ns kind sub =
     {b. stored v (ORoleBinding b) \<and> Namespace b = ns
          \<and> bs_Subject (binding_Spec b) = \<lparr>sb_Kind = kind, sb_Name = sub\<rparr>}"

definition role_bindings :: "(okey \<rightharpoonup> obj) \<Rightarrow> string \<Rightarrow> string \<Rightarrow> LakeFSRoleBinding set" where
  "role_bindings v ns role =
     {b. stored v (ORoleBinding b) \<and> Namespace b = ns \<and> rr_Name (bs_RoleRef (binding_Spec b)) = role}"

definition user_credentials :: "(okey \<rightharpoonup> obj) \<Rightarrow> LakeFSUser \<Rightarrow> LakeFSCredential set" where
  "user_credentials v u =
     {c. stored v (OCredential c) \<and> Namespace c = Namespace u \<and> ur_Name (cs_UserRef (cred_Spec c)) = Name u}"

lemma selects_fields [simp]:
  "selects \<lparr>InNamespace = None, MatchingFields = Some (CredentialAccessKeyIDField, k)\<rparr> (OCredential c) \<longleftrightarrow>
     cs_AccessKeyID (cred_Spec c) = k \<and> k \<noteq> ''''"
  "selects \<lparr>InNamespace = Some ns, MatchingFields = Some (CredentialUserField, n)\<rparr> (OCredential c) \<longleftrightarrow>
     Namespace c = ns \<and> ur_Name (cs_UserRef (cred_Spec c)) = n \<and> n \<noteq> ''''"
  "selects \<lparr>InNamespace = Some ns, MatchingFields = None\<rparr> x \<longleftrightarrow> Namespace (meta x) = ns"
  "selects Everything x"
  by (auto simp: selects_def)

lemma truncate_binding_Spec [simp]:
  "ObjectMeta.truncate (b\<lparr>binding_Spec := x\<rparr>) = ObjectMeta.truncate b"
  by (simp add: ObjectMeta.truncate_def)

text \<open>Members of a group, kept by both of its writers.\<close>

lemma without_member_simps [simp]:
  "Name (without_member n g) = Name g" "Namespace (without_member n g) = Namespace g"
  "Finalizers (without_member n g) = Finalizers g"
  "ObjectMeta.truncate (without_member n g) = ObjectMeta.truncate g"
  by (simp_all add: without_member_def ObjectMeta.truncate_def)

lemma member_of_without_member:
  "group_Spec h = group_Spec (without_member n g) \<Longrightarrow> member_of m h \<longleftrightarrow> member_of m g \<and> m \<noteq> n"
  by (auto simp: member_of_def without_member_def list_ex_iff)

context auth_api
begin

lemma wp_ensureRoleBinding:
  assumes "\<And>t b. okey_of (ORoleBinding b) = binding_key ns kind sub role repo \<Longrightarrow>
      binding_Spec b = binding_spec kind sub role repo \<Longrightarrow>
      view t = (view s)(binding_key ns kind sub role repo \<mapsto> ORoleBinding b) \<Longrightarrow> Q None t"
    and "\<And>t e. view t = view s \<Longrightarrow> Q (Some e) t"
  shows "wp (ensureRoleBinding srv ns kind sub role repo) Q s"
  unfolding ensureRoleBinding_def Let_def
  by (auto intro!: wp_Create wp_Get wp_Update assms
      simp: IsAlreadyExists_def binding_key_def binding_spec_def stored_as_def split: if_splits) auto

lemma wp_deleteRoleBinding:
  "wp (deleteRoleBinding srv ns kind sub role repo)
     (\<lambda>_ t. only_gone (view s) (view t) {binding_key ns kind sub role repo}) s"
  unfolding deleteRoleBinding_def Let_def wp_bind
  by (rule wp_mono [OF wp_Delete_gone]) (simp add: binding_key_def)

lemma wp_deleteRoleBindingsForSubject:
  "wp (deleteRoleBindingsForSubject srv ns kind sub)
     (\<lambda>_ t. only_gone (view s) (view t) (okey_of ` ORoleBinding ` subject_bindings (view s) ns kind sub)) s"
proof -
  have "wp (forEach bs (\<lambda>b.
          if sb_Kind (bs_Subject (binding_Spec b)) = kind \<and> sb_Name (bs_Subject (binding_Spec b)) = sub
          then do { _ \<leftarrow> Delete (client srv) RoleBindingT b; return () }
          else return ())) (\<lambda>_ t. only_gone (view s) (view t) (okey_of ` ORoleBinding ` subject_bindings (view s) ns kind sub)) t"
    if t: "view t = view s"
      and l: "listed (view s) RoleBindingT \<lparr>InNamespace = Some ns, MatchingFields = None\<rparr> bs" for t bs
    by (rule wp_mono [OF wp_delete_each [where K = "okey_of ` ORoleBinding ` subject_bindings (view s) ns kind sub"]])
      (use l in \<open>auto simp: t listed_def subject_eq subject_bindings_def image_image\<close>)
  then show ?thesis
    unfolding deleteRoleBindingsForSubject_def by (auto intro!: wp_ListOf)
qed

lemma wp_deleteRoleBindingsForRole:
  "wp (deleteRoleBindingsForRole srv ns role)
     (\<lambda>_ t. only_gone (view s) (view t) (okey_of ` ORoleBinding ` role_bindings (view s) ns role)) s"
proof -
  have "wp (forEach bs (\<lambda>b. if rr_Name (bs_RoleRef (binding_Spec b)) = role
          then do { _ \<leftarrow> Delete (client srv) RoleBindingT b; return () }
          else return ())) (\<lambda>_ t. only_gone (view s) (view t) (okey_of ` ORoleBinding ` role_bindings (view s) ns role)) t"
    if t: "view t = view s"
      and l: "listed (view s) RoleBindingT \<lparr>InNamespace = Some ns, MatchingFields = None\<rparr> bs" for t bs
    by (rule wp_mono [OF wp_delete_each [where K = "okey_of ` ORoleBinding ` role_bindings (view s) ns role"]])
      (use l in \<open>auto simp: t listed_def role_bindings_def image_image\<close>)
  then show ?thesis
    unfolding deleteRoleBindingsForRole_def by (auto intro!: wp_ListOf)
qed

lemma delete_all_conv:
  "forEach xs (\<lambda>x. do { _ \<leftarrow> Delete (client srv) T x; return () }) =
   forEach xs (\<lambda>x. if True then do { _ \<leftarrow> Delete (client srv) T x; return () } else return ())"
  by simp

lemma wp_deleteCredentialsForUser:
  "wp (deleteCredentialsForUser srv u)
     (\<lambda>_ t. only_gone (view s) (view t) (okey_of ` OCredential ` user_credentials (view s) u)) s"
proof -
  have "wp (forEach cs (\<lambda>c. do { _ \<leftarrow> Delete (client srv) CredentialT c; return () }))
      (\<lambda>_ t. only_gone (view s) (view t) (okey_of ` OCredential ` user_credentials (view s) u)) t"
    if t: "view t = view s"
      and l: "listed (view s) CredentialT
        \<lparr>InNamespace = Some (Namespace u), MatchingFields = Some (CredentialUserField, Name u)\<rparr> cs" for t cs
    unfolding delete_all_conv
    by (rule wp_mono [OF wp_delete_each [where K = "okey_of ` OCredential ` user_credentials (view s) u"]])
      (use l in \<open>auto simp: t listed_def user_credentials_def image_image\<close>)
  then show ?thesis
    unfolding deleteCredentialsForUser_def by (auto intro!: wp_ListOf)
qed

end

subsection \<open>Attaching a policy\<close>

text \<open>
  What attaching a policy to a subject does: a role that has the policy is bound to the subject, in
  the subject's namespace; nothing else changes.
\<close>

definition attached ::
  "(okey \<rightharpoonup> obj) \<Rightarrow> (okey \<rightharpoonup> obj) \<Rightarrow> string \<Rightarrow> LakeFSRoleBindingSubjectKind \<Rightarrow> string \<Rightarrow> string \<Rightarrow> string \<Rightarrow> bool" where
  "attached v v' ns kind sub p repo \<longleftrightarrow>
     (\<exists>role b. stored v (ORole role) \<and> role_answers (p, repo) role \<and>
        binding_Spec b = binding_spec kind sub (Name role) repo \<and>
        okey_of (ORoleBinding b) = binding_key ns kind sub (Name role) repo \<and>
        v' = v(binding_key ns kind sub (Name role) repo \<mapsto> ORoleBinding b))"

text \<open>If the role is in the subject's namespace, the subject is now granted the policy.\<close>

lemma attached_granted:
  assumes "attached v v' ns kind sub p repo"
    and roles: "\<And>role. stored v (ORole role) \<Longrightarrow> role_answers (p, repo) role \<Longrightarrow> Namespace role = ns"
  shows "\<exists>q \<in> grants v' ns kind sub. p_Name q = p"
proof -
  from assms(1) obtain role b where r: "stored v (ORole role)" "role_answers (p, repo) role"
    and b: "binding_Spec b = binding_spec kind sub (Name role) repo"
      "okey_of (ORoleBinding b) = binding_key ns kind sub (Name role) repo"
    and v': "v' = v(binding_key ns kind sub (Name role) repo \<mapsto> ORoleBinding b)"
    unfolding attached_def by blast
  from r(2) obtain q where q: "q \<in> set (policiesFromRole role repo)" "p_Name q = p"
    by (auto simp: role_answers_def list_ex_iff)
  have "Namespace role = ns" by (rule roles [OF r])
  with r(1) b v' q have "q \<in> grants v' ns kind sub"
    by (auto simp: grants_def binding_spec_def binding_key_def intro!: exI [where x = b])
  with q show ?thesis by blast
qed

context auth_api
begin

lemma wp_attach:
  assumes "\<And>t. view t = view s \<Longrightarrow> Q miss t" and "\<And>t. view t = view s \<Longrightarrow> Q bad t"
    and "\<And>t. attached (view s) (view t) ns kind sub p repo \<Longrightarrow> Q good t"
  shows "wp (resolveRoleForPolicy srv p repo)
     (\<lambda>role. wp (case role of
          None \<Rightarrow> return miss
        | Some role \<Rightarrow> do {
            err \<leftarrow> ensureRoleBinding srv ns kind sub (Name role) repo;
            (case err of Some _ \<Rightarrow> return bad | None \<Rightarrow> return good) }) Q) s"
proof (rule roles.wp_resolve [where k = "(p, repo)", simplified fst_conv snd_conv])
  fix t role
  assume t: "view t = view s" and r: "stored (view s) (ORole role)" "role_answers (p, repo) role"
  have "attached (view s) (view t') ns kind sub p repo"
    if "okey_of (ORoleBinding b) = binding_key ns kind sub (Name role) repo"
      "binding_Spec b = binding_spec kind sub (Name role) repo"
      "view t' = (view t)(binding_key ns kind sub (Name role) repo \<mapsto> ORoleBinding b)" for t' b
    using that r unfolding attached_def t by blast
  with t assms show "wp (case Some role of
          None \<Rightarrow> return miss
        | Some role \<Rightarrow> do {
            err \<leftarrow> ensureRoleBinding srv ns kind sub (Name role) repo;
            (case err of Some _ \<Rightarrow> return bad | None \<Rightarrow> return good) }) Q t"
    by (auto intro!: wp_ensureRoleBinding)
qed (use assms in simp)

end

subsection \<open>When the calls do not fail for reasons of their own\<close>

locale auth_api_ok = reliable_api "client srv" view
  for srv :: "'s Server" and view :: "'s \<Rightarrow> okey \<rightharpoonup> obj"

sublocale auth_api_ok \<subseteq> auth_api srv view ..

lemma listed_Everything: "listed v T Everything ys \<Longrightarrow> stored v (kt_mk T y) \<Longrightarrow> y \<in> set ys"
  by (simp add: listed_def)

lemma find_none_listed:
  "find P ys = None \<Longrightarrow> listed v T Everything ys \<Longrightarrow> stored v (kt_mk T y) \<Longrightarrow> \<not> P y"
  using listed_Everything by (fastforce simp: find_None_iff)

sublocale auth_api_ok \<subseteq> users: total_lookup "resolveUser srv" OUser view user_answers
proof unfold_locales
  show "wp (resolveUser srv k)
      (\<lambda>r _. r = None \<longrightarrow> (\<forall>x. stored (view s) (OUser x) \<longrightarrow> \<not> user_answers k x)) s" for k s
    unfolding resolveUser_def
    by (auto intro!: wp_ListOf_ok wp_Get_ok split: option.splits simp: user_answers_def direct_key_def ContainsByte_def)
      (auto dest: find_none_listed [where T = UserT, simplified])
qed

lemma find_group_none:
  assumes "find (\<lambda>g. groupName g = k \<or> Name g = k \<or> Name g = objectName (''group-'' @ k)) gs = None"
    and "listed v GroupT Everything gs" and "stored v (OGroup x)" and "group_answers k x"
  shows "direct_key k x"
  using find_none_listed [OF assms(1, 2), of x] assms(3, 4) by (auto simp: group_answers_def)

sublocale auth_api_ok \<subseteq> groups: total_lookup "resolveGroup srv" OGroup view group_answers
proof unfold_locales
  show "wp (resolveGroup srv k)
      (\<lambda>r _. r = None \<longrightarrow> (\<forall>x. stored (view s) (OGroup x) \<longrightarrow> \<not> group_answers k x)) s" for k s
    unfolding resolveGroup_def
    by (auto intro!: wp_ListOf_ok wp_Get_ok split: option.splits simp: ContainsByte_def)
      (auto dest!: find_group_none [simplified] simp: direct_key_def)
qed

sublocale auth_api_ok \<subseteq>
  roles: total_lookup "\<lambda>k. resolveRoleForPolicy srv (fst k) (snd k)" ORole view role_answers
proof unfold_locales
  show "wp (resolveRoleForPolicy srv (fst k) (snd k))
      (\<lambda>r _. r = None \<longrightarrow> (\<forall>x. stored (view s) (ORole x) \<longrightarrow> \<not> role_answers k x)) s" for k s
    unfolding resolveRoleForPolicy_def
    by (auto intro!: wp_ListOf_ok simp: role_answers_def)
      (auto dest: find_none_listed [where T = RoleT, simplified])
qed

sublocale auth_api_ok \<subseteq> credentials: total_lookup "resolveCredential srv" OCredential view credential_answers
proof unfold_locales
  show "wp (resolveCredential srv k)
      (\<lambda>r _. r = None \<longrightarrow> (\<forall>x. stored (view s) (OCredential x) \<longrightarrow> \<not> credential_answers k x)) s" for k s
    unfolding resolveCredential_def
    by (auto intro!: wp_ListOf_ok split: list.splits simp: credential_answers_def listed_def)
qed

text \<open>The stored groups of the user's namespace that list it as a member.\<close>

definition groups_of :: "(okey \<rightharpoonup> obj) \<Rightarrow> LakeFSUser \<Rightarrow> LakeFSGroup set" where
  "groups_of v u = {g. stored v (OGroup g) \<and> Namespace g = Namespace u \<and> member_of (Name u) g}"

context auth_api_ok
begin

lemma wp_deleteRoleBinding_ok:
  "wp (deleteRoleBinding srv ns kind sub role repo)
     (\<lambda>_ t. gone (view t) (binding_key ns kind sub role repo)) s"
  unfolding deleteRoleBinding_def Let_def wp_bind
  by (rule wp_mono [OF wp_Delete_gone_ok]) (simp add: binding_key_def)

lemma wp_deleteRoleBindingsForSubject_ok:
  "wp (deleteRoleBindingsForSubject srv ns kind sub)
     (\<lambda>_ t. \<forall>b \<in> subject_bindings (view s) ns kind sub. gone (view t) (okey_of (ORoleBinding b))) s"
  unfolding deleteRoleBindingsForSubject_def
  by (auto intro!: wp_ListOf_ok wp_mono [OF wp_delete_each_ok]
      simp: listed_def subject_eq subject_bindings_def)

lemma wp_deleteRoleBindingsForRole_ok:
  "wp (deleteRoleBindingsForRole srv ns role)
     (\<lambda>_ t. \<forall>b \<in> role_bindings (view s) ns role. gone (view t) (okey_of (ORoleBinding b))) s"
  unfolding deleteRoleBindingsForRole_def
  by (auto intro!: wp_ListOf_ok wp_mono [OF wp_delete_each_ok]
      simp: listed_def role_bindings_def)

lemma wp_deleteCredentialsForUser_ok:
  assumes "Name u \<noteq> ''''"
  shows "wp (deleteCredentialsForUser srv u)
     (\<lambda>_ t. \<forall>c \<in> user_credentials (view s) u. gone (view t) (okey_of (OCredential c))) s"
proof -
  have "wp (forEach cs (\<lambda>c. do { _ \<leftarrow> Delete (client srv) CredentialT c; return () }))
      (\<lambda>_ t. \<forall>c \<in> user_credentials (view s) u. gone (view t) (okey_of (OCredential c))) t"
    if t: "view t = view s"
      and l: "listed (view s) CredentialT
        \<lparr>InNamespace = Some (Namespace u), MatchingFields = Some (CredentialUserField, Name u)\<rparr> cs" for t cs
    unfolding delete_all_conv
    by (rule wp_mono [OF wp_delete_each_ok])
      (use l assms in \<open>auto simp: listed_def user_credentials_def\<close>)
  then show ?thesis
    unfolding deleteCredentialsForUser_def by (auto intro!: wp_ListOf_ok)
qed

lemma wp_groupsForUser_ok:
  assumes "\<And>t gs. view t = view s \<Longrightarrow> distinct (map (\<lambda>g. okey_of (OGroup g)) gs) \<Longrightarrow>
      set gs = groups_of (view s) u \<Longrightarrow> Q (Inr gs) t"
  shows "wp (groupsForUser srv u) Q s"
proof -
  have "wp (groupsForUser srv u) (\<lambda>r t. r = Inr (projr r)) s"
    unfolding groupsForUser_def by (auto intro!: wp_ListOf_ok)
  moreover have "wp (groupsForUser srv u) (\<lambda>r t. r = Inr (projr r) \<longrightarrow> Q r t) s"
    using assms by (auto intro!: wp_groupsForUser simp: groups_of_def)
  ultimately show ?thesis by (auto elim: wp_mono [OF wp_conj])
qed

lemma wp_effectivePoliciesForSubject_ok:
  assumes ok: "\<And>t ps. view t = view s \<Longrightarrow> set ps = grants (view s) ns kind name \<Longrightarrow> Q (Inr ps) t"
  shows "wp (effectivePoliciesForSubject srv ns kind name) Q s"
proof -
  have "wp (effectivePoliciesForSubject srv ns kind name) (\<lambda>r t. r = Inr (projr r)) s"
    unfolding effectivePoliciesForSubject_def wp_bind
    by (rule wp_ListOf_ok)
      (auto intro!: wp_mono [OF wp_collect_rel [where Inv = "\<lambda>_. True" and F = "\<lambda>_. False" and P = "\<lambda>_ _. True"]]
        wp_Get_ok simp: IsNotFound_def split: sum.splits)
  moreover have "wp (effectivePoliciesForSubject srv ns kind name) (\<lambda>r t. r = Inr (projr r) \<longrightarrow> Q r t) s"
    using ok by (auto intro!: wp_effectivePoliciesForSubject)
  ultimately show ?thesis by (auto elim: wp_mono [OF wp_conj])
qed

lemma wp_effectivePoliciesForUser_ok:
  assumes ok: "\<And>t ps. view t = view s \<Longrightarrow> set ps = user_grants (view s) u \<Longrightarrow> Q (Inr ps) t"
  shows "wp (effectivePoliciesForUser srv u) Q s"
proof -
  have "wp (effectivePoliciesForUser srv u) (\<lambda>r t. r = Inr (projr r)) s"
    unfolding effectivePoliciesForUser_def wp_bind
    by (auto intro!: wp_effectivePoliciesForSubject_ok wp_groupsForUser_ok
        wp_mono [OF wp_collect_rel [where Inv = "\<lambda>_. True" and F = "\<lambda>_. False" and P = "\<lambda>_ _. True"]]
        split: sum.splits)
  moreover have "wp (effectivePoliciesForUser srv u) (\<lambda>r t. r = Inr (projr r) \<longrightarrow> Q r t) s"
    using ok by (auto intro!: wp_effectivePoliciesForUser)
  ultimately show ?thesis by (auto elim: wp_mono [OF wp_conj])
qed

lemma wp_removeUserFromGroups_ok:
  "wp (removeUserFromGroups srv u)
     (\<lambda>_ t. (\<forall>g \<in> groups_of (view s) u. \<exists>h. view t (okey_of (OGroup g)) = Some (OGroup h) \<and>
               group_Spec h = group_Spec (without_member (Name u) g)) \<and>
            same_but (okey_of ` OGroup ` groups_of (view s) u) (view s) (view t)) s"
proof -
  have "wp (forEach gs (\<lambda>g. do {
          _ \<leftarrow> Update (client srv) GroupT (without_member (Name u) g); return () }))
     (\<lambda>_ t. (\<forall>g \<in> groups_of (view s) u. \<exists>h. view t (okey_of (OGroup g)) = Some (OGroup h) \<and>
               group_Spec h = group_Spec (without_member (Name u) g)) \<and>
            same_but (okey_of ` OGroup ` groups_of (view s) u) (view s) (view t)) t"
    if t: "view t = view s" and d: "distinct (map (\<lambda>g. okey_of (OGroup g)) gs)"
      and gs: "set gs = groups_of (view s) u" for t gs
    by (rule wp_mono [OF wp_update_each_ok [where T = GroupT]])
      (use d gs in \<open>auto simp: t groups_of_def okeys_def stored_as_def image_image\<close>)
  then show ?thesis
    unfolding removeUserFromGroups_def by (auto intro!: wp_groupsForUser_ok)
qed

end

subsection \<open>Which kinds of objects a step leaves alone\<close>

definition same_kind :: "kind \<Rightarrow> (okey \<rightharpoonup> obj) \<Rightarrow> (okey \<rightharpoonup> obj) \<Rightarrow> bool" where
  "same_kind k v v' \<longleftrightarrow> (\<forall>n. v' (k, n) = v (k, n))"

lemma same_kind_refl [simp]: "same_kind k v v"
  by (simp add: same_kind_def)

lemma same_kind_trans: "same_kind k v v' \<Longrightarrow> same_kind k v' v'' \<Longrightarrow> same_kind k v v''"
  by (simp add: same_kind_def)

lemma same_kindD: "same_kind k v v' \<Longrightarrow> v' (k, n) = v (k, n)"
  unfolding same_kind_def by blast

lemma only_gone_kind: "only_gone v v' K \<Longrightarrow> (\<And>x. x \<in> K \<Longrightarrow> fst x \<noteq> k) \<Longrightarrow> same_kind k v v'"
  unfolding same_kind_def using only_gone_same by fastforce

lemma same_but_kind: "same_but K v v' \<Longrightarrow> (\<And>x. x \<in> K \<Longrightarrow> fst x \<noteq> k) \<Longrightarrow> same_kind k v v'"
  unfolding same_kind_def using same_butD by fastforce

lemma same_kind_sets:
  "same_kind KCredential v v' \<Longrightarrow> user_credentials v' u = user_credentials v u"
  "same_kind KRoleBinding v v' \<Longrightarrow> subject_bindings v' ns kind sub = subject_bindings v ns kind sub"
  "same_kind KGroup v v' \<Longrightarrow> groups_of v' u = groups_of v u"
  by (simp_all add: user_credentials_def subject_bindings_def groups_of_def same_kindD)

lemma same_kind_gone: "same_kind k v v' \<Longrightarrow> gone v (k, n) \<Longrightarrow> gone v' (k, n)"
  by (simp add: gone_def same_kindD)

subsection \<open>The clock and the random generator\<close>

text \<open>
  Reading them changes nothing, and the clock shows a time between \<open>T1\<close> and \<open>T2\<close>: when a request
  came in and when it is answered, say.
\<close>

locale auth_clock = auth_api srv view
  for srv :: "'s Server" and view :: "'s \<Rightarrow> okey \<rightharpoonup> obj" +
  fixes rt :: "'s Runtime" and T1 T2 :: time
  assumes now_law: "wp (env_Now rt) (\<lambda>now t. view t = view s \<and> T1 \<le> now \<and> now \<le> T2) s"
    and rand_law: "wp (env_RandRead rt n) (\<lambda>_ t. view t = view s) s"
begin

lemma wp_Now:
  assumes "\<And>now t. view t = view s \<Longrightarrow> T1 \<le> now \<Longrightarrow> now \<le> T2 \<Longrightarrow> Q now t"
  shows "wp (env_Now rt) Q s"
  using now_law by (rule wp_mono) (use assms in blast)

lemma wp_RandRead:
  assumes "\<And>buf t. view t = view s \<Longrightarrow> Q buf t"
  shows "wp (env_RandRead rt n) Q s"
  using rand_law by (rule wp_mono) (use assms in blast)

end

locale auth_clock_ok = auth_clock srv view rt T1 T2 + auth_api_ok srv view
  for srv :: "'s Server" and view :: "'s \<Rightarrow> okey \<rightharpoonup> obj" and rt :: "'s Runtime" and T1 T2 :: time

subsection \<open>The concrete server\<close>

text \<open>An auth server on the concrete API server; all of the above applies to it.\<close>

definition ref_server :: "'z w Server" where
  "ref_server = New ref_client '':8080'' []"

definition ref_runtime :: "'s Runtime" where
  "ref_runtime = \<lparr>env_Now = return 1000000000, env_RandRead = (\<lambda>n. return (Some (replicate n CHR 0x07))),
     env_Ticks = 50\<rparr>"

lemma ref_server_client [simp]: "client ref_server = ref_client"
  by (simp add: ref_server_def New_def)

interpretation ref_auth: auth_api_ok ref_server ref_view
  unfolding auth_api_ok_def ref_server_client by (rule ref.reliable_api_axioms)

interpretation ref_clock: auth_clock_ok ref_server ref_view ref_runtime 1000000000 1000000000
  by unfold_locales (simp_all add: ref_runtime_def)

end
