(* ===== verification/ExampleWorld.thy ===== *)
theory ExampleWorld
  imports Resolve
begin

section \<open>An example world\<close>

text \<open>
  A small world for the witnesses: Alice and Bob in the namespace \<open>data\<close>; Alice has the access key
  \<open>AK1\<close> and is a member of the group \<open>devs\<close>, which is bound to the role of the policy \<open>Read\<close>. The
  handlers run in it on the concrete API server of the theory RefStore.
\<close>

definition ex_user :: "string \<Rightarrow> string \<Rightarrow> LakeFSUser" where
  "ex_user name ext = ObjectMeta.extend (new_meta name ''data'')
     \<lparr>user_Spec = \<lparr>us_ExternalID = ext, us_FriendlyName = name\<rparr>, user_Status = new_status\<rparr>"

definition ex_credential :: LakeFSCredential where
  "ex_credential = new_credential ''lakefs-cred-ak1'' ''data''
     \<lparr>cs_UserRef = \<lparr>ur_Name = ''alice''\<rparr>, cs_AccessKeyID = ''AK1'',
      cs_SecretRef = \<lparr>sr_Name = ''lakefs-cred-ak1'', sr_Key = ''secretAccessKey''\<rparr>,
      cs_ExpiresAt = None, cs_Revoked = False\<rparr>"

definition ex_secret :: Secret where
  "ex_secret = new_secret ''lakefs-cred-ak1'' ''data'' None
     (Some [''accessKeyId'' \<mapsto> ''AK1'', ''secretAccessKey'' \<mapsto> ''s3cr3t''])"

definition ex_group :: LakeFSGroup where
  "ex_group = ObjectMeta.extend (new_meta ''devs'' ''data'')
     \<lparr>group_Spec = \<lparr>gs_ExternalID = ''Devs'', gs_Users = [\<lparr>ur_Name = ''alice''\<rparr>], gs_Description = ''''\<rparr>,
      group_Status = new_status\<rparr>"

definition ex_role :: LakeFSRole where
  "ex_role = ObjectMeta.extend (new_meta ''lakefs-policy-read'' ''data'')
     \<lparr>role_Spec = \<lparr>rs_Description = '''', rs_Policies =
        [\<lparr>pt_Name = ''Read'', pt_Statement =
           [\<lparr>ps_Effect = ''allow'', ps_Resource = ''arn:lakefs:fs:::repository/<REPOSITORY>/*'',
             ps_Action = [''fs:Read*'']\<rparr>]\<rparr>]\<rparr>,
      role_Status = new_status\<rparr>"

definition ex_binding :: LakeFSRoleBinding where
  "ex_binding = new_binding ''lakefs-rb-lakefsgroup-devs-lakefs-policy-read-demo'' ''data''
     \<lparr>bs_Subject = \<lparr>sb_Kind = ''LakeFSGroup'', sb_Name = ''devs''\<rparr>,
      bs_RoleRef = \<lparr>rr_Name = ''lakefs-policy-read''\<rparr>, bs_Repository = ''demo''\<rparr>"

definition ex_world :: world where
  "ex_world = \<lparr>w_objs =
     [OUser (ex_user ''alice'' ''alice@example.org''), OUser (ex_user ''bob'' ''bob@example.org''),
      OCredential ex_credential, OSecret ex_secret, OGroup ex_group, ORole ex_role, ORoleBinding ex_binding]\<rparr>"

definition ex_request :: "(string \<times> string) list \<Rightarrow> Request" where
  "ex_request query = \<lparr>r_Method = ''GET'', r_Path = ''/'', r_Query = query, r_Body = None\<rparr>"

lemma ex_simps [simp]:
  "Name (ex_user n e) = n" "Namespace (ex_user n e) = ''data''"
  "us_ExternalID (user_Spec (ex_user n e)) = e"
  "Name ex_group = ''devs''" "Namespace ex_group = ''data''"
  "Name ex_role = ''lakefs-policy-read''" "Namespace ex_role = ''data''"
  "Name ex_binding = ''lakefs-rb-lakefsgroup-devs-lakefs-policy-read-demo''" "Namespace ex_binding = ''data''"
  "Name ex_credential = ''lakefs-cred-ak1''" "Namespace ex_credential = ''data''"
  "Name ex_secret = ''lakefs-cred-ak1''" "Namespace ex_secret = ''data''"
  by (simp_all add: ex_user_def ex_group_def ex_role_def ex_binding_def ex_credential_def ex_secret_def
      ObjectMeta.extend_def new_meta_def)

lemma objectName_ak1: "objectName ''lakefs-cred-AK1'' = ''lakefs-cred-ak1''"
  by code_simp

lemma ref_view_mem: "ref_view s k = Some x \<Longrightarrow> x \<in> set (w_objs s)"
  by (auto simp: ref_view_def dest: find_Some_conv)

lemmas ex_view = ref_view_def ex_world_def

lemma ex_stored_credential:
  "ref_view ex_world (okey_of (OCredential c)) = Some (OCredential c) \<longleftrightarrow> c = ex_credential"
  by (auto dest!: ref_view_mem) (simp_all add: ex_view)

lemma ex_named: "ref_view ex_world (k, ns, n) = Some x \<Longrightarrow> n \<noteq> []"
  by (frule ref_view_mem, drule ref_view_okey) (auto simp: ex_world_def)

end
