(* ===== verification/AuthUsers.thy ===== *)
theory AuthUsers
  imports ExampleWorld
begin

section \<open>Users (internal/authserver/server.go, lines 338-429 and 473-539)\<close>

text \<open>
  The handlers under \<open>/auth/users\<close> apart from credentials: listing, creating, reading and deleting
  users, their groups, and their policies. Each handler is the Go method of the same name; its
  result is the response it writes.
\<close>

subsection \<open>Definitions\<close>

definition listUsers :: "'s Server \<Rightarrow> Request \<Rightarrow> ('s, outcome) state" where
  "listUsers srv r = do {
     users \<leftarrow> ListOf (client srv) UserT Everything;
     (case users of
        Inl _ \<Rightarrow> writeError StatusInternalServerError ''failed to list users''
      | Inr us \<Rightarrow> writeJSON StatusOK (UsersBody (newPaginatedResponse
          (filter (\<lambda>item. userMatchesListQuery item r) (map userFromUser us))))) }"

definition createUser :: "'s Server \<Rightarrow> Request \<Rightarrow> ('s, outcome) state" where
  "createUser srv r =
     (case Decode decode_createUserRequest r of
        None \<Rightarrow> writeError StatusBadRequest ''invalid user request''
      | Some request \<Rightarrow>
          (let username = TrimSpace (firstNonEmpty
                 [cu_Username request, query_Get r ''username'', query_Get r ''user_name'']) in
           if username = '''' then writeError StatusBadRequest ''username is required''
           else
             (let externalID = TrimSpace (firstNonEmpty
                    [stringValue (cu_ExternalID request), stringValue (cu_ExternalIDV2 request), username]) in
              do {
                found \<leftarrow> resolveUser srv externalID;
                (case found of
                   Some u \<Rightarrow> writeJSON StatusCreated (UserBody (userFromUser u))
                 | None \<Rightarrow> do {
                     let namespace = firstNonEmpty [query_Get r ''namespace'', defaultUserNamespace srv];
                     let user = new_user (objectName username) namespace
                       \<lparr>us_ExternalID = externalID,
                        us_FriendlyName = firstNonEmpty [stringValue (cu_FriendlyName request), username]\<rparr>;
                     created \<leftarrow> Create (client srv) UserT user;
                     (case created of
                        Inl err \<Rightarrow>
                          if \<not> IsAlreadyExists err
                          then writeError StatusInternalServerError ''failed to create user''
                          else do {
                            got \<leftarrow> Get (client srv) UserT (namespace, Name user);
                            (case got of
                               Inl getErr \<Rightarrow> writeError StatusInternalServerError ''failed to read user''
                             | Inr u \<Rightarrow>
                                 if userUsername u \<noteq> username \<and> userUsername u \<noteq> externalID
                                 then writeError StatusConflict ''user already exists''
                                 else writeJSON StatusCreated (UserBody (userFromUser u))) }
                      | Inr u \<Rightarrow> writeJSON StatusCreated (UserBody (userFromUser u))) }) })))"

definition getUser :: "'s Server \<Rightarrow> Request \<Rightarrow> string \<Rightarrow> ('s, outcome) state" where
  "getUser srv r userID = do {
     found \<leftarrow> resolveUser srv userID;
     (case found of
        None \<Rightarrow> writeError StatusNotFound ''user not found''
      | Some u \<Rightarrow> writeJSON StatusOK (UserBody (userFromUser u))) }"

definition deleteUser :: "'s Server \<Rightarrow> Request \<Rightarrow> string \<Rightarrow> ('s, outcome) state" where
  "deleteUser srv r userID = do {
     found \<leftarrow> resolveUser srv userID;
     (case found of
        None \<Rightarrow> WriteHeader StatusNoContent
      | Some u \<Rightarrow> do {
          deleted \<leftarrow> Delete (client srv) UserT u;
          (if (case deleted of Inl err \<Rightarrow> \<not> IsNotFound err | Inr _ \<Rightarrow> False)
           then writeError StatusInternalServerError ''failed to delete user''
           else do {
             _ \<leftarrow> deleteCredentialsForUser srv u;
             _ \<leftarrow> removeUserFromGroups srv u;
             _ \<leftarrow> deleteRoleBindingsForSubject srv (Namespace u) LakeFSRoleBindingSubjectKindUser (Name u);
             WriteHeader StatusNoContent }) }) }"

definition attachPolicyToUser :: "'s Server \<Rightarrow> Request \<Rightarrow> string \<Rightarrow> string \<Rightarrow> ('s, outcome) state" where
  "attachPolicyToUser srv r userID policyID = do {
     found \<leftarrow> resolveUser srv userID;
     (case found of
        None \<Rightarrow> writeError StatusNotFound ''user not found''
      | Some u \<Rightarrow> do {
          let repository = repositoryScope r;
          role \<leftarrow> resolveRoleForPolicy srv policyID repository;
          (case role of
             None \<Rightarrow> writeError StatusNotFound ''policy not found''
           | Some role \<Rightarrow> do {
               err \<leftarrow> ensureRoleBinding srv (Namespace u) LakeFSRoleBindingSubjectKindUser (Name u)
                 (Name role) repository;
               (case err of
                  Some _ \<Rightarrow> writeError StatusInternalServerError ''failed to attach policy''
                | None \<Rightarrow> WriteHeader StatusCreated) }) }) }"

definition detachPolicyFromUser :: "'s Server \<Rightarrow> Request \<Rightarrow> string \<Rightarrow> string \<Rightarrow> ('s, outcome) state" where
  "detachPolicyFromUser srv r userID policyID = do {
     found \<leftarrow> resolveUser srv userID;
     (case found of
        None \<Rightarrow> WriteHeader StatusNoContent
      | Some u \<Rightarrow> do {
          let repository = repositoryScope r;
          role \<leftarrow> resolveRoleForPolicy srv policyID repository;
          (case role of
             None \<Rightarrow> WriteHeader StatusNoContent
           | Some role \<Rightarrow> do {
               _ \<leftarrow> deleteRoleBinding srv (Namespace u) LakeFSRoleBindingSubjectKindUser (Name u)
                 (Name role) repository;
               WriteHeader StatusNoContent }) }) }"

definition listUserGroups :: "'s Server \<Rightarrow> Request \<Rightarrow> string \<Rightarrow> ('s, outcome) state" where
  "listUserGroups srv r userID = do {
     found \<leftarrow> resolveUser srv userID;
     (case found of
        None \<Rightarrow> writeError StatusNotFound ''user not found''
      | Some u \<Rightarrow> do {
          groups \<leftarrow> groupsForUser srv u;
          (case groups of
             Inl _ \<Rightarrow> writeError StatusInternalServerError ''failed to list groups''
           | Inr gs \<Rightarrow> writeJSON StatusOK (GroupsBody (newPaginatedResponse (map groupFromGroup gs)))) }) }"

definition listUserPolicies :: "'s Server \<Rightarrow> Request \<Rightarrow> string \<Rightarrow> ('s, outcome) state" where
  "listUserPolicies srv r userID = do {
     found \<leftarrow> resolveUser srv userID;
     (case found of
        None \<Rightarrow> writeError StatusNotFound ''user not found''
      | Some u \<Rightarrow> do {
          policies \<leftarrow> effectivePoliciesForUser srv u;
          (case policies of
             Inl _ \<Rightarrow> writeError StatusInternalServerError ''failed to list policies''
           | Inr ps \<Rightarrow> writeJSON StatusOK (PoliciesBody (newPaginatedResponse ps))) }) }"

subsection \<open>Reading only\<close>

context auth_reads
begin

lemma keeps_user_reads [keeps_intros]:
  "keeps f (listUsers srv r)" "keeps f (getUser srv r k)" "keeps f (listUserGroups srv r k)"
  "keeps f (listUserPolicies srv r k)"
  unfolding listUsers_def getUser_def listUserGroups_def listUserPolicies_def write_defs
  by (intro keeps_intros keeps_Get keeps_ListOf keeps_lookups)+

end

subsection \<open>What a user is granted\<close>

context auth_api
begin

lemma wp_listUserPolicies:
  "wp (listUserPolicies srv r k)
     (\<lambda>out t. view t = view s \<and>
        ((\<exists>m. out = Respond 404 (ErrorBody m)) \<or> (\<exists>m. out = Respond 500 (ErrorBody m)) \<or>
         (\<exists>u ps. stored (view s) (OUser u) \<and> user_answers k u \<and> set ps = user_grants (view s) u \<and>
            out = Respond 200 (PoliciesBody (newPaginatedResponse ps))))) s"
  unfolding listUserPolicies_def write_defs
  by (auto intro!: users.wp_resolve wp_effectivePoliciesForUser) blast

end

context auth_api_ok
begin

lemma wp_listUsers_ok:
  "wp (listUsers srv r)
     (\<lambda>out t. view t = view s \<and>
         (\<exists>us. out = Respond 200 (UsersBody (newPaginatedResponse us)) \<and>
            set us = {w. \<exists>u. stored (view s) (OUser u) \<and> w = userFromUser u \<and> userMatchesListQuery w r})) s"
  unfolding listUsers_def write_defs
  by (auto intro!: wp_ListOf_ok simp: listed_def) (auto simp: newPaginatedResponse_def)

lemma wp_listUserPolicies_ok:
  "wp (listUserPolicies srv r k)
     (\<lambda>out t. view t = view s \<and>
        ((\<exists>m. out = Respond 404 (ErrorBody m)) \<and>
           (\<forall>u. stored (view s) (OUser u) \<longrightarrow> \<not> user_answers k u) \<or>
         (\<exists>u ps. stored (view s) (OUser u) \<and> user_answers k u \<and> set ps = user_grants (view s) u \<and>
            out = Respond 200 (PoliciesBody (newPaginatedResponse ps))))) s"
  unfolding listUserPolicies_def write_defs
  by (auto intro!: users.wp_resolve_total wp_effectivePoliciesForUser_ok) blast

end

subsection \<open>Deleting a user\<close>

text \<open>Names of stored objects are not empty.\<close>

definition named_objects :: "(okey \<rightharpoonup> obj) \<Rightarrow> bool" where
  "named_objects v \<longleftrightarrow> (\<forall>k ns n. v (k, ns, n) \<noteq> None \<longrightarrow> n \<noteq> '''')"

text \<open>\<open>u\<close> and all that is tied to it are gone in \<open>v'\<close>: its credentials, its bindings, its memberships.\<close>

definition user_removed :: "(okey \<rightharpoonup> obj) \<Rightarrow> (okey \<rightharpoonup> obj) \<Rightarrow> LakeFSUser \<Rightarrow> bool" where
  "user_removed v v' u \<longleftrightarrow> gone v' (okey_of (OUser u)) \<and>
     (\<forall>c \<in> user_credentials v u. gone v' (okey_of (OCredential c))) \<and>
     (\<forall>b \<in> subject_bindings v (Namespace u) LakeFSRoleBindingSubjectKindUser (Name u).
        gone v' (okey_of (ORoleBinding b))) \<and>
     (\<forall>g \<in> groups_of v u. \<exists>h. v' (okey_of (OGroup g)) = Some (OGroup h) \<and>
        (\<forall>m. member_of m h \<longleftrightarrow> member_of m g \<and> m \<noteq> Name u))"

lemma user_removedI:
  fixes u :: LakeFSUser
  defines "uk \<equiv> okey_of (OUser u)"
  assumes 1: "only_gone v v1 {uk}" "gone v1 uk"
    and 2: "only_gone v1 v2 (okey_of ` OCredential ` user_credentials v1 u)"
      "\<forall>c \<in> user_credentials v1 u. gone v2 (okey_of (OCredential c))"
    and 3: "\<forall>g \<in> groups_of v2 u. \<exists>h. v3 (okey_of (OGroup g)) = Some (OGroup h) \<and>
        group_Spec h = group_Spec (without_member (Name u) g)"
      "same_but (okey_of ` OGroup ` groups_of v2 u) v2 v3"
    and 4: "only_gone v3 v4 (okey_of ` ORoleBinding `
        subject_bindings v3 (Namespace u) LakeFSRoleBindingSubjectKindUser (Name u))"
      "\<forall>b \<in> subject_bindings v3 (Namespace u) LakeFSRoleBindingSubjectKindUser (Name u).
        gone v4 (okey_of (ORoleBinding b))"
  shows "user_removed v v4 u"
proof -
  have k1: "same_kind k v v1" if "k \<noteq> KUser" for k
    by (rule only_gone_kind [OF 1(1)]) (use that in \<open>auto simp: uk_def\<close>)
  have k2: "same_kind k v1 v2" if "k \<noteq> KCredential" for k
    by (rule only_gone_kind [OF 2(1)]) (use that in auto)
  have k3: "same_kind k v2 v3" if "k \<noteq> KGroup" for k
    by (rule same_but_kind [OF 3(2)]) (use that in auto)
  have k4: "same_kind k v3 v4" if "k \<noteq> KRoleBinding" for k
    by (rule only_gone_kind [OF 4(1)]) (use that in auto)
  have "gone v4 uk"
    using 1(2) k2 k3 k4 unfolding uk_def
    by (auto intro!: same_kind_gone [OF k4] same_kind_gone [OF k3] same_kind_gone [OF k2])
  moreover have "gone v4 (okey_of (OCredential c))" if "c \<in> user_credentials v u" for c
    using 2(2) that same_kind_sets(1) [OF k1, of u]
    by (auto intro!: same_kind_gone [OF k4] same_kind_gone [OF k3])
  moreover have "gone v4 (okey_of (ORoleBinding b))"
    if "b \<in> subject_bindings v (Namespace u) LakeFSRoleBindingSubjectKindUser (Name u)" for b
    using 4(2) that same_kind_sets(2) [OF k1] same_kind_sets(2) [OF k2] same_kind_sets(2) [OF k3] by simp
  moreover have "\<exists>h. v4 (okey_of (OGroup g)) = Some (OGroup h) \<and>
      (\<forall>m. member_of m h \<longleftrightarrow> member_of m g \<and> m \<noteq> Name u)" if "g \<in> groups_of v u" for g
  proof -
    from that have "g \<in> groups_of v2 u" using same_kind_sets(3) [OF k1] same_kind_sets(3) [OF k2] by simp
    with 3(1) obtain h where "v3 (okey_of (OGroup g)) = Some (OGroup h)"
      "group_Spec h = group_Spec (without_member (Name u) g)" by blast
    then show ?thesis
      by (auto simp: same_kindD [OF k4] member_of_without_member)
  qed
  ultimately show ?thesis by (simp add: user_removed_def uk_def)
qed

context auth_api_ok
begin

lemma wp_Delete_user:
  "wp (Delete (client srv) T x) (\<lambda>r t. only_gone (view s) (view t) {okey_of (kt_mk T x)} \<and>
     gone (view t) (okey_of (kt_mk T x)) \<and> (r = Inl NotFound \<or> r = Inr ())) s"
  using delete_reliable [of "kt_mk T x" s]
  by (intro wp_conj wp_Delete_gone wp_Delete_gone_ok) (simp add: Delete_def)

lemma wp_delete_tail:
  assumes ne: "Name u \<noteq> ''''" and 1: "only_gone v (view s) {okey_of (OUser u)}" "gone (view s) (okey_of (OUser u))"
    and Q: "\<And>t. user_removed v (view t) u \<Longrightarrow> Q t"
  shows "wp (deleteCredentialsForUser srv u)
    (\<lambda>_. wp (removeUserFromGroups srv u)
      (\<lambda>_. wp (deleteRoleBindingsForSubject srv (Namespace u) LakeFSRoleBindingSubjectKindUser (Name u))
        (\<lambda>_. Q))) s"
proof (rule wp_mono [OF wp_conj [OF wp_deleteCredentialsForUser wp_deleteCredentialsForUser_ok [OF ne]]],
    rule wp_mono [OF wp_removeUserFromGroups_ok],
    rule wp_mono [OF wp_conj [OF wp_deleteRoleBindingsForSubject wp_deleteRoleBindingsForSubject_ok]])
  fix t2 t3 t4
  assume "only_gone (view s) (view t2) (okey_of ` OCredential ` user_credentials (view s) u) \<and>
      (\<forall>c \<in> user_credentials (view s) u. gone (view t2) (okey_of (OCredential c)))"
    and "(\<forall>g \<in> groups_of (view t2) u. \<exists>h. view t3 (okey_of (OGroup g)) = Some (OGroup h) \<and>
        group_Spec h = group_Spec (without_member (Name u) g)) \<and>
      same_but (okey_of ` OGroup ` groups_of (view t2) u) (view t2) (view t3)"
    and "only_gone (view t3) (view t4) (okey_of ` ORoleBinding `
        subject_bindings (view t3) (Namespace u) LakeFSRoleBindingSubjectKindUser (Name u)) \<and>
      (\<forall>b \<in> subject_bindings (view t3) (Namespace u) LakeFSRoleBindingSubjectKindUser (Name u).
        gone (view t4) (okey_of (ORoleBinding b)))"
  then show "Q t4"
    using 1 by (auto intro!: Q user_removedI [where ?v1.0 = "view s" and ?v2.0 = "view t2" and ?v3.0 = "view t3"]
        simp del: okey_simps)
qed

lemma wp_deleteUser:
  assumes named: "named_objects (view s)"
  shows "wp (deleteUser srv r k)
     (\<lambda>out t. out = Respond 204 NoBody \<and>
        (view t = view s \<and> (\<forall>u. stored (view s) (OUser u) \<longrightarrow> \<not> user_answers k u) \<or>
         (\<exists>u. stored (view s) (OUser u) \<and> user_answers k u \<and> user_removed (view s) (view t) u))) s"
  (is "wp _ ?Q s")
  unfolding deleteUser_def wp_bind
proof (rule users.wp_resolve_total)
  fix t
  assume "view t = view s" "\<And>u. stored (view s) (OUser u) \<Longrightarrow> \<not> user_answers k u"
  then show "wp (case None of None \<Rightarrow> WriteHeader 204 | Some u \<Rightarrow> F u) ?Q t" for F
    by simp
next
  fix t u
  assume t: "view t = view s" and u: "stored (view s) (OUser u)" "user_answers k u"
  from named u have ne: "Name u \<noteq> ''''" by (auto simp: named_objects_def)
  have Q: "\<exists>u. stored (view s) (OUser u) \<and> user_answers k u \<and> user_removed (view s) (view t') u"
    if "user_removed (view s) (view t') u" for t'
    using that u by blast
  show "wp (case Some u of None \<Rightarrow> WriteHeader StatusNoContent
      | Some u \<Rightarrow> do {
          deleted \<leftarrow> Delete (client srv) UserT u;
          (if (case deleted of Inl err \<Rightarrow> \<not> IsNotFound err | Inr _ \<Rightarrow> False)
           then writeError StatusInternalServerError ''failed to delete user''
           else do {
             _ \<leftarrow> deleteCredentialsForUser srv u;
             _ \<leftarrow> removeUserFromGroups srv u;
             _ \<leftarrow> deleteRoleBindingsForSubject srv (Namespace u) LakeFSRoleBindingSubjectKindUser (Name u);
             WriteHeader StatusNoContent }) }) ?Q t"
    unfolding option.case wp_bind wp_if write_defs wp_return
    by (rule wp_mono [OF wp_Delete_user]) (auto simp: IsNotFound_def t Q simp del: okey_simps intro!: wp_delete_tail [OF ne, where v = "view s"])
qed

end

subsection \<open>Creating a user\<close>

text \<open>The two names a creation request carries.\<close>

definition request_username :: "Request \<Rightarrow> createUserRequest \<Rightarrow> string" where
  "request_username r request = TrimSpace (firstNonEmpty
     [cu_Username request, query_Get r ''username'', query_Get r ''user_name''])"

definition request_externalID :: "Request \<Rightarrow> createUserRequest \<Rightarrow> string" where
  "request_externalID r request = TrimSpace (firstNonEmpty
     [stringValue (cu_ExternalID request), stringValue (cu_ExternalIDV2 request), request_username r request])"

text \<open>
  What a 201 of \<open>createUser\<close> means: the user in the answer is stored; it was there before (it answers
  to the external id, or its username is one of the two names) and nothing has changed, or it is
  new and carries the external id.
\<close>

definition created_user ::
  "(okey \<rightharpoonup> obj) \<Rightarrow> (okey \<rightharpoonup> obj) \<Rightarrow> string \<Rightarrow> string \<Rightarrow> LakeFSUser \<Rightarrow> bool" where
  "created_user v v' username externalID u \<longleftrightarrow> stored v' (OUser u) \<and>
     (v' = v \<and> (user_answers externalID u \<or> userUsername u = username) \<or>
      v (okey_of (OUser u)) = None \<and> v' = v(okey_of (OUser u) \<mapsto> OUser u) \<and>
      Name u = objectName username \<and> us_ExternalID (user_Spec u) = externalID)"

context auth_api
begin

lemma wp_createUser:
  "wp (createUser srv r)
     (\<lambda>out t. \<forall>b. out = Respond 201 (UserBody b) \<longrightarrow>
        (\<exists>request u. Decode decode_createUserRequest r = Some request \<and> b = userFromUser u \<and>
           created_user (view s) (view t) (request_username r request) (request_externalID r request) u)) s"
proof (cases "Decode decode_createUserRequest r")
  case None
  then show ?thesis by (simp add: createUser_def)
next
  case (Some request)
  show ?thesis
    unfolding createUser_def Some option.case Let_def write_defs
      request_username_def [symmetric] request_externalID_def [symmetric]
    by (auto intro!: users.wp_resolve wp_Create wp_Get simp: IsAlreadyExists_def stored_as_def)
      (fastforce simp: created_user_def user_answers_def)+
qed

end

text \<open>A request that names a user.\<close>

definition user_request :: "Request \<Rightarrow> string option" where
  "user_request r =
     (case Decode decode_createUserRequest r of
        None \<Rightarrow> None
      | Some request \<Rightarrow>
          if request_username r request = '''' then None else Some (request_externalID r request))"

context auth_api_ok
begin

text \<open>Creating the user a second time: it is found, and nothing changes.\<close>

lemma wp_createUser_known:
  assumes "user_request r = Some e" and "stored (view s) (OUser u)" and "user_answers e u"
  shows "wp (createUser srv r)
     (\<lambda>out t. view t = view s \<and> (\<exists>w. stored (view s) (OUser w) \<and> user_answers e w \<and>
        out = Respond 201 (UserBody (userFromUser w)))) s"
proof -
  from assms obtain request where q: "Decode decode_createUserRequest r = Some request"
    and n: "request_username r request \<noteq> ''''" "e = request_externalID r request"
    by (auto simp: user_request_def split: option.splits if_splits)
  show ?thesis
    unfolding createUser_def q option.case Let_def write_defs
      request_username_def [symmetric] request_externalID_def [symmetric]
    using n assms(2, 3) by (auto intro!: users.wp_resolve_total)
qed

end

subsection \<open>Policies of a user\<close>

context auth_api
begin

lemma wp_attachPolicyToUser:
  "wp (attachPolicyToUser srv r k p)
     (\<lambda>out t. if out = Respond 201 NoBody
        then \<exists>u. stored (view s) (OUser u) \<and> user_answers k u \<and>
          attached (view s) (view t) (Namespace u) LakeFSRoleBindingSubjectKindUser (Name u) p (repositoryScope r)
        else view t = view s) s"
  unfolding attachPolicyToUser_def Let_def write_defs wp_bind
  by (rule users.wp_resolve) (auto intro!: wp_attach)

end

subsection \<open>Listing\<close>

text \<open>The filters of \<open>userMatchesListQuery\<close>, one by one; an empty filter lets everything pass.\<close>

lemma userMatchesListQuery_iff:
  "userMatchesListQuery item r \<longleftrightarrow>
     (query_Get r ''id'' \<in> {'''', Sprint (compatibilityUserID (u_Username item))}) \<and>
     (query_Get r ''email'' \<in> {'''', u_Email item}) \<and>
     (firstNonEmpty [query_Get r ''external_id'', query_Get r ''externalId''] \<in> {'''', u_ExternalID item}) \<and>
     HasPrefix (u_Username item) (query_Get r ''prefix'')"
  by (auto simp: userMatchesListQuery_def Let_def HasPrefix_def)

context auth_api
begin

lemma wp_listUsers:
  "wp (listUsers srv r)
     (\<lambda>out t. view t = view s \<and>
        ((\<exists>m. out = Respond 500 (ErrorBody m)) \<or>
         (\<exists>us. out = Respond 200 (UsersBody (newPaginatedResponse us)) \<and>
            set us = {w. \<exists>u. stored (view s) (OUser u) \<and> w = userFromUser u \<and> userMatchesListQuery w r}))) s"
  unfolding listUsers_def write_defs
  by (auto intro!: wp_ListOf simp: listed_def) (auto simp: newPaginatedResponse_def)

lemma wp_listUserGroups:
  "wp (listUserGroups srv r k)
     (\<lambda>out t. view t = view s \<and>
        ((\<exists>m. out = Respond 404 (ErrorBody m)) \<or> (\<exists>m. out = Respond 500 (ErrorBody m)) \<or>
         (\<exists>u gs. stored (view s) (OUser u) \<and> user_answers k u \<and> set gs = groups_of (view s) u \<and>
            out = Respond 200 (GroupsBody (newPaginatedResponse (map groupFromGroup gs)))))) s"
  unfolding listUserGroups_def write_defs
  by (auto intro!: users.wp_resolve wp_groupsForUser simp: groups_of_def) blast

end

subsection \<open>Properties\<close>

text \<open>
  C6. The policies of a user are exactly its grants: a 200 of \<open>GET /auth/users/{id}/policies\<close> lists, as
  a set, the rendered policies of the roles bound to the user or to a group of its namespace that
  has it as a member, and nothing is changed. If the calls do not fail for reasons of their own
  there is no 500, and a 404 means that no stored user answers to the identifier.
\<close>

theorem user_policies_exact:
  assumes "auth_api srv view"
  shows "case run_state (listUserPolicies srv r k) s of (out, t) \<Rightarrow> view t = view s \<and>
        ((\<exists>m. out = Respond 404 (ErrorBody m)) \<and>
           (auth_api_ok srv view \<longrightarrow> (\<forall>u. stored (view s) (OUser u) \<longrightarrow> \<not> user_answers k u)) \<or>
         (\<exists>m. out = Respond 500 (ErrorBody m)) \<and> \<not> auth_api_ok srv view \<or>
         (\<exists>u ps. stored (view s) (OUser u) \<and> user_answers k u \<and> set ps = user_grants (view s) u \<and>
            out = Respond 200 (PoliciesBody (newPaginatedResponse ps))))"
  using auth_api.wp_listUserPolicies [OF assms, of r k s] auth_api_ok.wp_listUserPolicies_ok [of srv view r k s]
  by (cases "auth_api_ok srv view") (auto simp: wp_def split: prod.splits)

theorem user_policies_exact_witness:
  "case run_state (listUserPolicies ref_server (ex_request []) ''alice@example.org'') ex_world of (out, t) \<Rightarrow>
    ref_view t = ref_view ex_world \<and>
        ((\<exists>m. out = Respond 404 (ErrorBody m)) \<and>
           (auth_api_ok (ref_server :: world Server) ref_view \<longrightarrow>
              (\<forall>u. stored (ref_view ex_world) (OUser u) \<longrightarrow> \<not> user_answers ''alice@example.org'' u)) \<or>
         (\<exists>m. out = Respond 500 (ErrorBody m)) \<and> \<not> auth_api_ok (ref_server :: world Server) ref_view \<or>
         (\<exists>u ps. stored (ref_view ex_world) (OUser u) \<and> user_answers ''alice@example.org'' u \<and>
            set ps = user_grants (ref_view ex_world) u \<and>
            out = Respond 200 (PoliciesBody (newPaginatedResponse ps))))"
  by (rule user_policies_exact [OF ref_auth.auth_api_axioms])

text \<open>
  C13. Deleting a user answers 204 and removes the user with everything tied to it: its credentials
  and role bindings are gone (or only wait for their finalizers), and every group of its namespace
  that had it as a member is stored with exactly its other members. If nobody answers to the
  identifier, nothing changes. (Calls reliable.)
\<close>

theorem delete_user_removes_all:
  assumes "auth_api_ok srv view" and "named_objects (view s)"
  shows "case run_state (deleteUser srv r k) s of (out, t) \<Rightarrow> out = Respond 204 NoBody \<and>
        (view t = view s \<and> (\<forall>u. stored (view s) (OUser u) \<longrightarrow> \<not> user_answers k u) \<or>
         (\<exists>u. stored (view s) (OUser u) \<and> user_answers k u \<and> user_removed (view s) (view t) u))"
  by (rule auth_api_ok.wp_deleteUser [OF assms, unfolded wp_def])

theorem delete_user_removes_all_witness:
  "case run_state (deleteUser ref_server (ex_request []) ''alice@example.org'') ex_world of (out, t) \<Rightarrow>
     out = Respond 204 NoBody \<and>
        (ref_view t = ref_view ex_world \<and>
           (\<forall>u. stored (ref_view ex_world) (OUser u) \<longrightarrow> \<not> user_answers ''alice@example.org'' u) \<or>
         (\<exists>u. stored (ref_view ex_world) (OUser u) \<and> user_answers ''alice@example.org'' u \<and>
            user_removed (ref_view ex_world) (ref_view t) u))"
  by (rule delete_user_removes_all [OF ref_auth.auth_api_ok_axioms])
    (auto simp: named_objects_def dest: ex_named)

text \<open>
  C31. A 201 of \<open>createUser\<close> describes a stored user: one that was there (found by the external id, or
  stored under the object name and carrying one of the two names), with nothing changed, or a new
  one with the requested external id under the object name made from the username.
\<close>

theorem create_user_truthful:
  assumes "auth_api srv view"
  shows "case run_state (createUser srv r) s of (out, t) \<Rightarrow>
     \<forall>b. out = Respond 201 (UserBody b) \<longrightarrow>
        (\<exists>request u. Decode decode_createUserRequest r = Some request \<and> b = userFromUser u \<and>
           created_user (view s) (view t) (request_username r request) (request_externalID r request) u)"
  by (rule auth_api.wp_createUser [OF assms, unfolded wp_def])

definition ex_create_user :: Request where
  "ex_create_user = \<lparr>r_Method = ''POST'', r_Path = ''/auth/users'', r_Query = [],
     r_Body = Some (JObject [(''username'', JString ''carol'')])\<rparr>"

theorem create_user_truthful_witness:
  "case run_state (createUser ref_server ex_create_user) ex_world of (out, t) \<Rightarrow>
     \<forall>b. out = Respond 201 (UserBody b) \<longrightarrow>
        (\<exists>request u. Decode decode_createUserRequest ex_create_user = Some request \<and> b = userFromUser u \<and>
           created_user (ref_view ex_world) (ref_view t) (request_username ex_create_user request)
             (request_externalID ex_create_user request) u)"
  by (rule create_user_truthful [OF ref_auth.auth_api_axioms])

text \<open>
  Creating users is idempotent: a request whose external id some stored user answers to is
  answered 201 with such a user, and changes nothing. (Calls reliable.)
\<close>

lemma create_user_idempotent:
  assumes "auth_api_ok srv view"
    and "user_request r = Some e" and "stored (view s) (OUser u)" and "user_answers e u"
  shows "case run_state (createUser srv r) s of (out, t) \<Rightarrow>
     view t = view s \<and> (\<exists>w. stored (view s) (OUser w) \<and> user_answers e w \<and>
        out = Respond 201 (UserBody (userFromUser w)))"
  by (rule auth_api_ok.wp_createUser_known [OF assms, unfolded wp_def])

definition ex_create_alice :: Request where
  "ex_create_alice = \<lparr>r_Method = ''POST'', r_Path = ''/auth/users'', r_Query = [],
     r_Body = Some (JObject [(''username'', JString ''alice@example.org'')])\<rparr>"

lemma create_user_idempotent_witness:
  "case run_state (createUser ref_server ex_create_alice) ex_world of (out, t) \<Rightarrow>
     ref_view t = ref_view ex_world \<and>
     (\<exists>w. stored (ref_view ex_world) (OUser w) \<and> user_answers ''alice@example.org'' w \<and>
        out = Respond 201 (UserBody (userFromUser w)))"
proof (rule create_user_idempotent [OF ref_auth.auth_api_ok_axioms])
  show "user_request ex_create_alice = Some ''alice@example.org''" by code_simp
  show "stored (ref_view ex_world) (OUser (ex_user ''alice'' ''alice@example.org''))" by (simp add: ex_view)
  show "user_answers ''alice@example.org'' (ex_user ''alice'' ''alice@example.org'')"
    by (simp add: user_answers_def userUsername_def)
qed

text \<open>
  Listing users changes nothing and, on 200, returns exactly the stored users that pass the
  filters of the query, in their wire form. The only other answer is a 500, which needs a call that
  fails for reasons of its own.
\<close>

lemma list_users_filtered:
  assumes "auth_api srv view"
  shows "case run_state (listUsers srv r) s of (out, t) \<Rightarrow> view t = view s \<and>
        ((\<exists>m. out = Respond 500 (ErrorBody m)) \<and> \<not> auth_api_ok srv view \<or>
         (\<exists>us. out = Respond 200 (UsersBody (newPaginatedResponse us)) \<and>
            set us = {w. \<exists>u. stored (view s) (OUser u) \<and> w = userFromUser u \<and> userMatchesListQuery w r}))"
  using auth_api.wp_listUsers [OF assms, of r s] auth_api_ok.wp_listUsers_ok [of srv view r s]
  by (cases "auth_api_ok srv view") (auto simp: wp_def split: prod.splits)

lemma list_users_filtered_witness:
  "case run_state (listUsers ref_server (ex_request [(''prefix'', ''bob'')])) ex_world of (out, t) \<Rightarrow>
     ref_view t = ref_view ex_world \<and>
        ((\<exists>m. out = Respond 500 (ErrorBody m)) \<and> \<not> auth_api_ok (ref_server :: world Server) ref_view \<or>
         (\<exists>us. out = Respond 200 (UsersBody (newPaginatedResponse us)) \<and>
            set us = {w. \<exists>u. stored (ref_view ex_world) (OUser u) \<and> w = userFromUser u \<and>
              userMatchesListQuery w (ex_request [(''prefix'', ''bob'')])}))"
  by (rule list_users_filtered [OF ref_auth.auth_api_axioms])

end
