(* ===== verification/AuthGroups.thy ===== *)
theory AuthGroups
  imports ExampleWorld
begin

section \<open>Groups (internal/authserver/server.go, lines 541-721)\<close>

text \<open>The handlers under \<open>/auth/groups\<close>: groups, their members and their policies.\<close>

subsection \<open>Definitions\<close>

definition listGroups :: "'s Server \<Rightarrow> Request \<Rightarrow> ('s, outcome) state" where
  "listGroups srv r = do {
     groups \<leftarrow> ListOf (client srv) GroupT Everything;
     (case groups of
        Inl _ \<Rightarrow> writeError StatusInternalServerError ''failed to list groups''
      | Inr gs \<Rightarrow> writeJSON StatusOK (GroupsBody (newPaginatedResponse (map groupFromGroup gs)))) }"

definition createGroup :: "'s Server \<Rightarrow> Request \<Rightarrow> ('s, outcome) state" where
  "createGroup srv r =
     (case Decode decode_createGroupRequest r of
        None \<Rightarrow> writeError StatusBadRequest ''invalid group request''
      | Some request \<Rightarrow>
          (let groupID = TrimSpace (firstNonEmpty [cg_ID request, cg_Name request]) in
           if groupID = '''' then writeError StatusBadRequest ''group id is required''
           else do {
             found \<leftarrow> resolveGroup srv groupID;
             (case found of
                Some item \<Rightarrow> writeJSON StatusCreated (GroupBody (groupFromGroup item))
              | None \<Rightarrow> do {
                  made \<leftarrow> ensureGroup srv groupID
                    (firstNonEmpty [cg_Description request, cg_Name request, groupID]);
                  (case made of
                     Inl _ \<Rightarrow> writeError StatusInternalServerError ''failed to create group''
                   | Inr g \<Rightarrow> writeJSON StatusCreated (GroupBody (groupFromGroup g))) }) }))"

definition listGroupMembers :: "'s Server \<Rightarrow> Request \<Rightarrow> string \<Rightarrow> ('s, outcome) state" where
  "listGroupMembers srv r groupID = do {
     found \<leftarrow> resolveGroup srv groupID;
     (case found of
        None \<Rightarrow> writeError StatusNotFound ''group not found''
      | Some g \<Rightarrow> do {
          results \<leftarrow> collect (gs_Users (group_Spec g)) (\<lambda>member. do {
            item \<leftarrow> Get (client srv) UserT (Namespace g, ur_Name member);
            return (case item of
                Inl err \<Rightarrow> if IsNotFound err then Inr [] else Inl err
              | Inr u \<Rightarrow> Inr [userFromUser u]) });
          (case results of
             Inl _ \<Rightarrow> writeError StatusInternalServerError ''failed to list group members''
           | Inr us \<Rightarrow> writeJSON StatusOK (UsersBody (newPaginatedResponse us))) }) }"

definition getGroup :: "'s Server \<Rightarrow> Request \<Rightarrow> string \<Rightarrow> ('s, outcome) state" where
  "getGroup srv r groupID = do {
     found \<leftarrow> resolveGroup srv groupID;
     (case found of
        Some g \<Rightarrow> writeJSON StatusOK (GroupBody (groupFromGroup g))
      | None \<Rightarrow> writeError StatusNotFound ''group not found'') }"

definition deleteGroup :: "'s Server \<Rightarrow> Request \<Rightarrow> string \<Rightarrow> ('s, outcome) state" where
  "deleteGroup srv r groupID = do {
     found \<leftarrow> resolveGroup srv groupID;
     (case found of
        None \<Rightarrow> WriteHeader StatusNoContent
      | Some g \<Rightarrow> do {
          deleted \<leftarrow> Delete (client srv) GroupT g;
          (if (case deleted of Inl err \<Rightarrow> \<not> IsNotFound err | Inr _ \<Rightarrow> False)
           then writeError StatusInternalServerError ''failed to delete group''
           else do {
             _ \<leftarrow> deleteRoleBindingsForSubject srv (Namespace g) LakeFSRoleBindingSubjectKindGroup (Name g);
             WriteHeader StatusNoContent }) }) }"

definition with_member :: "string \<Rightarrow> LakeFSGroup \<Rightarrow> LakeFSGroup" where
  "with_member name g =
     g\<lparr>group_Spec := (group_Spec g)\<lparr>gs_Users := gs_Users (group_Spec g) @ [\<lparr>ur_Name = name\<rparr>]\<rparr>\<rparr>"

definition addGroupMembership :: "'s Server \<Rightarrow> Request \<Rightarrow> string \<Rightarrow> string \<Rightarrow> ('s, outcome) state" where
  "addGroupMembership srv r groupID userID = do {
     found \<leftarrow> resolveGroup srv groupID;
     (case found of
        None \<Rightarrow> writeError StatusNotFound ''group not found''
      | Some g \<Rightarrow> do {
          u \<leftarrow> resolveUser srv userID;
          (case u of
             None \<Rightarrow> writeError StatusNotFound ''user not found''
           | Some u \<Rightarrow>
               if Namespace u \<noteq> Namespace g then writeError StatusNotFound ''user not found''
               else if list_ex (\<lambda>member. ur_Name member = Name u) (gs_Users (group_Spec g))
               then WriteHeader StatusCreated
               else do {
                 updated \<leftarrow> Update (client srv) GroupT (with_member (Name u) g);
                 (case updated of
                    Inl _ \<Rightarrow> writeError StatusInternalServerError ''failed to add group member''
                  | Inr _ \<Rightarrow> WriteHeader StatusCreated) }) }) }"

definition removeGroupMembership :: "'s Server \<Rightarrow> Request \<Rightarrow> string \<Rightarrow> string \<Rightarrow> ('s, outcome) state" where
  "removeGroupMembership srv r groupID userID = do {
     found \<leftarrow> resolveGroup srv groupID;
     (case found of
        None \<Rightarrow> WriteHeader StatusNoContent
      | Some g \<Rightarrow> do {
          u \<leftarrow> resolveUser srv userID;
          (case u of
             None \<Rightarrow> WriteHeader StatusNoContent
           | Some u \<Rightarrow>
               if Namespace u \<noteq> Namespace g then WriteHeader StatusNoContent
               else do {
                 updated \<leftarrow> Update (client srv) GroupT (without_member (Name u) g);
                 (case updated of
                    Inl _ \<Rightarrow> writeError StatusInternalServerError ''failed to remove group member''
                  | Inr _ \<Rightarrow> WriteHeader StatusNoContent) }) }) }"

definition attachPolicyToGroup :: "'s Server \<Rightarrow> Request \<Rightarrow> string \<Rightarrow> string \<Rightarrow> ('s, outcome) state" where
  "attachPolicyToGroup srv r groupID policyID = do {
     found \<leftarrow> resolveGroup srv groupID;
     (case found of
        None \<Rightarrow> writeError StatusNotFound ''group not found''
      | Some g \<Rightarrow> do {
          let repository = repositoryScope r;
          role \<leftarrow> resolveRoleForPolicy srv policyID repository;
          (case role of
             None \<Rightarrow> writeError StatusNotFound ''policy not found''
           | Some role \<Rightarrow> do {
               err \<leftarrow> ensureRoleBinding srv (Namespace g) LakeFSRoleBindingSubjectKindGroup (Name g)
                 (Name role) repository;
               (case err of
                  Some _ \<Rightarrow> writeError StatusInternalServerError ''failed to attach policy''
                | None \<Rightarrow> WriteHeader StatusCreated) }) }) }"

definition detachPolicyFromGroup :: "'s Server \<Rightarrow> Request \<Rightarrow> string \<Rightarrow> string \<Rightarrow> ('s, outcome) state" where
  "detachPolicyFromGroup srv r groupID policyID = do {
     found \<leftarrow> resolveGroup srv groupID;
     (case found of
        None \<Rightarrow> WriteHeader StatusNoContent
      | Some g \<Rightarrow> do {
          let repository = repositoryScope r;
          role \<leftarrow> resolveRoleForPolicy srv policyID repository;
          (case role of
             None \<Rightarrow> WriteHeader StatusNoContent
           | Some role \<Rightarrow> do {
               _ \<leftarrow> deleteRoleBinding srv (Namespace g) LakeFSRoleBindingSubjectKindGroup (Name g)
                 (Name role) repository;
               WriteHeader StatusNoContent }) }) }"

definition listGroupPolicies :: "'s Server \<Rightarrow> Request \<Rightarrow> string \<Rightarrow> ('s, outcome) state" where
  "listGroupPolicies srv r groupID = do {
     found \<leftarrow> resolveGroup srv groupID;
     (case found of
        None \<Rightarrow> writeError StatusNotFound ''group not found''
      | Some g \<Rightarrow> do {
          policies \<leftarrow> effectivePoliciesForSubject srv (Namespace g) LakeFSRoleBindingSubjectKindGroup (Name g);
          (case policies of
             Inl _ \<Rightarrow> writeError StatusInternalServerError ''failed to list policies''
           | Inr ps \<Rightarrow> writeJSON StatusOK (PoliciesBody (newPaginatedResponse ps))) }) }"

subsection \<open>Reading only\<close>

context auth_reads
begin

lemma keeps_group_reads [keeps_intros]:
  "keeps f (listGroups srv r)" "keeps f (listGroupMembers srv r k)" "keeps f (getGroup srv r k)"
  "keeps f (listGroupPolicies srv r k)"
  unfolding listGroups_def listGroupMembers_def getGroup_def listGroupPolicies_def write_defs
  by (intro keeps_intros keeps_Get keeps_ListOf keeps_lookups)+

end

subsection \<open>Members\<close>

lemma with_member_simps [simp]:
  "Name (with_member n g) = Name g" "Namespace (with_member n g) = Namespace g"
  "Finalizers (with_member n g) = Finalizers g"
  "ObjectMeta.truncate (with_member n g) = ObjectMeta.truncate g"
  by (simp_all add: with_member_def ObjectMeta.truncate_def)

lemma member_keys:
  "okey_of (OGroup (with_member n g)) = okey_of (OGroup g)"
  "okey_of (OGroup (without_member n g)) = okey_of (OGroup g)"
  by simp_all

lemma member_of_with_member:
  "group_Spec h = group_Spec (with_member n g) \<Longrightarrow> member_of m h \<longleftrightarrow> member_of m g \<or> m = n"
  by (auto simp: member_of_def with_member_def list_ex_iff)

text \<open>A group \<open>g\<close> and a user \<open>u\<close> of its namespace that the two identifiers name.\<close>

definition named_pair :: "(okey \<rightharpoonup> obj) \<Rightarrow> string \<Rightarrow> string \<Rightarrow> LakeFSGroup \<Rightarrow> LakeFSUser \<Rightarrow> bool" where
  "named_pair v gid uid g u \<longleftrightarrow> stored v (OGroup g) \<and> group_answers gid g \<and>
     stored v (OUser u) \<and> user_answers uid u \<and> Namespace u = Namespace g"

lemma named_pairI:
  "stored v (OGroup g) \<Longrightarrow> group_answers gid g \<Longrightarrow> stored v (OUser u) \<Longrightarrow> user_answers uid u \<Longrightarrow>
   Namespace u = Namespace g \<Longrightarrow> named_pair v gid uid g u"
  by (simp add: named_pair_def)

text \<open>After: the group's members are as \<open>P\<close> says, all other objects as before.\<close>

definition members_now ::
  "(okey \<rightharpoonup> obj) \<Rightarrow> (okey \<rightharpoonup> obj) \<Rightarrow> LakeFSGroup \<Rightarrow> (string \<Rightarrow> bool) \<Rightarrow> bool" where
  "members_now v v' g P \<longleftrightarrow> same_but {okey_of (OGroup g)} v v' \<and>
     (\<exists>h. v' (okey_of (OGroup g)) = Some (OGroup h) \<and> (\<forall>m. member_of m h \<longleftrightarrow> P m))"

lemma members_nowI:
  assumes "v' = v(okey_of (OGroup g) \<mapsto> OGroup h)" and "\<And>m. member_of m h \<longleftrightarrow> P m"
  shows "members_now v v' g P"
  using assms by (auto simp: members_now_def)

lemma members_now_same:
  "stored v (OGroup g) \<Longrightarrow> member_of n g \<Longrightarrow> members_now v v g (\<lambda>m. member_of m g \<or> m = n)"
  by (auto simp: members_now_def)

context auth_api
begin

lemma wp_with_member:
  assumes st: "stored (view s) (OGroup g)"
    and ok: "\<And>t h. members_now (view s) (view t) g (\<lambda>m. member_of m g \<or> m = n) \<Longrightarrow> Q (Inr h) t"
    and err: "\<And>t e. view t = view s \<Longrightarrow> Q (Inl e) t"
  shows "wp (Update (client srv) GroupT (with_member n g)) Q s"
proof -
  have "members_now (view s) (view t) g (\<lambda>m. member_of m g \<or> m = n)"
    if "view t = (view s)(okey_of (OGroup g) \<mapsto> OGroup h)" "stored_as (OGroup (with_member n g)) (OGroup h)" for t h
    by (rule members_nowI [OF that(1)]) (use that(2) in \<open>simp add: stored_as_def member_of_with_member\<close>)
  with st ok err show ?thesis
    by - (rule wp_Update_stored [where T = GroupT and z = g], simp_all add: member_keys del: okey_simps)
qed

lemma wp_without_member:
  assumes st: "stored (view s) (OGroup g)"
    and ok: "\<And>t h. members_now (view s) (view t) g (\<lambda>m. member_of m g \<and> m \<noteq> n) \<Longrightarrow> Q (Inr h) t"
    and err: "\<And>t e. view t = view s \<Longrightarrow> Q (Inl e) t"
  shows "wp (Update (client srv) GroupT (without_member n g)) Q s"
proof -
  have "members_now (view s) (view t) g (\<lambda>m. member_of m g \<and> m \<noteq> n)"
    if "view t = (view s)(okey_of (OGroup g) \<mapsto> OGroup h)" "stored_as (OGroup (without_member n g)) (OGroup h)" for t h
    by (rule members_nowI [OF that(1)]) (use that(2) in \<open>simp add: stored_as_def member_of_without_member\<close>)
  with st ok err show ?thesis
    by - (rule wp_Update_stored [where T = GroupT and z = g], simp_all add: member_keys del: okey_simps)
qed

lemma wp_addGroupMembership:
  "wp (addGroupMembership srv r gid uid)
     (\<lambda>out t. if out = Respond 201 NoBody
        then \<exists>g u. named_pair (view s) gid uid g u \<and>
               members_now (view s) (view t) g (\<lambda>m. member_of m g \<or> m = Name u)
        else view t = view s) s"
  unfolding addGroupMembership_def write_defs member_of_def [symmetric]
  by (auto intro!: groups.wp_resolve users.wp_resolve wp_with_member simp: named_pair_def simp del: okey_simps)
    (blast intro: members_now_same)+

lemma wp_removeGroupMembership:
  "wp (removeGroupMembership srv r gid uid)
     (\<lambda>out t. view t = view s \<or>
        (\<exists>g u. named_pair (view s) gid uid g u \<and> out = Respond 204 NoBody \<and>
               members_now (view s) (view t) g (\<lambda>m. member_of m g \<and> m \<noteq> Name u))) s"
  unfolding removeGroupMembership_def write_defs
  by (auto intro!: groups.wp_resolve users.wp_resolve wp_without_member simp: named_pair_def simp del: okey_simps)

end

text \<open>The stored users among the members of a group.\<close>

definition stored_members :: "(okey \<rightharpoonup> obj) \<Rightarrow> LakeFSGroup \<Rightarrow> LakeFSUser set" where
  "stored_members v g = {u. stored v (OUser u) \<and> Namespace u = Namespace g \<and> member_of (Name u) g}"

context auth_api
begin

lemma stored_members_lookup:
  "stored_members (view s) g =
     {u. \<exists>member \<in> set (gs_Users (group_Spec g)). view s (KUser, Namespace g, ur_Name member) = Some (OUser u)}"
proof -
  have "view s (KUser, ns, n) = Some (OUser u) \<longleftrightarrow> stored (view s) (OUser u) \<and> Namespace u = ns \<and> Name u = n"
    for ns n u
  proof
    assume u: "view s (KUser, ns, n) = Some (OUser u)"
    from view_okey [OF u] u show "stored (view s) (OUser u) \<and> Namespace u = ns \<and> Name u = n" by simp
  qed auto
  note at = this
  show ?thesis
    unfolding stored_members_def member_of_def list_ex_iff at by (rule Collect_cong) metis
qed

lemma wp_collect_members:
  assumes ok: "\<And>t us. view t = view s \<Longrightarrow> set us = userFromUser ` stored_members (view s) g \<Longrightarrow> Q (Inr us) t"
    and err: "\<And>t e. view t = view s \<Longrightarrow> Q (Inl e) t"
  shows "wp (collect (gs_Users (group_Spec g)) (\<lambda>member. do {
            item \<leftarrow> Get (client srv) UserT (Namespace g, ur_Name member);
            return (case item of
                Inl err \<Rightarrow> if IsNotFound err then Inr [] else Inl err
              | Inr u \<Rightarrow> Inr [userFromUser u]) })) Q s"
proof -
  let ?out = "\<lambda>member. {userFromUser u | u. view s (KUser, Namespace g, ur_Name member) = Some (OUser u)}"
  have set_eq: "(\<Union>member \<in> set (gs_Users (group_Spec g)). ?out member) = userFromUser ` stored_members (view s) g"
    by (auto simp: stored_members_lookup)
  show ?thesis
  proof (rule wp_mono [OF wp_collect_set [where Inv = "\<lambda>t. view t = view s" and F = "\<lambda>_. True" and out = ?out]])
    fix r :: "(apierror, user list) result" and t
    assume "view t = view s \<and> (case r of Inl e \<Rightarrow> True
      | Inr us \<Rightarrow> set us = (\<Union>member \<in> set (gs_Users (group_Spec g)). ?out member))"
    then show "Q r t" unfolding set_eq using ok err by (cases r) auto
  qed (auto intro!: wp_Get simp: IsNotFound_def)
qed

lemma wp_listGroupMembers:
  "wp (listGroupMembers srv r k)
     (\<lambda>out t. view t = view s \<and>
        ((\<exists>m. out = Respond 404 (ErrorBody m)) \<or> (\<exists>m. out = Respond 500 (ErrorBody m)) \<or>
         (\<exists>g us. stored (view s) (OGroup g) \<and> group_answers k g \<and>
            set us = userFromUser ` stored_members (view s) g \<and>
            out = Respond 200 (UsersBody (newPaginatedResponse us))))) s"
  unfolding listGroupMembers_def write_defs wp_bind
  by (rule groups.wp_resolve) (auto intro!: wp_collect_members, blast)

lemma wp_attachPolicyToGroup:
  "wp (attachPolicyToGroup srv r k p)
     (\<lambda>out t. if out = Respond 201 NoBody
        then \<exists>g. stored (view s) (OGroup g) \<and> group_answers k g \<and>
          attached (view s) (view t) (Namespace g) LakeFSRoleBindingSubjectKindGroup (Name g) p (repositoryScope r)
        else view t = view s) s"
  unfolding attachPolicyToGroup_def Let_def write_defs wp_bind
  by (rule groups.wp_resolve) (auto intro!: wp_attach)

lemma wp_listGroupPolicies:
  "wp (listGroupPolicies srv r k)
     (\<lambda>out t. view t = view s \<and>
        ((\<exists>m. out = Respond 404 (ErrorBody m)) \<or> (\<exists>m. out = Respond 500 (ErrorBody m)) \<or>
         (\<exists>g ps. stored (view s) (OGroup g) \<and> group_answers k g \<and>
            set ps = grants (view s) (Namespace g) LakeFSRoleBindingSubjectKindGroup (Name g) \<and>
            out = Respond 200 (PoliciesBody (newPaginatedResponse ps))))) s"
  unfolding listGroupPolicies_def write_defs
  by (auto intro!: groups.wp_resolve wp_effectivePoliciesForSubject) blast

end

lemma members_now_grants:
  assumes "members_now v v' g P"
  shows "grants v' ns kind sub = grants v ns kind sub"
proof -
  from assms have "same_but {okey_of (OGroup g)} v v'" by (simp add: members_now_def)
  then have "v' (KRole, x) = v (KRole, x)" "v' (KRoleBinding, x) = v (KRoleBinding, x)"
    for x by (cases x; auto simp: same_but_def)+
  then show ?thesis by (simp add: grants_def)
qed

context auth_api
begin

lemma members_now_user_grants:
  assumes now: "members_now (view s) (view t) g P" and P: "P (Name u)" and ns: "Namespace u = Namespace g"
  shows "grants (view s) (Namespace g) LakeFSRoleBindingSubjectKindGroup (Name g) \<subseteq> user_grants (view t) u"
proof -
  from now P obtain h where h: "view t (okey_of (OGroup g)) = Some (OGroup h)" and m: "member_of (Name u) h"
    unfolding members_now_def by blast
  from view_okey [OF h] have key: "okey_of (OGroup h) = okey_of (OGroup g)" .
  with h have "stored (view t) (OGroup h)" by simp
  with key m ns show ?thesis
    unfolding members_now_grants [OF now, symmetric] user_grants_def
    by (intro subsetI UnI2 UN_I [where a = h]) simp_all
qed

end

context auth_api_ok
begin

lemma wp_collect_members_ok:
  assumes ok: "\<And>t us. view t = view s \<Longrightarrow> set us = userFromUser ` stored_members (view s) g \<Longrightarrow> Q (Inr us) t"
  shows "wp (collect (gs_Users (group_Spec g)) (\<lambda>member. do {
            item \<leftarrow> Get (client srv) UserT (Namespace g, ur_Name member);
            return (case item of
                Inl err \<Rightarrow> if IsNotFound err then Inr [] else Inl err
              | Inr u \<Rightarrow> Inr [userFromUser u]) })) Q s" (is "wp ?m Q s")
proof -
  have "wp ?m (\<lambda>r t. r = Inr (projr r)) s"
    by (rule wp_mono [OF wp_collect_rel [where Inv = "\<lambda>_. True" and F = "\<lambda>_. False" and P = "\<lambda>_ _. True"]])
      (auto intro!: wp_Get_ok simp: IsNotFound_def split: sum.splits)
  moreover have "wp ?m (\<lambda>r t. r = Inr (projr r) \<longrightarrow> Q r t) s"
    by (rule wp_collect_members) (use ok in auto)
  ultimately show ?thesis by (rule wp_mono [OF wp_conj]) simp
qed

lemma wp_listGroupMembers_ok:
  "wp (listGroupMembers srv r k)
     (\<lambda>out t. view t = view s \<and>
        ((\<exists>m. out = Respond 404 (ErrorBody m)) \<and>
           (\<forall>g. stored (view s) (OGroup g) \<longrightarrow> \<not> group_answers k g) \<or>
         (\<exists>g us. stored (view s) (OGroup g) \<and> group_answers k g \<and>
            set us = userFromUser ` stored_members (view s) g \<and>
            out = Respond 200 (UsersBody (newPaginatedResponse us))))) s"
  unfolding listGroupMembers_def write_defs wp_bind
  by (rule groups.wp_resolve_total) (auto intro!: wp_collect_members_ok, blast)

lemma wp_listGroupPolicies_ok:
  "wp (listGroupPolicies srv r k)
     (\<lambda>out t. view t = view s \<and>
        ((\<exists>m. out = Respond 404 (ErrorBody m)) \<and>
           (\<forall>g. stored (view s) (OGroup g) \<longrightarrow> \<not> group_answers k g) \<or>
         (\<exists>g ps. stored (view s) (OGroup g) \<and> group_answers k g \<and>
            set ps = grants (view s) (Namespace g) LakeFSRoleBindingSubjectKindGroup (Name g) \<and>
            out = Respond 200 (PoliciesBody (newPaginatedResponse ps))))) s"
  unfolding listGroupPolicies_def write_defs
  by (auto intro!: groups.wp_resolve_total wp_effectivePoliciesForSubject_ok) blast

end

text \<open>A role that is not in the subject's namespace grants it nothing.\<close>

lemma attached_elsewhere:
  assumes "attached v v' ns kind sub p repo"
    and none: "\<And>x. stored v (ORole x) \<Longrightarrow> role_answers (p, repo) x \<Longrightarrow> v (KRole, ns, Name x) = None"
  shows "grants v' ns kind sub \<subseteq> grants v ns kind sub"
proof
  fix q
  assume q: "q \<in> grants v' ns kind sub"
  from assms(1) obtain role b where r: "stored v (ORole role)" "role_answers (p, repo) role"
    and b: "binding_Spec b = binding_spec kind sub (Name role) repo"
    and v': "v' = v(binding_key ns kind sub (Name role) repo \<mapsto> ORoleBinding b)"
    unfolding attached_def by blast
  have roles: "v' (KRole, x) = v (KRole, x)" for x by (simp add: v' binding_key_def)
  from q obtain d h where d: "stored v' (ORoleBinding d)" "Namespace d = ns"
      "bs_Subject (binding_Spec d) = \<lparr>sb_Kind = kind, sb_Name = sub\<rparr>"
    and h: "v' (KRole, ns, rr_Name (bs_RoleRef (binding_Spec d))) = Some (ORole h)"
      "q \<in> set (policiesFromRole h (bs_Repository (binding_Spec d)))"
    by (auto simp: grants_def)
  show "q \<in> grants v ns kind sub"
  proof (cases "okey_of (ORoleBinding d) = binding_key ns kind sub (Name role) repo")
    case True
    with d(1) v' have "d = b" by simp
    with h(1) b none [OF r] show ?thesis by (simp add: roles binding_spec_def)
  next
    case False
    with d(1) v' have "stored v (ORoleBinding d)" by simp
    with d h show ?thesis by (auto simp: grants_def roles)
  qed
qed

lemma attached_groups: "attached v v' ns kind sub p repo \<Longrightarrow> v' (KGroup, x) = v (KGroup, x)"
  by (auto simp: attached_def binding_key_def)

context auth_api_ok
begin

lemma wp_attach_elsewhere:
  assumes g: "stored (view s) (OGroup g)" "group_answers k g"
    and only: "\<And>x. stored (view s) (OGroup x) \<Longrightarrow> group_answers k x \<Longrightarrow> x = g"
    and h: "stored (view s) (ORole h)" "role_answers (p, repositoryScope r) h"
  shows "wp (attachPolicyToGroup srv r k p) (\<lambda>out t.
      out = Respond 201 NoBody \<and>
        attached (view s) (view t) (Namespace g) LakeFSRoleBindingSubjectKindGroup (Name g) p (repositoryScope r) \<or>
      (\<exists>m. out = Respond 500 (ErrorBody m)) \<and> view t = view s) s"
  unfolding attachPolicyToGroup_def Let_def write_defs wp_bind
proof (rule groups.wp_resolve_total)
  fix t x
  assume t: "view t = view s" and "stored (view s) (OGroup x)" "group_answers k x"
  then have x: "x = g" by (intro only)
  show "wp (case Some x of None \<Rightarrow> return (Respond StatusNotFound (ErrorBody ''group not found''))
      | Some g \<Rightarrow> do {
          role \<leftarrow> resolveRoleForPolicy srv p (repositoryScope r);
          (case role of
             None \<Rightarrow> return (Respond StatusNotFound (ErrorBody ''policy not found''))
           | Some role \<Rightarrow> do {
               err \<leftarrow> ensureRoleBinding srv (Namespace g) LakeFSRoleBindingSubjectKindGroup (Name g)
                 (Name role) (repositoryScope r);
               (case err of
                  Some _ \<Rightarrow> return (Respond StatusInternalServerError (ErrorBody ''failed to attach policy''))
                | None \<Rightarrow> return (Respond StatusCreated NoBody)) }) })
     (\<lambda>out t. out = Respond 201 NoBody \<and>
        attached (view s) (view t) (Namespace g) LakeFSRoleBindingSubjectKindGroup (Name g) p (repositoryScope r) \<or>
      (\<exists>m. out = Respond 500 (ErrorBody m)) \<and> view t = view s) t"
    unfolding option.case wp_bind x
  proof (rule roles.wp_resolve_total [where k = "(p, repositoryScope r)", simplified fst_conv snd_conv])
    fix u y
    assume u: "view u = view t" and y: "stored (view t) (ORole y)" "role_answers (p, repositoryScope r) y"
    have "attached (view s) (view w) (Namespace g) LakeFSRoleBindingSubjectKindGroup (Name g) p (repositoryScope r)"
      if "okey_of (ORoleBinding b) = binding_key (Namespace g) LakeFSRoleBindingSubjectKindGroup (Name g) (Name y) (repositoryScope r)"
        "binding_Spec b = binding_spec LakeFSRoleBindingSubjectKindGroup (Name g) (Name y) (repositoryScope r)"
        "view w = (view u)(binding_key (Namespace g) LakeFSRoleBindingSubjectKindGroup (Name g) (Name y) (repositoryScope r) \<mapsto> ORoleBinding b)"
      for w b
      using that y t u unfolding attached_def by (metis (no_types))
    with t u show "wp (case Some y of
             None \<Rightarrow> return (Respond StatusNotFound (ErrorBody ''policy not found''))
           | Some role \<Rightarrow> do {
               err \<leftarrow> ensureRoleBinding srv (Namespace g) LakeFSRoleBindingSubjectKindGroup (Name g)
                 (Name role) (repositoryScope r);
               (case err of
                  Some _ \<Rightarrow> return (Respond StatusInternalServerError (ErrorBody ''failed to attach policy''))
                | None \<Rightarrow> return (Respond StatusCreated NoBody)) })
       (\<lambda>out t. out = Respond 201 NoBody \<and>
          attached (view s) (view t) (Namespace g) LakeFSRoleBindingSubjectKindGroup (Name g) p (repositoryScope r) \<or>
        (\<exists>m. out = Respond 500 (ErrorBody m)) \<and> view t = view s) u"
      by (auto intro!: wp_ensureRoleBinding)
  qed (use h t in auto)
qed (use g in auto)

lemma wp_attach_and_list:
  assumes g: "stored (view s) (OGroup g)" "group_answers k g"
    and only: "\<And>x. stored (view s) (OGroup x) \<Longrightarrow> group_answers k x \<Longrightarrow> x = g"
    and h: "stored (view s) (ORole h)" "role_answers (p, repositoryScope r) h"
    and none: "\<And>x. stored (view s) (ORole x) \<Longrightarrow> role_answers (p, repositoryScope r) x \<Longrightarrow>
      view s (KRole, Namespace g, Name x) = None"
  shows "wp (do { out1 \<leftarrow> attachPolicyToGroup srv r k p;
                  out2 \<leftarrow> listGroupPolicies srv r2 k;
                  return (out1, out2) })
    (\<lambda>(out1, out2) t. (out1 = Respond 201 NoBody \<or> (\<exists>m. out1 = Respond 500 (ErrorBody m))) \<and>
       (\<exists>ps. out2 = Respond 200 (PoliciesBody (newPaginatedResponse ps)) \<and>
          set ps \<subseteq> grants (view s) (Namespace g) LakeFSRoleBindingSubjectKindGroup (Name g))) s"
  unfolding wp_bind
proof (rule wp_mono [OF wp_attach_elsewhere [OF g only h]])
  fix out1 t
  assume a: "out1 = Respond 201 NoBody \<and>
        attached (view s) (view t) (Namespace g) LakeFSRoleBindingSubjectKindGroup (Name g) p (repositoryScope r) \<or>
      (\<exists>m. out1 = Respond 500 (ErrorBody m)) \<and> view t = view s"
  have sub: "grants (view t) (Namespace g) LakeFSRoleBindingSubjectKindGroup (Name g) \<subseteq>
      grants (view s) (Namespace g) LakeFSRoleBindingSubjectKindGroup (Name g)"
    using a
  proof
    assume "out1 = Respond 201 NoBody \<and>
        attached (view s) (view t) (Namespace g) LakeFSRoleBindingSubjectKindGroup (Name g) p (repositoryScope r)"
    from attached_elsewhere [OF conjunct2 [OF this] none] show ?thesis .
  qed simp
  have same: "view t (KGroup, x) = view s (KGroup, x)" for x
    using a by (auto dest: attached_groups simp del: split_paired_All)
  show "wp (listGroupPolicies srv r2 k) (\<lambda>out2. wp (return (out1, out2)) (\<lambda>(out1, out2) t.
       (out1 = Respond 201 NoBody \<or> (\<exists>m. out1 = Respond 500 (ErrorBody m))) \<and>
       (\<exists>ps. out2 = Respond 200 (PoliciesBody (newPaginatedResponse ps)) \<and>
          set ps \<subseteq> grants (view s) (Namespace g) LakeFSRoleBindingSubjectKindGroup (Name g)))) t"
  proof (rule wp_mono [OF wp_listGroupPolicies_ok])
    fix out2 u
    assume "view u = view t \<and>
        ((\<exists>m. out2 = Respond 404 (ErrorBody m)) \<and> (\<forall>g. stored (view t) (OGroup g) \<longrightarrow> \<not> group_answers k g) \<or>
         (\<exists>g ps. stored (view t) (OGroup g) \<and> group_answers k g \<and>
            set ps = grants (view t) (Namespace g) LakeFSRoleBindingSubjectKindGroup (Name g) \<and>
            out2 = Respond 200 (PoliciesBody (newPaginatedResponse ps))))"
    then obtain x ps where "stored (view s) (OGroup x)" "group_answers k x"
      and ps: "set ps = grants (view t) (Namespace x) LakeFSRoleBindingSubjectKindGroup (Name x)"
        "out2 = Respond 200 (PoliciesBody (newPaginatedResponse ps))"
      using g by (auto simp: same)
    then have "x = g" by (intro only)
    with ps sub a show "wp (return (out1, out2)) (\<lambda>(out1, out2) t.
       (out1 = Respond 201 NoBody \<or> (\<exists>m. out1 = Respond 500 (ErrorBody m))) \<and>
       (\<exists>ps. out2 = Respond 200 (PoliciesBody (newPaginatedResponse ps)) \<and>
          set ps \<subseteq> grants (view s) (Namespace g) LakeFSRoleBindingSubjectKindGroup (Name g))) u" by auto
  qed
qed

end

text \<open>No pair to change: an identifier names nothing, or the two are in different namespaces.\<close>

definition no_pair :: "(okey \<rightharpoonup> obj) \<Rightarrow> string \<Rightarrow> string \<Rightarrow> bool" where
  "no_pair v gid uid \<longleftrightarrow>
     (\<forall>g. stored v (OGroup g) \<longrightarrow> \<not> group_answers gid g) \<or>
     (\<forall>u. stored v (OUser u) \<longrightarrow> \<not> user_answers uid u) \<or>
     (\<exists>g u. stored v (OGroup g) \<and> group_answers gid g \<and> stored v (OUser u) \<and> user_answers uid u \<and>
        Namespace u \<noteq> Namespace g)"

context auth_api_ok
begin

lemma wp_with_member_ok:
  assumes st: "stored (view s) (OGroup g)"
    and ok: "\<And>t h. members_now (view s) (view t) g (\<lambda>m. member_of m g \<or> m = n) \<Longrightarrow> Q (Inr h) t"
  shows "wp (Update (client srv) GroupT (with_member n g)) Q s"
proof -
  have "wp (Update (client srv) GroupT (with_member n g)) (\<lambda>r t. r = Inr (projr r)) s"
    using st by (auto intro!: wp_Update_ok)
  moreover have "wp (Update (client srv) GroupT (with_member n g)) (\<lambda>r t. r = Inr (projr r) \<longrightarrow> Q r t) s"
    by (rule wp_with_member [OF st]) (use ok in auto)
  ultimately show ?thesis by (rule wp_mono [OF wp_conj]) simp
qed

lemma wp_addGroupMembership_ok:
  "wp (addGroupMembership srv r gid uid)
     (\<lambda>out t. out = Respond 201 NoBody \<and>
          (\<exists>g u. named_pair (view s) gid uid g u \<and>
               members_now (view s) (view t) g (\<lambda>m. member_of m g \<or> m = Name u)) \<or>
        (\<exists>m. out = Respond 404 (ErrorBody m)) \<and> view t = view s \<and> no_pair (view s) gid uid) s"
  unfolding addGroupMembership_def write_defs member_of_def [symmetric]
  by (auto intro!: groups.wp_resolve_total users.wp_resolve_total wp_with_member_ok
        simp: named_pair_def no_pair_def simp del: okey_simps)
    (blast intro: members_now_same)+

lemma named_pair_grants:
  assumes "named_pair (view s) gid uid g u"
    and now: "members_now (view s) (view t) g (\<lambda>m. member_of m g \<or> m = Name u)"
  shows "grants (view s) (Namespace g) LakeFSRoleBindingSubjectKindGroup (Name g) \<subseteq> user_grants (view t) u"
  by (rule members_now_user_grants [OF now]) (use assms(1) in \<open>simp_all add: named_pair_def\<close>)

lemma wp_addGroupMembership_grants:
  "wp (addGroupMembership srv r gid uid)
     (\<lambda>out t. out = Respond 201 NoBody \<and>
          (\<exists>g u. named_pair (view s) gid uid g u \<and>
               members_now (view s) (view t) g (\<lambda>m. member_of m g \<or> m = Name u) \<and>
               grants (view s) (Namespace g) LakeFSRoleBindingSubjectKindGroup (Name g) \<subseteq> user_grants (view t) u) \<or>
        (\<exists>m. out = Respond 404 (ErrorBody m)) \<and> view t = view s \<and> no_pair (view s) gid uid) s"
  by (rule wp_mono [OF wp_addGroupMembership_ok]) (blast dest: named_pair_grants)

end

subsection \<open>Properties\<close>

text \<open>
  C26. Adding a member: under reliable calls the answer is 201 exactly when the identifiers name a
  group and a user of one namespace; then the group's members are the old ones and the user, no
  other object has changed, and the user is granted all that the group is. Else 404, nothing changed.
\<close>

theorem add_member_effect:
  assumes "auth_api_ok srv view"
  shows "case run_state (addGroupMembership srv r gid uid) s of (out, t) \<Rightarrow>
     out = Respond 201 NoBody \<and>
        (\<exists>g u. named_pair (view s) gid uid g u \<and>
             members_now (view s) (view t) g (\<lambda>m. member_of m g \<or> m = Name u) \<and>
             grants (view s) (Namespace g) LakeFSRoleBindingSubjectKindGroup (Name g) \<subseteq> user_grants (view t) u) \<or>
     (\<exists>m. out = Respond 404 (ErrorBody m)) \<and> view t = view s \<and> no_pair (view s) gid uid"
  by (rule auth_api_ok.wp_addGroupMembership_grants [OF assms, unfolded wp_def])

theorem add_member_effect_witness:
  "case run_state (addGroupMembership ref_server (ex_request []) ''Devs'' ''bob'') ex_world of (out, t) \<Rightarrow>
     out = Respond 201 NoBody \<and>
        (\<exists>g u. named_pair (ref_view ex_world) ''Devs'' ''bob'' g u \<and>
             members_now (ref_view ex_world) (ref_view t) g (\<lambda>m. member_of m g \<or> m = Name u) \<and>
             grants (ref_view ex_world) (Namespace g) LakeFSRoleBindingSubjectKindGroup (Name g)
               \<subseteq> user_grants (ref_view t) u) \<or>
     (\<exists>m. out = Respond 404 (ErrorBody m)) \<and> ref_view t = ref_view ex_world \<and>
        no_pair (ref_view ex_world) ''Devs'' ''bob''"
  by (rule add_member_effect [OF ref_auth.auth_api_ok_axioms])

text \<open>
  Removing a member: whatever happens on the way, either nothing is changed or the answer is
  204 and the group's members are the old ones without the user, all other objects as before.
\<close>

lemma remove_member_effect:
  assumes "auth_api srv view"
  shows "case run_state (removeGroupMembership srv r gid uid) s of (out, t) \<Rightarrow> view t = view s \<or>
        (\<exists>g u. named_pair (view s) gid uid g u \<and> out = Respond 204 NoBody \<and>
               members_now (view s) (view t) g (\<lambda>m. member_of m g \<and> m \<noteq> Name u))"
  by (rule auth_api.wp_removeGroupMembership [OF assms, unfolded wp_def])

lemma remove_member_effect_witness:
  "case run_state (removeGroupMembership ref_server (ex_request []) ''Devs'' ''alice'') ex_world of (out, t) \<Rightarrow>
     ref_view t = ref_view ex_world \<or>
        (\<exists>g u. named_pair (ref_view ex_world) ''Devs'' ''alice'' g u \<and> out = Respond 204 NoBody \<and>
               members_now (ref_view ex_world) (ref_view t) g (\<lambda>m. member_of m g \<and> m \<noteq> Name u))"
  by (rule remove_member_effect [OF ref_auth.auth_api_axioms])

text \<open>
  Listing the members of a group changes nothing and, on 200, returns exactly the users that are
  stored in the group's namespace and named as members: a member without a stored user is left out.
  A 500 needs a call that fails for reasons of its own; without such calls a 404 means that no stored
  group answers to the identifier.
\<close>

lemma group_members_exact:
  assumes "auth_api srv view"
  shows "case run_state (listGroupMembers srv r k) s of (out, t) \<Rightarrow> view t = view s \<and>
        ((\<exists>m. out = Respond 404 (ErrorBody m)) \<and>
           (auth_api_ok srv view \<longrightarrow> (\<forall>g. stored (view s) (OGroup g) \<longrightarrow> \<not> group_answers k g)) \<or>
         (\<exists>m. out = Respond 500 (ErrorBody m)) \<and> \<not> auth_api_ok srv view \<or>
         (\<exists>g us. stored (view s) (OGroup g) \<and> group_answers k g \<and>
            set us = userFromUser ` stored_members (view s) g \<and>
            out = Respond 200 (UsersBody (newPaginatedResponse us))))"
  using auth_api.wp_listGroupMembers [OF assms, of r k s] auth_api_ok.wp_listGroupMembers_ok [of srv view r k s]
  by (cases "auth_api_ok srv view") (auto simp: wp_def split: prod.splits)

lemma group_members_exact_witness:
  "case run_state (listGroupMembers ref_server (ex_request []) ''Devs'') ex_world of (out, t) \<Rightarrow>
     ref_view t = ref_view ex_world \<and>
        ((\<exists>m. out = Respond 404 (ErrorBody m)) \<and>
           (auth_api_ok (ref_server :: world Server) ref_view \<longrightarrow>
              (\<forall>g. stored (ref_view ex_world) (OGroup g) \<longrightarrow> \<not> group_answers ''Devs'' g)) \<or>
         (\<exists>m. out = Respond 500 (ErrorBody m)) \<and> \<not> auth_api_ok (ref_server :: world Server) ref_view \<or>
         (\<exists>g us. stored (ref_view ex_world) (OGroup g) \<and> group_answers ''Devs'' g \<and>
            set us = userFromUser ` stored_members (ref_view ex_world) g \<and>
            out = Respond 200 (UsersBody (newPaginatedResponse us))))"
  by (rule group_members_exact [OF ref_auth.auth_api_axioms])

text \<open>
  C30. Attaching a policy to a group: a 201 means that a stored role which has the policy is now
  bound to the group, in the group's namespace, for the repository scope of the request, and that
  no other object has changed; if all roles that have the policy are in the group's namespace, the
  group is then granted it. With any other answer nothing has changed.
\<close>

theorem attach_to_group_effect:
  assumes "auth_api srv view"
  shows "case run_state (attachPolicyToGroup srv r k p) s of (out, t) \<Rightarrow>
     if out = Respond 201 NoBody
     then \<exists>g. stored (view s) (OGroup g) \<and> group_answers k g \<and>
        attached (view s) (view t) (Namespace g) LakeFSRoleBindingSubjectKindGroup (Name g) p (repositoryScope r) \<and>
        ((\<forall>role. stored (view s) (ORole role) \<and> role_answers (p, repositoryScope r) role
             \<longrightarrow> Namespace role = Namespace g) \<longrightarrow>
         (\<exists>q \<in> grants (view t) (Namespace g) LakeFSRoleBindingSubjectKindGroup (Name g). p_Name q = p))
     else view t = view s"
proof -
  have grant: "\<exists>q \<in> grants v' ns LakeFSRoleBindingSubjectKindGroup n. p_Name q = p"
    if "attached v v' ns LakeFSRoleBindingSubjectKindGroup n p repo"
      and "\<forall>role. stored v (ORole role) \<and> role_answers (p, repo) role \<longrightarrow> Namespace role = ns"
    for v v' ns n repo
    using that(2) by (intro attached_granted [OF that(1)]) blast
  show ?thesis
    by (rule wp_mono [OF auth_api.wp_attachPolicyToGroup [OF assms], unfolded wp_def])
      (use grant in \<open>auto simp del: okey_simps split: if_splits\<close>)
qed

theorem attach_to_group_effect_witness:
  "case run_state (attachPolicyToGroup ref_server (ex_request [(''repository'', ''demo'')]) ''Devs'' ''Read'')
       ex_world of (out, t) \<Rightarrow>
     if out = Respond 201 NoBody
     then \<exists>g. stored (ref_view ex_world) (OGroup g) \<and> group_answers ''Devs'' g \<and>
        attached (ref_view ex_world) (ref_view t) (Namespace g) LakeFSRoleBindingSubjectKindGroup (Name g) ''Read''
          (repositoryScope (ex_request [(''repository'', ''demo'')])) \<and>
        ((\<forall>role. stored (ref_view ex_world) (ORole role) \<and>
             role_answers (''Read'', repositoryScope (ex_request [(''repository'', ''demo'')])) role
             \<longrightarrow> Namespace role = Namespace g) \<longrightarrow>
         (\<exists>q \<in> grants (ref_view t) (Namespace g) LakeFSRoleBindingSubjectKindGroup (Name g). p_Name q = ''Read''))
     else ref_view t = ref_view ex_world"
  by (rule attach_to_group_effect [OF ref_auth.auth_api_axioms])

definition ex_write_policy :: LakeFSRole where
  "ex_write_policy = ObjectMeta.extend (new_meta ''lakefs-policy-write'' ''lakefs-system'')
     \<lparr>role_Spec = \<lparr>rs_Description = '''', rs_Policies =
        [\<lparr>pt_Name = ''Write'', pt_Statement =
           [\<lparr>ps_Effect = ''allow'', ps_Resource = ''*'', ps_Action = [''fs:*'']\<rparr>]\<rparr>]\<rparr>,
      role_Status = new_status\<rparr>"

text \<open>
  C40. Attaching a policy across namespaces grants nothing. Let the identifier name one stored group, let some stored
  role have the policy, and let no role that has it have a namesake in the group's namespace; so they are all in
  other namespaces, as a policy written through the API is for a group outside the default namespace.
  Then attaching is answered 201, or 500 if the binding cannot be written, and the policies that are listed for the
  group afterwards are all among those it was granted before. (Calls reliable.)
\<close>

theorem attach_across_namespaces:
  assumes "auth_api_ok srv view"
    and "stored (view s) (OGroup g)" and "group_answers k g"
    and "\<And>x. stored (view s) (OGroup x) \<Longrightarrow> group_answers k x \<Longrightarrow> x = g"
    and "stored (view s) (ORole h)" and "role_answers (p, repositoryScope r) h"
    and "\<And>x. stored (view s) (ORole x) \<Longrightarrow> role_answers (p, repositoryScope r) x \<Longrightarrow>
      view s (KRole, Namespace g, Name x) = None"
  shows "case run_state (do {
             out1 \<leftarrow> attachPolicyToGroup srv r k p;
             out2 \<leftarrow> listGroupPolicies srv r2 k;
             return (out1, out2) }) s of
    ((out1, out2), t) \<Rightarrow> (out1 = Respond 201 NoBody \<or> (\<exists>m. out1 = Respond 500 (ErrorBody m))) \<and>
       (\<exists>ps. out2 = Respond 200 (PoliciesBody (newPaginatedResponse ps)) \<and>
          set ps \<subseteq> grants (view s) (Namespace g) LakeFSRoleBindingSubjectKindGroup (Name g))"
  by (rule wp_pairD [OF auth_api_ok.wp_attach_and_list [OF assms]])

definition ex_write_world :: world where
  "ex_write_world = ex_world\<lparr>w_objs := ORole ex_write_policy # w_objs ex_world\<rparr>"

definition attach_and_list :: "(world, outcome \<times> outcome) state" where
  "attach_and_list = do {
     out1 \<leftarrow> attachPolicyToGroup ref_server (ex_request []) ''Devs'' ''Write'';
     out2 \<leftarrow> listGroupPolicies ref_server (ex_request []) ''Devs'';
     return (out1, out2) }"

lemma ex_attached:
  "case run_state attach_and_list ex_write_world of ((out1, _), _) \<Rightarrow>
     (case out1 of Respond c NoBody \<Rightarrow> c = 201 | _ \<Rightarrow> False)"
  by code_simp

lemma ex_write_world_roles:
  assumes "stored (ref_view ex_write_world) (ORole x)" and "role_answers (''Write'', repositoryScope (ex_request [])) x"
  shows "x = ex_write_policy"
proof -
  have "x = ex_write_policy \<or> x = ex_role"
    using ref_view_mem [OF assms(1)] by (simp add: ex_write_world_def ex_world_def)
  moreover have "\<not> role_answers (''Write'', repositoryScope (ex_request [])) ex_role" by code_simp
  ultimately show ?thesis using assms(2) by blast
qed

theorem attach_across_namespaces_witness:
  "case run_state attach_and_list ex_write_world of ((out1, out2), t) \<Rightarrow> out1 = Respond 201 NoBody \<and>
     (\<exists>ps. out2 = Respond 200 (PoliciesBody (newPaginatedResponse ps)) \<and>
        set ps \<subseteq> grants (ref_view ex_write_world) ''data'' LakeFSRoleBindingSubjectKindGroup ''devs'')"
proof -
  have names: "Namespace ex_group = ''data''" "Name ex_group = ''devs''" by simp_all
  have "case run_state attach_and_list ex_write_world of
    ((out1, out2), t) \<Rightarrow> (out1 = Respond 201 NoBody \<or> (\<exists>m. out1 = Respond 500 (ErrorBody m))) \<and>
       (\<exists>ps. out2 = Respond 200 (PoliciesBody (newPaginatedResponse ps)) \<and>
          set ps \<subseteq> grants (ref_view ex_write_world) ''data'' LakeFSRoleBindingSubjectKindGroup ''devs'')"
    unfolding attach_and_list_def
  proof (rule attach_across_namespaces [OF ref_auth.auth_api_ok_axioms, where g = ex_group and h = ex_write_policy, unfolded names])
    show "stored (ref_view ex_write_world) (OGroup ex_group)" and "stored (ref_view ex_write_world) (ORole ex_write_policy)"
      by (simp_all add: ref_view_def ex_write_world_def ex_world_def ex_write_policy_def)
    show "group_answers ''Devs'' ex_group" by code_simp
    show "role_answers (''Write'', repositoryScope (ex_request [])) ex_write_policy" by code_simp
    show "x = ex_group" if "stored (ref_view ex_write_world) (OGroup x)" for x
      using ref_view_mem [OF that] by (simp add: ex_write_world_def ex_world_def)
    show "ref_view ex_write_world (KRole, ''data'', Name x) = None"
      if "stored (ref_view ex_write_world) (ORole x)" "role_answers (''Write'', repositoryScope (ex_request [])) x" for x
      by (simp add: ex_write_world_roles [OF that] ref_view_def ex_write_world_def ex_world_def ex_write_policy_def)
  qed
  with ex_attached show ?thesis by (auto split: prod.splits outcome.splits body.splits)
qed

end
