(* ===== verification/AuthPolicies.thy ===== *)
theory AuthPolicies
  imports ExampleWorld
begin

section \<open>Policies (internal/authserver/server.go, lines 723-801)\<close>

text \<open>The handlers under \<open>/auth/policies\<close>. A policy is stored as a role with one template.\<close>

subsection \<open>Definitions\<close>

definition listPolicies :: "'s Server \<Rightarrow> Request \<Rightarrow> ('s, outcome) state" where
  "listPolicies srv r = do {
     roles \<leftarrow> ListOf (client srv) RoleT Everything;
     (case roles of
        Inl _ \<Rightarrow> writeError StatusInternalServerError ''failed to list policies''
      | Inr rs \<Rightarrow> writeJSON StatusOK (PoliciesBody (newPaginatedResponse
          (concat (map (\<lambda>role. policiesFromRole role ''*'') rs))))) }"

text \<open>The variadic \<open>fallbackName\<close> is a list.\<close>

definition writePolicy :: "'s Server \<Rightarrow> Request \<Rightarrow> nat \<Rightarrow> string list \<Rightarrow> ('s, outcome) state" where
  "writePolicy srv r status fallbackName =
     (case Decode decode_policy r of
        None \<Rightarrow> writeError StatusBadRequest ''invalid policy request''
      | Some request \<Rightarrow>
          (let request = (if p_Name request = '''' \<and> length fallbackName > 0
                          then request\<lparr>p_Name := fallbackName ! 0\<rparr> else request) in
           if p_Name request = '''' then writeError StatusBadRequest ''policy name is required''
           else do {
             let role = roleFromPolicy (defaultUserNamespace srv) request;
             err \<leftarrow> Create (client srv) RoleT role;
             (case err of
                Inl e \<Rightarrow>
                  if IsAlreadyExists e then do {
                    existing \<leftarrow> Get (client srv) RoleT (Namespace role, Name role);
                    (case existing of
                       Inl getErr \<Rightarrow> writeError StatusInternalServerError ''failed to read policy''
                     | Inr ex \<Rightarrow> do {
                         updated \<leftarrow> Update (client srv) RoleT (ex\<lparr>role_Spec := role_Spec role\<rparr>);
                         (case updated of
                            Inl updateErr \<Rightarrow> writeError StatusInternalServerError ''failed to update policy''
                          | Inr _ \<Rightarrow> writeJSON status (PolicyBody request)) }) }
                  else writeError StatusInternalServerError ''failed to create policy''
              | Inr _ \<Rightarrow> writeJSON status (PolicyBody request)) }))"

definition createPolicy :: "'s Server \<Rightarrow> Request \<Rightarrow> ('s, outcome) state" where
  "createPolicy srv r = writePolicy srv r StatusCreated []"

definition updatePolicy :: "'s Server \<Rightarrow> Request \<Rightarrow> string \<Rightarrow> ('s, outcome) state" where
  "updatePolicy srv r policyID = writePolicy srv r StatusOK [policyID]"

definition deletePolicy :: "'s Server \<Rightarrow> Request \<Rightarrow> string \<Rightarrow> ('s, outcome) state" where
  "deletePolicy srv r policyID = do {
     found \<leftarrow> resolveRoleForPolicy srv policyID ''*'';
     (case found of
        None \<Rightarrow> WriteHeader StatusNoContent
      | Some role \<Rightarrow> do {
          deleted \<leftarrow> Delete (client srv) RoleT role;
          (if (case deleted of Inl err \<Rightarrow> \<not> IsNotFound err | Inr _ \<Rightarrow> False)
           then writeError StatusInternalServerError ''failed to delete policy''
           else do {
             _ \<leftarrow> deleteRoleBindingsForRole srv (Namespace role) (Name role);
             WriteHeader StatusNoContent }) }) }"

definition getPolicy :: "'s Server \<Rightarrow> Request \<Rightarrow> string \<Rightarrow> ('s, outcome) state" where
  "getPolicy srv r policyID = do {
     item \<leftarrow> resolvePolicy srv policyID;
     (case item of
        Some p \<Rightarrow> writeJSON StatusOK (PolicyBody p)
      | None \<Rightarrow> writeError StatusNotFound ''policy not found'') }"

subsection \<open>Reading only\<close>

context auth_reads
begin

lemma keeps_policy_reads [keeps_intros]:
  "keeps f (listPolicies srv r)" "keeps f (getPolicy srv r k)"
  unfolding listPolicies_def getPolicy_def write_defs
  by (intro keeps_intros keeps_Get keeps_ListOf keeps_lookups)+

end

subsection \<open>Writing a policy\<close>

text \<open>The policy a request asks for, its name from the path if the body has none.\<close>

definition requested_policy :: "Request \<Rightarrow> string list \<Rightarrow> policy option" where
  "requested_policy r fallback = map_option
     (\<lambda>q. if p_Name q = '''' \<and> fallback \<noteq> [] then q\<lparr>p_Name := hd fallback\<rparr> else q) (Decode decode_policy r)"

lemma requested_policy_Some:
  "Decode decode_policy r = Some q \<Longrightarrow> requested_policy r fallback =
     Some (if p_Name q = [] \<and> fallback \<noteq> [] then q\<lparr>p_Name := hd fallback\<rparr> else q)"
  by (simp add: requested_policy_def)

definition policy_object :: "policy \<Rightarrow> string" where
  "policy_object q = objectName (''lakefs-policy-'' @ p_Name q)"

text \<open>A role with the policy is stored under the policy's object name; nothing else has changed.\<close>

definition policy_stored :: "(okey \<rightharpoonup> obj) \<Rightarrow> (okey \<rightharpoonup> obj) \<Rightarrow> string \<Rightarrow> policy \<Rightarrow> bool" where
  "policy_stored v v' ns q \<longleftrightarrow>
     (\<exists>h. Name h = policy_object q \<and> Namespace h = ns \<and>
        role_Spec h = role_Spec (roleFromPolicy ns q) \<and> v' = v(okey_of (ORole h) \<mapsto> ORole h))"

lemma roleFromPolicy_simps [simp]:
  "Name (roleFromPolicy ns q) = policy_object q"
  "Namespace (roleFromPolicy ns q) = ns"
  by (simp_all add: roleFromPolicy_def policy_object_def)

lemma policy_storedI:
  assumes "Name h = policy_object q" and "Namespace h = ns"
    and "role_Spec h = role_Spec (roleFromPolicy ns q)"
  shows "policy_stored v (v((KRole, ns, policy_object q) \<mapsto> ORole h)) ns q"
  using assms by (auto simp: policy_stored_def)

lemma role_spec_simps [simp]:
  "Name (x\<lparr>role_Spec := z\<rparr>) = Name x" "Namespace (x\<lparr>role_Spec := z\<rparr>) = Namespace x"
  "Finalizers (x\<lparr>role_Spec := z\<rparr>) = Finalizers x"
  by simp_all

context auth_api
begin

lemma wp_writePolicy:
  "wp (writePolicy srv r status fallback)
     (\<lambda>out t.
        (\<exists>q. out = Respond status (PolicyBody q) \<and> requested_policy r fallback = Some q \<and> p_Name q \<noteq> '''' \<and>
           policy_stored (view s) (view t) (defaultUserNamespace srv) q) \<or>
        (\<exists>c m. out = Respond c (ErrorBody m)) \<and> view t = view s) s"
  unfolding writePolicy_def write_defs Let_def
  by (auto intro!: wp_Create wp_Get wp_Update policy_storedI
      simp: stored_as_def IsAlreadyExists_def requested_policy_Some hd_conv_nth split: option.splits if_splits)

end

subsection \<open>Reading a written policy back\<close>

text \<open>No template placeholder in the name or the resources.\<close>

definition plain_policy :: "policy \<Rightarrow> bool" where
  "plain_policy q \<longleftrightarrow> \<not> sublist ''<REPOSITORY>'' (p_Name q) \<and>
     list_all (\<lambda>st. \<not> sublist ''<REPOSITORY>'' (st_Resource st)) (p_Statement q)"

lemma ReplaceAll_not_sublist: "\<not> sublist old s \<Longrightarrow> ReplaceAll s old new = s"
proof (induction s)
  case (Cons c s)
  then show ?case by (auto simp: ReplaceAll_no_match sublist_Cons_right)
qed simp

lemma roleFromPolicy_templates:
  "rs_Policies (role_Spec (roleFromPolicy ns q)) =
     [\<lparr>pt_Name = p_Name q, pt_Statement =
         map (\<lambda>st. \<lparr>ps_Effect = st_Effect st, ps_Resource = st_Resource st, ps_Action = st_Action st\<rparr>)
           (p_Statement q)\<rparr>]"
  by (simp add: roleFromPolicy_def ObjectMeta.extend_def new_meta_def)

lemma policiesFromRole_plain:
  assumes "plain_policy q" and "role_Spec h = role_Spec (roleFromPolicy ns q)"
  shows "map (\<lambda>p. (p_Name p, p_Statement p)) (policiesFromRole h repo) = [(p_Name q, p_Statement q)]"
proof -
  have "renderRepositoryTemplate x repo = x" if "\<not> sublist ''<REPOSITORY>'' x" for x
    using that by (simp add: renderRepositoryTemplate_def Let_def ReplaceAll_not_sublist)
  with assms show ?thesis
    by (auto simp: policiesFromRole_def roleFromPolicy_templates plain_policy_def list_all_iff intro!: map_idI)
qed

context auth_api_ok
begin

lemma wp_getPolicy_ok:
  "wp (getPolicy srv r k)
     (\<lambda>out t. view t = view s \<and>
        ((\<exists>m. out = Respond 404 (ErrorBody m)) \<and>
           (\<forall>h. stored (view s) (ORole h) \<longrightarrow> \<not> role_answers (k, ''*'') h) \<or>
         (\<exists>h p. stored (view s) (ORole h) \<and> p \<in> set (policiesFromRole h ''*'') \<and> p_Name p = k \<and>
            out = Respond 200 (PolicyBody p)))) s"
  unfolding getPolicy_def resolvePolicy_def write_defs
  by (auto intro!: roles.wp_resolve_total [where k = "(k, ''*'')", simplified fst_conv snd_conv]
     dest: find_Some_conv split: option.splits simp: role_answers_def list_ex_iff find_None_iff)
   (blast dest: find_Some_conv)+

end

lemma policy_stored_stored:
  assumes "policy_stored v v' ns q"
  obtains h where "stored v' (ORole h)" "role_Spec h = role_Spec (roleFromPolicy ns q)"
    "okey_of (ORole h) = (KRole, ns, policy_object q)"
proof -
  from assms obtain h where "Name h = policy_object q" "Namespace h = ns"
    "role_Spec h = role_Spec (roleFromPolicy ns q)" "v' = v(okey_of (ORole h) \<mapsto> ORole h)"
    unfolding policy_stored_def by blast
  then show ?thesis by (intro that [of h]) simp_all
qed

text \<open>If no other role has the policy, it is read back as it was written.\<close>

context auth_api_ok
begin

lemma wp_getPolicy_written:
  assumes st: "policy_stored v (view s) ns q" and plain: "plain_policy q"
    and only: "\<And>h. stored (view s) (ORole h) \<Longrightarrow> role_answers (p_Name q, ''*'') h \<Longrightarrow>
      Namespace h = ns \<and> Name h = policy_object q"
  shows "wp (getPolicy srv r (p_Name q))
     (\<lambda>out t. view t = view s \<and>
        (\<exists>p. out = Respond 200 (PolicyBody p) \<and> p_Name p = p_Name q \<and> p_Statement p = p_Statement q)) s"
proof -
  from st obtain h where h: "stored (view s) (ORole h)" "role_Spec h = role_Spec (roleFromPolicy ns q)"
    "okey_of (ORole h) = (KRole, ns, policy_object q)" by (rule policy_stored_stored)
  have read: "map (\<lambda>p. (p_Name p, p_Statement p)) (policiesFromRole h ''*'') = [(p_Name q, p_Statement q)]"
    by (rule policiesFromRole_plain [OF plain h(2)])
  then have has: "role_answers (p_Name q, ''*'') h"
    by (auto simp: role_answers_def map_eq_Cons_conv)
  have same: "x = h" if "stored (view s) (ORole x)" "role_answers (p_Name q, ''*'') x" for x
    using only [OF that] that(1) h by simp
  have found: "p_Statement p = p_Statement q"
    if "stored (view s) (ORole x)" "p \<in> set (policiesFromRole x ''*'')" "p_Name p = p_Name q" for p x
  proof -
    from that(2, 3) have "role_answers (p_Name q, ''*'') x" by (auto simp: role_answers_def list_ex_iff)
    with that same read show ?thesis by (auto simp: map_eq_Cons_conv)
  qed
  show ?thesis
    by (rule wp_mono [OF wp_getPolicy_ok]) (use has h(1) found in blast)
qed

end

context auth_api_ok
begin

lemma policy_stored_only:
  assumes st: "policy_stored v v' ns q" and h: "stored v' (ORole h)" "role_answers k h"
    and only: "\<And>h. stored v (ORole h) \<Longrightarrow> role_answers k h \<Longrightarrow> Namespace h = ns \<and> Name h = policy_object q"
  shows "Namespace h = ns \<and> Name h = policy_object q"
proof (cases "okey_of (ORole h) = (KRole, ns, policy_object q)")
  case False
  from st obtain g where "v' = v((KRole, ns, policy_object q) \<mapsto> ORole g)" by (auto simp: policy_stored_def)
  with h False have "stored v (ORole h)" by (auto split: if_splits)
  with h(2) show ?thesis by (rule only [rotated])
qed simp

lemma wp_write_read:
  assumes req: "requested_policy r1 fallback = Some q" and plain: "plain_policy q"
    and only: "\<And>h. stored (view s) (ORole h) \<Longrightarrow> role_answers (p_Name q, ''*'') h \<Longrightarrow>
      Namespace h = defaultUserNamespace srv \<and> Name h = policy_object q"
  shows "wp (do { out1 \<leftarrow> writePolicy srv r1 status fallback;
                  out2 \<leftarrow> getPolicy srv r2 (p_Name q);
                  return (out1, out2) })
    (\<lambda>(out1, out2) t. \<forall>b. out1 = Respond status (PolicyBody b) \<longrightarrow>
       (\<exists>p. out2 = Respond 200 (PolicyBody p) \<and> p_Name p = p_Name q \<and> p_Statement p = p_Statement q)) s"
  unfolding wp_bind
proof (rule wp_mono [OF wp_writePolicy])
  fix out1 t
  assume w: "(\<exists>q'. out1 = Respond status (PolicyBody q') \<and> requested_policy r1 fallback = Some q' \<and> p_Name q' \<noteq> '''' \<and>
           policy_stored (view s) (view t) (defaultUserNamespace srv) q') \<or>
        (\<exists>c m. out1 = Respond c (ErrorBody m)) \<and> view t = view s"
  show "wp (getPolicy srv r2 (p_Name q)) (\<lambda>out2. wp (return (out1, out2)) (\<lambda>(out1, out2) t.
       \<forall>b. out1 = Respond status (PolicyBody b) \<longrightarrow>
         (\<exists>p. out2 = Respond 200 (PolicyBody p) \<and> p_Name p = p_Name q \<and> p_Statement p = p_Statement q))) t"
  proof (cases "\<exists>b. out1 = Respond status (PolicyBody b)")
    case True
    with w req have st: "policy_stored (view s) (view t) (defaultUserNamespace srv) q" by auto
    show ?thesis
      by (rule wp_mono [OF wp_getPolicy_written [OF st plain policy_stored_only [OF st _ _ only]]]) auto
  qed (simp add: wp_runI)
qed

end

subsection \<open>Deleting a policy\<close>

text \<open>The role is gone, and so is every binding of its namespace that names it; the rest is as before.\<close>

definition policy_removed :: "(okey \<rightharpoonup> obj) \<Rightarrow> (okey \<rightharpoonup> obj) \<Rightarrow> LakeFSRole \<Rightarrow> bool" where
  "policy_removed v v' h \<longleftrightarrow> gone v' (okey_of (ORole h)) \<and>
     (\<forall>b \<in> role_bindings v (Namespace h) (Name h). gone v' (okey_of (ORoleBinding b))) \<and>
     only_gone v v' ({okey_of (ORole h)} \<union> okey_of ` ORoleBinding ` role_bindings v (Namespace h) (Name h))"

context auth_api_ok
begin

lemma policy_removed_steps:
  assumes 1: "only_gone v v1 {okey_of (ORole h)}" "gone v1 (okey_of (ORole h))"
    and 2: "only_gone v1 v2 (okey_of ` ORoleBinding ` role_bindings v1 (Namespace h) (Name h))"
      "\<forall>b \<in> role_bindings v1 (Namespace h) (Name h). gone v2 (okey_of (ORoleBinding b))"
  shows "policy_removed v v2 h"
proof -
  have "v1 (KRoleBinding, x) = v (KRoleBinding, x)" for x
    using only_gone_same [OF 1(1), of "(KRoleBinding, x)"] by simp
  then have same: "role_bindings v1 (Namespace h) (Name h) = role_bindings v (Namespace h) (Name h)"
    by (simp add: role_bindings_def)
  from 1(2) 2(1) have "gone v2 (okey_of (ORole h))" by (metis only_gone_gone)
  moreover have "only_gone v v2 ({okey_of (ORole h)} \<union> okey_of ` ORoleBinding ` role_bindings v (Namespace h) (Name h))"
    using only_gone_mono [OF 1(1)] only_gone_mono [OF 2(1)] unfolding same by (blast intro: only_gone_trans)
  ultimately show ?thesis using 2(2) unfolding same by (simp add: policy_removed_def)
qed

lemma wp_Delete_done: "wp (Delete (client srv) T x) (\<lambda>r _. r = Inl NotFound \<or> r = Inr ()) s"
  by (rule wp_Delete_ok) simp_all

lemma wp_deletePolicy:
  "wp (deletePolicy srv r k)
     (\<lambda>out t. out = Respond 204 NoBody \<and>
        (view t = view s \<and> (\<forall>h. stored (view s) (ORole h) \<longrightarrow> \<not> role_answers (k, ''*'') h) \<or>
         (\<exists>h. stored (view s) (ORole h) \<and> role_answers (k, ''*'') h \<and> policy_removed (view s) (view t) h))) s"
  (is "wp _ ?Q s")
  unfolding deletePolicy_def wp_bind
proof (rule roles.wp_resolve_total [where k = "(k, ''*'')", simplified fst_conv snd_conv])
  fix t
  assume "view t = view s" "\<And>x. stored (view s) (ORole x) \<Longrightarrow> \<not> role_answers (k, ''*'') x"
  then show "wp (case None of None \<Rightarrow> WriteHeader 204 | Some u \<Rightarrow> F u) ?Q t" for F
    by simp
next
  fix t h
  assume t: "view t = view s" and h: "stored (view s) (ORole h)" "role_answers (k, ''*'') h"
  have removed: "wp (deleteRoleBindingsForRole srv (Namespace h) (Name h)) (\<lambda>_. wp (return (Respond 204 NoBody)) ?Q) t1"
    if 1: "only_gone (view t) (view t1) {okey_of (ORole h)}" "gone (view t1) (okey_of (ORole h))" for t1
    by (rule wp_mono [OF wp_conj [OF wp_deleteRoleBindingsForRole wp_deleteRoleBindingsForRole_ok]])
      (use h policy_removed_steps [OF 1] in \<open>auto simp: t simp del: okey_simps\<close>)
  have deleted: "wp (Delete (client srv) RoleT h) (\<lambda>r t'. (only_gone (view t) (view t') {okey_of (ORole h)} \<and>
      gone (view t') (okey_of (ORole h))) \<and> (r = Inl NotFound \<or> r = Inr ())) t"
    by (rule wp_mono [OF wp_conj [OF wp_conj [OF wp_Delete_gone wp_Delete_gone_ok] wp_Delete_done]])
      (simp del: okey_simps)
  show "wp (case Some h of None \<Rightarrow> WriteHeader StatusNoContent
      | Some role \<Rightarrow> do {
          deleted \<leftarrow> Delete (client srv) RoleT role;
          (if (case deleted of Inl err \<Rightarrow> \<not> IsNotFound err | Inr _ \<Rightarrow> False)
           then writeError StatusInternalServerError ''failed to delete policy''
           else do {
             _ \<leftarrow> deleteRoleBindingsForRole srv (Namespace role) (Name role);
             WriteHeader StatusNoContent }) }) ?Q t"
    by (auto simp del: okey_simps simp: IsNotFound_def intro!: wp_mono [OF deleted] dest: removed)
qed

end

subsection \<open>Properties\<close>

text \<open>
  C27. Writing a policy (\<open>createPolicy\<close> with status 201, \<open>updatePolicy\<close> with 200): with the status the
  answer is the policy asked for, and a role with exactly this policy is stored under the policy's
  object name in the default namespace, whether or not there was one; no other object has changed.
  With any other answer, an error, nothing has changed.
\<close>

theorem write_policy_stored:
  assumes "auth_api srv view"
  shows "case run_state (writePolicy srv r status fallback) s of (out, t) \<Rightarrow>
        (\<exists>q. out = Respond status (PolicyBody q) \<and> requested_policy r fallback = Some q \<and> p_Name q \<noteq> '''' \<and>
           policy_stored (view s) (view t) (defaultUserNamespace srv) q) \<or>
        (\<exists>c m. out = Respond c (ErrorBody m)) \<and> view t = view s"
  by (rule auth_api.wp_writePolicy [OF assms, unfolded wp_def])

definition ex_write_request :: Request where
  "ex_write_request = \<lparr>r_Method = ''POST'', r_Path = ''/auth/policies'', r_Query = [],
     r_Body = Some (JObject [(''name'', JString ''Write''), (''statement'', JArray [JObject
       [(''effect'', JString ''allow''), (''resource'', JString ''*''), (''action'', JArray [JString ''fs:*''])]])])\<rparr>"

theorem write_policy_stored_witness:
  "case run_state (writePolicy ref_server ex_write_request 201 []) ex_world of (out, t) \<Rightarrow>
        (\<exists>q. out = Respond 201 (PolicyBody q) \<and> requested_policy ex_write_request [] = Some q \<and> p_Name q \<noteq> '''' \<and>
           policy_stored (ref_view ex_world) (ref_view t) (defaultUserNamespace (ref_server :: world Server)) q) \<or>
        (\<exists>c m. out = Respond c (ErrorBody m)) \<and> ref_view t = ref_view ex_world"
  by (rule write_policy_stored [OF ref_auth.auth_api_axioms])

text \<open>
  C28. A policy is read back as it was written. Let the request ask for a policy without template placeholders in
  its name and resources, and let no stored role have a policy of that name but, possibly, the role that the
  request writes. If writing it is answered with the expected status and the policy, then \<open>getPolicy\<close> answers
  200 with its name and its statements. (Calls reliable; with a policy of that name in another role either of
  the two may be read back.)
\<close>

theorem written_policy_read_back:
  assumes "auth_api_ok srv view"
    and "requested_policy r1 fallback = Some q" and "plain_policy q"
    and "\<And>h. stored (view s) (ORole h) \<Longrightarrow> role_answers (p_Name q, ''*'') h \<Longrightarrow>
      Namespace h = defaultUserNamespace srv \<and> Name h = policy_object q"
  shows "case run_state (do {
             out1 \<leftarrow> writePolicy srv r1 status fallback;
             out2 \<leftarrow> getPolicy srv r2 (p_Name q);
             return (out1, out2) }) s of
    ((out1, out2), t) \<Rightarrow> \<forall>b. out1 = Respond status (PolicyBody b) \<longrightarrow>
       (\<exists>p. out2 = Respond 200 (PolicyBody p) \<and> p_Name p = p_Name q \<and> p_Statement p = p_Statement q)"
  by (rule wp_pairD [OF auth_api_ok.wp_write_read [OF assms]])

definition ex_policy :: policy where
  "ex_policy = \<lparr>p_Name = ''Write'', p_CreationDate = 0,
     p_Statement = [\<lparr>st_Effect = ''allow'', st_Resource = ''*'', st_Action = [''fs:*'']\<rparr>]\<rparr>"

definition write_and_read :: "(world, outcome \<times> outcome) state" where
  "write_and_read = do {
     out1 \<leftarrow> writePolicy ref_server ex_write_request 201 [];
     out2 \<leftarrow> getPolicy ref_server (ex_request []) ''Write'';
     return (out1, out2) }"

lemma ex_written:
  "case run_state write_and_read ex_world of ((out1, _), _) \<Rightarrow>
     (case out1 of Respond c (PolicyBody b) \<Rightarrow> c = 201 | _ \<Rightarrow> False)"
  by code_simp

theorem written_policy_read_back_witness:
  "case run_state write_and_read ex_world of ((out1, out2), t) \<Rightarrow>
     \<exists>p. out2 = Respond 200 (PolicyBody p) \<and> p_Name p = ''Write'' \<and> p_Statement p = p_Statement ex_policy"
proof -
  have name: "p_Name ex_policy = ''Write''" by (simp add: ex_policy_def)
  have "case run_state write_and_read ex_world of
    ((out1, out2), t) \<Rightarrow> \<forall>b. out1 = Respond 201 (PolicyBody b) \<longrightarrow>
       (\<exists>p. out2 = Respond 200 (PolicyBody p) \<and> p_Name p = ''Write'' \<and> p_Statement p = p_Statement ex_policy)"
    unfolding write_and_read_def
  proof (rule written_policy_read_back [OF ref_auth.auth_api_ok_axioms, where q = ex_policy, unfolded name])
    show "requested_policy ex_write_request [] = Some ex_policy" by code_simp
    show "plain_policy ex_policy" by code_simp
    fix h
    assume h: "stored (ref_view ex_world) (ORole h)" "role_answers (''Write'', ''*'') h"
    from ref_view_mem [OF h(1)] have "h = ex_role" by (simp add: ex_world_def)
    moreover have "\<not> role_answers (''Write'', ''*'') ex_role" by code_simp
    ultimately show "Namespace h = defaultUserNamespace (ref_server :: world Server) \<and> Name h = policy_object ex_policy"
      using h(2) by simp
  qed
  with ex_written show ?thesis by (auto split: prod.splits outcome.splits body.splits)
qed

text \<open>
  C29. Deleting a policy answers 204. If a stored role has it, that role and all role bindings of its
  namespace that name it are gone (or only wait for their finalizers), and no other object has
  changed; otherwise nothing has. (Calls reliable.)
\<close>

theorem delete_policy_removes_bindings:
  assumes "auth_api_ok srv view"
  shows "case run_state (deletePolicy srv r k) s of (out, t) \<Rightarrow> out = Respond 204 NoBody \<and>
        (view t = view s \<and> (\<forall>h. stored (view s) (ORole h) \<longrightarrow> \<not> role_answers (k, ''*'') h) \<or>
         (\<exists>h. stored (view s) (ORole h) \<and> role_answers (k, ''*'') h \<and> policy_removed (view s) (view t) h))"
  by (rule auth_api_ok.wp_deletePolicy [OF assms, unfolded wp_def])

theorem delete_policy_removes_bindings_witness:
  "case run_state (deletePolicy ref_server (ex_request []) ''Read'') ex_world of (out, t) \<Rightarrow>
     out = Respond 204 NoBody \<and>
        (ref_view t = ref_view ex_world \<and>
           (\<forall>h. stored (ref_view ex_world) (ORole h) \<longrightarrow> \<not> role_answers (''Read'', ''*'') h) \<or>
         (\<exists>h. stored (ref_view ex_world) (ORole h) \<and> role_answers (''Read'', ''*'') h \<and>
            policy_removed (ref_view ex_world) (ref_view t) h))"
  by (rule delete_policy_removes_bindings [OF ref_auth.auth_api_ok_axioms])

end
