(* ===== verification/AuthCredentials.thy ===== *)
theory AuthCredentials
  imports ExampleWorld
begin

section \<open>Credentials (internal/authserver/server.go, lines 441-471 and 803-1013)\<close>

text \<open>
  The handlers for access keys: listing and creating a user's credentials, the lookup by access key
  that lakeFS authenticates every request with, and revocation; and the functions that write and
  await the Kubernetes secret of a credential.
\<close>

subsection \<open>Definitions\<close>

definition credentialExpired :: "'s Runtime \<Rightarrow> LakeFSCredential \<Rightarrow> ('s, bool) state" where
  "credentialExpired rt c =
     (case cs_ExpiresAt (cred_Spec c) of
        None \<Rightarrow> return False
      | Some e \<Rightarrow> do { now \<leftarrow> env_Now rt; return (\<not> After e now) })"

text \<open>The loop of \<open>listUserCredentials\<close> with its \<open>continue\<close>.\<close>

fun activeCredentials :: "'s Runtime \<Rightarrow> LakeFSCredential list \<Rightarrow> ('s, credential list) state" where
  "activeCredentials rt [] = return []"
| "activeCredentials rt (item # items) = do {
     skip \<leftarrow> (if cs_Revoked (cred_Spec item) then return True else credentialExpired rt item);
     results \<leftarrow> activeCredentials rt items;
     return (if skip then results
       else \<lparr>cr_AccessKeyID = cs_AccessKeyID (cred_Spec item),
             cr_CreationDate = Unix (CreationTimestamp item)\<rparr> # results) }"

definition listUserCredentials :: "'s Runtime \<Rightarrow> 's Server \<Rightarrow> Request \<Rightarrow> string \<Rightarrow> ('s, outcome) state" where
  "listUserCredentials rt srv r userID = do {
     found \<leftarrow> resolveUser srv userID;
     (case found of
        None \<Rightarrow> writeError StatusNotFound ''user not found''
      | Some u \<Rightarrow> do {
          credentials \<leftarrow> ListOf (client srv) CredentialT
            \<lparr>InNamespace = Some (Namespace u), MatchingFields = Some (CredentialUserField, Name u)\<rparr>;
          (case credentials of
             Inl _ \<Rightarrow> writeError StatusInternalServerError ''failed to list credentials''
           | Inr cs \<Rightarrow> do {
               results \<leftarrow> activeCredentials rt cs;
               writeJSON StatusOK (CredentialsBody (newPaginatedResponse results)) }) }) }"

definition getCredentialByAccessKey ::
  "'s Runtime \<Rightarrow> 's Server \<Rightarrow> Request \<Rightarrow> string \<Rightarrow> string \<Rightarrow> ('s, outcome) state" where
  "getCredentialByAccessKey rt srv r accessKeyID expectedUserID = do {
     found \<leftarrow> resolveCredential srv accessKeyID;
     unusable \<leftarrow> (case found of
         None \<Rightarrow> return True
       | Some c \<Rightarrow> if cs_Revoked (cred_Spec c) then return True else credentialExpired rt c);
     (case found of
        None \<Rightarrow> writeError StatusNotFound ''credential not found''
      | Some c \<Rightarrow>
          if unusable then writeError StatusNotFound ''credential not found''
          else do {
            got \<leftarrow> Get (client srv) UserT (Namespace c, ur_Name (cs_UserRef (cred_Spec c)));
            (case got of
               Inl _ \<Rightarrow> writeError StatusNotFound ''user not found''
             | Inr u \<Rightarrow>
                 if expectedUserID \<noteq> '''' \<and> userUsername u \<noteq> expectedUserID
                 then writeError StatusNotFound ''credential not found''
                 else do {
                   sec \<leftarrow> Get (client srv) SecretT (Namespace c, sr_Name (cs_SecretRef (cred_Spec c)));
                   (case sec of
                      Inl _ \<Rightarrow> writeError StatusNotFound ''secret not found''
                    | Inr sec \<Rightarrow>
                        (let secretAccessKey = map_at (Data sec) (SecretKey (cred_Spec c)) in
                         if secretAccessKey = ''''
                         then writeError StatusNotFound ''credential secret not found''
                         else writeJSON StatusOK (SecretBody
                           \<lparr>cw_AccessKeyID = cs_AccessKeyID (cred_Spec c),
                            cw_SecretAccessKey = secretAccessKey,
                            cw_CreationDate = Unix (CreationTimestamp c),
                            cw_UserID = compatibilityUserID (userUsername u),
                            cw_UserName = userUsername u\<rparr>))) }) }) }"

text \<open>
  The changes \<open>ensureCredentialSecret\<close> makes to an existing secret, one after the other; each
  works on the secret and the flag \<open>changed\<close>.
\<close>

definition fill_secret :: "LakeFSCredential \<Rightarrow> string \<Rightarrow> Secret \<Rightarrow> Secret \<times> bool" where
  "fill_secret c secretAccessKey sec =
     (let p = (sec, False);
          p = data_made p;
          p = data_set ''accessKeyId'' (cs_AccessKeyID (cred_Spec c)) p;
          p = data_set (SecretKey (cred_Spec c)) secretAccessKey p;
          p = labels_made p;
          p = label_set ''lakefs.versioneer.at/credential'' ''true'' p;
          p = label_set ''lakefs.versioneer.at/user'' (ur_Name (cs_UserRef (cred_Spec c))) p
      in p)"

definition ensureCredentialSecret ::
  "'s Server \<Rightarrow> LakeFSCredential \<Rightarrow> string \<Rightarrow> ('s, apierror option) state" where
  "ensureCredentialSecret srv c secretAccessKey = do {
     let secretKey = (Namespace c, sr_Name (cs_SecretRef (cred_Spec c)));
     got \<leftarrow> Get (client srv) SecretT secretKey;
     (case got of
        Inl err \<Rightarrow>
          if \<not> IsNotFound err then return (Some err)
          else do {
            created \<leftarrow> Create (client srv) SecretT (new_secret (snd secretKey) (fst secretKey)
              (Some [''lakefs.versioneer.at/credential'' \<mapsto> ''true'',
                     ''lakefs.versioneer.at/user'' \<mapsto> ur_Name (cs_UserRef (cred_Spec c))])
              (Some [''accessKeyId'' \<mapsto> cs_AccessKeyID (cred_Spec c),
                     SecretKey (cred_Spec c) \<mapsto> secretAccessKey]));
            return (case created of Inl e \<Rightarrow> Some e | Inr _ \<Rightarrow> None) }
      | Inr sec \<Rightarrow>
          (let (sec, changed) = fill_secret c secretAccessKey sec in
           if \<not> changed then return None
           else do {
             updated \<leftarrow> Update (client srv) SecretT sec;
             return (case updated of Inl e \<Rightarrow> Some e | Inr _ \<Rightarrow> None) })) }"

definition getCredentialSecret :: "'s Server \<Rightarrow> LakeFSCredential \<Rightarrow> ('s, string \<times> bool) state" where
  "getCredentialSecret srv c = do {
     got \<leftarrow> Get (client srv) SecretT (Namespace c, sr_Name (cs_SecretRef (cred_Spec c)));
     return (case got of
         Inl _ \<Rightarrow> ('''', False)
       | Inr sec \<Rightarrow>
           (let secretAccessKey = map_at (Data sec) (SecretKey (cred_Spec c))
            in (secretAccessKey, secretAccessKey \<noteq> ''''))) }"

text \<open>
  The polling loop. Its argument is the number of times the ticker still wins against the end of
  the context; when it is used up, the context is done.
\<close>

primrec waitForCredentialSecret :: "nat \<Rightarrow> 's Server \<Rightarrow> LakeFSCredential \<Rightarrow> ('s, string \<times> bool) state" where
  "waitForCredentialSecret 0 srv c = do {
     got \<leftarrow> getCredentialSecret srv c;
     return (if snd got then (fst got, True) else ('''', False)) }"
| "waitForCredentialSecret (Suc ticks) srv c = do {
     got \<leftarrow> getCredentialSecret srv c;
     (if snd got then return (fst got, True) else waitForCredentialSecret ticks srv c) }"

text \<open>
  The loop as it stands in the source, which may run forever: \<open>ended i\<close> says whether the i-th \<open>select\<close> takes
  the end of the context. It is what the function above computes once the context has ended, see the end of this
  theory.
\<close>

partial_function (option) pollCredentialSecret ::
  "(nat \<Rightarrow> bool) \<Rightarrow> nat \<Rightarrow> 's Server \<Rightarrow> LakeFSCredential \<Rightarrow> 's \<Rightarrow> ((string \<times> bool) \<times> 's) option" where
  "pollCredentialSecret ended i srv c s = (case run_state (getCredentialSecret srv c) s of (got, t) \<Rightarrow>
     if snd got then Some ((fst got, True), t)
     else if ended i then Some (('''', False), t)
     else pollCredentialSecret ended (Suc i) srv c t)"

text \<open>
  \<open>createUserCredential\<close> in three steps: the credential object is created, or read if it exists; then
  the given secret key is stored, or the operator's generated one awaited.
\<close>

definition createCredentialObject ::
  "'s Server \<Rightarrow> LakeFSUser \<Rightarrow> string \<Rightarrow> ('s, (outcome, LakeFSCredential) result) state" where
  "createCredentialObject srv u accessKeyID = do {
     let name = objectName (''lakefs-cred-'' @ accessKeyID);
     created \<leftarrow> Create (client srv) CredentialT (new_credential name (Namespace u)
       \<lparr>cs_UserRef = \<lparr>ur_Name = Name u\<rparr>, cs_AccessKeyID = accessKeyID,
        cs_SecretRef = \<lparr>sr_Name = name, sr_Key = ''secretAccessKey''\<rparr>,
        cs_ExpiresAt = None, cs_Revoked = False\<rparr>);
     (case created of
        Inr c \<Rightarrow> return (Inr c)
      | Inl err \<Rightarrow>
          if \<not> IsAlreadyExists err
          then return (Inl (Respond StatusInternalServerError (ErrorBody ''failed to create credential'')))
          else do {
            got \<leftarrow> Get (client srv) CredentialT (Namespace u, name);
            return (case got of
                Inl getErr \<Rightarrow>
                  Inl (Respond StatusInternalServerError (ErrorBody ''failed to read credential''))
              | Inr c \<Rightarrow> Inr c) }) }"

definition answerCredential ::
  "'s Runtime \<Rightarrow> 's Server \<Rightarrow> LakeFSUser \<Rightarrow> string \<Rightarrow> string \<Rightarrow> LakeFSCredential \<Rightarrow> ('s, outcome) state" where
  "answerCredential rt srv u accessKeyID secretAccessKey c =
     (if secretAccessKey \<noteq> '''' then do {
        err \<leftarrow> ensureCredentialSecret srv c secretAccessKey;
        (case err of
           Some _ \<Rightarrow> writeError StatusInternalServerError ''failed to create credential secret''
         | None \<Rightarrow> do {
             now \<leftarrow> env_Now rt;
             writeJSON StatusCreated (SecretBody
               \<lparr>cw_AccessKeyID = accessKeyID, cw_SecretAccessKey = secretAccessKey,
                cw_CreationDate = Unix now, cw_UserID = compatibilityUserID (userUsername u),
                cw_UserName = userUsername u\<rparr>) }) }
      else do {
        generated \<leftarrow> waitForCredentialSecret (env_Ticks rt) srv c;
        now \<leftarrow> env_Now rt;
        (if snd generated
         then writeJSON StatusCreated (SecretBody
           \<lparr>cw_AccessKeyID = accessKeyID, cw_SecretAccessKey = fst generated,
            cw_CreationDate = Unix now, cw_UserID = compatibilityUserID (userUsername u),
            cw_UserName = userUsername u\<rparr>)
         else writeJSON StatusAccepted (CredentialBody
           \<lparr>cr_AccessKeyID = accessKeyID, cr_CreationDate = Unix now\<rparr>)) })"

definition createUserCredential :: "'s Runtime \<Rightarrow> 's Server \<Rightarrow> Request \<Rightarrow> string \<Rightarrow> ('s, outcome) state" where
  "createUserCredential rt srv r userID = do {
     found \<leftarrow> resolveUser srv userID;
     (case found of
        None \<Rightarrow> writeError StatusNotFound ''user not found''
      | Some u \<Rightarrow> do {
          let given = firstNonEmpty [query_Get r ''access_key_id'', query_Get r ''access_key''];
          token \<leftarrow> (if given = '''' then env_RandRead rt 18 else return (Some ''''));
          (case token of
             None \<Rightarrow> return (Panicked ''failed to read random bytes'')
           | Some buf \<Rightarrow> do {
               let accessKeyID = (if given = '''' then ''lakefs_ak_'' @ randomToken buf else given);
               let secretAccessKey = firstNonEmpty [query_Get r ''secret_access_key'', query_Get r ''secret_key''];
               object \<leftarrow> createCredentialObject srv u accessKeyID;
               (case object of
                  Inl out \<Rightarrow> return out
                | Inr c \<Rightarrow> answerCredential rt srv u accessKeyID secretAccessKey c) }) }) }"

definition revokeUserCredential :: "'s Server \<Rightarrow> Request \<Rightarrow> string \<Rightarrow> string \<Rightarrow> ('s, outcome) state" where
  "revokeUserCredential srv r userID accessKeyID = do {
     found \<leftarrow> resolveCredential srv accessKeyID;
     (case found of
        None \<Rightarrow> WriteHeader StatusNoContent
      | Some c \<Rightarrow> do {
          u \<leftarrow> resolveUser srv userID;
          (if (case u of None \<Rightarrow> True
               | Some u \<Rightarrow> Namespace u \<noteq> Namespace c \<or> Name u \<noteq> ur_Name (cs_UserRef (cred_Spec c)))
           then writeError StatusNotFound ''credential not found''
           else do {
             updated \<leftarrow> Update (client srv) CredentialT
               (c\<lparr>cred_Spec := (cred_Spec c)\<lparr>cs_Revoked := True\<rparr>\<rparr>);
             (case updated of
                Inl _ \<Rightarrow> writeError StatusInternalServerError ''failed to revoke credential''
              | Inr _ \<Rightarrow> WriteHeader StatusNoContent) }) }) }"

subsection \<open>Reading only\<close>

context auth_reads
begin

lemma keeps_activeCredentials [keeps_intros]:
  "keeps f (env_Now rt) \<Longrightarrow> keeps f (activeCredentials rt cs)"
  by (induction cs) (auto intro!: keeps_intros simp: credentialExpired_def)

lemma keeps_credential_reads [keeps_intros]:
  assumes "keeps f (env_Now rt)"
  shows "keeps f (listUserCredentials rt srv r u)" "keeps f (getCredentialByAccessKey rt srv r k u)"
  unfolding listUserCredentials_def getCredentialByAccessKey_def credentialExpired_def write_defs Let_def
  by (intro keeps_intros keeps_Get keeps_ListOf keeps_lookups assms)+

end

subsection \<open>Lookup by access key\<close>

text \<open>
  \<open>answer v c u sec\<close> is what the API tells about the credential \<open>c\<close> of the user \<open>u\<close> with the secret
  \<open>sec\<close>; \<open>authenticates v T k un b\<close> says that \<open>b\<close> is such an answer for the access key \<open>k\<close>.
\<close>

definition answer :: "LakeFSCredential \<Rightarrow> LakeFSUser \<Rightarrow> Secret \<Rightarrow> credentialsWithSecret" where
  "answer c u sec =
     \<lparr>cw_AccessKeyID = cs_AccessKeyID (cred_Spec c),
      cw_SecretAccessKey = map_at (Data sec) (SecretKey (cred_Spec c)),
      cw_CreationDate = Unix (CreationTimestamp c),
      cw_UserID = compatibilityUserID (userUsername u), cw_UserName = userUsername u\<rparr>"

definition authenticates ::
  "(okey \<rightharpoonup> obj) \<Rightarrow> time \<Rightarrow> string \<Rightarrow> string \<Rightarrow> credentialsWithSecret \<Rightarrow> bool" where
  "authenticates v T k un b \<longleftrightarrow>
     (\<exists>c u sec. backed_by v c u sec \<and> credential_answers k c \<and> usable T c \<and>
        (un = '''' \<or> userUsername u = un) \<and> b = answer c u sec)"

context auth_clock
begin

lemma wp_credentialExpired:
  assumes yes: "\<And>t. view t = view s \<Longrightarrow>
      (case cs_ExpiresAt (cred_Spec c) of None \<Rightarrow> False | Some e \<Rightarrow> e \<le> T2) \<Longrightarrow> Q True t"
    and no: "\<And>t. view t = view s \<Longrightarrow>
      (case cs_ExpiresAt (cred_Spec c) of None \<Rightarrow> True | Some e \<Rightarrow> T1 < e) \<Longrightarrow> Q False t"
  shows "wp (credentialExpired rt c) Q s"
proof (cases "cs_ExpiresAt (cred_Spec c)")
  case None
  with no show ?thesis by (simp add: credentialExpired_def)
next
  case (Some e)
  have "Q (\<not> After e now) t" if "view t = view s" "T1 \<le> now" "now \<le> T2" for now t
    using that yes [of t] no [of t] by (cases "After e now") (simp_all add: Some After_def)
  with Some show ?thesis by (auto simp: credentialExpired_def intro!: wp_Now)
qed

lemma wp_getCredentialByAccessKey:
  "wp (getCredentialByAccessKey rt srv r k un)
     (\<lambda>out t. view t = view s \<and>
        ((\<exists>m. out = Respond 404 (ErrorBody m)) \<or>
         (\<exists>b. out = Respond 200 (SecretBody b) \<and> authenticates (view s) T1 k un b))) s"
  unfolding getCredentialByAccessKey_def write_defs
  by (auto intro!: credentials.wp_resolve wp_credentialExpired wp_Get simp: Let_def)
    (fastforce simp: authenticates_def backed_by_def usable_def answer_def credential_answers_def)+

end

subsection \<open>Finding a usable credential\<close>

text \<open>Access keys are meant to be unique among the stored credentials.\<close>

definition unique_key :: "(okey \<rightharpoonup> obj) \<Rightarrow> string \<Rightarrow> bool" where
  "unique_key v k \<longleftrightarrow> (\<forall>c d. stored v (OCredential c) \<longrightarrow> stored v (OCredential d) \<longrightarrow>
     credential_answers k c \<longrightarrow> credential_answers k d \<longrightarrow> c = d)"

context auth_clock_ok
begin

lemma wp_resolveCredential_unique:
  assumes uniq: "unique_key (view s) k" and c: "credential_answers k c" and st: "stored (view s) (OCredential c)"
    and Q: "\<And>t. view t = view s \<Longrightarrow> Q (Some c) t"
  shows "wp (resolveCredential srv k) Q s"
  by (rule credentials.wp_resolve_total) (use uniq c st Q in \<open>auto simp: unique_key_def\<close>)

lemma wp_getCredentialByAccessKey_found:
  assumes uniq: "unique_key (view s) k" and c: "credential_answers k c" and b: "backed_by (view s) c u sec"
    and use: "usable T2 c" and un: "un = '''' \<or> userUsername u = un"
  shows "wp (getCredentialByAccessKey rt srv r k un) (\<lambda>out t. out = Respond 200 (SecretBody (answer c u sec))) s"
proof -
  from b have st: "stored (view s) (OCredential c)" by (simp add: backed_by_def)
  show ?thesis
    using b use un unfolding getCredentialByAccessKey_def write_defs
    by (auto intro!: wp_resolveCredential_unique [OF uniq c st] wp_credentialExpired wp_Get_ok
        simp: Let_def backed_by_def usable_def answer_def split: option.splits)
qed

end

subsection \<open>Listing\<close>

definition credentialFrom :: "LakeFSCredential \<Rightarrow> credential" where
  "credentialFrom c =
     \<lparr>cr_AccessKeyID = cs_AccessKeyID (cred_Spec c), cr_CreationDate = Unix (CreationTimestamp c)\<rparr>"

text \<open>
  \<open>ds\<close> are credentials of \<open>u\<close>: only usable ones by the clock's earliest reading, and all that are
  usable even at its latest.
\<close>

definition active_of :: "(okey \<rightharpoonup> obj) \<Rightarrow> time \<Rightarrow> time \<Rightarrow> LakeFSUser \<Rightarrow> LakeFSCredential list \<Rightarrow> bool" where
  "active_of v T1 T2 u ds \<longleftrightarrow> set ds \<subseteq> {c \<in> user_credentials v u. usable T1 c} \<and>
     (Name u \<noteq> '''' \<longrightarrow> {c \<in> user_credentials v u. usable T2 c} \<subseteq> set ds)"

context auth_clock
begin

lemma wp_activeCredentials:
  assumes Q: "\<And>t ds. view t = view s \<Longrightarrow> set ds \<subseteq> {c \<in> set cs. usable T1 c} \<Longrightarrow>
      {c \<in> set cs. usable T2 c} \<subseteq> set ds \<Longrightarrow> Q (map credentialFrom ds) t"
  shows "wp (activeCredentials rt cs) Q s"
  using Q
proof (induction cs arbitrary: s Q)
  case (Cons c cs)
  have rest: "wp (activeCredentials rt cs) (\<lambda>results. wp (return (if skip then results
         else credentialFrom c # results)) Q) t"
    if t: "view t = view s" and skip: "if skip then \<not> usable T2 c else usable T1 c" for skip t
  proof (rule Cons.IH)
    fix u ds
    assume "view u = view t" and "set ds \<subseteq> {c \<in> set cs. usable T1 c}" and "{c \<in> set cs. usable T2 c} \<subseteq> set ds"
    with t skip have "Q (map credentialFrom (if skip then ds else c # ds)) u"
      by (intro Cons.prems) (auto split: if_splits)
    then show "wp (return (if skip then map credentialFrom ds else credentialFrom c # map credentialFrom ds)) Q u"
      by (auto split: if_splits)
  qed
  show ?case
    unfolding activeCredentials.simps credentialFrom_def [symmetric] wp_bind
    by (auto intro!: wp_credentialExpired rest [where skip = True, simplified] rest [where skip = False, simplified]
        simp: usable_def split: option.splits)
qed simp

lemma wp_listUserCredentials:
  "wp (listUserCredentials rt srv r un)
     (\<lambda>out t. view t = view s \<and>
        ((\<exists>m. out = Respond 404 (ErrorBody m)) \<or> (\<exists>m. out = Respond 500 (ErrorBody m)) \<or>
         (\<exists>u ds. stored (view s) (OUser u) \<and> user_answers un u \<and> active_of (view s) T1 T2 u ds \<and>
            out = Respond 200 (CredentialsBody (newPaginatedResponse (map credentialFrom ds)))))) s"
proof -
  have "active_of (view s) T1 T2 u ds"
    if l: "listed (view s) CredentialT
        \<lparr>InNamespace = Some (Namespace u), MatchingFields = Some (CredentialUserField, Name u)\<rparr> cs"
      and "set ds \<subseteq> {c \<in> set cs. usable T1 c}" "{c \<in> set cs. usable T2 c} \<subseteq> set ds" for u cs ds
    using that by (auto simp: active_of_def listed_def user_credentials_def)
  then show ?thesis
    unfolding listUserCredentials_def write_defs
    by (auto intro!: users.wp_resolve wp_ListOf wp_activeCredentials) blast
qed

end

subsection \<open>Revocation\<close>

lemma credential_update_simps [simp]:
  "ObjectMeta.truncate (c\<lparr>cred_Spec := x\<rparr>) = ObjectMeta.truncate c"
  by (simp add: ObjectMeta.truncate_def)

text \<open>Every credential of this access key is revoked.\<close>

definition key_revoked :: "(okey \<rightharpoonup> obj) \<Rightarrow> string \<Rightarrow> bool" where
  "key_revoked v k \<longleftrightarrow>
     (\<forall>c. stored v (OCredential c) \<longrightarrow> credential_answers k c \<longrightarrow> cs_Revoked (cred_Spec c))"

lemma key_revoked_authenticates: "key_revoked v k \<Longrightarrow> \<not> authenticates v T k un b"
  by (auto simp: key_revoked_def authenticates_def backed_by_def usable_def)

context auth_api
begin

text \<open>
  What a successful revocation has done: either no credential was found (\<open>N\<close> says what that
  means), or the one that was found, which is the named user's, is now revoked.
\<close>

lemma wp_revokeUserCredential_upto:
  assumes look: "wp (resolveCredential srv k) (\<lambda>r _. r = None \<longrightarrow> N) s"
    and none: "\<And>t. N \<Longrightarrow> view t = view s \<Longrightarrow> Q (Respond 204 NoBody) t"
    and ok: "\<And>t c d u. view t = (view s)(okey_of (OCredential c) \<mapsto> OCredential d) \<Longrightarrow>
      stored (view s) (OCredential c) \<Longrightarrow> credential_answers k c \<Longrightarrow>
      stored (view s) (OUser u) \<Longrightarrow> user_answers un u \<Longrightarrow> Namespace u = Namespace c \<Longrightarrow>
      ur_Name (cs_UserRef (cred_Spec c)) = Name u \<Longrightarrow>
      okey_of (OCredential d) = okey_of (OCredential c) \<Longrightarrow>
      cred_Spec d = (cred_Spec c)\<lparr>cs_Revoked := True\<rparr> \<Longrightarrow> Q (Respond 204 NoBody) t"
    and failed: "\<And>t m co. view t = view s \<Longrightarrow> co \<noteq> 204 \<Longrightarrow> Q (Respond co (ErrorBody m)) t"
  shows "wp (revokeUserCredential srv r un k) Q s"
  unfolding revokeUserCredential_def wp_bind
proof (rule wp_mono [OF wp_conj [OF look credentials.resolve_law]])
  fix found :: "LakeFSCredential option" and t
  assume f: "(found = None \<longrightarrow> N) \<and> view t = view s \<and>
    (\<forall>c. found = Some c \<longrightarrow> stored (view s) (OCredential c) \<and> credential_answers k c)"
  show "wp (case found of
        None \<Rightarrow> WriteHeader StatusNoContent
      | Some c \<Rightarrow> do {
          u \<leftarrow> resolveUser srv un;
          (if (case u of None \<Rightarrow> True
               | Some u \<Rightarrow> Namespace u \<noteq> Namespace c \<or> Name u \<noteq> ur_Name (cs_UserRef (cred_Spec c)))
           then writeError StatusNotFound ''credential not found''
           else do {
             updated \<leftarrow> Update (client srv) CredentialT
               (c\<lparr>cred_Spec := (cred_Spec c)\<lparr>cs_Revoked := True\<rparr>\<rparr>);
             (case updated of
                Inl _ \<Rightarrow> writeError StatusInternalServerError ''failed to revoke credential''
              | Inr _ \<Rightarrow> WriteHeader StatusNoContent) }) }) Q t"
  proof (cases found)
    case None
    with f none show ?thesis by simp
  next
    case (Some c)
    with f show ?thesis unfolding write_defs
      by (auto intro!: users.wp_resolve wp_Update failed split: option.splits)
        (auto intro!: ok simp: stored_as_def split: if_splits)
  qed
qed

lemmas wp_revokeUserCredential = wp_revokeUserCredential_upto [where N = True, simplified]

end

context auth_api_ok
begin

lemma wp_revokeUserCredential_ok:
  assumes uniq: "unique_key (view s) k"
  shows "wp (revokeUserCredential srv r un k) (\<lambda>out t. code out = 204 \<longrightarrow> key_revoked (view t) k) s"
proof (rule wp_revokeUserCredential_upto [OF credentials.resolve_total])
  fix t c d u
  assume c: "stored (view s) (OCredential c)" "credential_answers k c"
    and d: "cred_Spec d = (cred_Spec c)\<lparr>cs_Revoked := True\<rparr>"
    and t: "view t = (view s)(okey_of (OCredential c) \<mapsto> OCredential d)"
  show "code (Respond 204 NoBody) = 204 \<longrightarrow> key_revoked (view t) k"
  proof (clarsimp simp: key_revoked_def)
    fix e
    assume e: "view t (KCredential, Namespace e, Name e) = Some (OCredential e)" "credential_answers k e"
    show "cs_Revoked (cred_Spec e)"
    proof (cases "okey_of (OCredential e) = okey_of (OCredential c)")
      case True
      with e t d show ?thesis by simp
    next
      case False
      with e t have "stored (view s) (OCredential e)" by auto
      with uniq c e False show ?thesis by (auto simp: unique_key_def)
    qed
  qed
qed (auto simp: key_revoked_def)

end

subsection \<open>The secret of a credential\<close>

lemmas tame_fill_secret = tame_comp [OF tame_steps(4) tame_comp [OF tame_steps(4)
  tame_comp [OF tame_steps(3) tame_comp [OF tame_steps(2) tame_comp [OF tame_steps(2) tame_steps(1)]]]]]

lemma fill_secret_key: "fill_secret c v sec = (sec', ch) \<Longrightarrow>
    Name sec' = Name sec \<and> Namespace sec' = Namespace sec \<and> Finalizers sec' = Finalizers sec \<and> (\<not> ch \<longrightarrow> sec' = sec)"
  unfolding fill_secret_def Let_def by (rule fill_secret_tame [OF tame_fill_secret])

lemma fill_secret_holds: "fill_secret c v sec = (sec', ch) \<Longrightarrow> holds_secret c v (Data sec')"
proof -
  assume f: "fill_secret c v sec = (sec', ch)"
  have "Data sec' = Data (fst (fill_secret c v sec))" by (simp add: f)
  then show ?thesis by (simp add: fill_secret_def Let_def holds_secret_def map_at_data_set)
qed

context auth_api
begin

lemma wp_ensureCredentialSecret:
  assumes ok: "\<And>t sec. view t (secret_key c) = Some (OSecret sec) \<Longrightarrow> holds_secret c v (Data sec) \<Longrightarrow>
      same_but {secret_key c} (view s) (view t) \<Longrightarrow> Q None t"
    and err: "\<And>t e. view t = view s \<Longrightarrow> Q (Some e) t"
  shows "wp (ensureCredentialSecret srv c v) Q s"
proof -
  have "wp (case fill_secret c v sec of (sec', changed) \<Rightarrow>
           if \<not> changed then return None
           else do {
             updated \<leftarrow> Update (client srv) SecretT sec';
             return (case updated of Inl e \<Rightarrow> Some e | Inr _ \<Rightarrow> None) }) Q t"
    if t: "view t = view s" and sec: "view s (secret_key c) = Some (OSecret sec)" for t sec
  proof (cases "fill_secret c v sec")
    case (Pair sec' changed)
    note h = fill_secret_holds [OF Pair] and k = fill_secret_key [OF Pair]
    have "okey_of (OSecret sec) = secret_key c" by (rule view_okey [OF sec])
    with k have key: "(KSecret, Namespace sec', Name sec') = secret_key c" by simp
    show ?thesis
    proof (cases changed)
      case True
      have "Q None u" if "view u = (view s)(secret_key c \<mapsto> OSecret y)" "Data y = Data sec'" for u y
        by (rule ok [of u y]) (use that h in auto)
      with True Pair t sec key k show ?thesis
        by (auto intro!: wp_Update err simp: stored_as_def split: if_splits)
    next
      case False
      with k have "sec' = sec" by simp
      with False Pair t sec h ok show ?thesis by simp
    qed
  qed
  moreover have "holds_secret c v (Some [''accessKeyId'' \<mapsto> cs_AccessKeyID (cred_Spec c),
      SecretKey (cred_Spec c) \<mapsto> v])"
    by (simp add: holds_secret_def)
  ultimately show ?thesis
    unfolding ensureCredentialSecret_def Let_def
    by (auto intro!: wp_Get wp_Create err simp: secret_key_def stored_as_def IsNotFound_def)
      (auto intro!: ok simp: secret_key_def same_but_upd)
qed

lemma wp_getCredentialSecret:
  assumes found: "\<And>t sec. view t = view s \<Longrightarrow> view s (secret_key c) = Some (OSecret sec) \<Longrightarrow>
      map_at (Data sec) (SecretKey (cred_Spec c)) \<noteq> '''' \<Longrightarrow>
      Q (map_at (Data sec) (SecretKey (cred_Spec c)), True) t"
    and none: "\<And>t v. view t = view s \<Longrightarrow> Q (v, False) t"
  shows "wp (getCredentialSecret srv c) Q s"
proof -
  have "Q (map_at (Data sec) (SecretKey (cred_Spec c)), map_at (Data sec) (SecretKey (cred_Spec c)) \<noteq> '''') t"
    if "view t = view s" "view s (secret_key c) = Some (OSecret sec)" for t sec
    using found [OF that] none [of t "map_at (Data sec) (SecretKey (cred_Spec c))"] that
    by (cases "map_at (Data sec) (SecretKey (cred_Spec c)) = ''''") simp_all
  then show ?thesis
    unfolding getCredentialSecret_def by (auto intro!: wp_Get none simp: Let_def secret_key_def)
qed

lemma wp_waitForCredentialSecret:
  assumes found: "\<And>t sec. view t = view s \<Longrightarrow> view s (secret_key c) = Some (OSecret sec) \<Longrightarrow>
      map_at (Data sec) (SecretKey (cred_Spec c)) \<noteq> '''' \<Longrightarrow>
      Q (map_at (Data sec) (SecretKey (cred_Spec c)), True) t"
    and none: "\<And>t. view t = view s \<Longrightarrow> Q ('''', False) t"
  shows "wp (waitForCredentialSecret n srv c) Q s"
proof -
  have "view s0 = view s \<Longrightarrow> wp (waitForCredentialSecret n srv c) Q s0" for s0
    by (induction n arbitrary: s0) (auto intro!: wp_getCredentialSecret found none)
  then show ?thesis by simp
qed

end

subsection \<open>Creating a credential\<close>

definition credential_key :: "string \<Rightarrow> string \<Rightarrow> okey" where
  "credential_key ns k = (KCredential, ns, objectName (''lakefs-cred-'' @ k))"

definition fresh_spec :: "string \<Rightarrow> string \<Rightarrow> LakeFSCredentialSpec" where
  "fresh_spec owner k =
     \<lparr>cs_UserRef = \<lparr>ur_Name = owner\<rparr>, cs_AccessKeyID = k,
      cs_SecretRef = \<lparr>sr_Name = objectName (''lakefs-cred-'' @ k), sr_Key = ''secretAccessKey''\<rparr>,
      cs_ExpiresAt = None, cs_Revoked = False\<rparr>"

text \<open>The credential object of an access key: a new one for \<open>u\<close>, or the one that was there.\<close>

definition new_or_old :: "(okey \<rightharpoonup> obj) \<Rightarrow> LakeFSUser \<Rightarrow> string \<Rightarrow> LakeFSCredential \<Rightarrow> bool" where
  "new_or_old v u k c \<longleftrightarrow>
     (case v (credential_key (Namespace u) k) of
        None \<Rightarrow> cred_Spec c = fresh_spec (Name u) k
      | Some old \<Rightarrow> old = OCredential c)"

text \<open>
  What a response 201 of \<open>createUserCredential\<close> means: the resolved user \<open>u\<close> is named in it, a
  credential object \<open>c\<close> is stored under the name made from the access key, and its secret holds the
  reported secret key. The object is new and \<open>u\<close>'s, or it is the one that was there before.
\<close>

definition created_credential ::
  "(okey \<rightharpoonup> obj) \<Rightarrow> (okey \<rightharpoonup> obj) \<Rightarrow> string \<Rightarrow> credentialsWithSecret \<Rightarrow> LakeFSUser \<Rightarrow> LakeFSCredential \<Rightarrow> bool" where
  "created_credential v v' un b u c \<longleftrightarrow>
     stored v (OUser u) \<and> user_answers un u \<and>
     cw_UserName b = userUsername u \<and> cw_UserID b = compatibilityUserID (userUsername u) \<and>
     v' (credential_key (Namespace u) (cw_AccessKeyID b)) = Some (OCredential c) \<and>
     new_or_old v u (cw_AccessKeyID b) c \<and>
     (\<exists>sec. v' (secret_key c) = Some (OSecret sec) \<and>
        map_at (Data sec) (SecretKey (cred_Spec c)) = cw_SecretAccessKey b) \<and>
     cw_SecretAccessKey b \<noteq> '''' \<and>
     same_but {credential_key (Namespace u) (cw_AccessKeyID b), secret_key c} v v'"

lemma key_neq [simp]: "credential_key ns k \<noteq> secret_key c" "secret_key c \<noteq> credential_key ns k"
  by (simp_all add: credential_key_def secret_key_def)

lemma user_key_neq [simp]:
  "(KUser, n, m) \<noteq> credential_key ns k" "(KUser, n, m) \<noteq> secret_key c"
  by (simp_all add: credential_key_def secret_key_def)

text \<open>The access key a request asks for; the empty string where one is to be made up.\<close>

definition asked_key :: "Request \<Rightarrow> string" where
  "asked_key r = firstNonEmpty [query_Get r ''access_key_id'', query_Get r ''access_key'']"

definition asked_secret :: "Request \<Rightarrow> string" where
  "asked_secret r = firstNonEmpty [query_Get r ''secret_access_key'', query_Get r ''secret_key'']"

text \<open>The credential object of the access key \<open>k\<close> is stored, and nothing else has changed.\<close>

definition credential_there ::
  "(okey \<rightharpoonup> obj) \<Rightarrow> (okey \<rightharpoonup> obj) \<Rightarrow> string \<Rightarrow> LakeFSUser \<Rightarrow> string \<Rightarrow> LakeFSCredential \<Rightarrow> bool" where
  "credential_there v v' un u k c \<longleftrightarrow> stored v (OUser u) \<and> user_answers un u \<and>
     v' (credential_key (Namespace u) k) = Some (OCredential c) \<and> new_or_old v u k c \<and>
     same_but {credential_key (Namespace u) k} v v'"

text \<open>What each answer means, for a request that asks for the access key \<open>K\<close> and the secret key \<open>sk\<close>.\<close>

definition credential_effect ::
  "(okey \<rightharpoonup> obj) \<Rightarrow> (okey \<rightharpoonup> obj) \<Rightarrow> string \<Rightarrow> string \<Rightarrow> string \<Rightarrow> outcome \<Rightarrow> bool" where
  "credential_effect v v' un K sk out \<longleftrightarrow>
     (\<exists>u c b. out = Respond 201 (SecretBody b) \<and> created_credential v v' un b u c \<and>
        (K \<noteq> '''' \<longrightarrow> cw_AccessKeyID b = K) \<and> (sk \<noteq> '''' \<longrightarrow> cw_SecretAccessKey b = sk)) \<or>
     (\<exists>u c b. out = Respond 202 (CredentialBody b) \<and> sk = '''' \<and>
        credential_there v v' un u (cr_AccessKeyID b) c \<and> (K \<noteq> '''' \<longrightarrow> cr_AccessKeyID b = K)) \<or>
     (\<exists>m. out = Respond 404 (ErrorBody m)) \<and> v' = v \<or>
     (\<exists>m. out = Respond 500 (ErrorBody m)) \<and>
        (v' = v \<or> (\<exists>u k c. credential_there v v' un u k c \<and> (K \<noteq> '''' \<longrightarrow> k = K))) \<or>
     (\<exists>m. out = Panicked m) \<and> v' = v"

context auth_clock
begin

text \<open>What is left to do once the credential object is there: its secret.\<close>

lemma wp_finish:
  assumes st: "view s (credential_key (Namespace u) k) = Some (OCredential c)"
    and prior: "new_or_old v u k c"
    and frame: "same_but {credential_key (Namespace u) k} v (view s)"
    and u: "stored v (OUser u)" "user_answers un u"
    and b: "cw_AccessKeyID b = k" "cw_UserName b = userUsername u"
      "cw_UserID b = compatibilityUserID (userUsername u)" "cw_SecretAccessKey b \<noteq> ''''"
    and sec: "view t (secret_key c) = Some (OSecret sec)"
      "map_at (Data sec) (SecretKey (cred_Spec c)) = cw_SecretAccessKey b"
      "same_but {secret_key c} (view s) (view t)"
  shows "created_credential v (view t) un b u c"
proof -
  have "view t (credential_key (Namespace u) k) = Some (OCredential c)"
    using same_butD [OF sec(3)] st by simp
  moreover have "same_but {credential_key (Namespace u) k, secret_key c} v (view t)"
    using frame sec(3) unfolding same_but_def by simp
  ultimately show ?thesis
    using prior u b sec(1, 2) by (auto simp: created_credential_def)
qed

lemma wp_createCredentialObject:
  assumes ok: "\<And>t c. view t (credential_key (Namespace u) k) = Some (OCredential c) \<Longrightarrow>
      same_but {credential_key (Namespace u) k} (view s) (view t) \<Longrightarrow>
      new_or_old (view s) u k c \<Longrightarrow> Q (Inr c) t"
    and err: "\<And>t m. view t = view s \<Longrightarrow> Q (Inl (Respond 500 (ErrorBody m))) t"
  shows "wp (createCredentialObject srv u k) Q s"
  unfolding createCredentialObject_def Let_def
  by (auto intro!: wp_Create wp_Get err ok
      simp: credential_key_def fresh_spec_def new_or_old_def stored_as_def)

lemma wp_answerCredential:
  assumes there: "credential_there v (view s) un u k c" and k: "K \<noteq> '''' \<Longrightarrow> k = K"
  shows "wp (answerCredential rt srv u k sk c) (\<lambda>out t. credential_effect v (view t) un K sk out) s"
proof -
  from there have parts: "view s (credential_key (Namespace u) k) = Some (OCredential c)" "new_or_old v u k c"
    "same_but {credential_key (Namespace u) k} v (view s)" "stored v (OUser u)" "user_answers un u"
    by (simp_all add: credential_there_def)
  have answered: "credential_effect v (view t) un K sk (Respond 201 (SecretBody b))"
    if "cw_AccessKeyID b = k" "cw_UserName b = userUsername u" "cw_UserID b = compatibilityUserID (userUsername u)"
      "cw_SecretAccessKey b \<noteq> ''''" "sk \<noteq> '''' \<longrightarrow> cw_SecretAccessKey b = sk"
      "\<exists>sec. view t (secret_key c) = Some (OSecret sec) \<and> map_at (Data sec) (SecretKey (cred_Spec c)) = cw_SecretAccessKey b"
      "same_but {secret_key c} (view s) (view t)" for b t
  proof -
    from that(6) obtain sec where "view t (secret_key c) = Some (OSecret sec)"
      "map_at (Data sec) (SecretKey (cred_Spec c)) = cw_SecretAccessKey b" by blast
    from wp_finish [OF parts that(1-4) this that(7)] that(1, 5) k show ?thesis
      by (auto simp: credential_effect_def)
  qed
  show ?thesis
  proof (cases "sk = ''''")
    case True
    have "credential_effect v (view t) un K sk (Respond 202 (CredentialBody b))"
      if "view t = view s" "cr_AccessKeyID b = k" for b t
      using that there k True by (auto simp: credential_effect_def)
    with True show ?thesis
      unfolding answerCredential_def write_defs
      by (auto intro!: wp_waitForCredentialSecret wp_Now answered [where t = s, unfolded True])
  next
    case False
    have "credential_effect v (view t) un K sk (Respond 500 (ErrorBody m))" if "view t = view s" for t m
      using that there k by (auto simp: credential_effect_def)
    moreover have "credential_effect v (view w) un K sk (Respond 201 (SecretBody
         \<lparr>cw_AccessKeyID = k, cw_SecretAccessKey = sk, cw_CreationDate = d, cw_UserID = compatibilityUserID (userUsername u),
          cw_UserName = userUsername u\<rparr>))"
      if "view t (secret_key c) = Some (OSecret sec)" "holds_secret c sk (Data sec)"
        "same_but {secret_key c} (view s) (view t)" "view w = view t" for t w sec d
      by (rule answered) (use that False in \<open>auto simp: holds_secret_def\<close>)
    ultimately show ?thesis
      unfolding answerCredential_def write_defs
      by (simp add: False, intro wp_ensureCredentialSecret) (auto intro!: wp_Now)
  qed
qed

lemma wp_createUserCredential:
  "wp (createUserCredential rt srv r un)
     (\<lambda>out t. credential_effect (view s) (view t) un (asked_key r) (asked_secret r) out) s"
proof -
  have err: "credential_effect v v un K sk (Respond 404 (ErrorBody m))" "credential_effect v v un K sk (Respond 500 (ErrorBody m))"
    "credential_effect v v un K sk (Panicked m)" for v K sk m
    by (simp_all add: credential_effect_def)
  show ?thesis
    unfolding createUserCredential_def Let_def write_defs asked_key_def [symmetric] asked_secret_def [symmetric]
    by (auto intro!: users.wp_resolve wp_RandRead wp_createCredentialObject wp_answerCredential
        simp: err credential_there_def split: option.splits)
qed

end

subsection \<open>Created, then looked up\<close>

context auth_clock_ok
begin

lemma created_backed:
  assumes new: "\<And>ns. view s (credential_key ns (cw_AccessKeyID b)) = None"
    and none: "\<And>c. stored (view s) (OCredential c) \<Longrightarrow> \<not> credential_answers (cw_AccessKeyID b) c"
    and cr: "created_credential (view s) (view t) un b u c"
    and ne: "cw_AccessKeyID b \<noteq> ''''"
  shows "\<exists>sec. backed_by (view t) c u sec \<and> unique_key (view t) (cw_AccessKeyID b)
      \<and> credential_answers (cw_AccessKeyID b) c \<and> usable T2 c
      \<and> answer c u sec = b\<lparr>cw_CreationDate := Unix (CreationTimestamp c)\<rparr>"
proof -
  let ?k = "cw_AccessKeyID b" and ?key = "credential_key (Namespace u) (cw_AccessKeyID b)"
  from cr have c: "view t ?key = Some (OCredential c)" by (simp add: created_credential_def)
  from view_okey [OF c] have ok: "okey_of (OCredential c) = ?key" .
  from cr new have spec: "cred_Spec c = fresh_spec (Name u) ?k"
    by (simp add: created_credential_def new_or_old_def)
  from cr obtain sec where sec: "view t (secret_key c) = Some (OSecret sec)"
      "map_at (Data sec) (SecretKey (cred_Spec c)) = cw_SecretAccessKey b"
    and nb: "cw_SecretAccessKey b \<noteq> ''''" "cw_UserName b = userUsername u"
      "cw_UserID b = compatibilityUserID (userUsername u)"
    and u: "stored (view s) (OUser u)" and fr: "same_but {?key, secret_key c} (view s) (view t)"
    by (auto simp: created_credential_def)
  have "view t (KUser, Namespace u, Name u) = Some (OUser u)"
    using same_butD [OF fr] u by simp
  with c ok sec nb spec have "backed_by (view t) c u sec"
    by (auto simp: backed_by_def secret_key_def credential_key_def fresh_spec_def)
  moreover have "d = c" if d: "stored (view t) (OCredential d)" "credential_answers ?k d" for d
  proof (cases "okey_of (OCredential d) = ?key")
    case True
    with c d show ?thesis by simp
  next
    case False
    with fr d have "stored (view s) (OCredential d)"
      using same_butD [OF fr, of "okey_of (OCredential d)"] by (simp add: secret_key_def)
    with none d show ?thesis by blast
  qed
  moreover have "answer c u sec = b\<lparr>cw_CreationDate := Unix (CreationTimestamp c)\<rparr>"
    using sec nb spec by (simp add: answer_def fresh_spec_def)
  ultimately show ?thesis
    using ne spec by (auto simp: unique_key_def credential_answers_def usable_def fresh_spec_def)
qed

lemma wp_create_lookup:
  assumes new: "\<And>ns. view s (credential_key ns (asked_key r)) = None"
    and none: "\<And>c. stored (view s) (OCredential c) \<Longrightarrow> \<not> credential_answers (asked_key r) c"
    and ne: "asked_key r \<noteq> ''''"
  shows "wp (do { out1 \<leftarrow> createUserCredential rt srv r un;
                  out2 \<leftarrow> getCredentialByAccessKey rt srv r2 (asked_key r) '''';
                  return (out1, out2) })
    (\<lambda>(out1, out2) t. \<forall>b. out1 = Respond 201 (SecretBody b) \<longrightarrow>
       cw_AccessKeyID b = asked_key r \<and> (asked_secret r \<noteq> '''' \<longrightarrow> cw_SecretAccessKey b = asked_secret r) \<and>
       (\<exists>d. out2 = Respond 200 (SecretBody (b\<lparr>cw_CreationDate := d\<rparr>)))) s"
  unfolding wp_bind
proof (rule wp_mono [OF wp_createUserCredential])
  fix out1 t
  assume cr: "credential_effect (view s) (view t) un (asked_key r) (asked_secret r) out1"
  show "wp (getCredentialByAccessKey rt srv r2 (asked_key r) '''')
      (\<lambda>out2. wp (return (out1, out2)) (\<lambda>(out1, out2) t. \<forall>b. out1 = Respond 201 (SecretBody b) \<longrightarrow>
         cw_AccessKeyID b = asked_key r \<and> (asked_secret r \<noteq> '''' \<longrightarrow> cw_SecretAccessKey b = asked_secret r) \<and>
         (\<exists>d. out2 = Respond 200 (SecretBody (b\<lparr>cw_CreationDate := d\<rparr>))))) t"
  proof (cases "\<exists>b. out1 = Respond 201 (SecretBody b)")
    case True
    then obtain b where b: "out1 = Respond 201 (SecretBody b)" by blast
    with cr ne obtain u c where cc: "created_credential (view s) (view t) un b u c"
      and k: "cw_AccessKeyID b = asked_key r"
      and sk: "asked_secret r \<noteq> '''' \<longrightarrow> cw_SecretAccessKey b = asked_secret r" by (auto simp: credential_effect_def)
    from created_backed [of s b t un u c] new none cc ne k obtain sec where
      "unique_key (view t) (asked_key r)" "credential_answers (asked_key r) c" "backed_by (view t) c u sec"
      "usable T2 c" "answer c u sec = b\<lparr>cw_CreationDate := Unix (CreationTimestamp c)\<rparr>" by auto
    with b k sk show ?thesis
      by (auto intro!: wp_mono [OF wp_getCredentialByAccessKey_found])
  qed (simp add: wp_runI)
qed

end

subsection \<open>Revoked, then looked up\<close>

context auth_clock_ok
begin

lemma wp_revoke_lookup:
  assumes "unique_key (view s) k"
  shows "wp (do { out1 \<leftarrow> revokeUserCredential srv r un k;
                  out2 \<leftarrow> getCredentialByAccessKey rt srv r2 k un2;
                  return (out1, out2) })
    (\<lambda>(out1, out2) t. out1 = Respond 204 NoBody \<longrightarrow> (\<exists>m. out2 = Respond 404 (ErrorBody m))) s"
  unfolding wp_bind
proof (rule wp_mono [OF wp_revokeUserCredential_ok [OF assms]])
  fix out1 t
  assume rev: "code out1 = 204 \<longrightarrow> key_revoked (view t) k"
  show "wp (getCredentialByAccessKey rt srv r2 k un2) (\<lambda>out2. wp (return (out1, out2))
      (\<lambda>(out1, out2) t. out1 = Respond 204 NoBody \<longrightarrow> (\<exists>m. out2 = Respond 404 (ErrorBody m)))) t"
    by (rule wp_mono [OF wp_getCredentialByAccessKey]) (use rev key_revoked_authenticates in auto)
qed

end

subsection \<open>A key that is taken\<close>

context auth_clock_ok
begin

text \<open>The stored credential of the key and its user stay; its secret now holds the given secret key.\<close>

lemma taken_backed:
  assumes c: "view s (credential_key (Namespace u) k) = Some (OCredential c)" and b: "backed_by (view s) c a sec"
    and uniq: "unique_key (view s) k" and cr: "created_credential (view s) (view t) un b u d"
    and k: "cw_AccessKeyID b = k"
  shows "d = c" and "unique_key (view t) k"
    and "\<exists>sec'. backed_by (view t) c a sec' \<and> map_at (Data sec') (SecretKey (cred_Spec c)) = cw_SecretAccessKey b"
proof -
  let ?key = "credential_key (Namespace u) k"
  from view_okey [OF c] have ok: "okey_of (OCredential c) = ?key" .
  from cr c show d: "d = c" by (simp add: created_credential_def new_or_old_def k)
  with cr obtain sec' where t: "view t ?key = Some (OCredential c)" and sec': "view t (secret_key c) = Some (OSecret sec')"
      "map_at (Data sec') (SecretKey (cred_Spec c)) = cw_SecretAccessKey b" "cw_SecretAccessKey b \<noteq> ''''"
    and fr: "same_but {?key, secret_key c} (view s) (view t)"
    by (auto simp: created_credential_def k)
  have "view t (KUser, Namespace c, ur_Name (cs_UserRef (cred_Spec c))) = Some (OUser a)"
    using same_butD [OF fr] b by (simp add: backed_by_def)
  with t ok sec' have "backed_by (view t) c a sec'" by (simp add: backed_by_def secret_key_def)
  with sec'(2) show "\<exists>sec'. backed_by (view t) c a sec' \<and> map_at (Data sec') (SecretKey (cred_Spec c)) = cw_SecretAccessKey b"
    by blast
  have "stored (view s) (OCredential e)" if e: "stored (view t) (OCredential e)" for e
  proof (cases "okey_of (OCredential e) = ?key")
    case True
    with e t c show ?thesis by simp
  next
    case False
    with fr e show ?thesis using same_butD [OF fr, of "okey_of (OCredential e)"] by (simp add: secret_key_def)
  qed
  with uniq show "unique_key (view t) k" by (simp add: unique_key_def)
qed

lemma wp_taken_key:
  assumes only: "\<And>x. stored (view s) (OUser x) \<Longrightarrow> user_answers un x \<Longrightarrow> x = u"
    and c: "view s (credential_key (Namespace u) (asked_key r)) = Some (OCredential c)"
    and k: "credential_answers (asked_key r) c" and uniq: "unique_key (view s) (asked_key r)"
    and b: "backed_by (view s) c a sec" and use: "usable T2 c" and sk: "asked_secret r \<noteq> ''''"
  shows "wp (do { out1 \<leftarrow> createUserCredential rt srv r un;
                  out2 \<leftarrow> getCredentialByAccessKey rt srv r2 (asked_key r) '''';
                  return (out1, out2) })
    (\<lambda>(out1, out2) t. \<forall>b. out1 = Respond 201 (SecretBody b) \<longrightarrow>
       cw_AccessKeyID b = asked_key r \<and> cw_UserName b = userUsername u \<and>
       (\<exists>d. out2 = Respond 200 (SecretBody d) \<and> cw_AccessKeyID d = asked_key r \<and>
          cw_UserName d = userUsername a \<and> cw_SecretAccessKey d = asked_secret r)) s"
  unfolding wp_bind
proof (rule wp_mono [OF wp_createUserCredential])
  fix out1 t
  assume cr: "credential_effect (view s) (view t) un (asked_key r) (asked_secret r) out1"
  show "wp (getCredentialByAccessKey rt srv r2 (asked_key r) '''')
      (\<lambda>out2. wp (return (out1, out2)) (\<lambda>(out1, out2) t. \<forall>b. out1 = Respond 201 (SecretBody b) \<longrightarrow>
         cw_AccessKeyID b = asked_key r \<and> cw_UserName b = userUsername u \<and>
         (\<exists>d. out2 = Respond 200 (SecretBody d) \<and> cw_AccessKeyID d = asked_key r \<and>
            cw_UserName d = userUsername a \<and> cw_SecretAccessKey d = asked_secret r))) t"
  proof (cases "\<exists>b. out1 = Respond 201 (SecretBody b)")
    case True
    then obtain b1 where b1: "out1 = Respond 201 (SecretBody b1)" by blast
    have ne: "asked_key r \<noteq> ''''" using k by (simp add: credential_answers_def)
    from cr b1 ne sk obtain x d where cc: "created_credential (view s) (view t) un b1 x d"
      and b1k: "cw_AccessKeyID b1 = asked_key r" "cw_SecretAccessKey b1 = asked_secret r"
      by (auto simp: credential_effect_def)
    have x: "x = u" by (rule only) (use cc in \<open>simp_all add: created_credential_def\<close>)
    note taken = taken_backed [OF c b uniq cc [unfolded x] b1k(1)]
    from taken(3) obtain sec' where b': "backed_by (view t) c a sec'"
      and s': "map_at (Data sec') (SecretKey (cred_Spec c)) = cw_SecretAccessKey b1" by blast
    have un: "cw_UserName b1 = userUsername u" using cc by (simp add: x created_credential_def)
    show ?thesis
      by (rule wp_mono [OF wp_getCredentialByAccessKey_found [OF taken(2) k b' use]])
        (use b1 b1k un s' k in \<open>auto simp: answer_def credential_answers_def\<close>)
  qed (simp add: wp_runI)
qed

end

lemma ex_backed:
  "backed_by (ref_view ex_world) ex_credential (ex_user ''alice'' ''alice@example.org'') ex_secret"
  by (simp add: backed_by_def ex_world_def ref_view_def ex_credential_def ex_secret_def fresh_spec_def
      SecretKey_def objectName_ak1)

lemma ex_answers: "credential_answers ''AK1'' ex_credential"
  by (simp add: credential_answers_def ex_credential_def fresh_spec_def)

lemma ex_unique: "unique_key (ref_view ex_world) ''AK1''"
  by (simp add: unique_key_def ex_stored_credential [simplified])

subsection \<open>Properties\<close>

text \<open>
  C1. The lookup by access key changes nothing, and the only way to a 200 is a stored credential of
  exactly that key that is neither revoked nor expired, whose user is stored (and is the expected
  user where one is given) and whose secret is stored and not empty; the answer carries these
  values. In every other case, failing API calls included, the answer is 404.
\<close>

theorem access_key_lookup_safe:
  assumes "auth_clock srv view rt T1 T2"
  shows "case run_state (getCredentialByAccessKey rt srv r k un) s of (out, t) \<Rightarrow>
    view t = view s \<and>
    ((\<exists>m. out = Respond 404 (ErrorBody m)) \<or>
     (\<exists>b. out = Respond 200 (SecretBody b) \<and> authenticates (view s) T1 k un b))"
  by (rule auth_clock.wp_getCredentialByAccessKey [OF assms, unfolded wp_def])

theorem access_key_lookup_safe_witness:
  "case run_state (getCredentialByAccessKey ref_runtime ref_server (ex_request []) ''AK1'' '''') ex_world of
     (out, t) \<Rightarrow> ref_view t = ref_view ex_world \<and>
       ((\<exists>m. out = Respond 404 (ErrorBody m)) \<or>
        (\<exists>b. out = Respond 200 (SecretBody b) \<and> authenticates (ref_view ex_world) 1000000000 ''AK1'' '''' b))"
  by (rule access_key_lookup_safe [OF ref_clock.auth_clock_axioms])

text \<open>
  C14. Conversely, a usable credential is found: if the access key is unique, its credential is
  neither revoked nor expired by the latest clock reading, and user and secret are stored, then
  the lookup answers 200 with them, provided no API call fails for reasons of its own.
\<close>

theorem access_key_lookup_complete:
  assumes "auth_clock_ok srv view rt T1 T2"
    and "unique_key (view s) k" and "credential_answers k c" and "backed_by (view s) c u sec"
    and "usable T2 c" and "un = '''' \<or> userUsername u = un"
  shows "fst (run_state (getCredentialByAccessKey rt srv r k un) s) = Respond 200 (SecretBody (answer c u sec))"
  by (rule wp_fstD [OF auth_clock_ok.wp_getCredentialByAccessKey_found [OF assms]])

theorem access_key_lookup_complete_witness:
  "fst (run_state (getCredentialByAccessKey ref_runtime ref_server (ex_request []) ''AK1'' ''alice@example.org'')
     ex_world) = Respond 200 (SecretBody
       (answer ex_credential (ex_user ''alice'' ''alice@example.org'') ex_secret))"
  by (rule access_key_lookup_complete [OF ref_clock.auth_clock_ok_axioms ex_unique ex_answers ex_backed])
    (simp_all add: usable_def ex_credential_def fresh_spec_def userUsername_def)

text \<open>
  C16. A revoked key no longer authenticates: after a revocation that answered 204, the lookup of
  that access key answers 404, whatever user name it is asked for (access key unique, calls
  reliable).
\<close>

theorem revoked_key_refused:
  assumes "auth_clock_ok srv view rt T1 T2" and "unique_key (view s) k"
  shows "case run_state (do {
             out1 \<leftarrow> revokeUserCredential srv r un k;
             out2 \<leftarrow> getCredentialByAccessKey rt srv r2 k un2;
             return (out1, out2) }) s of
    ((out1, out2), t) \<Rightarrow> out1 = Respond 204 NoBody \<longrightarrow> (\<exists>m. out2 = Respond 404 (ErrorBody m))"
  by (rule wp_pairD [OF auth_clock_ok.wp_revoke_lookup [OF assms]])

theorem revoked_key_refused_witness:
  "case run_state (do {
       out1 \<leftarrow> revokeUserCredential ref_server (ex_request []) ''alice@example.org'' ''AK1'';
       out2 \<leftarrow> getCredentialByAccessKey ref_runtime ref_server (ex_request []) ''AK1'' '''';
       return (out1, out2) }) ex_world of
    ((out1, out2), t) \<Rightarrow> out1 = Respond 204 NoBody \<longrightarrow> (\<exists>m. out2 = Respond 404 (ErrorBody m))"
  by (rule revoked_key_refused [OF ref_clock.auth_clock_ok_axioms ex_unique])

text \<open>
  C38. The revocation fails open: when the list that looks up the access key fails, the answer is 204
  (revoked) and nothing has been changed.
\<close>

theorem revoke_fails_open:
  "run_state (revokeUserCredential (srv\<lparr>client := (client srv)\<lparr>cl_List := (\<lambda>_ _. return (Inl e))\<rparr>\<rparr>) r un k) s =
     (Respond 204 NoBody, s)"
  by (simp add: revokeUserCredential_def resolveCredential_def ListOf_def)

text \<open>
  Listing a user's credentials changes nothing and, on 200, shows only credentials of that user
  that are usable by the earliest clock reading, and every one that is usable even by the latest.
\<close>

lemma list_credentials_active:
  assumes "auth_clock srv view rt T1 T2"
  shows "case run_state (listUserCredentials rt srv r un) s of (out, t) \<Rightarrow>
    view t = view s \<and>
    ((\<exists>m. out = Respond 404 (ErrorBody m)) \<or> (\<exists>m. out = Respond 500 (ErrorBody m)) \<or>
     (\<exists>u ds. stored (view s) (OUser u) \<and> user_answers un u \<and> active_of (view s) T1 T2 u ds \<and>
        out = Respond 200 (CredentialsBody (newPaginatedResponse (map credentialFrom ds)))))"
  by (rule auth_clock.wp_listUserCredentials [OF assms, unfolded wp_def])

lemma list_credentials_active_witness:
  "case run_state (listUserCredentials ref_runtime ref_server (ex_request []) ''alice@example.org'') ex_world of
     (out, t) \<Rightarrow> ref_view t = ref_view ex_world \<and>
    ((\<exists>m. out = Respond 404 (ErrorBody m)) \<or> (\<exists>m. out = Respond 500 (ErrorBody m)) \<or>
     (\<exists>u ds. stored (ref_view ex_world) (OUser u) \<and> user_answers ''alice@example.org'' u \<and>
        active_of (ref_view ex_world) 1000000000 1000000000 u ds \<and>
        out = Respond 200 (CredentialsBody (newPaginatedResponse (map credentialFrom ds)))))"
  by (rule list_credentials_active [OF ref_clock.auth_clock_axioms])

text \<open>
  C15. What creating a credential does to the stored objects, for each of its answers. 201: the named user is
  stored, the credential object of the access key is stored (new and that user's, or the one that already
  had its name), its secret holds the reported secret key, which is the given one if one was given, and no
  other object has changed. 202: no secret key was given, the credential object is stored in the same sense,
  and no other object has changed. 404: nothing has changed. 500: nothing has changed, or no more than that the
  credential object was created. A panic (no random bytes): nothing has changed. There is no other answer.
\<close>

theorem create_credential_effect:
  assumes "auth_clock srv view rt T1 T2"
  shows "case run_state (createUserCredential rt srv r un) s of (out, t) \<Rightarrow>
    (\<exists>u c b. out = Respond 201 (SecretBody b) \<and> created_credential (view s) (view t) un b u c \<and>
       (asked_key r \<noteq> '''' \<longrightarrow> cw_AccessKeyID b = asked_key r) \<and>
       (asked_secret r \<noteq> '''' \<longrightarrow> cw_SecretAccessKey b = asked_secret r)) \<or>
    (\<exists>u c b. out = Respond 202 (CredentialBody b) \<and> asked_secret r = '''' \<and>
       credential_there (view s) (view t) un u (cr_AccessKeyID b) c \<and>
       (asked_key r \<noteq> '''' \<longrightarrow> cr_AccessKeyID b = asked_key r)) \<or>
    (\<exists>m. out = Respond 404 (ErrorBody m)) \<and> view t = view s \<or>
    (\<exists>m. out = Respond 500 (ErrorBody m)) \<and>
       (view t = view s \<or>
        (\<exists>u k c. credential_there (view s) (view t) un u k c \<and> (asked_key r \<noteq> '''' \<longrightarrow> k = asked_key r))) \<or>
    (\<exists>m. out = Panicked m) \<and> view t = view s"
  by (rule auth_clock.wp_createUserCredential [OF assms, unfolded wp_def credential_effect_def])

definition ex_create_request :: Request where
  "ex_create_request = ex_request [(''access_key_id'', ''AK2''), (''secret_access_key'', ''x'')]"

theorem create_credential_effect_witness:
  "case run_state (createUserCredential ref_runtime ref_server ex_create_request ''bob@example.org'') ex_world of (out, t) \<Rightarrow>
    (\<exists>u c b. out = Respond 201 (SecretBody b) \<and>
       created_credential (ref_view ex_world) (ref_view t) ''bob@example.org'' b u c \<and>
       (asked_key ex_create_request \<noteq> '''' \<longrightarrow> cw_AccessKeyID b = asked_key ex_create_request) \<and>
       (asked_secret ex_create_request \<noteq> '''' \<longrightarrow> cw_SecretAccessKey b = asked_secret ex_create_request)) \<or>
    (\<exists>u c b. out = Respond 202 (CredentialBody b) \<and> asked_secret ex_create_request = '''' \<and>
       credential_there (ref_view ex_world) (ref_view t) ''bob@example.org'' u (cr_AccessKeyID b) c \<and>
       (asked_key ex_create_request \<noteq> '''' \<longrightarrow> cr_AccessKeyID b = asked_key ex_create_request)) \<or>
    (\<exists>m. out = Respond 404 (ErrorBody m)) \<and> ref_view t = ref_view ex_world \<or>
    (\<exists>m. out = Respond 500 (ErrorBody m)) \<and>
       (ref_view t = ref_view ex_world \<or>
        (\<exists>u k c. credential_there (ref_view ex_world) (ref_view t) ''bob@example.org'' u k c \<and>
           (asked_key ex_create_request \<noteq> '''' \<longrightarrow> k = asked_key ex_create_request))) \<or>
    (\<exists>m. out = Panicked m) \<and> ref_view t = ref_view ex_world"
  by (rule create_credential_effect [OF ref_clock.auth_clock_axioms])

text \<open>
  C9. A new access key works at once: if no stored credential has the access key and the name made from it is
  free in every namespace, and the creation is answered 201, then that answer carries the requested access key,
  and the given secret key if one was given, and the lookup that follows answers 200 with the same access key,
  secret key and user. (Calls reliable.)
\<close>

theorem created_key_authenticates:
  assumes "auth_clock_ok srv view rt T1 T2"
    and "\<And>ns. view s (credential_key ns (asked_key r)) = None"
    and "\<And>c. stored (view s) (OCredential c) \<Longrightarrow> \<not> credential_answers (asked_key r) c"
    and "asked_key r \<noteq> ''''"
  shows "case run_state (do {
             out1 \<leftarrow> createUserCredential rt srv r un;
             out2 \<leftarrow> getCredentialByAccessKey rt srv r2 (asked_key r) '''';
             return (out1, out2) }) s of
    ((out1, out2), t) \<Rightarrow> \<forall>b. out1 = Respond 201 (SecretBody b) \<longrightarrow>
       cw_AccessKeyID b = asked_key r \<and> (asked_secret r \<noteq> '''' \<longrightarrow> cw_SecretAccessKey b = asked_secret r) \<and>
       (\<exists>d. out2 = Respond 200 (SecretBody (b\<lparr>cw_CreationDate := d\<rparr>)))"
  by (rule wp_pairD [OF auth_clock_ok.wp_create_lookup [OF assms]])

definition create_and_look_up :: "(world, outcome \<times> outcome) state" where
  "create_and_look_up = do {
     out1 \<leftarrow> createUserCredential ref_runtime ref_server ex_create_request ''bob@example.org'';
     out2 \<leftarrow> getCredentialByAccessKey ref_runtime ref_server (ex_request []) ''AK2'' '''';
     return (out1, out2) }"

lemma ex_created:
  "case run_state create_and_look_up ex_world of ((out1, _), _) \<Rightarrow>
     (case out1 of Respond c (SecretBody b) \<Rightarrow> c = 201 \<and> cw_UserName b = ''bob@example.org'' | _ \<Rightarrow> False)"
  by code_simp

theorem created_key_authenticates_witness:
  "case run_state create_and_look_up ex_world of
    ((out1, out2), t) \<Rightarrow> \<exists>b d. out1 = Respond 201 (SecretBody b) \<and> cw_AccessKeyID b = ''AK2'' \<and>
       cw_SecretAccessKey b = ''x'' \<and> cw_UserName b = ''bob@example.org'' \<and>
       out2 = Respond 200 (SecretBody (b\<lparr>cw_CreationDate := d\<rparr>))"
proof -
  have k: "asked_key ex_create_request = ''AK2''" "asked_secret ex_create_request = ''x''"
    by (simp_all add: asked_key_def asked_secret_def ex_create_request_def ex_request_def query_Get_def)
  have n: "objectName ''lakefs-cred-AK2'' = ''lakefs-cred-ak2''" by code_simp
  have free: "ref_view ex_world (credential_key ns ''AK2'') = None" for ns
    by (simp add: credential_key_def n ref_view_def ex_world_def ex_credential_def ex_secret_def)
  have none: "\<not> credential_answers ''AK2'' c" if "stored (ref_view ex_world) (OCredential c)" for c
    using that by (simp add: ex_stored_credential [simplified])
      (simp add: credential_answers_def ex_credential_def fresh_spec_def)
  have "case run_state create_and_look_up ex_world of
    ((out1, out2), t) \<Rightarrow> \<forall>b. out1 = Respond 201 (SecretBody b) \<longrightarrow>
       cw_AccessKeyID b = ''AK2'' \<and> (''x'' \<noteq> '''' \<longrightarrow> cw_SecretAccessKey b = ''x'') \<and>
       (\<exists>d. out2 = Respond 200 (SecretBody (b\<lparr>cw_CreationDate := d\<rparr>)))"
    unfolding create_and_look_up_def
    by (rule created_key_authenticates [OF ref_clock.auth_clock_ok_axioms, of ex_world ex_create_request, unfolded k])
      (use free none in simp_all)
  with ex_created show ?thesis by (auto split: prod.splits outcome.splits body.splits)
qed

text \<open>
  C39. An access key that is taken can be taken over. Let the identifier in the path name one stored user, and let
  a credential with the requested access key be stored, under the name made from it, in that user's namespace: the
  only one with that access key, usable, with its own user and secret. If a request with a secret key is then answered
  201, the answer names the caller's user, but the access key stays that of its own user, and from then on
  the lookup answers for that user with the secret key that the caller gave. (Calls reliable.)
\<close>

theorem taken_key_taken_over:
  assumes "auth_clock_ok srv view rt T1 T2"
    and "\<And>x. stored (view s) (OUser x) \<Longrightarrow> user_answers un x \<Longrightarrow> x = u"
    and "view s (credential_key (Namespace u) (asked_key r)) = Some (OCredential c)"
    and "credential_answers (asked_key r) c" and "unique_key (view s) (asked_key r)"
    and "backed_by (view s) c a sec" and "usable T2 c" and "asked_secret r \<noteq> ''''"
  shows "case run_state (do {
             out1 \<leftarrow> createUserCredential rt srv r un;
             out2 \<leftarrow> getCredentialByAccessKey rt srv r2 (asked_key r) '''';
             return (out1, out2) }) s of
    ((out1, out2), t) \<Rightarrow> \<forall>b. out1 = Respond 201 (SecretBody b) \<longrightarrow>
       cw_AccessKeyID b = asked_key r \<and> cw_UserName b = userUsername u \<and>
       (\<exists>d. out2 = Respond 200 (SecretBody d) \<and> cw_AccessKeyID d = asked_key r \<and>
          cw_UserName d = userUsername a \<and> cw_SecretAccessKey d = asked_secret r)"
  by (rule wp_pairD [OF auth_clock_ok.wp_taken_key [OF assms]])

definition ex_take_request :: Request where
  "ex_take_request = ex_request [(''access_key_id'', ''AK1''), (''secret_access_key'', ''evil'')]"

definition take_and_look_up :: "(world, outcome \<times> outcome) state" where
  "take_and_look_up = do {
     out1 \<leftarrow> createUserCredential ref_runtime ref_server ex_take_request ''bob@example.org'';
     out2 \<leftarrow> getCredentialByAccessKey ref_runtime ref_server (ex_request []) ''AK1'' '''';
     return (out1, out2) }"

lemma ex_taken:
  "case run_state take_and_look_up ex_world of ((out1, _), _) \<Rightarrow>
     (case out1 of Respond c (SecretBody b) \<Rightarrow> c = 201 | _ \<Rightarrow> False)"
  by code_simp

lemma ex_bob:
  assumes "stored (ref_view ex_world) (OUser x)" and "user_answers ''bob@example.org'' x"
  shows "x = ex_user ''bob'' ''bob@example.org''"
proof -
  have "x = ex_user ''alice'' ''alice@example.org'' \<or> x = ex_user ''bob'' ''bob@example.org''"
    using ref_view_mem [OF assms(1)] by (simp add: ex_world_def)
  with assms(2) show ?thesis
    by (auto simp: user_answers_def direct_key_def userUsername_def)
qed

theorem taken_key_taken_over_witness:
  "case run_state take_and_look_up ex_world of
    ((out1, out2), t) \<Rightarrow> \<exists>b d. out1 = Respond 201 (SecretBody b) \<and> cw_AccessKeyID b = ''AK1'' \<and>
       cw_UserName b = ''bob@example.org'' \<and> out2 = Respond 200 (SecretBody d) \<and> cw_AccessKeyID d = ''AK1'' \<and>
       cw_UserName d = ''alice@example.org'' \<and> cw_SecretAccessKey d = ''evil''"
proof -
  have k: "asked_key ex_take_request = ''AK1''" "asked_secret ex_take_request = ''evil''"
    by (simp_all add: asked_key_def asked_secret_def ex_take_request_def ex_request_def query_Get_def)
  have n: "objectName ''lakefs-cred-AK1'' = ''lakefs-cred-ak1''" by code_simp
  have names: "userUsername (ex_user ''bob'' ''bob@example.org'') = ''bob@example.org''"
    "userUsername (ex_user ''alice'' ''alice@example.org'') = ''alice@example.org''"
    by (simp_all add: userUsername_def)
  have "case run_state take_and_look_up ex_world of
    ((out1, out2), t) \<Rightarrow> \<forall>b. out1 = Respond 201 (SecretBody b) \<longrightarrow>
       cw_AccessKeyID b = ''AK1'' \<and> cw_UserName b = userUsername (ex_user ''bob'' ''bob@example.org'') \<and>
       (\<exists>d. out2 = Respond 200 (SecretBody d) \<and> cw_AccessKeyID d = ''AK1'' \<and>
          cw_UserName d = userUsername (ex_user ''alice'' ''alice@example.org'') \<and> cw_SecretAccessKey d = ''evil'')"
    unfolding take_and_look_up_def
  proof (rule taken_key_taken_over [OF ref_clock.auth_clock_ok_axioms, of ex_world _ _ ex_take_request, unfolded k])
    show "ref_view ex_world (credential_key (Namespace (ex_user ''bob'' ''bob@example.org'')) ''AK1'') = Some (OCredential ex_credential)"
      by (simp add: credential_key_def n ref_view_def ex_world_def)
  qed (use ex_bob ex_answers ex_unique ex_backed in \<open>simp_all add: usable_def ex_credential_def fresh_spec_def\<close>)
  with ex_taken show ?thesis by (auto simp: names split: prod.splits outcome.splits body.splits)
qed

lemma pollCredentialSecret_ticks:
  assumes "ended (i + n)" and "\<And>j. j < n \<Longrightarrow> \<not> ended (i + j)"
  shows "pollCredentialSecret ended i srv c s = Some (run_state (waitForCredentialSecret n srv c) s)"
  using assms
proof (induction n arbitrary: i s)
  case 0
  then show ?case
    by (subst pollCredentialSecret.simps) (auto split: prod.splits)
next
  case (Suc n)
  have "\<not> ended i" using Suc.prems(2) [of 0] by simp
  moreover have "pollCredentialSecret ended (Suc i) srv c t = Some (run_state (waitForCredentialSecret n srv c) t)" for t
    by (rule Suc.IH) (use Suc.prems(1) Suc.prems(2) [of "Suc j" for j] in simp_all)
  ultimately show ?case
    by (subst pollCredentialSecret.simps) (auto split: prod.splits)
qed

text \<open>
  C21. Waiting for a secret ends: if the context ends, the polling loop returns, at the latest with the \<open>select\<close>
  that takes the end of the context, and what it returns is what \<open>waitForCredentialSecret\<close> computes for the number of
  ticks before.
\<close>

theorem wait_terminates:
  assumes "ended n"
  shows "\<exists>k \<le> n. pollCredentialSecret ended 0 srv c s = Some (run_state (waitForCredentialSecret k srv c) s)"
proof -
  define k where "k = (LEAST j. ended j)"
  have "ended (0 + k)" unfolding k_def by (simp only: add_0, rule LeastI, rule assms)
  moreover have "\<not> ended (0 + j)" if "j < k" for j using that not_less_Least [of j ended] by (simp add: k_def)
  ultimately have "pollCredentialSecret ended 0 srv c s = Some (run_state (waitForCredentialSecret k srv c) s)"
    by (rule pollCredentialSecret_ticks)
  moreover have "k \<le> n" unfolding k_def using assms by (rule Least_le)
  ultimately show ?thesis by blast
qed

theorem wait_terminates_witness:
  "\<exists>k \<le> 24. pollCredentialSecret (\<lambda>i. i \<ge> 24) 0 ref_server (ex_credential\<lparr>cred_Spec := (cred_Spec ex_credential)
      \<lparr>cs_SecretRef := \<lparr>sr_Name = ''missing'', sr_Key = ''''\<rparr>\<rparr>\<rparr>) ex_world =
    Some (run_state (waitForCredentialSecret k ref_server (ex_credential\<lparr>cred_Spec := (cred_Spec ex_credential)
      \<lparr>cs_SecretRef := \<lparr>sr_Name = ''missing'', sr_Key = ''''\<rparr>\<rparr>\<rparr>)) ex_world)"
  by (rule wait_terminates) simp

end

