(* ===== verification/Routes.thy ===== *)
theory Routes
  imports AuthUsers AuthGroups AuthPolicies AuthCredentials
begin

section \<open>Dispatch (internal/authserver/server.go, lines 177-336)\<close>

text \<open>
  \<open>handle\<close> and the three path handlers: which handler answers a request. The cases are tried in
  the order of the source. \<open>handle\<close> runs behind \<open>http.ServeMux\<close> with the single pattern \<open>/\<close>, which
  hands it every request whose path is clean.
\<close>

subsection \<open>Definitions\<close>

text \<open>\<open>strings.Split(strings.Trim(tail, "/"), "/")\<close>.\<close>

definition path_parts :: "string \<Rightarrow> string list" where
  "path_parts tail = Split (Trim tail ''/'') CHR ''/''"

definition handleUserPath :: "'s Runtime \<Rightarrow> 's Server \<Rightarrow> Request \<Rightarrow> string \<Rightarrow> ('s, outcome) state" where
  "handleUserPath rt srv r tail =
     (let parts = path_parts tail; method = r_Method r in
      if length parts = 1 then
        (if method = MethodGet then getUser srv r (parts ! 0)
         else if method = MethodDelete then deleteUser srv r (parts ! 0)
         else writeError StatusMethodNotAllowed ''method not allowed'')
      else if length parts = 2 \<and> parts ! 1 = ''credentials'' then
        (if method = MethodGet then listUserCredentials rt srv r (parts ! 0)
         else if method = MethodPost then createUserCredential rt srv r (parts ! 0)
         else writeError StatusMethodNotAllowed ''method not allowed'')
      else if length parts = 2 \<and> parts ! 1 = ''policies'' \<and> method = MethodGet then
        listUserPolicies srv r (parts ! 0)
      else if length parts = 3 \<and> parts ! 1 = ''policies'' then
        (if method = MethodPut then attachPolicyToUser srv r (parts ! 0) (parts ! 2)
         else if method = MethodDelete then detachPolicyFromUser srv r (parts ! 0) (parts ! 2)
         else writeError StatusMethodNotAllowed ''method not allowed'')
      else if length parts = 2 \<and> parts ! 1 = ''groups'' \<and> method = MethodGet then
        listUserGroups srv r (parts ! 0)
      else if length parts = 3 \<and> parts ! 1 = ''credentials'' then
        (if method = MethodGet then getCredentialByAccessKey rt srv r (parts ! 2) (parts ! 0)
         else if method = MethodDelete then revokeUserCredential srv r (parts ! 0) (parts ! 2)
         else writeError StatusMethodNotAllowed ''method not allowed'')
      else writeError StatusNotFound ''not found'')"

definition handlePolicyPath :: "'s Server \<Rightarrow> Request \<Rightarrow> string \<Rightarrow> ('s, outcome) state" where
  "handlePolicyPath srv r tail =
     (let parts = path_parts tail; method = r_Method r in
      if length parts \<noteq> 1 then writeError StatusNotFound ''not found''
      else if method = MethodGet then getPolicy srv r (parts ! 0)
      else if method = MethodPut then updatePolicy srv r (parts ! 0)
      else if method = MethodDelete then deletePolicy srv r (parts ! 0)
      else writeError StatusMethodNotAllowed ''method not allowed'')"

definition handleGroupPath :: "'s Server \<Rightarrow> Request \<Rightarrow> string \<Rightarrow> ('s, outcome) state" where
  "handleGroupPath srv r tail =
     (let parts = path_parts tail; method = r_Method r in
      if length parts = 1 then
        (if method = MethodGet then getGroup srv r (parts ! 0)
         else if method = MethodDelete then deleteGroup srv r (parts ! 0)
         else writeError StatusMethodNotAllowed ''method not allowed'')
      else if length parts = 3 \<and> parts ! 1 = ''members'' then
        (if method = MethodPut then addGroupMembership srv r (parts ! 0) (parts ! 2)
         else if method = MethodDelete then removeGroupMembership srv r (parts ! 0) (parts ! 2)
         else writeError StatusMethodNotAllowed ''method not allowed'')
      else if length parts = 2 \<and> parts ! 1 = ''members'' \<and> method = MethodGet then
        listGroupMembers srv r (parts ! 0)
      else if length parts = 3 \<and> parts ! 1 = ''policies'' then
        (if method = MethodPut then attachPolicyToGroup srv r (parts ! 0) (parts ! 2)
         else if method = MethodDelete then detachPolicyFromGroup srv r (parts ! 0) (parts ! 2)
         else writeError StatusMethodNotAllowed ''method not allowed'')
      else if length parts = 2 \<and> parts ! 1 = ''policies'' \<and> method = MethodGet then
        listGroupPolicies srv r (parts ! 0)
      else writeError StatusNotFound ''not found'')"

definition handle :: "'s Runtime \<Rightarrow> 's Server \<Rightarrow> Request \<Rightarrow> ('s, outcome) state" where
  "handle rt srv r =
     (let path = routePath (r_Path r);
          path = (if path = '''' then ''/'' else path);
          method = r_Method r in
      if method = MethodGet \<and> (path = ''/healthcheck'' \<or> path = ''/healthz'' \<or> path = ''/readyz''
                               \<or> r_Path r = ''/healthcheck'') then
        WriteHeader StatusNoContent
      else if method = MethodGet \<and> path = ''/config/version'' then
        writeJSON StatusOK (VersionBody [(''version'', ''dev'')])
      else if method = MethodGet \<and> path = ''/auth/users'' then listUsers srv r
      else if method = MethodPost \<and> path = ''/auth/users'' then createUser srv r
      else if method = MethodGet \<and> HasPrefix path ''/auth/users/'' then
        handleUserPath rt srv r (TrimPrefix path ''/auth/users/'')
      else if method = MethodPost \<and> HasPrefix path ''/auth/users/'' \<and> HasSuffix path ''/credentials'' then
        handleUserPath rt srv r (TrimPrefix path ''/auth/users/'')
      else if method = MethodDelete \<and> HasPrefix path ''/auth/users/'' then
        handleUserPath rt srv r (TrimPrefix path ''/auth/users/'')
      else if method = MethodGet \<and> HasPrefix path ''/auth/credentials/'' then
        getCredentialByAccessKey rt srv r (TrimPrefix path ''/auth/credentials/'') ''''
      else if method = MethodGet \<and> path = ''/auth/policies'' then listPolicies srv r
      else if HasPrefix path ''/auth/policies/'' then
        handlePolicyPath srv r (TrimPrefix path ''/auth/policies/'')
      else if method = MethodPost \<and> path = ''/auth/policies'' then createPolicy srv r
      else if method = MethodGet \<and> path = ''/auth/groups'' then listGroups srv r
      else if method = MethodPost \<and> path = ''/auth/groups'' then createGroup srv r
      else if HasPrefix path ''/auth/groups/'' then
        handleGroupPath srv r (TrimPrefix path ''/auth/groups/'')
      else writeError StatusNotFound ''not found'')"

subsection \<open>Requests that only read\<close>

lemma handle_get_user:
  "r_Method r = MethodGet \<Longrightarrow> handleUserPath rt srv r tail =
     (let parts = path_parts tail in
      if length parts = 1 then getUser srv r (parts ! 0)
      else if length parts = 2 \<and> parts ! 1 = ''credentials'' then listUserCredentials rt srv r (parts ! 0)
      else if length parts = 2 \<and> parts ! 1 = ''policies'' then listUserPolicies srv r (parts ! 0)
      else if length parts = 3 \<and> parts ! 1 = ''policies'' then
        writeError StatusMethodNotAllowed ''method not allowed''
      else if length parts = 2 \<and> parts ! 1 = ''groups'' then listUserGroups srv r (parts ! 0)
      else if length parts = 3 \<and> parts ! 1 = ''credentials'' then
        getCredentialByAccessKey rt srv r (parts ! 2) (parts ! 0)
      else writeError StatusNotFound ''not found'')"
  by (simp add: handleUserPath_def Let_def)

lemma handle_get_policy:
  "r_Method r = MethodGet \<Longrightarrow> handlePolicyPath srv r tail =
     (if length (path_parts tail) \<noteq> 1 then writeError StatusNotFound ''not found''
      else getPolicy srv r (path_parts tail ! 0))"
  by (simp add: handlePolicyPath_def Let_def)

lemma handle_get_group:
  "r_Method r = MethodGet \<Longrightarrow> handleGroupPath srv r tail =
     (let parts = path_parts tail in
      if length parts = 1 then getGroup srv r (parts ! 0)
      else if length parts = 3 \<and> parts ! 1 = ''members'' then
        writeError StatusMethodNotAllowed ''method not allowed''
      else if length parts = 2 \<and> parts ! 1 = ''members'' then listGroupMembers srv r (parts ! 0)
      else if length parts = 3 \<and> parts ! 1 = ''policies'' then
        writeError StatusMethodNotAllowed ''method not allowed''
      else if length parts = 2 \<and> parts ! 1 = ''policies'' then listGroupPolicies srv r (parts ! 0)
      else writeError StatusNotFound ''not found'')"
  by (simp add: handleGroupPath_def Let_def)

context auth_reads
begin

lemma keeps_handle:
  assumes "r_Method r = MethodGet" and "keeps f (env_Now rt)"
  shows "keeps f (handle rt srv r)"
proof -
  note m [simp] = assms(1)
  have user: "keeps f (handleUserPath rt srv r tail)" for tail
    unfolding handle_get_user [OF m] write_defs
    by (intro keeps_intros keeps_user_reads keeps_credential_reads [OF assms(2)])
  have pol: "keeps f (handlePolicyPath srv r tail)" for tail
    unfolding handle_get_policy [OF m] write_defs by (intro keeps_intros keeps_policy_reads)
  have group: "keeps f (handleGroupPath srv r tail)" for tail
    unfolding handle_get_group [OF m] write_defs by (intro keeps_intros keeps_group_reads)
  show ?thesis
    unfolding handle_def m write_defs
    by (intro keeps_intros keeps_user_reads keeps_group_reads keeps_policy_reads user pol group
        keeps_credential_reads [OF assms(2)]) simp_all
qed

end

subsection \<open>The routing table\<close>

text \<open>
  What the dispatcher promises, without its string handling: the endpoint that a method and the
  segments of a path stand for, and the handler that serves it.
\<close>

datatype endpoint =
    Health | Version | NotAllowed | Unknown
  | ListUsers | CreateUser | GetUser string | DeleteUser string
  | ListCredentials string | CreateCredential string | GetCredential string string | RevokeCredential string string
  | ListUserPolicies string | DetachFromUser string string | ListUserGroups string
  | ListPolicies | CreatePolicy | GetPolicy string | UpdatePolicy string | DeletePolicy string
  | ListGroups | CreateGroup | GetGroup string | DeleteGroup string
  | ListMembers string | AddMember string string | RemoveMember string string
  | ListGroupPolicies string | AttachToGroup string string | DetachFromGroup string string

definition by_method :: "string \<Rightarrow> (string \<times> endpoint) list \<Rightarrow> endpoint" where
  "by_method m choices = (case map_of choices m of Some e \<Rightarrow> e | None \<Rightarrow> NotAllowed)"

text \<open>
  Under \<open>/auth/users\<close> a PUT is unknown whatever the path, and a POST is known only for a path that
  ends in \<open>credentials\<close>.
\<close>

definition users_endpoint :: "string \<Rightarrow> string list \<Rightarrow> endpoint" where
  "users_endpoint m segs =
     (if m \<noteq> MethodGet \<and> m \<noteq> MethodDelete \<and> \<not> (m = MethodPost \<and> last segs = ''credentials'') then Unknown
      else case segs of
        [u] \<Rightarrow> by_method m [(MethodGet, GetUser u), (MethodDelete, DeleteUser u)]
      | [u, x] \<Rightarrow>
          if x = ''credentials'' then
            by_method m [(MethodGet, ListCredentials u), (MethodPost, CreateCredential u)]
          else if x = ''policies'' \<and> m = MethodGet then ListUserPolicies u
          else if x = ''groups'' \<and> m = MethodGet then ListUserGroups u
          else Unknown
      | [u, x, y] \<Rightarrow>
          if x = ''policies'' then by_method m [(MethodDelete, DetachFromUser u y)]
          else if x = ''credentials'' then
            by_method m [(MethodGet, GetCredential y u), (MethodDelete, RevokeCredential u y)]
          else Unknown
      | _ \<Rightarrow> Unknown)"

definition policies_endpoint :: "string \<Rightarrow> string list \<Rightarrow> endpoint" where
  "policies_endpoint m segs =
     (case segs of
        [p] \<Rightarrow> by_method m [(MethodGet, GetPolicy p), (MethodPut, UpdatePolicy p), (MethodDelete, DeletePolicy p)]
      | _ \<Rightarrow> Unknown)"

definition groups_endpoint :: "string \<Rightarrow> string list \<Rightarrow> endpoint" where
  "groups_endpoint m segs =
     (case segs of
        [g] \<Rightarrow> by_method m [(MethodGet, GetGroup g), (MethodDelete, DeleteGroup g)]
      | [g, x] \<Rightarrow>
          if x = ''members'' \<and> m = MethodGet then ListMembers g
          else if x = ''policies'' \<and> m = MethodGet then ListGroupPolicies g
          else Unknown
      | [g, x, y] \<Rightarrow>
          if x = ''members'' then by_method m [(MethodPut, AddMember g y), (MethodDelete, RemoveMember g y)]
          else if x = ''policies'' then
            by_method m [(MethodPut, AttachToGroup g y), (MethodDelete, DetachFromGroup g y)]
          else Unknown
      | _ \<Rightarrow> Unknown)"

definition collection :: "string \<Rightarrow> endpoint \<Rightarrow> endpoint \<Rightarrow> endpoint" where
  "collection m list create = (if m = MethodGet then list else if m = MethodPost then create else Unknown)"

definition auth_endpoint :: "string \<Rightarrow> string \<Rightarrow> string list \<Rightarrow> endpoint" where
  "auth_endpoint m x segs =
     (if x = ''users'' then if segs = [] then collection m ListUsers CreateUser else users_endpoint m segs
      else if x = ''policies'' then if segs = [] then collection m ListPolicies CreatePolicy else policies_endpoint m segs
      else if x = ''groups'' then if segs = [] then collection m ListGroups CreateGroup else groups_endpoint m segs
      else if x = ''credentials'' \<and> m = MethodGet \<and> segs \<noteq> [] then GetCredential (Join segs ''/'') ''''
      else Unknown)"

definition endpoint_of :: "string \<Rightarrow> string list \<Rightarrow> endpoint" where
  "endpoint_of m segs =
     (if m = MethodGet \<and> segs \<in> {[''healthcheck''], [''healthz''], [''readyz'']} then Health
      else if m = MethodGet \<and> segs = [''config'', ''version''] then Version
      else case segs of a # x # rest \<Rightarrow> if a = ''auth'' then auth_endpoint m x rest else Unknown
         | _ \<Rightarrow> Unknown)"

text \<open>The version prefix is optional.\<close>

definition api_segments :: "string list \<Rightarrow> string list" where
  "api_segments segs =
     (if take 2 segs = [''auth'', ''v1''] \<or> take 2 segs = [''api'', ''v1''] then drop 2 segs else segs)"

fun serve :: "'s Runtime \<Rightarrow> 's Server \<Rightarrow> Request \<Rightarrow> endpoint \<Rightarrow> ('s, outcome) state" where
  "serve rt srv r Health = WriteHeader StatusNoContent"
| "serve rt srv r Version = writeJSON StatusOK (VersionBody [(''version'', ''dev'')])"
| "serve rt srv r NotAllowed = writeError StatusMethodNotAllowed ''method not allowed''"
| "serve rt srv r Unknown = writeError StatusNotFound ''not found''"
| "serve rt srv r ListUsers = listUsers srv r"
| "serve rt srv r CreateUser = createUser srv r"
| "serve rt srv r (GetUser u) = getUser srv r u"
| "serve rt srv r (DeleteUser u) = deleteUser srv r u"
| "serve rt srv r (ListCredentials u) = listUserCredentials rt srv r u"
| "serve rt srv r (CreateCredential u) = createUserCredential rt srv r u"
| "serve rt srv r (GetCredential k u) = getCredentialByAccessKey rt srv r k u"
| "serve rt srv r (RevokeCredential u k) = revokeUserCredential srv r u k"
| "serve rt srv r (ListUserPolicies u) = listUserPolicies srv r u"
| "serve rt srv r (DetachFromUser u p) = detachPolicyFromUser srv r u p"
| "serve rt srv r (ListUserGroups u) = listUserGroups srv r u"
| "serve rt srv r ListPolicies = listPolicies srv r"
| "serve rt srv r CreatePolicy = createPolicy srv r"
| "serve rt srv r (GetPolicy p) = getPolicy srv r p"
| "serve rt srv r (UpdatePolicy p) = updatePolicy srv r p"
| "serve rt srv r (DeletePolicy p) = deletePolicy srv r p"
| "serve rt srv r ListGroups = listGroups srv r"
| "serve rt srv r CreateGroup = createGroup srv r"
| "serve rt srv r (GetGroup g) = getGroup srv r g"
| "serve rt srv r (DeleteGroup g) = deleteGroup srv r g"
| "serve rt srv r (ListMembers g) = listGroupMembers srv r g"
| "serve rt srv r (AddMember g u) = addGroupMembership srv r g u"
| "serve rt srv r (RemoveMember g u) = removeGroupMembership srv r g u"
| "serve rt srv r (ListGroupPolicies g) = listGroupPolicies srv r g"
| "serve rt srv r (AttachToGroup g p) = attachPolicyToGroup srv r g p"
| "serve rt srv r (DetachFromGroup g p) = detachPolicyFromGroup srv r g p"

subsection \<open>Paths\<close>

text \<open>A segment is not empty and has no slash; a path is a slash and segments joined by slashes.\<close>

definition segments :: "string list \<Rightarrow> bool" where
  "segments ss \<longleftrightarrow> list_all (\<lambda>s. s \<noteq> [] \<and> CHR ''/'' \<notin> set s) ss"

abbreviation path_of :: "string list \<Rightarrow> string" where
  "path_of ss \<equiv> CHR ''/'' # Join ss ''/''"

lemma Split_plain: "c \<notin> set s \<Longrightarrow> Split s c = [s]"
  by (induction s) auto

lemma Split_sep: "Split (a @ c # b) c = Split a c @ Split b c"
proof (induction a)
  case (Cons x a)
  obtain q qs where "Split a c = q # qs" using Split_nonempty [of a c] by (cases "Split a c") auto
  with Cons show ?case by simp
qed simp

lemma Join_Cons: "ss \<noteq> [] \<Longrightarrow> Join (s # ss) sep = s @ sep @ Join ss sep"
  by (cases ss) auto

lemma segments_simps [simp]:
  "segments []" "segments (s # ss) \<longleftrightarrow> s \<noteq> [] \<and> CHR ''/'' \<notin> set s \<and> segments ss"
  "segments (xs @ ys) \<longleftrightarrow> segments xs \<and> segments ys"
  by (auto simp: segments_def)

lemma Split_Join: "ss \<noteq> [] \<Longrightarrow> segments ss \<Longrightarrow> Split (Join ss ''/'') CHR ''/'' = ss"
proof (induction ss)
  case (Cons s ss)
  then show ?case by (cases ss) (simp_all add: Split_plain Split_sep)
qed simp

lemma Join_ends:
  "ss \<noteq> [] \<Longrightarrow> segments ss \<Longrightarrow>
     Join ss ''/'' \<noteq> [] \<and> hd (Join ss ''/'') \<noteq> CHR ''/'' \<and> last (Join ss ''/'') \<noteq> CHR ''/''"
proof (induction ss)
  case (Cons s ss)
  have "hd s \<noteq> CHR ''/''" "last s \<noteq> CHR ''/''" using Cons.prems by (metis hd_in_set last_in_set segments_simps(2))+
  with Cons show ?case by (cases ss) (auto simp: hd_append)
qed simp

lemma path_parts_Join: "ss \<noteq> [] \<Longrightarrow> segments ss \<Longrightarrow> path_parts (Join ss ''/'') = ss"
  using Join_ends [of ss] by (simp add: path_parts_def Trim_id Split_Join)

lemma Join_inj: "segments ss \<Longrightarrow> segments ts \<Longrightarrow> Join ss ''/'' = Join ts ''/'' \<longleftrightarrow> ss = ts"
  by (metis Join.simps(1) Join_ends Split_Join)

lemma Join_append: "xs \<noteq> [] \<Longrightarrow> ys \<noteq> [] \<Longrightarrow> Join (xs @ ys) sep = Join xs sep @ sep @ Join ys sep"
proof (induction xs)
  case (Cons x xs)
  then show ?case by (cases xs) (simp_all add: Join_Cons)
qed simp

text \<open>Under which conditions on the segments the string tests of the dispatcher hold.\<close>

lemma path_prefix:
  assumes "segments ss" and "segments pre" and "pre \<noteq> []"
  shows "prefix (Join pre ''/'' @ ''/'') (Join ss ''/'') \<longleftrightarrow> (\<exists>rest. rest \<noteq> [] \<and> ss = pre @ rest)"
proof
  assume "prefix (Join pre ''/'' @ ''/'') (Join ss ''/'')"
  then obtain z where z: "Join ss ''/'' = Join pre ''/'' @ CHR ''/'' # z" by (auto simp: prefix_def)
  then have ne: "ss \<noteq> []" by auto
  from arg_cong [OF z, of "\<lambda>x. Split x CHR ''/''"] have "ss = pre @ Split z CHR ''/''"
    using assms ne by (simp add: Split_sep Split_Join)
  moreover have "Split z CHR ''/'' \<noteq> []" by (rule Split_nonempty)
  ultimately show "\<exists>rest. rest \<noteq> [] \<and> ss = pre @ rest" by blast
next
  assume "\<exists>rest. rest \<noteq> [] \<and> ss = pre @ rest"
  then show "prefix (Join pre ''/'' @ ''/'') (Join ss ''/'')"
    using assms(3) by (auto simp: Join_append)
qed

lemma path_suffix:
  assumes "segments ss" and "ss \<noteq> []" and "segments [x]"
  shows "suffix (CHR ''/'' # x) (path_of ss) \<longleftrightarrow> last ss = x"
proof
  assume "suffix (CHR ''/'' # x) (path_of ss)"
  then obtain z where z: "path_of ss = z @ CHR ''/'' # x" by (auto simp: suffix_def)
  have "Split (path_of ss) CHR ''/'' = [] # ss"
    using Split_sep [of "[]" "CHR ''/''" "Join ss ''/''"] Split_Join [OF assms(2, 1)] by simp
  with arg_cong [OF z, of "\<lambda>x. Split x CHR ''/''"] have "[] # ss = Split z CHR ''/'' @ [x]"
    using assms(3) by (simp add: Split_sep Split_plain)
  then show "last ss = x" by (metis assms(2) last_ConsR last_snoc)
next
  assume "last ss = x"
  then obtain ts where "ss = ts @ [x]" using assms(2) by (metis append_butlast_last_id)
  then show "suffix (CHR ''/'' # x) (path_of ss)"
    by (cases "ts = []") (auto simp: Join_append suffix_def)
qed

lemma take2_conv: "take 2 ss = [a, b] \<longleftrightarrow> (\<exists>rest. ss = a # b # rest)"
  by (cases ss; cases "tl ss") auto

lemma path_eq:
  assumes "segments ss"
  shows "path_of ss = ''/healthcheck'' \<longleftrightarrow> ss = [''healthcheck'']"
    and "path_of ss = ''/healthz'' \<longleftrightarrow> ss = [''healthz'']"
    and "path_of ss = ''/readyz'' \<longleftrightarrow> ss = [''readyz'']"
    and "path_of ss = ''/config/version'' \<longleftrightarrow> ss = [''config'', ''version'']"
    and "path_of ss = ''/auth/users'' \<longleftrightarrow> ss = [''auth'', ''users'']"
    and "path_of ss = ''/auth/policies'' \<longleftrightarrow> ss = [''auth'', ''policies'']"
    and "path_of ss = ''/auth/groups'' \<longleftrightarrow> ss = [''auth'', ''groups'']"
    and "path_of ss = ''/auth/v1'' \<longleftrightarrow> ss = [''auth'', ''v1'']"
    and "path_of ss = ''/api/v1'' \<longleftrightarrow> ss = [''api'', ''v1'']"
  using Join_inj [OF assms, of "[''healthcheck'']"] Join_inj [OF assms, of "[''healthz'']"]
    Join_inj [OF assms, of "[''readyz'']"] Join_inj [OF assms, of "[''config'', ''version'']"]
    Join_inj [OF assms, of "[''auth'', ''users'']"] Join_inj [OF assms, of "[''auth'', ''policies'']"]
    Join_inj [OF assms, of "[''auth'', ''groups'']"] Join_inj [OF assms, of "[''auth'', ''v1'']"]
    Join_inj [OF assms, of "[''api'', ''v1'']"]
  by simp_all

lemma path_under:
  assumes "segments ss"
  shows "HasPrefix (path_of ss) ''/auth/users/'' \<longleftrightarrow> (\<exists>rest. rest \<noteq> [] \<and> ss = ''auth'' # ''users'' # rest)"
    and "HasPrefix (path_of ss) ''/auth/policies/'' \<longleftrightarrow> (\<exists>rest. rest \<noteq> [] \<and> ss = ''auth'' # ''policies'' # rest)"
    and "HasPrefix (path_of ss) ''/auth/groups/'' \<longleftrightarrow> (\<exists>rest. rest \<noteq> [] \<and> ss = ''auth'' # ''groups'' # rest)"
    and "HasPrefix (path_of ss) ''/auth/credentials/'' \<longleftrightarrow>
           (\<exists>rest. rest \<noteq> [] \<and> ss = ''auth'' # ''credentials'' # rest)"
    and "HasPrefix (path_of ss) ''/auth/v1/'' \<longleftrightarrow> (\<exists>rest. rest \<noteq> [] \<and> ss = ''auth'' # ''v1'' # rest)"
    and "HasPrefix (path_of ss) ''/api/v1/'' \<longleftrightarrow> (\<exists>rest. rest \<noteq> [] \<and> ss = ''api'' # ''v1'' # rest)"
  using path_prefix [OF assms, of "[''auth'', ''users'']"] path_prefix [OF assms, of "[''auth'', ''policies'']"]
    path_prefix [OF assms, of "[''auth'', ''groups'']"] path_prefix [OF assms, of "[''auth'', ''credentials'']"]
    path_prefix [OF assms, of "[''auth'', ''v1'']"] path_prefix [OF assms, of "[''api'', ''v1'']"]
  by (simp_all add: HasPrefix_def)

lemma path_tail:
  assumes "rest \<noteq> []"
  shows "TrimPrefix (path_of (''auth'' # ''users'' # rest)) ''/auth/users/'' = Join rest ''/''"
    and "TrimPrefix (path_of (''auth'' # ''policies'' # rest)) ''/auth/policies/'' = Join rest ''/''"
    and "TrimPrefix (path_of (''auth'' # ''groups'' # rest)) ''/auth/groups/'' = Join rest ''/''"
    and "TrimPrefix (path_of (''auth'' # ''credentials'' # rest)) ''/auth/credentials/'' = Join rest ''/''"
    and "TrimPrefix (path_of (''auth'' # ''v1'' # rest)) ''/auth/v1'' = path_of rest"
    and "TrimPrefix (path_of (''api'' # ''v1'' # rest)) ''/api/v1'' = path_of rest"
  using assms by (simp_all add: TrimPrefix_def HasPrefix_def Join_Cons)

lemma path_ends_credentials:
  "segments ss \<Longrightarrow> ss \<noteq> [] \<Longrightarrow> HasSuffix (path_of ss) ''/credentials'' \<longleftrightarrow> last ss = ''credentials''"
  using path_suffix [of ss "''credentials''"] by (simp add: HasSuffix_def)

lemma routePath_path:
  assumes "segments ss"
  shows "routePath (path_of ss) = path_of (api_segments ss)"
proof -
  consider (bare) "ss = [''auth'', ''v1''] \<or> ss = [''api'', ''v1'']"
    | (auth) rest where "rest \<noteq> []" "ss = ''auth'' # ''v1'' # rest"
    | (api) rest where "rest \<noteq> []" "ss = ''api'' # ''v1'' # rest"
    | (none) "take 2 ss \<noteq> [''auth'', ''v1'']" "take 2 ss \<noteq> [''api'', ''v1'']"
    unfolding take2_conv by blast
  then show ?thesis
  proof cases
    case bare
    then show ?thesis by (auto simp: routePath_def api_segments_def HasPrefix_def)
  next
    case auth
    have "TrimPrefix (path_of ss) ''/auth/v1'' = path_of rest"
      by (simp only: auth(2) path_tail(5) [OF auth(1)])
    with auth show ?thesis
      unfolding routePath_def api_segments_def path_eq [OF assms] path_under [OF assms] by simp
  next
    case api
    have "TrimPrefix (path_of ss) ''/api/v1'' = path_of rest"
      by (simp only: api(2) path_tail(6) [OF api(1)])
    with api show ?thesis
      unfolding routePath_def api_segments_def path_eq [OF assms] path_under [OF assms] by simp
  next
    case none
    then have "ss \<noteq> [''auth'', ''v1'']" "ss \<noteq> [''api'', ''v1'']"
      "\<nexists>rest. rest \<noteq> [] \<and> ss = ''auth'' # ''v1'' # rest" "\<nexists>rest. rest \<noteq> [] \<and> ss = ''api'' # ''v1'' # rest"
      by auto
    with none show ?thesis
      unfolding routePath_def api_segments_def path_eq [OF assms] path_under [OF assms] by auto
  qed
qed

lemma segments_api: "segments ss \<Longrightarrow> segments (api_segments ss)"
  by (simp add: api_segments_def segments_def list_all_iff) (metis in_set_dropD)

subsection \<open>The dispatcher implements the table\<close>

lemma parts_cases:
  assumes "rest \<noteq> []"
  obtains (one) a where "rest = [a]" | (two) a b where "rest = [a, b]" | (three) a b c where "rest = [a, b, c]"
    | (more) a b c d ds where "rest = a # b # c # d # ds"
  using assms by (metis neq_Nil_conv)

lemma handleUserPath_table:
  assumes "rest \<noteq> []" and "segments rest"
    and "r_Method r = MethodGet \<or> r_Method r = MethodDelete \<or> r_Method r = MethodPost \<and> last rest = ''credentials''"
  shows "handleUserPath rt srv r (Join rest ''/'') = serve rt srv r (users_endpoint (r_Method r) rest)"
  unfolding handleUserPath_def Let_def path_parts_Join [OF assms(1, 2)] users_endpoint_def by_method_def
  using assms(1, 3) by (cases rule: parts_cases) auto

lemma handlePolicyPath_table:
  assumes "rest \<noteq> []" and "segments rest"
  shows "handlePolicyPath srv r (Join rest ''/'') = serve rt srv r (policies_endpoint (r_Method r) rest)"
  unfolding handlePolicyPath_def Let_def path_parts_Join [OF assms] policies_endpoint_def by_method_def
  using assms(1) by (cases rule: parts_cases) auto

lemma handleGroupPath_table:
  assumes "rest \<noteq> []" and "segments rest"
  shows "handleGroupPath srv r (Join rest ''/'') = serve rt srv r (groups_endpoint (r_Method r) rest)"
  unfolding handleGroupPath_def Let_def path_parts_Join [OF assms] groups_endpoint_def by_method_def
  using assms(1) by (cases rule: parts_cases) auto

lemma handle_other:
  assumes health: "r_Path r = ''/healthcheck'' \<longrightarrow> ts = [''healthcheck'']"
    and auth: "\<And>m x rest. ts = ''auth'' # x # rest \<Longrightarrow>
      auth_endpoint m x rest = (if rest \<noteq> [] then Unknown
        else if x = ''users'' then collection m ListUsers CreateUser
        else if x = ''policies'' then collection m ListPolicies CreatePolicy
        else if x = ''groups'' then collection m ListGroups CreateGroup
        else Unknown)"
  shows "(if r_Method r = MethodGet \<and> (ts = [''healthcheck''] \<or> ts = [''healthz''] \<or> ts = [''readyz'']
              \<or> r_Path r = ''/healthcheck'') then WriteHeader StatusNoContent
      else if r_Method r = MethodGet \<and> ts = [''config'', ''version''] then
        writeJSON StatusOK (VersionBody [(''version'', ''dev'')])
      else if r_Method r = MethodGet \<and> ts = [''auth'', ''users''] then listUsers srv r
      else if r_Method r = MethodPost \<and> ts = [''auth'', ''users''] then createUser srv r
      else if r_Method r = MethodGet \<and> ts = [''auth'', ''policies''] then listPolicies srv r
      else if r_Method r = MethodPost \<and> ts = [''auth'', ''policies''] then createPolicy srv r
      else if r_Method r = MethodGet \<and> ts = [''auth'', ''groups''] then listGroups srv r
      else if r_Method r = MethodPost \<and> ts = [''auth'', ''groups''] then createGroup srv r
      else writeError StatusNotFound ''not found'')
    = serve rt srv r (endpoint_of (r_Method r) ts)"
proof (cases "\<exists>x rest. ts = ''auth'' # x # rest")
  case True
  then obtain x rest where t: "ts = ''auth'' # x # rest" by blast
  have "r_Path r \<noteq> ''/healthcheck''" using health t by auto
  with auth [OF t] show ?thesis
    by (auto simp: t endpoint_of_def collection_def)
next
  case False
  then show ?thesis using health
    by (auto simp: endpoint_of_def split: list.splits)
qed

lemma handle_table:
  assumes path: "r_Path r = path_of ss" and ss: "segments ss"
  shows "handle rt srv r = serve rt srv r (endpoint_of (r_Method r) (api_segments ss))"
proof -
  define ts where "ts = api_segments ss"
  have ts: "segments ts" unfolding ts_def by (rule segments_api [OF ss])
  have health: "r_Path r = ''/healthcheck'' \<longrightarrow> ts = [''healthcheck'']"
    unfolding path path_eq [OF ss] ts_def by (simp add: api_segments_def)
  have route: "routePath (r_Path r) = path_of ts" unfolding path ts_def by (rule routePath_path [OF ss])
  have slash: "(if path_of ts = '''' then ''/'' else path_of ts) = path_of ts" by simp
  consider (users) rest where "rest \<noteq> []" "ts = ''auth'' # ''users'' # rest" "segments rest"
    | (policies) rest where "rest \<noteq> []" "ts = ''auth'' # ''policies'' # rest" "segments rest"
    | (groups) rest where "rest \<noteq> []" "ts = ''auth'' # ''groups'' # rest" "segments rest"
    | (credentials) rest where "rest \<noteq> []" "ts = ''auth'' # ''credentials'' # rest" "segments rest"
    | (other) "\<nexists>rest x. rest \<noteq> [] \<and> x \<in> {''users'', ''policies'', ''groups'', ''credentials''} \<and> ts = ''auth'' # x # rest"
  proof (cases "\<exists>rest x. rest \<noteq> [] \<and> x \<in> {''users'', ''policies'', ''groups'', ''credentials''} \<and> ts = ''auth'' # x # rest")
    case True
    then obtain rest x where r: "rest \<noteq> []" "ts = ''auth'' # x # rest"
      and x: "x \<in> {''users'', ''policies'', ''groups'', ''credentials''}" by blast
    with ts have "segments rest" by simp
    with r x show ?thesis using that(1-4) by blast
  qed (rule that(5))
  then have "handle rt srv r = serve rt srv r (endpoint_of (r_Method r) ts)"
  proof cases
    case users
    have suffix: "HasSuffix (path_of ts) ''/credentials'' \<longleftrightarrow> last rest = ''credentials''"
      using users ts by (subst path_ends_credentials) auto
    have tail: "TrimPrefix (path_of ts) ''/auth/users/'' = Join rest ''/''"
      by (simp only: users(2) path_tail(1) [OF users(1)])
    have endpoint: "endpoint_of (r_Method r) ts = users_endpoint (r_Method r) rest"
      using users(1) by (simp add: users(2) endpoint_of_def auth_endpoint_def)
    have known: "handleUserPath rt srv r (Join rest ''/'') = serve rt srv r (users_endpoint (r_Method r) rest)"
      if "r_Method r = MethodGet \<or> r_Method r = MethodDelete \<or> r_Method r = MethodPost \<and> last rest = ''credentials''"
      using that by (intro handleUserPath_table users)
    have unknown: "users_endpoint (r_Method r) rest = Unknown"
      if "r_Method r \<noteq> MethodGet" "r_Method r \<noteq> MethodDelete" "\<not> (r_Method r = MethodPost \<and> last rest = ''credentials'')"
      using that by (simp add: users_endpoint_def)
    have not_health: "r_Path r \<noteq> ''/healthcheck''" using health users by auto
    show ?thesis
      unfolding handle_def Let_def route slash suffix tail path_eq [OF ts] path_under [OF ts] endpoint
      using users(1, 2) not_health known unknown
      by (cases "r_Method r = MethodGet"; cases "r_Method r = MethodDelete"; cases "r_Method r = MethodPost";
          cases "last rest = ''credentials''") simp_all
  next
    case policies
    have tail: "TrimPrefix (path_of ts) ''/auth/policies/'' = Join rest ''/''"
      by (simp only: policies(2) path_tail(2) [OF policies(1)])
    show ?thesis
      unfolding handle_def Let_def route slash tail path_eq [OF ts] path_under [OF ts]
      using policies health
      by (auto simp: endpoint_of_def auth_endpoint_def handlePolicyPath_table)
  next
    case groups
    have tail: "TrimPrefix (path_of ts) ''/auth/groups/'' = Join rest ''/''"
      by (simp only: groups(2) path_tail(3) [OF groups(1)])
    show ?thesis
      unfolding handle_def Let_def route slash tail path_eq [OF ts] path_under [OF ts]
      using groups health
      by (auto simp: endpoint_of_def auth_endpoint_def handleGroupPath_table)
  next
    case credentials
    have tail: "TrimPrefix (path_of ts) ''/auth/credentials/'' = Join rest ''/''"
      by (simp only: credentials(2) path_tail(4) [OF credentials(1)])
    show ?thesis
      unfolding handle_def Let_def route slash tail path_eq [OF ts] path_under [OF ts]
      using credentials health by (auto simp: endpoint_of_def auth_endpoint_def)
  next
    case other
    then have none: "(\<exists>rest. rest \<noteq> [] \<and> ts = ''auth'' # ''users'' # rest) \<longleftrightarrow> False"
      "(\<exists>rest. rest \<noteq> [] \<and> ts = ''auth'' # ''policies'' # rest) \<longleftrightarrow> False"
      "(\<exists>rest. rest \<noteq> [] \<and> ts = ''auth'' # ''groups'' # rest) \<longleftrightarrow> False"
      "(\<exists>rest. rest \<noteq> [] \<and> ts = ''auth'' # ''credentials'' # rest) \<longleftrightarrow> False"
      by blast+
    have auth: "auth_endpoint m x rest = (if rest \<noteq> [] then Unknown
        else if x = ''users'' then collection m ListUsers CreateUser
        else if x = ''policies'' then collection m ListPolicies CreatePolicy
        else if x = ''groups'' then collection m ListGroups CreateGroup
        else Unknown)" if "ts = ''auth'' # x # rest" for m x rest
      using other that by (auto simp: auth_endpoint_def)
    show ?thesis
      unfolding handle_def Let_def route slash path_eq [OF ts] path_under [OF ts] none simp_thms if_False
      by (rule handle_other [OF health auth])
  qed
  then show ?thesis unfolding ts_def .
qed

subsection \<open>Properties\<close>

text \<open>
  C22. A GET request changes nothing: whatever observation of the world reading from the API server
  and from the clock leaves alone, the server's answer to a GET leaves it alone too.
\<close>

theorem get_requests_read_only:
  assumes "api_reads (client srv) f" and "keeps f (env_Now rt)" and "r_Method r = MethodGet"
  shows "f (snd (run_state (handle rt srv r) s)) = f s"
proof -
  have "auth_reads srv f" using assms(1) by (simp add: auth_reads_def)
  from auth_reads.keeps_handle [OF this assms(3, 2)] show ?thesis by (simp add: keeps_def)
qed

theorem get_requests_read_only_witness:
  "ref_view (snd (run_state (handle ref_runtime ref_server
     (ex_request []\<lparr>r_Path := ''/auth/users/alice/policies''\<rparr>)) ex_world)) = ref_view ex_world"
  by (rule get_requests_read_only [where f = ref_view])
    (simp_all add: ref.api_reads_axioms ref_runtime_def ex_request_def keeps_return)

text \<open>
  C5. The dispatcher implements the routing table: a request whose path is made of segments is served
  by the handler of the endpoint that the table gives for its method and its segments, with the
  version prefix \<open>/auth/v1\<close> or \<open>/api/v1\<close> taken off.
\<close>

theorem dispatch_implements_table:
  assumes "r_Path r = path_of ss" and "segments ss"
  shows "handle rt srv r = serve rt srv r (endpoint_of (r_Method r) (api_segments ss))"
  by (rule handle_table [OF assms])

theorem dispatch_implements_table_witness:
  "handle ref_runtime ref_server (ex_request []\<lparr>r_Method := ''PUT'', r_Path := ''/api/v1/auth/groups/Devs/members/bob''\<rparr>)
     = (addGroupMembership ref_server
         (ex_request []\<lparr>r_Method := ''PUT'', r_Path := ''/api/v1/auth/groups/Devs/members/bob''\<rparr>) ''Devs'' ''bob''
       :: (world, outcome) state)"
  using dispatch_implements_table [of "ex_request []\<lparr>r_Method := ''PUT'', r_Path := ''/api/v1/auth/groups/Devs/members/bob''\<rparr>"
      "[''api'', ''v1'', ''auth'', ''groups'', ''Devs'', ''members'', ''bob'']" ref_runtime "ref_server :: world Server"]
  by (simp add: api_segments_def endpoint_of_def auth_endpoint_def groups_endpoint_def by_method_def)

text \<open>
  C37. No PUT under \<open>/auth/users\<close> is ever served: the answer is 404 and nothing changes, so a policy
  can not be attached to a user although \<open>handleUserPath\<close> has a branch for it.
\<close>

theorem put_under_users_not_found:
  assumes "r_Path r = path_of ss" and "segments ss" and "r_Method r = MethodPut"
    and "api_segments ss = ''auth'' # ''users'' # rest"
  shows "run_state (handle rt srv r) s = (Respond 404 (ErrorBody ''not found''), s)"
  unfolding handle_table [OF assms(1, 2)] assms(3, 4)
  by (simp add: endpoint_of_def auth_endpoint_def collection_def users_endpoint_def)

theorem put_under_users_not_found_witness:
  "run_state (handle ref_runtime ref_server
     (ex_request []\<lparr>r_Method := ''PUT'', r_Path := ''/auth/users/alice/policies/Read''\<rparr>)) ex_world
   = (Respond 404 (ErrorBody ''not found''), ex_world)"
  by (rule put_under_users_not_found [where ss = "[''auth'', ''users'', ''alice'', ''policies'', ''Read'']"
        and rest = "[''alice'', ''policies'', ''Read'']"])
    (simp_all add: api_segments_def)

end
