(* ===== verification/Reconciling.thy ===== *)
theory Reconciling
  imports Secrets RefStore
begin

section \<open>What the controllers share (internal/controller)\<close>

text \<open>
  The results of \<open>Reconcile\<close>, the helpers of apimachinery and controller-runtime that the
  reconcilers call, and conditions.go. The helpers are not part of the repository: they are fields
  of the record \<open>Lib\<close>, and the locale \<open>controllers\<close> states their documented behaviour. Six of the
  seven reconcilers have the same shape: read the object, judge it, write a \<open>Ready\<close> condition into
  its status. The locale \<open>status_controller\<close> holds what follows from that shape; the reconcilers of
  the code are interpretations of it.
\<close>

subsection \<open>Results\<close>

datatype rerror = ApiError apierror | Failed string

text \<open>\<open>ctrl.Result\<close>, and what a call of \<open>Reconcile\<close> ends with: its two results, or a panic.\<close>

record Result =
  RequeueAfter :: time

datatype reconciled = Reconciled Result "rerror option" | Panicking string

abbreviation noRequeue :: Result where
  "noRequeue \<equiv> \<lparr>RequeueAfter = 0\<rparr>"

subsection \<open>Library helpers\<close>

text \<open>
  \<open>meta.SetStatusCondition\<close> (it reads the clock), the finalizer helpers and
  \<open>SetControllerReference\<close> and \<open>CreateOrUpdate\<close> of controllerutil, and \<open>metav1.IsControlledBy\<close>.
  \<open>SetControllerReference\<close> takes the owner and the controlled object and gives the owner references
  the latter then has; the mutate function of \<open>CreateOrUpdate\<close> is a function on the object.
\<close>

record 's Lib =
  SetStatusCondition :: "Condition list \<Rightarrow> Condition \<Rightarrow> ('s, Condition list) state"
  ContainsFinalizer :: "string list \<Rightarrow> string \<Rightarrow> bool"
  AddFinalizer :: "string list \<Rightarrow> string \<Rightarrow> string list"
  RemoveFinalizer :: "string list \<Rightarrow> string \<Rightarrow> string list"
  IsControlledBy :: "obj \<Rightarrow> obj \<Rightarrow> bool"
  SetControllerReference :: "obj \<Rightarrow> obj \<Rightarrow> (string, OwnerReference list) result"
  CreateOrUpdate :: "CronJob \<Rightarrow> (CronJob \<Rightarrow> (string, CronJob) result) \<Rightarrow> ('s, rerror option) state"

record 's Reconciler =
  rec_Client :: "'s Client"
  rec_Lib :: "'s Lib"
  rec_Runtime :: "'s Runtime"

subsection \<open>Conditions (conditions.go)\<close>

definition ConditionReady :: string where
  "ConditionReady = ''Ready''"

definition ReasonResolved :: string where
  "ReasonResolved = ''Resolved''"

definition ReasonInvalid :: string where
  "ReasonInvalid = ''Invalid''"

definition ReasonUnavailable :: string where
  "ReasonUnavailable = ''Unavailable''"

abbreviation ConditionTrue :: string where
  "ConditionTrue \<equiv> ''True''"

abbreviation ConditionFalse :: string where
  "ConditionFalse \<equiv> ''False''"

definition readyCondition :: "string \<Rightarrow> string \<Rightarrow> string \<Rightarrow> int \<Rightarrow> Condition" where
  "readyCondition status reason message generation =
     \<lparr>cond_Type = ConditionReady, cond_Status = status, cond_ObservedGeneration = generation,
      cond_LastTransitionTime = zeroTime, cond_Reason = reason, cond_Message = message\<rparr>"

definition metaSetStatusCondition ::
  "'s Lib \<Rightarrow> Condition list \<Rightarrow> Condition \<Rightarrow> ('s, Condition list) state" where
  "metaSetStatusCondition lib conditions condition = SetStatusCondition lib conditions condition"

definition lakeFSUserUsername :: "LakeFSUser \<Rightarrow> string" where
  "lakeFSUserUsername user =
     (if us_ExternalID (user_Spec user) \<noteq> '''' then us_ExternalID (user_Spec user)
      else if Namespace user = '''' then Name user
      else Join [Namespace user, Name user] '':'')"

subsection \<open>What a reconciliation writes\<close>

text \<open>
  The common part of the status, the \<open>Ready\<close> condition in it (the first one, as
  \<open>meta.FindStatusCondition\<close> finds it), and what \<open>meta.SetStatusCondition\<close> does to a list of
  conditions: the condition of the given type is as given, up to its time stamp, and the conditions
  of other types are as before.
\<close>

fun status_part :: "statusContent \<Rightarrow> Status option" where
  "status_part (SStatus st) = Some st"
| "status_part (SCredential st) = Some (Status.truncate st)"
| "status_part (SRepository st) = Some (Status.truncate st)"
| "status_part SNone = None"

definition ready_of :: "obj \<Rightarrow> Condition option" where
  "ready_of x = (case status_part (status_of x) of
     None \<Rightarrow> None | Some st \<Rightarrow> find (\<lambda>c. cond_Type c = ConditionReady) (Conditions st))"

text \<open>The object is reported ready.\<close>

definition Ready :: "obj \<Rightarrow> bool" where
  "Ready x \<longleftrightarrow> (case ready_of x of None \<Rightarrow> False | Some c \<Rightarrow> cond_Status c = ConditionTrue)"

definition same_judgement :: "Condition \<Rightarrow> Condition \<Rightarrow> bool" where
  "same_judgement c d \<longleftrightarrow> cond_Type d = cond_Type c \<and> cond_Status d = cond_Status c \<and>
     cond_Reason d = cond_Reason c \<and> cond_Message d = cond_Message c \<and>
     cond_ObservedGeneration d = cond_ObservedGeneration c"

definition condition_set :: "Condition list \<Rightarrow> Condition \<Rightarrow> Condition list \<Rightarrow> bool" where
  "condition_set old c new \<longleftrightarrow>
     (\<exists>d. find (\<lambda>d. cond_Type d = cond_Type c) new = Some d \<and> same_judgement c d) \<and>
     filter (\<lambda>d. cond_Type d \<noteq> cond_Type c) new = filter (\<lambda>d. cond_Type d \<noteq> cond_Type c) old"

text \<open>
  \<open>status_written x y\<close>: \<open>y\<close> is \<open>x\<close> with a status written that judges its generation. Metadata and
  spec are as before. \<open>reported x P v v'\<close>: from \<open>v\<close> to \<open>v'\<close> nothing changed but the status of \<open>x\<close>,
  which is ready only if \<open>P\<close> holds; with \<open>reported_exactly\<close> it is ready if and only if it does.
\<close>

definition status_written :: "obj \<Rightarrow> obj \<Rightarrow> bool" where
  "status_written x y \<longleftrightarrow> stored_as x y \<and> meta y = meta x \<and>
     (\<exists>part. status_part (status_of y) = Some part \<and> ObservedGeneration part = Generation (meta x)) \<and>
     (\<exists>c. ready_of y = Some c \<and> cond_ObservedGeneration c = Generation (meta x))"

definition reported :: "obj \<Rightarrow> bool \<Rightarrow> (okey \<rightharpoonup> obj) \<Rightarrow> (okey \<rightharpoonup> obj) \<Rightarrow> bool" where
  "reported x P v v' \<longleftrightarrow> (\<exists>y. v' = v(okey_of x \<mapsto> y) \<and> status_written x y \<and> (Ready y \<longrightarrow> P))"

definition reported_exactly :: "obj \<Rightarrow> bool \<Rightarrow> (okey \<rightharpoonup> obj) \<Rightarrow> (okey \<rightharpoonup> obj) \<Rightarrow> bool" where
  "reported_exactly x P v v' \<longleftrightarrow> (\<exists>y. v' = v(okey_of x \<mapsto> y) \<and> status_written x y \<and> (Ready y \<longleftrightarrow> P))"

text \<open>A judgement on an object of generation \<open>g\<close>: \<open>True\<close> or \<open>False\<close>, and \<open>True\<close> only if \<open>P\<close>.\<close>

definition judged :: "int \<Rightarrow> bool \<Rightarrow> Condition \<Rightarrow> bool" where
  "judged g P c \<longleftrightarrow> cond_Type c = ConditionReady \<and> cond_ObservedGeneration c = g \<and>
     (cond_Status c = ConditionTrue \<and> P \<or> cond_Status c = ConditionFalse)"

lemma truncate_more_sel [simp]:
  "UID (ObjectMeta.truncate x) = UID x"
  "Generation (ObjectMeta.truncate x) = Generation x"
  "DeletionTimestamp (ObjectMeta.truncate x) = DeletionTimestamp x"
  "OwnerReferences (ObjectMeta.truncate x) = OwnerReferences x"
  by (simp_all add: ObjectMeta.truncate_def)

lemma readyCondition_simps [simp]:
  "cond_Type (readyCondition st re m g) = ConditionReady"
  "cond_Status (readyCondition st re m g) = st"
  "cond_ObservedGeneration (readyCondition st re m g) = g"
  by (simp_all add: readyCondition_def)

lemma judged_True [simp]: "judged g P (readyCondition ConditionTrue re m g) \<longleftrightarrow> P"
  by (simp add: judged_def)

lemma judged_False [simp]: "judged g P (readyCondition ConditionFalse re m g)"
  by (simp add: judged_def)

lemma ConditionTrue_False [simp]: "ConditionTrue \<noteq> ConditionFalse" "ConditionFalse \<noteq> ConditionTrue"
  by simp_all

lemma status_writtenI:
  assumes old: "stored_as x y" "meta y = meta x"
    and part: "status_part (status_of y) = Some \<lparr>ObservedGeneration = Generation (meta x), Conditions = cs\<rparr>"
    and cs: "condition_set old c cs" and c: "judged (Generation (meta x)) P c"
  shows "status_written x y" and "Ready y \<longleftrightarrow> cond_Status c = ConditionTrue"
  using assms unfolding status_written_def Ready_def condition_set_def same_judgement_def judged_def ready_of_def
  by auto

subsection \<open>The library's contract\<close>

text \<open>
  The documented behaviour of the helpers, over a client that obeys the laws of the API. An object
  is controlled by an owner if its first controlling owner reference names the owner's uid.
  \<open>CreateOrUpdate\<close> reads the object, applies the mutation to it, or to the given one where there is
  none, and creates or updates it; if the mutation changes nothing, nothing is written.
\<close>

definition controlled_by :: "ObjectMeta \<Rightarrow> ObjectMeta \<Rightarrow> bool" where
  "controlled_by m owner \<longleftrightarrow>
     (case find or_Controller (OwnerReferences m) of None \<Rightarrow> False | Some ref \<Rightarrow> or_UID ref = UID owner)"

definition applied_effect ::
  "CronJob \<Rightarrow> (CronJob \<Rightarrow> (string, CronJob) result) \<Rightarrow> (okey \<rightharpoonup> obj) \<Rightarrow> rerror option \<Rightarrow> (okey \<rightharpoonup> obj) \<Rightarrow> bool" where
  "applied_effect j f v r v' \<longleftrightarrow>
     (case r of
        Some _ \<Rightarrow> v' = v
      | None \<Rightarrow> \<exists>old new y. (case v (okey_of (OCronJob j)) of None \<Rightarrow> old = j | Some x \<Rightarrow> x = OCronJob old) \<and>
          f old = Inr new \<and> stored_as (OCronJob new) (OCronJob y) \<and> v' = v(okey_of (OCronJob j) \<mapsto> OCronJob y))"

locale controllers = kube_api "rec_Client r" view
  for r :: "'s Reconciler" and view :: "'s \<Rightarrow> okey \<rightharpoonup> obj" +
  fixes T1 T2 :: time
  assumes set_condition_law: "wp (SetStatusCondition (rec_Lib r) cs c)
      (\<lambda>new t. view t = view s \<and> condition_set cs c new) s"
    and contains_law: "ContainsFinalizer (rec_Lib r) fs fin \<longleftrightarrow> fin \<in> set fs"
    and add_law: "set (AddFinalizer (rec_Lib r) fs fin) = insert fin (set fs)"
    and remove_law: "set (RemoveFinalizer (rec_Lib r) fs fin) = set fs - {fin}"
    and controlled_law: "IsControlledBy (rec_Lib r) x owner \<longleftrightarrow> controlled_by (meta x) (meta owner)"
    and owner_law: "SetControllerReference (rec_Lib r) owner x = Inr refs \<Longrightarrow>
      controlled_by ((meta x)\<lparr>OwnerReferences := refs\<rparr>) (meta owner)"
    and apply_law: "(\<And>old new. f old = Inr new \<Longrightarrow> okey_of (OCronJob new) = okey_of (OCronJob old) \<and>
        Finalizers new = Finalizers old) \<Longrightarrow>
      wp (CreateOrUpdate (rec_Lib r) j f) (\<lambda>e t. applied_effect j f (view s) e (view t)) s"
    and now_law: "wp (env_Now (rec_Runtime r)) (\<lambda>now t. view t = view s \<and> T1 \<le> now \<and> now \<le> T2) s"
    and rand_law: "wp (env_RandRead (rec_Runtime r) n) (\<lambda>_ t. view t = view s) s"
begin

lemma wp_metaSetStatusCondition:
  assumes "\<And>new t. view t = view s \<Longrightarrow> condition_set cs c new \<Longrightarrow> Q new t"
  shows "wp (metaSetStatusCondition (rec_Lib r) cs c) Q s"
  unfolding metaSetStatusCondition_def by (rule wp_mono [OF set_condition_law]) (use assms in blast)

end

locale controllers_ok = controllers r view T1 T2 + reliable_api "rec_Client r" view
  for r :: "'s Reconciler" and view :: "'s \<Rightarrow> okey \<rightharpoonup> obj" and T1 T2 :: time

subsection \<open>The common shape\<close>

text \<open>
  Reading the object, judging it, and writing the judgement into its status. \<open>resolve\<close> may panic
  (\<open>Inl\<close>); \<open>put\<close> writes the conditions and what else the reconciler puts into the status.
\<close>

definition status_reconcile ::
  "'s Reconciler \<Rightarrow> 'o kindT \<Rightarrow> ('o \<Rightarrow> ('s, (string, Condition) result) state) \<Rightarrow> ('o \<Rightarrow> Condition list) \<Rightarrow>
   ('o \<Rightarrow> Condition list \<Rightarrow> 'o) \<Rightarrow> NamespacedName \<Rightarrow> ('s, reconciled) state" where
  "status_reconcile r T resolve conds put req = do {
     got \<leftarrow> Get (rec_Client r) T req;
     (case got of
        Inl err \<Rightarrow>
          if IsNotFound err then return (Reconciled noRequeue None)
          else return (Reconciled noRequeue (Some (ApiError err)))
      | Inr x \<Rightarrow> do {
          condition \<leftarrow> resolve x;
          (case condition of
             Inl m \<Rightarrow> return (Panicking m)
           | Inr condition \<Rightarrow> do {
               conditions \<leftarrow> metaSetStatusCondition (rec_Lib r) (conds x) condition;
               updated \<leftarrow> StatusUpdate (rec_Client r) T (put x conditions);
               (case updated of
                  Inl err \<Rightarrow> return (Reconciled noRequeue (Some (ApiError err)))
                | Inr _ \<Rightarrow> return (Reconciled noRequeue None)) }) }) }"

text \<open>
  What a reconciler of this shape is built from: \<open>resolve\<close> may change what \<open>effect\<close> says, but not the
  object itself, and it judges the object \<open>True\<close> only if \<open>truth\<close> holds of the stored objects then.
\<close>

locale status_controller = controllers r view T1 T2
  for r :: "'s Reconciler" and view :: "'s \<Rightarrow> okey \<rightharpoonup> obj" and T1 T2 :: time +
  fixes T :: "'o kindT" and resolve :: "'o \<Rightarrow> ('s, (string, Condition) result) state"
    and conds :: "'o \<Rightarrow> Condition list" and put :: "'o \<Rightarrow> Condition list \<Rightarrow> 'o"
    and effect :: "'o \<Rightarrow> (okey \<rightharpoonup> obj) \<Rightarrow> (okey \<rightharpoonup> obj) \<Rightarrow> bool"
    and truth :: "'o \<Rightarrow> (okey \<rightharpoonup> obj) \<Rightarrow> bool"
  assumes kind: "wf_kind T"
    and put_meta: "meta (kt_mk T (put x cs)) = meta (kt_mk T x)"
    and put_status: "status_part (status_of (kt_mk T (put x cs))) =
      Some \<lparr>ObservedGeneration = Generation (meta (kt_mk T x)), Conditions = cs\<rparr>"
    and effect_keeps: "effect x v v' \<Longrightarrow> stored v (kt_mk T x) \<Longrightarrow> stored v' (kt_mk T x)"
    and resolve_law: "stored (view s) (kt_mk T x) \<Longrightarrow>
      wp (resolve x) (\<lambda>c t. effect x (view s) (view t) \<and>
        (\<forall>d. c = Inr d \<longrightarrow> judged (Generation (meta (kt_mk T x))) (truth x (view t)) d)) s"
begin

lemma okey_put: "okey_of (kt_mk T (put x cs)) = okey_of (kt_mk T x)"
  by (simp add: okey_of_def key_of_def put_meta wf_kindD(3) [OF kind])

lemma wp_write_status_upto:
  assumes x: "view u (okey_of (kt_mk T x)) = Some (kt_mk T x)"
    and d: "judged (Generation (meta (kt_mk T x))) P d"
    and base: "\<And>cs v. wp (cl_StatusUpdate (rec_Client r) (kt_mk T (put x cs)))
      (\<lambda>res _. \<forall>e. res = Inl e \<longrightarrow> F e) v"
    and ok: "\<And>w y. view w = (view u)(okey_of (kt_mk T x) \<mapsto> kt_mk T y) \<Longrightarrow>
      status_written (kt_mk T x) (kt_mk T y) \<Longrightarrow> (Ready (kt_mk T y) \<longleftrightarrow> cond_Status d = ConditionTrue) \<Longrightarrow>
      Q (Reconciled noRequeue None) w"
    and err: "\<And>w e. F e \<Longrightarrow> e \<noteq> NotFound \<Longrightarrow> view w = view u \<Longrightarrow> Q (Reconciled noRequeue (Some (ApiError e))) w"
  shows "wp (do {
      conditions \<leftarrow> metaSetStatusCondition (rec_Lib r) (conds x) d;
      updated \<leftarrow> StatusUpdate (rec_Client r) T (put x conditions);
      (case updated of
         Inl err \<Rightarrow> return (Reconciled noRequeue (Some (ApiError err)))
       | Inr _ \<Rightarrow> return (Reconciled noRequeue None)) }) Q u"
  unfolding wp_bind
proof (rule wp_metaSetStatusCondition, rule wp_StatusUpdate_upto [OF kind base])
  fix cs v w y old
  assume v: "view v = view u" and cs: "condition_set (conds x) d cs"
    and old: "view v (okey_of (kt_mk T (put x cs))) = Some old"
    and y: "stored_as old (kt_mk T y)" "status_of (kt_mk T y) = status_of (kt_mk T (put x cs))"
      "meta (kt_mk T y) = meta old"
    and w: "view w = (view v)(okey_of (kt_mk T (put x cs)) \<mapsto> kt_mk T y)"
  from old x v have "old = kt_mk T x" by (simp add: okey_put)
  with y have facts: "stored_as (kt_mk T x) (kt_mk T y)" "meta (kt_mk T y) = meta (kt_mk T x)"
    "status_part (status_of (kt_mk T y)) =
      Some \<lparr>ObservedGeneration = Generation (meta (kt_mk T x)), Conditions = cs\<rparr>" by (simp_all add: put_status)
  note written = status_writtenI [OF facts cs d]
  from w v written show "wp (case Inr y of
      Inl err \<Rightarrow> return (Reconciled noRequeue (Some (ApiError err)))
    | Inr _ \<Rightarrow> return (Reconciled noRequeue None)) Q w"
    by (simp add: okey_put ok)
next
  fix cs v w e
  assume v: "view v = view u" and "F e" "view w = view v"
    and "e = NotFound \<Longrightarrow> view v (okey_of (kt_mk T (put x cs))) = None"
  with x have "e \<noteq> NotFound" by (auto simp: okey_put)
  with \<open>F e\<close> \<open>view w = view v\<close> v show "wp (case Inl e of
      Inl err \<Rightarrow> return (Reconciled noRequeue (Some (ApiError err)))
    | Inr _ \<Rightarrow> return (Reconciled noRequeue None)) Q w"
    by (simp add: err)
qed

text \<open>What the reconciliation does to an object, and the ways it ends.\<close>

definition judged_to :: "'o \<Rightarrow> (okey \<rightharpoonup> obj) \<Rightarrow> (okey \<rightharpoonup> obj) \<Rightarrow> bool" where
  "judged_to x v v' \<longleftrightarrow> (\<exists>u. effect x v u \<and> reported (kt_mk T x) (truth x u) u v')"

definition reconciled_to :: "NamespacedName \<Rightarrow> (okey \<rightharpoonup> obj) \<Rightarrow> reconciled \<Rightarrow> (okey \<rightharpoonup> obj) \<Rightarrow> bool" where
  "reconciled_to req v res v' \<longleftrightarrow>
     (if res = Reconciled noRequeue None
      then v (kt_kind T, req) = None \<and> v' = v \<or>
        (\<exists>x. v (kt_kind T, req) = Some (kt_mk T x) \<and> judged_to x v v')
      else v' = v \<or> (\<exists>x. v (kt_kind T, req) = Some (kt_mk T x) \<and> effect x v v'))"

lemma wp_status_reconcile:
  "wp (status_reconcile r T resolve conds put req) (\<lambda>res t. reconciled_to req (view s) res (view t)) s"
  unfolding status_reconcile_def wp_bind
proof (rule wp_Get [OF kind])
  fix t x
  assume t: "view t = view s" and key: "okey_of (kt_mk T x) = (kt_kind T, req)"
    and x: "view s (kt_kind T, req) = Some (kt_mk T x)"
  have st: "stored (view t) (kt_mk T x)" using key t x by simp
  have after: "wp (case c of
           Inl m \<Rightarrow> return (Panicking m)
         | Inr condition \<Rightarrow> do {
             conditions \<leftarrow> metaSetStatusCondition (rec_Lib r) (conds x) condition;
             updated \<leftarrow> StatusUpdate (rec_Client r) T (put x conditions);
             (case updated of
                Inl err \<Rightarrow> return (Reconciled noRequeue (Some (ApiError err)))
              | Inr _ \<Rightarrow> return (Reconciled noRequeue None)) })
       (\<lambda>res t. reconciled_to req (view s) res (view t)) u"
    if u: "effect x (view t) (view u) \<and>
      (\<forall>d. c = Inr d \<longrightarrow> judged (Generation (meta (kt_mk T x))) (truth x (view u)) d)" for c u
  proof (cases c)
    case (Inl m)
    with u t x show ?thesis by (auto simp: reconciled_to_def)
  next
    case (Inr d)
    with u have eff: "effect x (view s) (view u)"
      and d: "judged (Generation (meta (kt_mk T x))) (truth x (view u)) d" by (simp_all add: t)
    have "view u (okey_of (kt_mk T x)) = Some (kt_mk T x)"
      using effect_keeps [OF eff] key x by simp
    then have "wp (do {
        conditions \<leftarrow> metaSetStatusCondition (rec_Lib r) (conds x) d;
        updated \<leftarrow> StatusUpdate (rec_Client r) T (put x conditions);
        (case updated of
           Inl err \<Rightarrow> return (Reconciled noRequeue (Some (ApiError err)))
         | Inr _ \<Rightarrow> return (Reconciled noRequeue None)) })
      (\<lambda>res t. reconciled_to req (view s) res (view t)) u"
    proof (rule wp_write_status_upto [where F = "\<lambda>_. True", OF _ d])
      fix w y
      assume "view w = (view u)(okey_of (kt_mk T x) \<mapsto> kt_mk T y)"
        and "status_written (kt_mk T x) (kt_mk T y)" "Ready (kt_mk T y) \<longleftrightarrow> cond_Status d = ConditionTrue"
      with eff d have "judged_to x (view s) (view w)"
        unfolding judged_to_def reported_def judged_def by auto
      with x show "reconciled_to req (view s) (Reconciled noRequeue None) (view w)"
        by (auto simp: reconciled_to_def)
    qed (use x eff in \<open>auto simp: reconciled_to_def\<close>)
    then show ?thesis by (simp add: Inr)
  qed
  show "wp (case Inr x of Inl err \<Rightarrow> if IsNotFound err then return (Reconciled noRequeue None)
           else return (Reconciled noRequeue (Some (ApiError err)))
       | Inr x \<Rightarrow> do { condition \<leftarrow> resolve x; (case condition of Inl m \<Rightarrow> return (Panicking m)
           | Inr condition \<Rightarrow> do {
               conditions \<leftarrow> metaSetStatusCondition (rec_Lib r) (conds x) condition;
               updated \<leftarrow> StatusUpdate (rec_Client r) T (put x conditions);
               (case updated of Inl err \<Rightarrow> return (Reconciled noRequeue (Some (ApiError err)))
                | Inr _ \<Rightarrow> return (Reconciled noRequeue None)) }) })
     (\<lambda>res t. reconciled_to req (view s) res (view t)) t"
    unfolding sum.case wp_bind by (rule wp_mono [OF resolve_law [OF st] after [unfolded wp_bind]])
qed (auto simp: reconciled_to_def IsNotFound_def)

end

text \<open>
  Where the API does not fail for reasons of its own and \<open>resolve\<close> decides \<open>truth\<close>, a stored object
  is always judged, and judged exactly.
\<close>

locale status_controller_ok =
  status_controller r view T1 T2 T resolve conds put effect truth + reliable_api "rec_Client r" view
  for r :: "'s Reconciler" and view :: "'s \<Rightarrow> okey \<rightharpoonup> obj" and T1 T2 :: time
    and T :: "'o kindT" and resolve :: "'o \<Rightarrow> ('s, (string, Condition) result) state"
    and conds :: "'o \<Rightarrow> Condition list" and put :: "'o \<Rightarrow> Condition list \<Rightarrow> 'o"
    and effect :: "'o \<Rightarrow> (okey \<rightharpoonup> obj) \<Rightarrow> (okey \<rightharpoonup> obj) \<Rightarrow> bool"
    and truth :: "'o \<Rightarrow> (okey \<rightharpoonup> obj) \<Rightarrow> bool" +
  assumes resolve_exact: "stored (view s) (kt_mk T x) \<Longrightarrow>
      wp (resolve x) (\<lambda>c t. \<exists>d. c = Inr d \<and> (cond_Status d = ConditionTrue \<longleftrightarrow> truth x (view t))) s"
begin

definition judged_exactly :: "'o \<Rightarrow> (okey \<rightharpoonup> obj) \<Rightarrow> (okey \<rightharpoonup> obj) \<Rightarrow> bool" where
  "judged_exactly x v v' \<longleftrightarrow> (\<exists>u. effect x v u \<and> reported_exactly (kt_mk T x) (truth x u) u v')"

lemma wp_write_status_ok:
  assumes x: "view u (okey_of (kt_mk T x)) = Some (kt_mk T x)"
    and d: "judged (Generation (meta (kt_mk T x))) P d"
    and ok: "\<And>w y. view w = (view u)(okey_of (kt_mk T x) \<mapsto> kt_mk T y) \<Longrightarrow>
      status_written (kt_mk T x) (kt_mk T y) \<Longrightarrow> (Ready (kt_mk T y) \<longleftrightarrow> cond_Status d = ConditionTrue) \<Longrightarrow>
      Q (Reconciled noRequeue None) w"
  shows "wp (do {
      conditions \<leftarrow> metaSetStatusCondition (rec_Lib r) (conds x) d;
      updated \<leftarrow> StatusUpdate (rec_Client r) T (put x conditions);
      (case updated of
         Inl err \<Rightarrow> return (Reconciled noRequeue (Some (ApiError err)))
       | Inr _ \<Rightarrow> return (Reconciled noRequeue None)) }) Q u"
  by (rule wp_write_status_upto [where F = "\<lambda>e. e = NotFound", OF x d])
    (auto simp: ok intro: wp_mono [OF status_reliable])

lemma wp_status_reconcile_ok:
  assumes x: "stored (view s) (kt_mk T x)" and req: "okey_of (kt_mk T x) = (kt_kind T, req)"
  shows "wp (status_reconcile r T resolve conds put req)
    (\<lambda>res t. res = Reconciled noRequeue None \<and> judged_exactly x (view s) (view t)) s"
  unfolding status_reconcile_def wp_bind
proof (rule wp_Get_ok [OF kind])
  fix t x'
  assume t: "view t = view s" and "view s (kt_kind T, req) = Some (kt_mk T x')"
  then have x': "x' = x" using x req wf_kindD(1) [OF kind] by (metis option.inject)
  have st: "stored (view t) (kt_mk T x)" using x t by simp
  have after: "wp (case c of
           Inl m \<Rightarrow> return (Panicking m)
         | Inr condition \<Rightarrow> do {
             conditions \<leftarrow> metaSetStatusCondition (rec_Lib r) (conds x) condition;
             updated \<leftarrow> StatusUpdate (rec_Client r) T (put x conditions);
             (case updated of
                Inl err \<Rightarrow> return (Reconciled noRequeue (Some (ApiError err)))
              | Inr _ \<Rightarrow> return (Reconciled noRequeue None)) })
       (\<lambda>res t. res = Reconciled noRequeue None \<and> judged_exactly x (view s) (view t)) u"
    if u: "(effect x (view t) (view u) \<and>
        (\<forall>d. c = Inr d \<longrightarrow> judged (Generation (meta (kt_mk T x))) (truth x (view u)) d)) \<and>
      (\<exists>d. c = Inr d \<and> (cond_Status d = ConditionTrue \<longleftrightarrow> truth x (view u)))" for c u
  proof -
    from u obtain d where c: "c = Inr d" and truth: "cond_Status d = ConditionTrue \<longleftrightarrow> truth x (view u)"
      and d: "judged (Generation (meta (kt_mk T x))) (truth x (view u)) d" by auto
    have eff: "effect x (view s) (view u)" using u t by simp
    show ?thesis
      unfolding c sum.case
    proof (rule wp_write_status_ok [OF effect_keeps [OF eff x] d])
      fix w y
      assume "view w = (view u)(okey_of (kt_mk T x) \<mapsto> kt_mk T y)"
        and "status_written (kt_mk T x) (kt_mk T y)" "Ready (kt_mk T y) \<longleftrightarrow> cond_Status d = ConditionTrue"
      then show "Reconciled noRequeue None = Reconciled noRequeue None \<and> judged_exactly x (view s) (view w)"
        using eff truth unfolding judged_exactly_def reported_exactly_def by auto
    qed
  qed
  show "wp (case Inr x' of Inl err \<Rightarrow> if IsNotFound err then return (Reconciled noRequeue None)
           else return (Reconciled noRequeue (Some (ApiError err)))
       | Inr x \<Rightarrow> do { condition \<leftarrow> resolve x; (case condition of Inl m \<Rightarrow> return (Panicking m)
           | Inr condition \<Rightarrow> do {
               conditions \<leftarrow> metaSetStatusCondition (rec_Lib r) (conds x) condition;
               updated \<leftarrow> StatusUpdate (rec_Client r) T (put x conditions);
               (case updated of Inl err \<Rightarrow> return (Reconciled noRequeue (Some (ApiError err)))
                | Inr _ \<Rightarrow> return (Reconciled noRequeue None)) }) })
     (\<lambda>res t. res = Reconciled noRequeue None \<and> judged_exactly x (view s) (view t)) t"
    unfolding sum.case x' wp_bind
    by (rule wp_mono [OF wp_conj [OF resolve_law [OF st] resolve_exact [OF st]] after [unfolded wp_bind]])
qed (use x req in auto)

end

subsection \<open>The concrete library\<close>

text \<open>
  Helpers that satisfy the contract, over the concrete API server of RefStore. As that server, they
  are not part of the program; they show that the hypotheses can hold.
\<close>

fun ref_set_condition :: "Condition list \<Rightarrow> Condition \<Rightarrow> Condition list" where
  "ref_set_condition [] c = [c]"
| "ref_set_condition (d # ds) c = (if cond_Type d = cond_Type c then c # ds else d # ref_set_condition ds c)"

definition ref_SetControllerReference :: "obj \<Rightarrow> obj \<Rightarrow> (string, OwnerReference list) result" where
  "ref_SetControllerReference owner x =
     (case find or_Controller (OwnerReferences (meta x)) of
        None \<Rightarrow> Inr (OwnerReferences (meta x) @ [\<lparr>or_UID = UID (meta owner), or_Controller = True\<rparr>])
      | Some ref \<Rightarrow>
          if or_UID ref = UID (meta owner) then Inr (OwnerReferences (meta x)) else Inl ''already owned'')"

definition ref_CreateOrUpdate ::
  "CronJob \<Rightarrow> (CronJob \<Rightarrow> (string, CronJob) result) \<Rightarrow> ('z w, rerror option) state" where
  "ref_CreateOrUpdate j f = do {
     got \<leftarrow> Get ref_client CronJobT (Namespace j, Name j);
     (case got of
        Inl err \<Rightarrow>
          if \<not> IsNotFound err then return (Some (ApiError err))
          else (case f j of
             Inl m \<Rightarrow> return (Some (Failed m))
           | Inr new \<Rightarrow> do {
               created \<leftarrow> Create ref_client CronJobT new;
               return (case created of Inl err \<Rightarrow> Some (ApiError err) | Inr _ \<Rightarrow> None) })
      | Inr old \<Rightarrow>
          (case f old of
             Inl m \<Rightarrow> return (Some (Failed m))
           | Inr new \<Rightarrow> do {
               updated \<leftarrow> Update ref_client CronJobT new;
               return (case updated of Inl err \<Rightarrow> Some (ApiError err) | Inr _ \<Rightarrow> None) })) }"

definition ref_lib :: "'z w Lib" where
  "ref_lib = \<lparr>SetStatusCondition = (\<lambda>cs c. return (ref_set_condition cs c)),
     ContainsFinalizer = (\<lambda>fs f. f \<in> set fs),
     AddFinalizer = (\<lambda>fs f. if f \<in> set fs then fs else fs @ [f]),
     RemoveFinalizer = (\<lambda>fs f. removeAll f fs),
     IsControlledBy = (\<lambda>x owner. controlled_by (meta x) (meta owner)),
     SetControllerReference = ref_SetControllerReference,
     CreateOrUpdate = ref_CreateOrUpdate\<rparr>"

definition ref_reconciler :: "'z w Reconciler" where
  "ref_reconciler = \<lparr>rec_Client = ref_client, rec_Lib = ref_lib,
     rec_Runtime = \<lparr>env_Now = return 1000000000, env_RandRead = (\<lambda>n. return (Some (replicate n CHR 0x07))),
       env_Ticks = 50\<rparr>\<rparr>"

lemma ref_reconciler_simps [simp]:
  "rec_Client ref_reconciler = ref_client" "rec_Lib ref_reconciler = ref_lib"
  by (simp_all add: ref_reconciler_def)

lemma ref_set_condition_find:
  "find (\<lambda>d. cond_Type d = cond_Type c) (ref_set_condition cs c) = Some c"
  by (induction cs c rule: ref_set_condition.induct) auto

lemma ref_set_condition_others:
  "filter (\<lambda>d. cond_Type d \<noteq> cond_Type c) (ref_set_condition cs c) = filter (\<lambda>d. cond_Type d \<noteq> cond_Type c) cs"
  by (induction cs c rule: ref_set_condition.induct) auto

lemma ref_set_condition_set: "condition_set cs c (ref_set_condition cs c)"
  by (simp add: condition_set_def ref_set_condition_find ref_set_condition_others same_judgement_def)

lemma find_append_none: "find P xs = None \<Longrightarrow> find P (xs @ ys) = find P ys"
  by (induction xs) (auto split: if_splits)

lemma ref_owner:
  "ref_SetControllerReference owner x = Inr refs \<Longrightarrow>
   controlled_by ((meta x)\<lparr>OwnerReferences := refs\<rparr>) (meta owner)"
  by (auto simp: ref_SetControllerReference_def controlled_by_def find_append_none split: option.splits if_splits)

lemma applied_effectI:
  assumes "case v (okey_of (OCronJob j)) of None \<Rightarrow> old = j | Some x \<Rightarrow> x = OCronJob old"
    and "f old = Inr new" and "stored_as (OCronJob new) (OCronJob y)"
    and "v' = v(okey_of (OCronJob j) \<mapsto> OCronJob y)"
  shows "applied_effect j f v None v'"
  using assms unfolding applied_effect_def by auto

lemma applied_effect_failed [simp]: "applied_effect j f v (Some e) v' \<longleftrightarrow> v' = v"
  by (simp add: applied_effect_def)

lemma ref_apply:
  assumes keep: "\<And>old new. f old = Inr new \<Longrightarrow> okey_of (OCronJob new) = okey_of (OCronJob old) \<and>
      Finalizers new = Finalizers old"
  shows "wp (ref_CreateOrUpdate j f) (\<lambda>e t. applied_effect j f (ref_view s) e (ref_view t)) s"
proof -
  let ?Q = "\<lambda>e t. applied_effect j f (ref_view s) e (ref_view t)"
  have updated: "wp (case f old of Inl m \<Rightarrow> return (Some (Failed m)) | Inr new \<Rightarrow> do {
        updated \<leftarrow> Update ref_client CronJobT new;
        return (case updated of Inl err \<Rightarrow> Some (ApiError err) | Inr _ \<Rightarrow> None) }) ?Q t"
    if t: "ref_view t = ref_view s" and key: "okey_of (OCronJob old) = okey_of (OCronJob j)"
      and old: "ref_view s (okey_of (OCronJob j)) = Some (OCronJob old)" for t old
  proof (cases "f old")
    case (Inr new)
    show ?thesis
      unfolding Inr sum.case wp_bind
      by (rule ref.wp_Update_ok)
        (use keep [OF Inr] key old t in \<open>auto intro: applied_effectI [where f = f and old = old and new = new, OF _ Inr] split: if_splits\<close>)
  qed (simp add: t)
  have created: "wp (case f j of Inl m \<Rightarrow> return (Some (Failed m)) | Inr new \<Rightarrow> do {
        created \<leftarrow> Create ref_client CronJobT new;
        return (case created of Inl err \<Rightarrow> Some (ApiError err) | Inr _ \<Rightarrow> None) }) ?Q t"
    if t: "ref_view t = ref_view s" and none: "ref_view s (okey_of (OCronJob j)) = None" for t
  proof (cases "f j")
    case (Inr new)
    show ?thesis
      unfolding Inr sum.case wp_bind
      by (rule ref.wp_Create) (use keep [OF Inr] none t in \<open>auto intro: applied_effectI [where f = f and old = j and new = new, OF _ Inr]\<close>)
  qed (simp add: t)
  show ?thesis
    unfolding ref_CreateOrUpdate_def wp_bind
    by (rule ref.wp_Get_ok)
      (simp_all add: IsNotFound_def updated [unfolded wp_case_sum] created [unfolded wp_case_sum])
qed

interpretation ref_rec: controllers_ok ref_reconciler ref_view 1000000000 1000000000
proof (intro controllers_ok.intro controllers.intro controllers_axioms.intro, unfold ref_reconciler_simps)
  show "kube_api ref_client ref_view" by (rule ref.kube_api_axioms)
  show "reliable_api ref_client ref_view" by (rule ref.reliable_api_axioms)
  fix s :: "'z w"
  show "wp (SetStatusCondition ref_lib cs c) (\<lambda>new t. ref_view t = ref_view s \<and> condition_set cs c new) s" for cs c
    by (simp add: ref_lib_def ref_set_condition_set)
  show "wp (CreateOrUpdate ref_lib j f) (\<lambda>e t. applied_effect j f (ref_view s) e (ref_view t)) s"
    if "\<And>old new. f old = Inr new \<Longrightarrow> okey_of (OCronJob new) = okey_of (OCronJob old) \<and> Finalizers new = Finalizers old"
    for j f
    using ref_apply [OF that] by (simp add: ref_lib_def)
qed (auto simp: ref_lib_def ref_reconciler_def ref_owner)

end
