(* ===== verification/StatusControllers.thy ===== *)
theory StatusControllers
  imports Reconciling
begin

section \<open>The controllers of users, roles, groups, role bindings and GC policies\<close>

text \<open>
  lakefsuser_controller.go, lakefsrole_controller.go, lakefsgroup_controller.go,
  lakefsrolebinding_controller.go and lakefsgcpolicy_controller.go of internal/controller: each
  reconciler as the code has it, and the interpretation of \<open>status_controller\<close> it is.
\<close>

subsection \<open>Users and roles\<close>

definition UserReconcile :: "'s Reconciler \<Rightarrow> NamespacedName \<Rightarrow> ('s, reconciled) state" where
  "UserReconcile r req = do {
     got \<leftarrow> Get (rec_Client r) UserT req;
     (case got of
        Inl err \<Rightarrow>
          if IsNotFound err then return (Reconciled noRequeue None)
          else return (Reconciled noRequeue (Some (ApiError err)))
      | Inr user \<Rightarrow> do {
          let username = lakeFSUserUsername user;
          let condition = readyCondition ConditionTrue ReasonResolved
            ''LakeFSUser is available to the auth server'' (Generation user);
          let condition = (if username = '''' then readyCondition ConditionFalse ReasonInvalid
            ''LakeFSUser must resolve to a lakeFS username'' (Generation user) else condition);
          conditions \<leftarrow> metaSetStatusCondition (rec_Lib r) (Conditions (user_Status user)) condition;
          updated \<leftarrow> StatusUpdate (rec_Client r) UserT
            (user\<lparr>user_Status := \<lparr>ObservedGeneration = Generation user, Conditions = conditions\<rparr>\<rparr>);
          (case updated of
             Inl err \<Rightarrow> return (Reconciled noRequeue (Some (ApiError err)))
           | Inr _ \<Rightarrow> return (Reconciled noRequeue None)) }) }"

definition RoleReconcile :: "'s Reconciler \<Rightarrow> NamespacedName \<Rightarrow> ('s, reconciled) state" where
  "RoleReconcile r req = do {
     got \<leftarrow> Get (rec_Client r) RoleT req;
     (case got of
        Inl err \<Rightarrow>
          if IsNotFound err then return (Reconciled noRequeue None)
          else return (Reconciled noRequeue (Some (ApiError err)))
      | Inr role \<Rightarrow> do {
          conditions \<leftarrow> metaSetStatusCondition (rec_Lib r) (Conditions (role_Status role))
            (readyCondition ConditionTrue ReasonResolved ''LakeFSRole is available to the auth server''
              (Generation role));
          updated \<leftarrow> StatusUpdate (rec_Client r) RoleT
            (role\<lparr>role_Status := \<lparr>ObservedGeneration = Generation role, Conditions = conditions\<rparr>\<rparr>);
          (case updated of
             Inl err \<Rightarrow> return (Reconciled noRequeue (Some (ApiError err)))
           | Inr _ \<Rightarrow> return (Reconciled noRequeue None)) }) }"

subsection \<open>Groups\<close>

text \<open>The loop over the members with its early return.\<close>

fun resolveMembers :: "'s Reconciler \<Rightarrow> LakeFSGroup \<Rightarrow> LakeFSUserReference list \<Rightarrow> ('s, Condition) state" where
  "resolveMembers r grp [] =
     return (readyCondition ConditionTrue ReasonResolved ''LakeFSGroup resolved all users'' (Generation grp))"
| "resolveMembers r grp (member # members) = do {
     let key = (Namespace grp, ur_Name member);
     got \<leftarrow> Get (rec_Client r) UserT key;
     (case got of
        Inl err \<Rightarrow> return (readyCondition ConditionFalse ReasonUnavailable
          (''User '' @ NamespacedName_String key @ '' is not available'') (Generation grp))
      | Inr _ \<Rightarrow> resolveMembers r grp members) }"

definition reconcilerResolveGroup :: "'s Reconciler \<Rightarrow> LakeFSGroup \<Rightarrow> ('s, Condition) state" where
  "reconcilerResolveGroup r grp = resolveMembers r grp (gs_Users (group_Spec grp))"

definition GroupReconcile :: "'s Reconciler \<Rightarrow> NamespacedName \<Rightarrow> ('s, reconciled) state" where
  "GroupReconcile r req = do {
     got \<leftarrow> Get (rec_Client r) GroupT req;
     (case got of
        Inl err \<Rightarrow>
          if IsNotFound err then return (Reconciled noRequeue None)
          else return (Reconciled noRequeue (Some (ApiError err)))
      | Inr grp \<Rightarrow> do {
          condition \<leftarrow> reconcilerResolveGroup r grp;
          conditions \<leftarrow> metaSetStatusCondition (rec_Lib r) (Conditions (group_Status grp)) condition;
          updated \<leftarrow> StatusUpdate (rec_Client r) GroupT
            (grp\<lparr>group_Status := \<lparr>ObservedGeneration = Generation grp, Conditions = conditions\<rparr>\<rparr>);
          (case updated of
             Inl err \<Rightarrow> return (Reconciled noRequeue (Some (ApiError err)))
           | Inr _ \<Rightarrow> return (Reconciled noRequeue None)) }) }"

subsection \<open>Role bindings\<close>

definition resolveRoleBinding :: "'s Reconciler \<Rightarrow> LakeFSRoleBinding \<Rightarrow> ('s, Condition) state" where
  "resolveRoleBinding r binding = do {
     let spec = binding_Spec binding;
     let roleKey = (Namespace binding, rr_Name (bs_RoleRef spec));
     role \<leftarrow> Get (rec_Client r) RoleT roleKey;
     (case role of
        Inl err \<Rightarrow> return (readyCondition ConditionFalse ReasonUnavailable
          (''Role '' @ NamespacedName_String roleKey @ '' is not available'') (Generation binding))
      | Inr _ \<Rightarrow>
          if bs_Repository spec = '''' then
            return (readyCondition ConditionFalse ReasonInvalid
              ''LakeFSRoleBinding must set spec.repository'' (Generation binding))
          else do {
            let subjectKey = (Namespace binding, sb_Name (bs_Subject spec));
            let kind = sb_Kind (bs_Subject spec);
            let resolved = readyCondition ConditionTrue ReasonResolved
              ''LakeFSRoleBinding resolved subject and role'' (Generation binding);
            (if kind = LakeFSRoleBindingSubjectKindUser then do {
               user \<leftarrow> Get (rec_Client r) UserT subjectKey;
               (case user of
                  Inl err \<Rightarrow> return (readyCondition ConditionFalse ReasonUnavailable
                    (''User '' @ NamespacedName_String subjectKey @ '' is not available'') (Generation binding))
                | Inr _ \<Rightarrow> return resolved) }
             else if kind = LakeFSRoleBindingSubjectKindGroup then do {
               grp \<leftarrow> Get (rec_Client r) GroupT subjectKey;
               (case grp of
                  Inl err \<Rightarrow> return (readyCondition ConditionFalse ReasonUnavailable
                    (''Group '' @ NamespacedName_String subjectKey @ '' is not available'') (Generation binding))
                | Inr _ \<Rightarrow> return resolved) }
             else return (readyCondition ConditionFalse ReasonInvalid
               ''LakeFSRoleBinding subject kind must be LakeFSUser or LakeFSGroup'' (Generation binding))) }) }"

definition RoleBindingReconcile :: "'s Reconciler \<Rightarrow> NamespacedName \<Rightarrow> ('s, reconciled) state" where
  "RoleBindingReconcile r req = do {
     got \<leftarrow> Get (rec_Client r) RoleBindingT req;
     (case got of
        Inl err \<Rightarrow>
          if IsNotFound err then return (Reconciled noRequeue None)
          else return (Reconciled noRequeue (Some (ApiError err)))
      | Inr binding \<Rightarrow> do {
          condition \<leftarrow> resolveRoleBinding r binding;
          conditions \<leftarrow> metaSetStatusCondition (rec_Lib r) (Conditions (binding_Status binding)) condition;
          updated \<leftarrow> StatusUpdate (rec_Client r) RoleBindingT
            (binding\<lparr>binding_Status := \<lparr>ObservedGeneration = Generation binding, Conditions = conditions\<rparr>\<rparr>);
          (case updated of
             Inl err \<Rightarrow> return (Reconciled noRequeue (Some (ApiError err)))
           | Inr _ \<Rightarrow> return (Reconciled noRequeue None)) }) }"

subsection \<open>GC policies\<close>

definition policyReadyCondition :: "LakeFSGCPolicy \<Rightarrow> Condition" where
  "policyReadyCondition policy =
     (if Schedule policy = '''' then readyCondition ConditionFalse ReasonInvalid
        ''LakeFSGCPolicy must set spec.schedule'' (Generation policy)
      else if DefaultRetentionDays policy \<le> 0 then readyCondition ConditionFalse ReasonInvalid
        ''LakeFSGCPolicy must set positive retention days'' (Generation policy)
      else if SparkImage policy = '''' then readyCondition ConditionFalse ReasonInvalid
        ''LakeFSGCPolicy must resolve to a Spark image'' (Generation policy)
      else if SparkClassName policy = '''' then readyCondition ConditionFalse ReasonInvalid
        ''LakeFSGCPolicy must resolve to a Spark class'' (Generation policy)
      else if SparkJarURL policy = '''' then readyCondition ConditionFalse ReasonInvalid
        ''LakeFSGCPolicy must resolve to a Spark jar URL'' (Generation policy)
      else readyCondition ConditionTrue ReasonResolved
        ''LakeFSGCPolicy is available to repositories'' (Generation policy))"

definition GCPolicyReconcile :: "'s Reconciler \<Rightarrow> NamespacedName \<Rightarrow> ('s, reconciled) state" where
  "GCPolicyReconcile r req = do {
     got \<leftarrow> Get (rec_Client r) GCPolicyT req;
     (case got of
        Inl err \<Rightarrow>
          if IsNotFound err then return (Reconciled noRequeue None)
          else return (Reconciled noRequeue (Some (ApiError err)))
      | Inr policy \<Rightarrow> do {
          conditions \<leftarrow> metaSetStatusCondition (rec_Lib r) (Conditions (gcp_Status policy))
            (policyReadyCondition policy);
          updated \<leftarrow> StatusUpdate (rec_Client r) GCPolicyT
            (policy\<lparr>gcp_Status := \<lparr>ObservedGeneration = Generation policy, Conditions = conditions\<rparr>\<rparr>);
          return (Reconciled noRequeue (case updated of Inl err \<Rightarrow> Some (ApiError err) | Inr _ \<Rightarrow> None)) }) }"

subsection \<open>The shape of each\<close>

text \<open>Judgements that cannot panic, and the way a reconciler writes conditions into a status.\<close>

definition judging :: "('o \<Rightarrow> ('s, Condition) state) \<Rightarrow> 'o \<Rightarrow> ('s, (string, Condition) result) state" where
  "judging resolve x = do { c \<leftarrow> resolve x; return (Inr c) }"

definition roleCondition :: "LakeFSRole \<Rightarrow> Condition" where
  "roleCondition role = readyCondition ConditionTrue ReasonResolved
     ''LakeFSRole is available to the auth server'' (Generation role)"

definition userCondition :: "LakeFSUser \<Rightarrow> Condition" where
  "userCondition user =
     (if lakeFSUserUsername user = ''''
      then readyCondition ConditionFalse ReasonInvalid ''LakeFSUser must resolve to a lakeFS username'' (Generation user)
      else readyCondition ConditionTrue ReasonResolved ''LakeFSUser is available to the auth server'' (Generation user))"

definition judged_status :: "int \<Rightarrow> Condition list \<Rightarrow> Status" where
  "judged_status g cs = \<lparr>ObservedGeneration = g, Conditions = cs\<rparr>"

lemma UserReconcile_shape:
  "UserReconcile r = status_reconcile r UserT (judging (\<lambda>u. return (userCondition u)))
     (\<lambda>u. Conditions (user_Status u)) (\<lambda>u cs. u\<lparr>user_Status := judged_status (Generation u) cs\<rparr>)"
  by (rule ext) (simp add: UserReconcile_def status_reconcile_def judging_def userCondition_def judged_status_def Let_def
      cong: sum.case_cong)

lemma RoleReconcile_shape:
  "RoleReconcile r = status_reconcile r RoleT (judging (\<lambda>u. return (roleCondition u)))
     (\<lambda>u. Conditions (role_Status u)) (\<lambda>u cs. u\<lparr>role_Status := judged_status (Generation u) cs\<rparr>)"
  by (rule ext) (simp add: RoleReconcile_def status_reconcile_def judging_def roleCondition_def judged_status_def cong: sum.case_cong)

lemma GroupReconcile_shape:
  "GroupReconcile r = status_reconcile r GroupT (judging (reconcilerResolveGroup r))
     (\<lambda>u. Conditions (group_Status u)) (\<lambda>u cs. u\<lparr>group_Status := judged_status (Generation u) cs\<rparr>)"
  by (rule ext) (simp add: GroupReconcile_def status_reconcile_def judging_def judged_status_def cong: sum.case_cong)

lemma RoleBindingReconcile_shape:
  "RoleBindingReconcile r = status_reconcile r RoleBindingT (judging (resolveRoleBinding r))
     (\<lambda>u. Conditions (binding_Status u)) (\<lambda>u cs. u\<lparr>binding_Status := judged_status (Generation u) cs\<rparr>)"
  by (rule ext) (simp add: RoleBindingReconcile_def status_reconcile_def judging_def judged_status_def cong: sum.case_cong)

lemma report_shape:
  "return (Reconciled res (case updated of Inl err \<Rightarrow> Some (ApiError err) | Inr _ \<Rightarrow> None)) =
     (case updated of Inl err \<Rightarrow> return (Reconciled res (Some (ApiError err)))
      | Inr _ \<Rightarrow> return (Reconciled res None))"
  by (simp split: sum.split)

lemma GCPolicyReconcile_shape:
  "GCPolicyReconcile r = status_reconcile r GCPolicyT (judging (\<lambda>p. return (policyReadyCondition p)))
     (\<lambda>u. Conditions (gcp_Status u)) (\<lambda>u cs. u\<lparr>gcp_Status := judged_status (Generation u) cs\<rparr>)"
  by (rule ext) (simp add: GCPolicyReconcile_def status_reconcile_def judging_def judged_status_def report_shape
      cong: sum.case_cong)

subsection \<open>What each reports\<close>

text \<open>A group resolves all its users; a role binding its role and its subject.\<close>

definition group_resolved :: "LakeFSGroup \<Rightarrow> (okey \<rightharpoonup> obj) \<Rightarrow> bool" where
  "group_resolved g v \<longleftrightarrow> (\<forall>m \<in> set (gs_Users (group_Spec g)). v (KUser, Namespace g, ur_Name m) \<noteq> None)"

definition subject_kind :: "LakeFSRoleBinding \<Rightarrow> kind option" where
  "subject_kind b =
     (if sb_Kind (bs_Subject (binding_Spec b)) = LakeFSRoleBindingSubjectKindUser then Some KUser
      else if sb_Kind (bs_Subject (binding_Spec b)) = LakeFSRoleBindingSubjectKindGroup then Some KGroup
      else None)"

definition binding_resolved :: "LakeFSRoleBinding \<Rightarrow> (okey \<rightharpoonup> obj) \<Rightarrow> bool" where
  "binding_resolved b v \<longleftrightarrow>
     v (KRole, Namespace b, rr_Name (bs_RoleRef (binding_Spec b))) \<noteq> None \<and>
     bs_Repository (binding_Spec b) \<noteq> '''' \<and>
     (\<exists>k. subject_kind b = Some k \<and> v (k, Namespace b, sb_Name (bs_Subject (binding_Spec b))) \<noteq> None)"

lemma policyReadyCondition_True:
  "policyReadyCondition p = readyCondition ConditionTrue ReasonResolved
     ''LakeFSGCPolicy is available to repositories'' (Generation p)"
  by (simp add: policyReadyCondition_def Schedule_def DefaultRetentionDays_def SparkImage_def SparkClassName_def
      SparkJarURL_def DefaultGCSchedule_def DefaultGCRetentionDays_def DefaultGCSparkImage_def
      DefaultGCSparkClass_def DefaultGCSparkJarURL_def)

lemma wp_judging: "wp (judging resolve x) Q s = wp (resolve x) (\<lambda>c. Q (Inr c)) s"
  by (simp add: judging_def wp_def split: prod.split)

context controllers
begin

lemma wp_resolveMembers:
  "wp (resolveMembers r g ms) (\<lambda>c t. view t = view s \<and>
     judged (Generation g) (\<forall>m \<in> set ms. view t (KUser, Namespace g, ur_Name m) \<noteq> None) c) s"
proof (induction ms arbitrary: s)
  case (Cons m ms)
  show ?case
    unfolding resolveMembers.simps Let_def wp_bind
    by (rule wp_Get) (auto intro!: wp_mono [OF Cons.IH] simp: judged_def)
qed simp

lemma wp_resolveRoleBinding:
  "wp (resolveRoleBinding r b) (\<lambda>c t. view t = view s \<and> judged (Generation b) (binding_resolved b (view t)) c) s"
  unfolding resolveRoleBinding_def Let_def
  by (auto intro!: wp_Get simp: binding_resolved_def subject_kind_def LakeFSRoleBindingSubjectKindUser_def
      LakeFSRoleBindingSubjectKindGroup_def)

end

lemma truncate_status [simp]:
  "ObjectMeta.truncate (u\<lparr>user_Status := st\<rparr>) = ObjectMeta.truncate u"
  "ObjectMeta.truncate (ro\<lparr>role_Status := st\<rparr>) = ObjectMeta.truncate ro"
  "ObjectMeta.truncate (g\<lparr>group_Status := st\<rparr>) = ObjectMeta.truncate g"
  "ObjectMeta.truncate (b\<lparr>binding_Status := st\<rparr>) = ObjectMeta.truncate b"
  "ObjectMeta.truncate (p\<lparr>gcp_Status := st\<rparr>) = ObjectMeta.truncate p"
  by (simp_all add: ObjectMeta.truncate_def)

sublocale controllers \<subseteq> user_controller: status_controller r view T1 T2 UserT
  "judging (\<lambda>u. return (userCondition u))" "\<lambda>u. Conditions (user_Status u)"
  "\<lambda>u cs. u\<lparr>user_Status := judged_status (Generation u) cs\<rparr>"
  "\<lambda>_ v v'. v' = v" "\<lambda>u _. lakeFSUserUsername u \<noteq> ''''"
  by unfold_locales (auto simp: wp_judging judged_status_def userCondition_def)

sublocale controllers \<subseteq> role_controller: status_controller r view T1 T2 RoleT
  "judging (\<lambda>u. return (roleCondition u))" "\<lambda>u. Conditions (role_Status u)"
  "\<lambda>u cs. u\<lparr>role_Status := judged_status (Generation u) cs\<rparr>"
  "\<lambda>_ v v'. v' = v" "\<lambda>_ _. True"
  by unfold_locales (auto simp: wp_judging judged_status_def roleCondition_def)

sublocale controllers \<subseteq> group_controller: status_controller r view T1 T2 GroupT
  "judging (reconcilerResolveGroup r)" "\<lambda>u. Conditions (group_Status u)"
  "\<lambda>u cs. u\<lparr>group_Status := judged_status (Generation u) cs\<rparr>"
  "\<lambda>_ v v'. v' = v" group_resolved
  by unfold_locales (auto simp: wp_judging judged_status_def reconcilerResolveGroup_def group_resolved_def
      intro: wp_mono [OF wp_resolveMembers])

sublocale controllers \<subseteq> binding_controller: status_controller r view T1 T2 RoleBindingT
  "judging (resolveRoleBinding r)" "\<lambda>u. Conditions (binding_Status u)"
  "\<lambda>u cs. u\<lparr>binding_Status := judged_status (Generation u) cs\<rparr>"
  "\<lambda>_ v v'. v' = v" binding_resolved
  by unfold_locales (auto simp: wp_judging judged_status_def intro: wp_mono [OF wp_resolveRoleBinding])

sublocale controllers \<subseteq> gcpolicy_controller: status_controller r view T1 T2 GCPolicyT
  "judging (\<lambda>p. return (policyReadyCondition p))" "\<lambda>u. Conditions (gcp_Status u)"
  "\<lambda>u cs. u\<lparr>gcp_Status := judged_status (Generation u) cs\<rparr>"
  "\<lambda>_ v v'. v' = v" "\<lambda>_ _. True"
  by unfold_locales (auto simp: wp_judging judged_status_def policyReadyCondition_True)

context controllers_ok
begin

lemma wp_resolveMembers_ok:
  "wp (resolveMembers r g ms) (\<lambda>c t. cond_Status c = ConditionTrue \<longleftrightarrow>
     (\<forall>m \<in> set ms. view t (KUser, Namespace g, ur_Name m) \<noteq> None)) s"
proof (induction ms arbitrary: s)
  case (Cons m ms)
  have same: "wp (resolveMembers r g ms) (\<lambda>_ u. view u = view t) t" for t
    by (rule wp_mono [OF wp_resolveMembers]) simp
  show ?case
    unfolding resolveMembers.simps Let_def wp_bind
    by (rule wp_Get_ok) (auto intro!: wp_mono [OF wp_conj [OF same Cons.IH]])
qed simp

lemma wp_resolveRoleBinding_ok:
  "wp (resolveRoleBinding r b) (\<lambda>c t. cond_Status c = ConditionTrue \<longleftrightarrow> binding_resolved b (view t)) s"
  unfolding resolveRoleBinding_def Let_def
  by (auto intro!: wp_Get_ok simp: binding_resolved_def subject_kind_def LakeFSRoleBindingSubjectKindUser_def
      LakeFSRoleBindingSubjectKindGroup_def)

end

sublocale controllers_ok \<subseteq> user_controller: status_controller_ok r view T1 T2 UserT
  "judging (\<lambda>u. return (userCondition u))" "\<lambda>u. Conditions (user_Status u)"
  "\<lambda>u cs. u\<lparr>user_Status := judged_status (Generation u) cs\<rparr>"
  "\<lambda>_ v v'. v' = v" "\<lambda>u _. lakeFSUserUsername u \<noteq> ''''"
  by unfold_locales (auto simp: wp_judging judged_status_def userCondition_def)

sublocale controllers_ok \<subseteq> role_controller: status_controller_ok r view T1 T2 RoleT
  "judging (\<lambda>u. return (roleCondition u))" "\<lambda>u. Conditions (role_Status u)"
  "\<lambda>u cs. u\<lparr>role_Status := judged_status (Generation u) cs\<rparr>"
  "\<lambda>_ v v'. v' = v" "\<lambda>_ _. True"
  by unfold_locales (auto simp: wp_judging judged_status_def roleCondition_def)

sublocale controllers_ok \<subseteq> group_controller: status_controller_ok r view T1 T2 GroupT
  "judging (reconcilerResolveGroup r)" "\<lambda>u. Conditions (group_Status u)"
  "\<lambda>u cs. u\<lparr>group_Status := judged_status (Generation u) cs\<rparr>"
  "\<lambda>_ v v'. v' = v" group_resolved
  by unfold_locales (auto simp: wp_judging judged_status_def reconcilerResolveGroup_def group_resolved_def
      intro: wp_mono [OF wp_resolveMembers_ok])

sublocale controllers_ok \<subseteq> binding_controller: status_controller_ok r view T1 T2 RoleBindingT
  "judging (resolveRoleBinding r)" "\<lambda>u. Conditions (binding_Status u)"
  "\<lambda>u cs. u\<lparr>binding_Status := judged_status (Generation u) cs\<rparr>"
  "\<lambda>_ v v'. v' = v" binding_resolved
  by unfold_locales (auto simp: wp_judging judged_status_def intro: wp_mono [OF wp_resolveRoleBinding_ok])

sublocale controllers_ok \<subseteq> gcpolicy_controller: status_controller_ok r view T1 T2 GCPolicyT
  "judging (\<lambda>p. return (policyReadyCondition p))" "\<lambda>u. Conditions (gcp_Status u)"
  "\<lambda>u cs. u\<lparr>gcp_Status := judged_status (Generation u) cs\<rparr>"
  "\<lambda>_ v v'. v' = v" "\<lambda>_ _. True"
  by unfold_locales (auto simp: wp_judging judged_status_def policyReadyCondition_True)

subsection \<open>Properties\<close>

context controllers_ok
begin

lemma wp_GroupReconcile_ok:
  assumes "view s (KGroup, req) = Some (OGroup g)"
  shows "wp (GroupReconcile r req) (\<lambda>res t. res = Reconciled noRequeue None \<and>
     reported_exactly (OGroup g) (group_resolved g (view s)) (view s) (view t)) s"
  using group_controller.wp_status_reconcile_ok [of s g req] assms view_okey [OF assms]
  by (simp add: GroupReconcile_shape group_controller.judged_exactly_def)

lemma wp_RoleBindingReconcile_ok:
  assumes "view s (KRoleBinding, req) = Some (ORoleBinding b)"
  shows "wp (RoleBindingReconcile r req) (\<lambda>res t. res = Reconciled noRequeue None \<and>
     reported_exactly (ORoleBinding b) (binding_resolved b (view s)) (view s) (view t)) s"
  using binding_controller.wp_status_reconcile_ok [of s b req] assms view_okey [OF assms]
  by (simp add: RoleBindingReconcile_shape binding_controller.judged_exactly_def)

end

text \<open>
  C24. A group is reported ready if and only if all its users are stored: reconciling a stored group
  succeeds and changes nothing but the group's status, which then judges the group's generation and
  is ready exactly if every named user is stored in the group's namespace. (Calls reliable.)
\<close>

theorem group_ready_exact:
  assumes "controllers_ok r view T1 T2" and "view s (KGroup, req) = Some (OGroup g)"
  shows "case run_state (GroupReconcile r req) s of (res, t) \<Rightarrow> res = Reconciled noRequeue None \<and>
     reported_exactly (OGroup g) (\<forall>m \<in> set (gs_Users (group_Spec g)). view s (KUser, Namespace g, ur_Name m) \<noteq> None)
       (view s) (view t)"
  by (rule controllers_ok.wp_GroupReconcile_ok [OF assms, unfolded wp_def group_resolved_def])

definition ex_ready_group :: LakeFSGroup where
  "ex_ready_group = ObjectMeta.extend (new_meta ''devs'' ''data'')
     \<lparr>group_Spec = \<lparr>gs_ExternalID = ''Devs'', gs_Users = [\<lparr>ur_Name = ''alice''\<rparr>], gs_Description = ''''\<rparr>,
      group_Status = new_status\<rparr>"

theorem group_ready_exact_witness:
  "case run_state (GroupReconcile ref_reconciler (''data'', ''devs'')) \<lparr>w_objs = [OGroup ex_ready_group]\<rparr> of
     (res, t) \<Rightarrow> res = Reconciled noRequeue None \<and>
       reported_exactly (OGroup ex_ready_group)
         (\<forall>m \<in> set (gs_Users (group_Spec ex_ready_group)).
            ref_view \<lparr>w_objs = [OGroup ex_ready_group]\<rparr> (KUser, Namespace ex_ready_group, ur_Name m) \<noteq> None)
         (ref_view \<lparr>w_objs = [OGroup ex_ready_group]\<rparr>) (ref_view t)"
  by (rule group_ready_exact [OF ref_rec.controllers_ok_axioms])
    (simp add: ref_view_def ex_ready_group_def ObjectMeta.extend_def new_meta_def)

end
