(* ===== verification/CredentialController.thy ===== *)
theory CredentialController
  imports Reconciling
begin

section \<open>The controller of credentials (internal/controller/lakefscredential_controller.go)\<close>

text \<open>
  A credential is ready when it is not revoked, not expired, names an access key and a stored user,
  and its secret holds a secret key. The controller makes the secret: it creates it with a random
  secret key, or completes the one that is there. \<open>resolveCredential\<close> and \<open>ensureSecret\<close> have other
  namesakes in the auth server; here they are prefixed.
\<close>

subsection \<open>Definitions\<close>

text \<open>The token, or the message of the panic; the random generator's own error text is left out.\<close>

definition randomCredentialToken :: "'s Reconciler \<Rightarrow> nat \<Rightarrow> ('s, (string, string) result) state" where
  "randomCredentialToken r len = do {
     buf \<leftarrow> env_RandRead (rec_Runtime r) len;
     return (case buf of
         None \<Rightarrow> Inl ''failed to generate credential token''
       | Some buf \<Rightarrow> Inr (base32_encode buf)) }"

text \<open>
  \<open>ensureSecret\<close>, with the creation of a missing secret and the completion of an existing one as
  definitions of their own. The result is the message of a panic, or the error that is returned.
\<close>

definition createSecret ::
  "'s Reconciler \<Rightarrow> LakeFSCredential \<Rightarrow> NamespacedName \<Rightarrow> ('s, (string, rerror option) result) state" where
  "createSecret r c secretKey = do {
     token \<leftarrow> randomCredentialToken r 32;
     (case token of
        Inl m \<Rightarrow> return (Inl m)
      | Inr token \<Rightarrow>
          (let secret = new_secret (snd secretKey) (fst secretKey)
             (Some [''lakefs.versioneer.at/credential'' \<mapsto> ''true'',
                    ''lakefs.versioneer.at/user'' \<mapsto> ur_Name (cs_UserRef (cred_Spec c))])
             (Some [''accessKeyId'' \<mapsto> cs_AccessKeyID (cred_Spec c),
                    SecretKey (cred_Spec c) \<mapsto> ''lakefs_sk_'' @ token])
           in case SetControllerReference (rec_Lib r) (OCredential c) (OSecret secret) of
                Inl m \<Rightarrow> return (Inr (Some (Failed m)))
              | Inr refs \<Rightarrow> do {
                  created \<leftarrow> Create (rec_Client r) SecretT (secret\<lparr>OwnerReferences := refs\<rparr>);
                  return (Inr (case created of Inl e \<Rightarrow> Some (ApiError e) | Inr _ \<Rightarrow> None)) })) }"

definition storeSecret ::
  "'s Reconciler \<Rightarrow> LakeFSCredential \<Rightarrow> Secret \<times> bool \<Rightarrow> ('s, (string, rerror option) result) state" where
  "storeSecret r c p =
     (let p = labels_made p;
          p = label_set ''lakefs.versioneer.at/credential'' ''true'' p;
          p = label_set ''lakefs.versioneer.at/user'' (ur_Name (cs_UserRef (cred_Spec c))) p;
          owned = IsControlledBy (rec_Lib r) (OSecret (fst p)) (OCredential c)
      in case SetControllerReference (rec_Lib r) (OCredential c) (OSecret (fst p)) of
           Inl m \<Rightarrow> return (Inr (Some (Failed m)))
         | Inr refs \<Rightarrow>
             if snd p \<or> \<not> owned then do {
               updated \<leftarrow> Update (rec_Client r) SecretT ((fst p)\<lparr>OwnerReferences := refs\<rparr>);
               return (Inr (case updated of Inl e \<Rightarrow> Some (ApiError e) | Inr _ \<Rightarrow> None)) }
             else return (Inr None))"

definition completeSecret ::
  "'s Reconciler \<Rightarrow> LakeFSCredential \<Rightarrow> Secret \<Rightarrow> ('s, (string, rerror option) result) state" where
  "completeSecret r c secret = do {
     let p = data_set ''accessKeyId'' (cs_AccessKeyID (cred_Spec c)) (data_made (secret, False));
     (if map_at (Data (fst p)) (SecretKey (cred_Spec c)) = '''' then do {
        token \<leftarrow> randomCredentialToken r 32;
        (case token of
           Inl m \<Rightarrow> return (Inl m)
         | Inr token \<Rightarrow> storeSecret r c (data_set (SecretKey (cred_Spec c)) (''lakefs_sk_'' @ token) p)) }
      else storeSecret r c p) }"

definition reconcilerEnsureSecret ::
  "'s Reconciler \<Rightarrow> LakeFSCredential \<Rightarrow> NamespacedName \<Rightarrow> ('s, (string, rerror option) result) state" where
  "reconcilerEnsureSecret r c secretKey = do {
     got \<leftarrow> Get (rec_Client r) SecretT secretKey;
     (case got of
        Inl err \<Rightarrow>
          if \<not> IsNotFound err then return (Inr (Some (ApiError err))) else createSecret r c secretKey
      | Inr secret \<Rightarrow> completeSecret r c secret) }"

text \<open>\<open>resolveCredential\<close>: the part that deals with the secret, and the whole.\<close>

abbreviation credentialJudged :: "string \<Rightarrow> string \<Rightarrow> LakeFSCredential \<Rightarrow> string \<Rightarrow> ('s, (string, Condition) result) state" where
  "credentialJudged status reason c message \<equiv>
     return (Inr (readyCondition status reason message (Generation c)))"

definition resolveCredentialSecret :: "'s Reconciler \<Rightarrow> LakeFSCredential \<Rightarrow> ('s, (string, Condition) result) state" where
  "resolveCredentialSecret r c = do {
     let secretKey = (Namespace c, sr_Name (cs_SecretRef (cred_Spec c)));
     ensured \<leftarrow> reconcilerEnsureSecret r c secretKey;
     (case ensured of
        Inl m \<Rightarrow> return (Inl m)
      | Inr (Some err) \<Rightarrow> credentialJudged ConditionFalse ReasonUnavailable c
          (''Secret '' @ NamespacedName_String secretKey @ '' could not be reconciled'')
      | Inr None \<Rightarrow> do {
          got \<leftarrow> Get (rec_Client r) SecretT secretKey;
          (case got of
             Inl err \<Rightarrow> credentialJudged ConditionFalse ReasonUnavailable c
               (''Secret '' @ NamespacedName_String secretKey @ '' is not available'')
           | Inr secret \<Rightarrow>
               if map_at (Data secret) (SecretKey (cred_Spec c)) = ''''
               then credentialJudged ConditionFalse ReasonInvalid c
                 (''Secret '' @ NamespacedName_String secretKey @ '' is missing configured key'')
               else credentialJudged ConditionTrue ReasonResolved c
                 ''LakeFSCredential resolved user and Secret'') }) }"

definition reconcilerResolveCredential ::
  "'s Reconciler \<Rightarrow> LakeFSCredential \<Rightarrow> ('s, (string, Condition) result) state" where
  "reconcilerResolveCredential r c = do {
     let spec = cred_Spec c;
     (if cs_Revoked spec then credentialJudged ConditionFalse ReasonInvalid c ''LakeFSCredential is revoked''
      else do {
        expired \<leftarrow> (case cs_ExpiresAt spec of
            None \<Rightarrow> return False
          | Some e \<Rightarrow> do { now \<leftarrow> env_Now (rec_Runtime r); return (\<not> After e now) });
        (if expired then credentialJudged ConditionFalse ReasonInvalid c ''LakeFSCredential is expired''
         else if cs_AccessKeyID spec = '''' then
           credentialJudged ConditionFalse ReasonInvalid c ''LakeFSCredential must set spec.accessKeyId''
         else do {
           let userKey = (Namespace c, ur_Name (cs_UserRef spec));
           got \<leftarrow> Get (rec_Client r) UserT userKey;
           (case got of
              Inl err \<Rightarrow> credentialJudged ConditionFalse ReasonUnavailable c
                (''User '' @ NamespacedName_String userKey @ '' is not available'')
            | Inr _ \<Rightarrow> resolveCredentialSecret r c) }) }) }"

definition CredentialReconcile :: "'s Reconciler \<Rightarrow> NamespacedName \<Rightarrow> ('s, reconciled) state" where
  "CredentialReconcile r req = do {
     got \<leftarrow> Get (rec_Client r) CredentialT req;
     (case got of
        Inl err \<Rightarrow>
          if IsNotFound err then return (Reconciled noRequeue None)
          else return (Reconciled noRequeue (Some (ApiError err)))
      | Inr c \<Rightarrow> do {
          condition \<leftarrow> reconcilerResolveCredential r c;
          (case condition of
             Inl m \<Rightarrow> return (Panicking m)
           | Inr condition \<Rightarrow> do {
               conditions \<leftarrow> metaSetStatusCondition (rec_Lib r) (Conditions (cred_Status c)) condition;
               updated \<leftarrow> StatusUpdate (rec_Client r) CredentialT
                 (c\<lparr>cred_Status := \<lparr>ObservedGeneration = Generation c, Conditions = conditions,
                    cst_SecretName = sr_Name (cs_SecretRef (cred_Spec c)),
                    cst_SecretKey = SecretKey (cred_Spec c)\<rparr>\<rparr>);
               (case updated of
                  Inl err \<Rightarrow> return (Reconciled noRequeue (Some (ApiError err)))
                | Inr _ \<Rightarrow> return (Reconciled noRequeue None)) }) }) }"

subsection \<open>The secret\<close>

text \<open>
  What the secret holds after it was ensured, given what was stored before: the old secret key if
  there was one, or a random one. If the key of the secret key is that of the access key, the access
  key wins over what was there.
\<close>

definition kept_key :: "LakeFSCredential \<Rightarrow> obj option \<Rightarrow> string" where
  "kept_key c old =
     (case old of
        Some (OSecret sec) \<Rightarrow>
          if SecretKey (cred_Spec c) = ''accessKeyId'' then cs_AccessKeyID (cred_Spec c)
          else map_at (Data sec) (SecretKey (cred_Spec c))
      | _ \<Rightarrow> '''')"

definition secret_ensured :: "LakeFSCredential \<Rightarrow> obj option \<Rightarrow> Secret \<Rightarrow> bool" where
  "secret_ensured c old sec \<longleftrightarrow>
     (let v = map_at (Data sec) (SecretKey (cred_Spec c)) in
      if kept_key c old = '''' then \<exists>token. v = ''lakefs_sk_'' @ token else v = kept_key c old) \<and>
     (SecretKey (cred_Spec c) \<noteq> ''accessKeyId'' \<longrightarrow> map_at (Data sec) ''accessKeyId'' = cs_AccessKeyID (cred_Spec c)) \<and>
     controlled_by (meta (OSecret sec)) (meta (OCredential c))"

definition secret_effect :: "LakeFSCredential \<Rightarrow> (okey \<rightharpoonup> obj) \<Rightarrow> (okey \<rightharpoonup> obj) \<Rightarrow> bool" where
  "secret_effect c v v' \<longleftrightarrow>
     v' = v \<or> (\<exists>sec. v' = v(secret_key c \<mapsto> OSecret sec) \<and> secret_ensured c (v (secret_key c)) sec)"

text \<open>The data part of \<open>secret_ensured\<close>.\<close>

definition data_ensured :: "LakeFSCredential \<Rightarrow> obj option \<Rightarrow> gomap \<Rightarrow> bool" where
  "data_ensured c old m \<longleftrightarrow>
     (let v = map_at m (SecretKey (cred_Spec c)) in
      if kept_key c old = '''' then \<exists>token. v = ''lakefs_sk_'' @ token else v = kept_key c old) \<and>
     (SecretKey (cred_Spec c) \<noteq> ''accessKeyId'' \<longrightarrow> map_at m ''accessKeyId'' = cs_AccessKeyID (cred_Spec c))"

lemma secret_ensured_iff:
  "secret_ensured c old sec \<longleftrightarrow>
   data_ensured c old (Data sec) \<and> controlled_by (ObjectMeta.truncate sec) (ObjectMeta.truncate c)"
  by (auto simp: secret_ensured_def data_ensured_def)

text \<open>What the steps before \<open>storeSecret\<close> have made of the stored secret.\<close>

definition completed :: "LakeFSCredential \<Rightarrow> Secret \<Rightarrow> Secret \<times> bool \<Rightarrow> bool" where
  "completed c sec p \<longleftrightarrow> data_ensured c (Some (OSecret sec)) (Data (fst p)) \<and>
     Name (fst p) = Name sec \<and> Namespace (fst p) = Namespace sec \<and> Finalizers (fst p) = Finalizers sec \<and>
     (\<not> snd p \<longrightarrow> fst p = sec)"

lemma completed_step: "completed c sec p \<Longrightarrow> tame f \<Longrightarrow> Data (fst (f p)) = Data (fst p) \<Longrightarrow> completed c sec (f p)"
  using tameD [of f p] by (auto simp: completed_def)

lemma completed_first:
  fixes sec :: Secret and c :: LakeFSCredential
  defines "p \<equiv> data_set ''accessKeyId'' (cs_AccessKeyID (cred_Spec c)) (data_made (sec, False))"
  shows "map_at (Data (fst p)) (SecretKey (cred_Spec c)) \<noteq> '''' \<Longrightarrow> completed c sec p"
    and "map_at (Data (fst p)) (SecretKey (cred_Spec c)) = '''' \<Longrightarrow>
      completed c sec (data_set (SecretKey (cred_Spec c)) (''lakefs_sk_'' @ token) p)"
proof -
  have data: "Data (fst (data_made (sec, False))) \<noteq> None" by simp
  have at: "map_at (Data (fst (data_made (sec, False)))) = map_at (Data sec)"
    by (auto simp: data_made_def map_at_def fun_eq_iff)
  note one = tame_comp [OF tame_steps(2) tame_steps(1)] and two = tame_comp [OF tame_steps(2) one]
  show "completed c sec p" if "map_at (Data (fst p)) (SecretKey (cred_Spec c)) \<noteq> ''''"
    using that tameD [OF one, of "''accessKeyId''" "cs_AccessKeyID (cred_Spec c)" "(sec, False)"] data at
    by (auto simp: completed_def data_ensured_def kept_key_def p_def Let_def map_at_data_set split: if_splits)
  show "completed c sec (data_set (SecretKey (cred_Spec c)) (''lakefs_sk_'' @ token) p)"
    if "map_at (Data (fst p)) (SecretKey (cred_Spec c)) = ''''"
    using that tameD [OF two, of "SecretKey (cred_Spec c)" "''lakefs_sk_'' @ token" "''accessKeyId''"
        "cs_AccessKeyID (cred_Spec c)" "(sec, False)"] data at
    by (auto simp: completed_def data_ensured_def kept_key_def p_def Let_def map_at_data_set split: if_splits)
qed

lemma created_secret_data:
  "data_ensured c None (Some [''accessKeyId'' \<mapsto> cs_AccessKeyID (cred_Spec c), SecretKey (cred_Spec c) \<mapsto> ''lakefs_sk_'' @ token])"
  by (simp add: data_ensured_def kept_key_def)

lemma controlled_by_update: "controlled_by (ObjectMeta.truncate (x\<lparr>OwnerReferences := refs\<rparr>)) m
   \<longleftrightarrow> controlled_by ((ObjectMeta.truncate x)\<lparr>OwnerReferences := refs\<rparr>) m"
  by (simp add: controlled_by_def)

lemma stored_secret_ensured:
  assumes "stored_as (OSecret x) (OSecret y)" and "data_ensured c old (Data x)"
    and "controlled_by (ObjectMeta.truncate x) (ObjectMeta.truncate c)"
  shows "secret_ensured c old y"
  using assms by (simp add: secret_ensured_iff stored_as_def controlled_by_def)

lemma secret_effectI:
  assumes "secret_ensured c (v (secret_key c)) sec" and "v' = v(secret_key c \<mapsto> OSecret sec)"
  shows "secret_effect c v v'"
  using assms unfolding secret_effect_def by blast

lemma owner_update_simps [simp]:
  "Data (x\<lparr>OwnerReferences := refs\<rparr>) = Data x" "Name (x\<lparr>OwnerReferences := refs\<rparr>) = Name x"
  "Namespace (x\<lparr>OwnerReferences := refs\<rparr>) = Namespace x" "Finalizers (x\<lparr>OwnerReferences := refs\<rparr>) = Finalizers x"
  for x :: "'a Secret_scheme"
  by simp_all

context controllers
begin

lemma wp_randomCredentialToken:
  assumes "\<And>res t. view t = view s \<Longrightarrow> Q res t"
  shows "wp (randomCredentialToken r n) Q s"
  unfolding randomCredentialToken_def wp_bind
  by (rule wp_mono [OF rand_law]) (simp add: assms)

text \<open>How an ensured secret, an error and a panic are told to the caller.\<close>

lemma wp_storeSecret:
  assumes sec: "view s (secret_key c) = Some (OSecret sec)" and p: "completed c sec p"
    and ok: "\<And>u y. view u = (view s)(secret_key c \<mapsto> OSecret y) \<Longrightarrow>
        secret_ensured c (Some (OSecret sec)) y \<Longrightarrow> Q (Inr None) u"
    and err: "\<And>u e. view u = view s \<Longrightarrow> Q (Inr (Some e)) u"
  shows "wp (storeSecret r c p) Q s"
proof -
  obtain x changed where x: "label_set ''lakefs.versioneer.at/user'' (ur_Name (cs_UserRef (cred_Spec c)))
       (label_set ''lakefs.versioneer.at/credential'' ''true'' (labels_made p)) = (x, changed)" by fastforce
  have xs: "completed c sec (x, changed)"
    unfolding x [symmetric]
    by (rule completed_step [OF completed_step [OF completed_step [OF p tame_steps(3) Data_steps(2)]
            tame_steps(4) Data_steps(1)] tame_steps(4) Data_steps(1)])
  have key: "okey_of (OSecret sec) = secret_key c" by (rule view_okey [OF sec])
  show ?thesis
  proof (cases "SetControllerReference (rec_Lib r) (OCredential c) (OSecret x)")
    case (Inl m)
    with err show ?thesis by (simp add: storeSecret_def Let_def x)
  next
    case (Inr refs)
    have own: "controlled_by (ObjectMeta.truncate (x\<lparr>OwnerReferences := refs\<rparr>)) (ObjectMeta.truncate c)"
      using owner_law [OF Inr] by (simp add: controlled_by_update)
    have new: "Q (Inr None) u" if "view u = (view s)(secret_key c \<mapsto> OSecret y)"
      and "stored_as (OSecret (x\<lparr>OwnerReferences := refs\<rparr>)) (OSecret y)" for u y
      using stored_secret_ensured [OF that(2) _ own, of "Some (OSecret sec)"] xs that(1)
      by (intro ok [of u y]) (simp_all add: completed_def)
    have "Q (Inr None) s" if "\<not> changed" "IsControlledBy (rec_Lib r) (OSecret x) (OCredential c)"
      using xs that sec by (intro ok [of s sec]) (auto simp: completed_def secret_ensured_iff controlled_law)
    with Inr sec key xs new err show ?thesis
      by (auto simp: storeSecret_def Let_def x completed_def intro!: wp_Update_stored [where z = sec])
  qed
qed

lemma wp_completeSecret:
  assumes sec: "view s (secret_key c) = Some (OSecret sec)"
    and ok: "\<And>u y. view u = (view s)(secret_key c \<mapsto> OSecret y) \<Longrightarrow>
        secret_ensured c (Some (OSecret sec)) y \<Longrightarrow> Q (Inr None) u"
    and err: "\<And>u e. view u = view s \<Longrightarrow> Q (Inr (Some e)) u"
    and panic: "\<And>u m. view u = view s \<Longrightarrow> Q (Inl m) u"
  shows "wp (completeSecret r c sec) Q s"
  unfolding completeSecret_def Let_def wp_if wp_bind
  using completed_first [where c = c and sec = sec]
  by (auto intro!: wp_randomCredentialToken wp_storeSecret assms simp: sec split: sum.split)

lemma wp_createSecret:
  assumes none: "view s (secret_key c) = None"
    and ok: "\<And>u y. view u = (view s)(secret_key c \<mapsto> OSecret y) \<Longrightarrow> secret_ensured c None y \<Longrightarrow> Q (Inr None) u"
    and err: "\<And>u e. view u = view s \<Longrightarrow> Q (Inr (Some e)) u"
    and panic: "\<And>u m. view u = view s \<Longrightarrow> Q (Inl m) u"
  shows "wp (createSecret r c (snd (secret_key c))) Q s"
proof -
  let ?new = "\<lambda>token. new_secret (sr_Name (cs_SecretRef (cred_Spec c))) (Namespace c)
                    (Some [''lakefs.versioneer.at/credential'' \<mapsto> ''true'',
                           ''lakefs.versioneer.at/user'' \<mapsto> ur_Name (cs_UserRef (cred_Spec c))])
                    (Some [''accessKeyId'' \<mapsto> cs_AccessKeyID (cred_Spec c),
                           SecretKey (cred_Spec c) \<mapsto> ''lakefs_sk_'' @ token])"
  have "Q (Inr None) v"
    if u: "view u = view s" and refs: "SetControllerReference (rec_Lib r) (OCredential c) (OSecret (?new token)) = Inr refs"
      and y: "stored_as (OSecret ((?new token)\<lparr>OwnerReferences := refs\<rparr>)) (OSecret y)"
      and v: "view v = (view u)(secret_key c \<mapsto> OSecret y)" for token refs u v y
  proof (rule ok)
    have "controlled_by (ObjectMeta.truncate ((?new token)\<lparr>OwnerReferences := refs\<rparr>)) (ObjectMeta.truncate c)"
      using owner_law [OF refs] by (simp add: controlled_by_update)
    moreover have "data_ensured c None (Data ((?new token)\<lparr>OwnerReferences := refs\<rparr>))"
      unfolding owner_update_simps new_secret_simps by (rule created_secret_data)
    ultimately show "secret_ensured c None y" by (intro stored_secret_ensured [OF y])
  qed (simp add: u v)
  note created = this
  show ?thesis
    unfolding createSecret_def wp_bind
  proof (rule wp_randomCredentialToken)
    fix token :: "(string, string) result" and t
    assume t: "view t = view s"
    show "wp (case token of Inl m \<Rightarrow> return (Inl m) | Inr token \<Rightarrow>
          (let secret = new_secret (snd (snd (secret_key c))) (fst (snd (secret_key c)))
             (Some [''lakefs.versioneer.at/credential'' \<mapsto> ''true'',
                    ''lakefs.versioneer.at/user'' \<mapsto> ur_Name (cs_UserRef (cred_Spec c))])
             (Some [''accessKeyId'' \<mapsto> cs_AccessKeyID (cred_Spec c),
                    SecretKey (cred_Spec c) \<mapsto> ''lakefs_sk_'' @ token])
           in case SetControllerReference (rec_Lib r) (OCredential c) (OSecret secret) of
                Inl m \<Rightarrow> return (Inr (Some (Failed m)))
              | Inr refs \<Rightarrow> do {
                  created \<leftarrow> Create (rec_Client r) SecretT (secret\<lparr>OwnerReferences := refs\<rparr>);
                  return (Inr (case created of Inl e \<Rightarrow> Some (ApiError e) | Inr _ \<Rightarrow> None)) })) Q t"
      using t err panic created by (cases token)
        (auto simp: Let_def secret_key_def intro!: wp_Create split: sum.split simp del: append.simps)
  qed
qed

lemma wp_reconcilerEnsureSecret:
  assumes ok: "\<And>u y. view u = (view s)(secret_key c \<mapsto> OSecret y) \<Longrightarrow>
        secret_ensured c (view s (secret_key c)) y \<Longrightarrow> Q (Inr None) u"
    and err: "\<And>u e. view u = view s \<Longrightarrow> Q (Inr (Some e)) u"
    and panic: "\<And>u m. view u = view s \<Longrightarrow> Q (Inl m) u"
  shows "wp (reconcilerEnsureSecret r c (snd (secret_key c))) Q s"
  unfolding reconcilerEnsureSecret_def wp_bind
  by (rule wp_Get) (auto simp: secret_key_def IsNotFound_def intro!: wp_completeSecret wp_createSecret
      [unfolded secret_key_def snd_conv] err panic ok [unfolded secret_key_def])

end

subsection \<open>The judgement\<close>

text \<open>When a credential is reported ready: usable at \<open>T\<close>, and with all it needs stored.\<close>

definition credential_resolved :: "time \<Rightarrow> LakeFSCredential \<Rightarrow> (okey \<rightharpoonup> obj) \<Rightarrow> bool" where
  "credential_resolved T c v \<longleftrightarrow> usable T c \<and> cs_AccessKeyID (cred_Spec c) \<noteq> '''' \<and>
     (\<exists>u sec. backed_by v c u sec)"

definition judged_credential :: "LakeFSCredential \<Rightarrow> Condition list \<Rightarrow> LakeFSCredential" where
  "judged_credential c cs = c\<lparr>cred_Status := \<lparr>ObservedGeneration = Generation c, Conditions = cs,
     cst_SecretName = sr_Name (cs_SecretRef (cred_Spec c)), cst_SecretKey = SecretKey (cred_Spec c)\<rparr>\<rparr>"

lemma judged_credential_simps [simp]:
  "ObjectMeta.truncate (judged_credential c cs) = ObjectMeta.truncate c"
  "Status.truncate (cred_Status (judged_credential c cs)) = \<lparr>ObservedGeneration = Generation c, Conditions = cs\<rparr>"
  by (simp_all add: judged_credential_def ObjectMeta.truncate_def Status.truncate_def)

lemma CredentialReconcile_shape:
  "CredentialReconcile r = status_reconcile r CredentialT (reconcilerResolveCredential r)
     (\<lambda>c. Conditions (cred_Status c)) judged_credential"
  by (rule ext) (simp add: CredentialReconcile_def status_reconcile_def judged_credential_def cong: sum.case_cong)

lemma secret_effect_refl [simp]: "secret_effect c v v"
  by (simp add: secret_effect_def)

lemma secret_effect_other: "secret_effect c v v' \<Longrightarrow> fst k \<noteq> KSecret \<Longrightarrow> v' k = v k"
  by (auto simp: secret_effect_def secret_key_def)

context controllers
begin

definition resolving :: "LakeFSCredential \<Rightarrow> (okey \<rightharpoonup> obj) \<Rightarrow> (string, Condition) result \<Rightarrow> (okey \<rightharpoonup> obj) \<Rightarrow> bool" where
  "resolving c v res v' \<longleftrightarrow> secret_effect c v v' \<and>
     (\<forall>d. res = Inr d \<longrightarrow> judged (Generation c) (credential_resolved T1 c v') d)"

lemma resolving_False: "view t = view s \<Longrightarrow>
    resolving c (view s) (Inr (readyCondition ConditionFalse re m (Generation c))) (view t)"
  by (simp add: resolving_def)

lemma wp_resolveCredentialSecret:
  assumes c: "stored (view s) (OCredential c)" and usable: "usable T1 c" "cs_AccessKeyID (cred_Spec c) \<noteq> ''''"
    and u: "view s (KUser, Namespace c, ur_Name (cs_UserRef (cred_Spec c))) = Some (OUser u)"
  shows "wp (resolveCredentialSecret r c) (\<lambda>res t. resolving c (view s) res (view t)) s"
  unfolding resolveCredentialSecret_def Let_def wp_bind
proof (rule wp_reconcilerEnsureSecret [unfolded secret_key_def snd_conv], fold secret_key_def)
  fix t y
  assume t: "view t = (view s)(secret_key c \<mapsto> OSecret y)" and y: "secret_ensured c (view s (secret_key c)) y"
  have eff: "secret_effect c (view s) (view t)" by (rule secret_effectI [OF y t])
  have "credential_resolved T1 c (view v)"
    if "view v = view t" "view t (secret_key c) = Some (OSecret sec)"
      "map_at (Data sec) (SecretKey (cred_Spec c)) \<noteq> ''''" for v sec
    using that c u usable secret_effect_other [OF eff]
    by (auto simp: credential_resolved_def backed_by_def secret_key_def)
  then show "wp (case Inr None of
        Inl m \<Rightarrow> return (Inl m)
      | Inr (Some err) \<Rightarrow> credentialJudged ConditionFalse ReasonUnavailable c
          (''Secret '' @ NamespacedName_String (Namespace c, sr_Name (cs_SecretRef (cred_Spec c))) @ '' could not be reconciled'')
      | Inr None \<Rightarrow> do {
          got \<leftarrow> Get (rec_Client r) SecretT (Namespace c, sr_Name (cs_SecretRef (cred_Spec c)));
          (case got of
             Inl err \<Rightarrow> credentialJudged ConditionFalse ReasonUnavailable c
               (''Secret '' @ NamespacedName_String (Namespace c, sr_Name (cs_SecretRef (cred_Spec c))) @ '' is not available'')
           | Inr secret \<Rightarrow>
               if map_at (Data secret) (SecretKey (cred_Spec c)) = ''''
               then credentialJudged ConditionFalse ReasonInvalid c
                 (''Secret '' @ NamespacedName_String (Namespace c, sr_Name (cs_SecretRef (cred_Spec c))) @ '' is missing configured key'')
               else credentialJudged ConditionTrue ReasonResolved c
                 ''LakeFSCredential resolved user and Secret'') })
      (\<lambda>res t. resolving c (view s) res (view t)) t"
    using eff by (auto intro!: wp_Get simp: resolving_def secret_key_def)
qed (simp_all add: resolving_False resolving_def [where res = "Inl m" for m])

lemma wp_reconcilerResolveCredential:
  assumes c: "stored (view s) (OCredential c)"
  shows "wp (reconcilerResolveCredential r c) (\<lambda>res t. resolving c (view s) res (view t)) s"
proof -
  have secret: "wp (resolveCredentialSecret r c) (\<lambda>res t. resolving c (view s) res (view t)) t"
    if "view t = view s" "usable T1 c" "cs_AccessKeyID (cred_Spec c) \<noteq> ''''"
      "view s (KUser, Namespace c, ur_Name (cs_UserRef (cred_Spec c))) = Some (OUser u)" for t u
    using wp_resolveCredentialSecret [of t c u] c that by simp
  then show ?thesis
    unfolding reconcilerResolveCredential_def Let_def
    by (auto simp: resolving_False After_def usable_def intro!: wp_mono [OF now_law] wp_Get split: option.split)
qed

end

sublocale controllers \<subseteq> credential_controller: status_controller r view T1 T2 CredentialT
  "reconcilerResolveCredential r" "\<lambda>c. Conditions (cred_Status c)" judged_credential
  secret_effect "credential_resolved T1"
  by unfold_locales (auto simp: secret_effect_other
      intro: wp_mono [OF wp_reconcilerResolveCredential, unfolded resolving_def])

subsection \<open>What a reconciliation does\<close>

definition credential_reconciled ::
  "time \<Rightarrow> NamespacedName \<Rightarrow> (okey \<rightharpoonup> obj) \<Rightarrow> reconciled \<Rightarrow> (okey \<rightharpoonup> obj) \<Rightarrow> bool" where
  "credential_reconciled T req v res v' \<longleftrightarrow>
     (if res = Reconciled noRequeue None
      then v (KCredential, req) = None \<and> v' = v \<or>
        (\<exists>c u. v (KCredential, req) = Some (OCredential c) \<and> secret_effect c v u \<and>
           reported (OCredential c) (credential_resolved T c u) u v')
      else v' = v \<or> (\<exists>c. v (KCredential, req) = Some (OCredential c) \<and> secret_effect c v v'))"

context controllers
begin

lemma wp_CredentialReconcile:
  "wp (CredentialReconcile r req) (\<lambda>res t. credential_reconciled T1 req (view s) res (view t)) s"
  unfolding CredentialReconcile_shape
  by (rule wp_mono [OF credential_controller.wp_status_reconcile])
    (auto simp: credential_controller.reconciled_to_def credential_controller.judged_to_def
      credential_reconciled_def split: if_splits)

end

text \<open>Nothing but the status of the credential and its secret is touched.\<close>

lemma credential_reconciled_other:
  assumes "credential_reconciled T req v res v'" and "v (KCredential, req) = Some (OCredential c)"
    and "k \<noteq> (KCredential, req)" and "k \<noteq> secret_key c" and "\<And>ok x. v ok = Some x \<Longrightarrow> okey_of x = ok"
  shows "v' k = v k"
  using assms(1-4) assms(5) [OF assms(2)]
  by (auto simp: credential_reconciled_def reported_def secret_effect_def split: if_splits)

text \<open>The secret key that is stored before is stored after.\<close>

lemma secret_effect_kept:
  assumes "secret_effect c v v'" and "v (secret_key c) = Some (OSecret sec)"
    and "SecretKey (cred_Spec c) \<noteq> ''accessKeyId''" and "map_at (Data sec) (SecretKey (cred_Spec c)) \<noteq> ''''"
  shows "\<exists>sec'. v' (secret_key c) = Some (OSecret sec') \<and>
     map_at (Data sec') (SecretKey (cred_Spec c)) = map_at (Data sec) (SecretKey (cred_Spec c))"
  using assms by (auto simp: secret_effect_def secret_ensured_def kept_key_def Let_def)

lemma credential_reconciled_self:
  assumes "credential_reconciled T req v res v'" and c: "v (KCredential, req) = Some (OCredential c)"
    and key: "okey_of (OCredential c) = (KCredential, req)"
  shows "\<exists>d. v' (KCredential, req) = Some (OCredential d) \<and> cred_Spec d = cred_Spec c \<and>
     ObjectMeta.truncate d = ObjectMeta.truncate c"
proof -
  from assms consider (same) "v' (KCredential, req) = v (KCredential, req)"
    | (rep) u where "reported (OCredential c) (credential_resolved T c u) u v'"
    by (auto simp: credential_reconciled_def secret_effect_other split: if_splits)
  then show ?thesis
  proof cases
    case rep
    then obtain y where v': "v' (KCredential, req) = Some y" and y: "status_written (OCredential c) y"
      by (auto simp: reported_def key [unfolded okey_simps])
    then obtain d where "y = OCredential d" by (cases y) (auto simp: status_written_def stored_as_def)
    with v' y show ?thesis by (auto simp: status_written_def stored_as_def)
  qed (use c in auto)
qed

lemma reported_other: "reported x P v v' \<Longrightarrow> k \<noteq> okey_of x \<Longrightarrow> v' k = v k"
  by (auto simp: reported_def)

lemma credential_reconciled_secret:
  assumes "credential_reconciled T req v res v'" and c: "v (KCredential, req) = Some (OCredential c)"
  obtains u where "secret_effect c v u" and "v' (secret_key c) = u (secret_key c)"
proof -
  have neq: "secret_key c \<noteq> okey_of (OCredential c)" by (simp add: secret_key_def)
  from assms consider (eq) "v' = v" | (eff) "secret_effect c v v'"
    | (rep) u where "secret_effect c v u" "reported (OCredential c) (credential_resolved T c u) u v'"
    by (auto simp: credential_reconciled_def split: if_splits)
  then show ?thesis
  proof cases
    case rep
    with reported_other [OF rep(2) neq] that show ?thesis by blast
  qed (use that [of v] that [of v'] in auto)
qed

context controllers
begin

lemma wp_secret_kept:
  assumes c: "view s (KCredential, req) = Some (OCredential c)"
  shows "wp (CredentialReconcile r req) (\<lambda>res t.
     (\<exists>d. view t (KCredential, req) = Some (OCredential d) \<and> cred_Spec d = cred_Spec c \<and>
        ObjectMeta.truncate d = ObjectMeta.truncate c) \<and>
     (\<forall>k. k \<noteq> secret_key c \<longrightarrow> k \<noteq> (KCredential, req) \<longrightarrow> view t k = view s k) \<and>
     (\<forall>sec. view s (secret_key c) = Some (OSecret sec) \<longrightarrow> SecretKey (cred_Spec c) \<noteq> ''accessKeyId'' \<longrightarrow>
        map_at (Data sec) (SecretKey (cred_Spec c)) \<noteq> '''' \<longrightarrow>
        (\<exists>sec'. view t (secret_key c) = Some (OSecret sec') \<and>
           map_at (Data sec') (SecretKey (cred_Spec c)) = map_at (Data sec) (SecretKey (cred_Spec c))))) s"
proof (rule wp_mono [OF wp_CredentialReconcile], intro conjI allI impI)
  fix res t
  assume rec: "credential_reconciled T1 req (view s) res (view t)"
  show "\<exists>d. view t (KCredential, req) = Some (OCredential d) \<and> cred_Spec d = cred_Spec c \<and>
      ObjectMeta.truncate d = ObjectMeta.truncate c"
    by (rule credential_reconciled_self [OF rec c view_okey [OF c]])
  show "view t k = view s k" if "k \<noteq> secret_key c" "k \<noteq> (KCredential, req)" for k
    by (rule credential_reconciled_other [OF rec c that(2, 1) view_okey])
  show "\<exists>sec'. view t (secret_key c) = Some (OSecret sec') \<and>
      map_at (Data sec') (SecretKey (cred_Spec c)) = map_at (Data sec) (SecretKey (cred_Spec c))"
    if sec: "view s (secret_key c) = Some (OSecret sec)" "SecretKey (cred_Spec c) \<noteq> ''accessKeyId''"
      "map_at (Data sec) (SecretKey (cred_Spec c)) \<noteq> ''''" for sec
  proof -
    from rec c obtain u where u: "secret_effect c (view s) u" "view t (secret_key c) = u (secret_key c)"
      by (rule credential_reconciled_secret)
    from secret_effect_kept [OF u(1) sec] u(2) show ?thesis by simp
  qed
qed

end

subsection \<open>A secret key under the key of the access key\<close>

text \<open>The credential can own its secret: \<open>SetControllerReference\<close> does not refuse it.\<close>

definition can_own :: "'s Reconciler \<Rightarrow> LakeFSCredential \<Rightarrow> Secret \<Rightarrow> bool" where
  "can_own r c sec \<longleftrightarrow> (\<forall>x m. Namespace x = Namespace sec \<longrightarrow> OwnerReferences x = OwnerReferences sec \<longrightarrow>
     SetControllerReference (rec_Lib r) (OCredential c) (OSecret x) \<noteq> Inl m)"

lemma owners_kept [simp]:
  "OwnerReferences (fst (data_made p)) = OwnerReferences (fst p)" "OwnerReferences (fst (data_set k v p)) = OwnerReferences (fst p)"
  "OwnerReferences (fst (labels_made p)) = OwnerReferences (fst p)" "OwnerReferences (fst (label_set k v p)) = OwnerReferences (fst p)"
  by (simp_all add: data_made_def data_set_def labels_made_def label_set_def)

lemma names_kept [simp]:
  "Namespace (fst (data_made p)) = Namespace (fst p)" "Namespace (fst (data_set k v p)) = Namespace (fst p)"
  "Namespace (fst (labels_made p)) = Namespace (fst p)" "Namespace (fst (label_set k v p)) = Namespace (fst p)"
  "Name (fst (data_made p)) = Name (fst p)" "Name (fst (data_set k v p)) = Name (fst p)"
  "Name (fst (labels_made p)) = Name (fst p)" "Name (fst (label_set k v p)) = Name (fst p)"
  by (simp_all add: data_made_def data_set_def labels_made_def label_set_def)

context controllers_ok
begin

lemma wp_storeSecret_done:
  assumes sec: "view s (secret_key c) = Some (OSecret sec)" and own: "can_own r c sec"
    and p: "Namespace (fst p) = Namespace sec" "Name (fst p) = Name sec" "OwnerReferences (fst p) = OwnerReferences sec"
  shows "wp (storeSecret r c p) (\<lambda>res _. res = Inr None) s"
proof -
  obtain x changed where x: "label_set ''lakefs.versioneer.at/user'' (ur_Name (cs_UserRef (cred_Spec c)))
       (label_set ''lakefs.versioneer.at/credential'' ''true'' (labels_made p)) = (x, changed)" by fastforce
  then have x1: "x = fst (label_set ''lakefs.versioneer.at/user'' (ur_Name (cs_UserRef (cred_Spec c)))
       (label_set ''lakefs.versioneer.at/credential'' ''true'' (labels_made p)))" by simp
  have same: "Namespace x = Namespace sec" "Name x = Name sec" "OwnerReferences x = OwnerReferences sec"
    unfolding x1 by (simp_all add: p)
  with own obtain refs where refs: "SetControllerReference (rec_Lib r) (OCredential c) (OSecret x) = Inr refs"
    by (cases "SetControllerReference (rec_Lib r) (OCredential c) (OSecret x)") (auto simp: can_own_def)
  have "okey_of (OSecret sec) = secret_key c" by (rule view_okey [OF sec])
  with sec same refs show ?thesis
    by (auto simp: storeSecret_def Let_def x intro!: wp_Update_ok)
qed

lemma wp_ensure_public:
  assumes sec: "view s (secret_key c) = Some (OSecret sec)" and own: "can_own r c sec"
    and key: "SecretKey (cred_Spec c) = ''accessKeyId''" and ak: "cs_AccessKeyID (cred_Spec c) \<noteq> ''''"
  shows "wp (reconcilerEnsureSecret r c (snd (secret_key c)))
     (\<lambda>res t. res = Inr None \<and> (\<exists>y. view t = (view s)(secret_key c \<mapsto> OSecret y) \<and>
        map_at (Data y) ''accessKeyId'' = cs_AccessKeyID (cred_Spec c))) s"
proof -
  have complete: "wp (completeSecret r c sec) (\<lambda>res _. res = Inr None) t" if "view t = view s" for t
    unfolding completeSecret_def Let_def key
    using that sec own ak by (auto simp: map_at_data_set intro!: wp_storeSecret_done [where sec = sec])
  have ended: "wp (reconcilerEnsureSecret r c (snd (secret_key c))) (\<lambda>res _. res = Inr None) s"
    unfolding reconcilerEnsureSecret_def wp_bind
    by (rule wp_Get_ok) (use sec complete in \<open>auto simp: secret_key_def\<close>)
  have "wp (reconcilerEnsureSecret r c (snd (secret_key c))) (\<lambda>res t. res = Inr None \<longrightarrow>
     (\<exists>y. view t = (view s)(secret_key c \<mapsto> OSecret y) \<and>
        map_at (Data y) ''accessKeyId'' = cs_AccessKeyID (cred_Spec c))) s"
    by (rule wp_reconcilerEnsureSecret)
      (use sec key ak in \<open>auto simp: secret_ensured_def kept_key_def Let_def\<close>)
  from wp_conj [OF ended this] show ?thesis by (rule wp_mono) auto
qed

lemma wp_resolve_public:
  assumes c: "stored (view s) (OCredential c)" and sec: "view s (secret_key c) = Some (OSecret sec)" and own: "can_own r c sec"
    and key: "SecretKey (cred_Spec c) = ''accessKeyId''" and ak: "cs_AccessKeyID (cred_Spec c) \<noteq> ''''"
    and usable: "usable T2 c" and u: "view s (KUser, Namespace c, ur_Name (cs_UserRef (cred_Spec c))) = Some (OUser u)"
  shows "wp (reconcilerResolveCredential r c)
     (\<lambda>res t. res = Inr (readyCondition ConditionTrue ReasonResolved ''LakeFSCredential resolved user and Secret'' (Generation c)) \<and>
        (\<exists>y. view t = (view s)(secret_key c \<mapsto> OSecret y) \<and>
           map_at (Data y) ''accessKeyId'' = cs_AccessKeyID (cred_Spec c))) s"
    (is "wp _ ?Q s")
proof -
  have secret: "wp (resolveCredentialSecret r c) ?Q t" if t: "view t = view s" for t
    unfolding resolveCredentialSecret_def Let_def wp_bind
    by (rule wp_mono [OF wp_ensure_public [OF _ own key ak, of t, unfolded secret_key_def snd_conv, folded secret_key_def]])
      (use t sec key ak in \<open>auto simp: secret_key_def intro!: wp_Get_ok\<close>)
  show ?thesis
    unfolding reconcilerResolveCredential_def Let_def
    using usable u ak
    by (auto simp: usable_def After_def intro!: wp_mono [OF now_law] wp_Get_ok secret split: option.split)
qed

lemma wp_secret_published:
  assumes c: "view s (KCredential, req) = Some (OCredential c)" and sec: "view s (secret_key c) = Some (OSecret sec)"
    and own: "can_own r c sec"
    and key: "SecretKey (cred_Spec c) = ''accessKeyId''" and ak: "cs_AccessKeyID (cred_Spec c) \<noteq> ''''"
    and usable: "usable T2 c" and u: "view s (KUser, Namespace c, ur_Name (cs_UserRef (cred_Spec c))) = Some (OUser u)"
  shows "wp (CredentialReconcile r req) (\<lambda>res t. res = Reconciled noRequeue None \<and>
     (\<exists>d sec'. view t (KCredential, req) = Some (OCredential d) \<and> cred_Spec d = cred_Spec c \<and> Ready (OCredential d) \<and>
        view t (secret_key c) = Some (OSecret sec') \<and>
        map_at (Data sec') (SecretKey (cred_Spec c)) = cs_AccessKeyID (cred_Spec c))) s"
proof -
  let ?ready = "readyCondition ConditionTrue ReasonResolved ''LakeFSCredential resolved user and Secret'' (Generation c)"
  have req: "okey_of (OCredential c) = (KCredential, req)" by (rule view_okey [OF c])
  have reported: "wp (do {
        conditions \<leftarrow> metaSetStatusCondition (rec_Lib r) (Conditions (cred_Status c)) ?ready;
        updated \<leftarrow> StatusUpdate (rec_Client r) CredentialT (judged_credential c conditions);
        (case updated of Inl err \<Rightarrow> return (Reconciled noRequeue (Some (ApiError err)))
         | Inr _ \<Rightarrow> return (Reconciled noRequeue None)) })
     (\<lambda>res t. res = Reconciled noRequeue None \<and>
       (\<exists>d sec'. view t (KCredential, req) = Some (OCredential d) \<and> cred_Spec d = cred_Spec c \<and> Ready (OCredential d) \<and>
          view t (secret_key c) = Some (OSecret sec') \<and>
          map_at (Data sec') (SecretKey (cred_Spec c)) = cs_AccessKeyID (cred_Spec c))) t"
    if t: "view t = (view s)(secret_key c \<mapsto> OSecret y)" and y: "map_at (Data y) ''accessKeyId'' = cs_AccessKeyID (cred_Spec c)"
    for t y
  proof (rule credential_controller.wp_write_status_upto [where F = "\<lambda>e. e = NotFound" and P = True and d = ?ready])
    show "view t (okey_of (kt_mk CredentialT c)) = Some (kt_mk CredentialT c)"
      using c req by (simp add: t secret_key_def)
    show "wp (cl_StatusUpdate (rec_Client r) (kt_mk CredentialT (judged_credential c cs))) (\<lambda>res _. \<forall>e. res = Inl e \<longrightarrow> e = NotFound) v"
      for cs v by (rule wp_mono [OF status_reliable]) auto
    fix w d
    assume w: "view w = (view t)(okey_of (kt_mk CredentialT c) \<mapsto> kt_mk CredentialT d)"
      and d: "status_written (kt_mk CredentialT c) (kt_mk CredentialT d)"
        "Ready (kt_mk CredentialT d) \<longleftrightarrow> cond_Status ?ready = ConditionTrue"
    then show "Reconciled noRequeue None = Reconciled noRequeue None \<and>
       (\<exists>d sec'. view w (KCredential, req) = Some (OCredential d) \<and> cred_Spec d = cred_Spec c \<and> Ready (OCredential d) \<and>
          view w (secret_key c) = Some (OSecret sec') \<and>
          map_at (Data sec') (SecretKey (cred_Spec c)) = cs_AccessKeyID (cred_Spec c))"
      using req y by (auto simp: t key secret_key_def status_written_def stored_as_def)
  qed simp_all
  show ?thesis
    unfolding CredentialReconcile_shape status_reconcile_def wp_bind
  proof (rule wp_Get_ok)
    fix t x
    assume t: "view t = view s" and "view s (kt_kind CredentialT, req) = Some (kt_mk CredentialT x)"
    with c have x: "x = c" by simp
    have pub: "wp (reconcilerResolveCredential r c) (\<lambda>res t. res = Inr ?ready \<and>
        (\<exists>y. view t = (view s)(secret_key c \<mapsto> OSecret y) \<and>
           map_at (Data y) ''accessKeyId'' = cs_AccessKeyID (cred_Spec c))) t"
      using wp_resolve_public [of t c sec u] c req sec own key ak usable u by (simp add: t)
    show "wp (case Inr x of Inl err \<Rightarrow> if IsNotFound err then return (Reconciled noRequeue None)
           else return (Reconciled noRequeue (Some (ApiError err)))
       | Inr x \<Rightarrow> do { condition \<leftarrow> reconcilerResolveCredential r x; (case condition of Inl m \<Rightarrow> return (Panicking m)
           | Inr condition \<Rightarrow> do {
               conditions \<leftarrow> metaSetStatusCondition (rec_Lib r) (Conditions (cred_Status x)) condition;
               updated \<leftarrow> StatusUpdate (rec_Client r) CredentialT (judged_credential x conditions);
               (case updated of Inl err \<Rightarrow> return (Reconciled noRequeue (Some (ApiError err)))
                | Inr _ \<Rightarrow> return (Reconciled noRequeue None)) }) })
       (\<lambda>res t. res = Reconciled noRequeue None \<and>
         (\<exists>d sec'. view t (KCredential, req) = Some (OCredential d) \<and> cred_Spec d = cred_Spec c \<and> Ready (OCredential d) \<and>
            view t (secret_key c) = Some (OSecret sec') \<and>
            map_at (Data sec') (SecretKey (cred_Spec c)) = cs_AccessKeyID (cred_Spec c))) t"
      unfolding sum.case wp_bind x
      by (rule wp_mono [OF pub], elim conjE exE, simp only: sum.case, rule reported)
  qed (use c in simp_all)
qed

end

subsection \<open>Properties\<close>

text \<open>
  C12. Reconciling a credential, however it ends, touches nothing but the credential's status and its secret; and it
  never replaces a secret key that is stored, unless the credential names \<open>accessKeyId\<close> as the key of its secret
  key: a secret that holds a secret key under another key holds the same one afterwards, so a secret key handed to
  a user stays valid. (The last property of this theory shows what happens under \<open>accessKeyId\<close>.)
\<close>

theorem secret_key_kept:
  assumes "controllers r view T1 T2" and "view s (KCredential, req) = Some (OCredential c)"
  shows "case run_state (CredentialReconcile r req) s of (res, t) \<Rightarrow>
     (\<exists>d. view t (KCredential, req) = Some (OCredential d) \<and> cred_Spec d = cred_Spec c \<and>
        ObjectMeta.truncate d = ObjectMeta.truncate c) \<and>
     (\<forall>k. k \<noteq> secret_key c \<longrightarrow> k \<noteq> (KCredential, req) \<longrightarrow> view t k = view s k) \<and>
     (\<forall>sec. view s (secret_key c) = Some (OSecret sec) \<longrightarrow> SecretKey (cred_Spec c) \<noteq> ''accessKeyId'' \<longrightarrow>
        map_at (Data sec) (SecretKey (cred_Spec c)) \<noteq> '''' \<longrightarrow>
        (\<exists>sec'. view t (secret_key c) = Some (OSecret sec') \<and>
           map_at (Data sec') (SecretKey (cred_Spec c)) = map_at (Data sec) (SecretKey (cred_Spec c))))"
  by (rule controllers.wp_secret_kept [OF assms, unfolded wp_def])

text \<open>Alice's credential, with a secret that is not yet complete, and one that asks for trouble.\<close>

definition ex_owned_credential :: "string \<Rightarrow> LakeFSCredential" where
  "ex_owned_credential key = ObjectMeta.extend ((new_meta ''lakefs-cred-ak1'' ''data'')\<lparr>UID := ''uid-1'', Generation := 1\<rparr>)
     \<lparr>cred_Spec = \<lparr>cs_UserRef = \<lparr>ur_Name = ''alice''\<rparr>, cs_AccessKeyID = ''AK1'',
        cs_SecretRef = \<lparr>sr_Name = ''ak1'', sr_Key = key\<rparr>, cs_ExpiresAt = None, cs_Revoked = False\<rparr>,
      cred_Status = \<lparr>ObservedGeneration = 0, Conditions = [], cst_SecretName = '''', cst_SecretKey = ''''\<rparr>\<rparr>"

definition ex_alice :: LakeFSUser where
  "ex_alice = ObjectMeta.extend (new_meta ''alice'' ''data'')
     \<lparr>user_Spec = \<lparr>us_ExternalID = ''alice@example.org'', us_FriendlyName = ''''\<rparr>, user_Status = new_status\<rparr>"

definition ex_owned_world :: "string \<Rightarrow> world" where
  "ex_owned_world key = \<lparr>w_objs = [OUser ex_alice, OCredential (ex_owned_credential key),
     OSecret (new_secret ''ak1'' ''data'' None (Some [key \<mapsto> ''s3cr3t'']))]\<rparr>"

lemma ex_owned_view:
  "ref_view (ex_owned_world key) (KCredential, ''data'', ''lakefs-cred-ak1'') = Some (OCredential (ex_owned_credential key))"
  "ref_view (ex_owned_world key) (KUser, ''data'', ''alice'') = Some (OUser ex_alice)"
  "ref_view (ex_owned_world key) (secret_key (ex_owned_credential key)) =
     Some (OSecret (new_secret ''ak1'' ''data'' None (Some [key \<mapsto> ''s3cr3t''])))"
  by (simp_all add: ex_owned_world_def ex_owned_credential_def ref_view_def ex_alice_def secret_key_def
      ObjectMeta.extend_def new_meta_def)

theorem secret_key_kept_witness:
  "case run_state (CredentialReconcile ref_reconciler (''data'', ''lakefs-cred-ak1'')) (ex_owned_world ''k'') of
     (res, t) \<Rightarrow>
     (\<exists>d. ref_view t (KCredential, (''data'', ''lakefs-cred-ak1'')) = Some (OCredential d) \<and>
        cred_Spec d = cred_Spec (ex_owned_credential ''k'')) \<and>
     (\<forall>k. k \<noteq> secret_key (ex_owned_credential ''k'') \<longrightarrow> k \<noteq> (KCredential, ''data'', ''lakefs-cred-ak1'') \<longrightarrow>
        ref_view t k = ref_view (ex_owned_world ''k'') k) \<and>
     (\<exists>sec'. ref_view t (secret_key (ex_owned_credential ''k'')) = Some (OSecret sec') \<and>
        map_at (Data sec') ''k'' = ''s3cr3t'')"
proof -
  have k: "SecretKey (cred_Spec (ex_owned_credential ''k'')) = ''k''"
    by (simp add: ex_owned_credential_def SecretKey_def ObjectMeta.extend_def new_meta_def)
  show ?thesis
  proof (cases "run_state (CredentialReconcile ref_reconciler (''data'', ''lakefs-cred-ak1'')) (ex_owned_world ''k'')")
    case (Pair res t)
    note kept = secret_key_kept [OF ref_rec.controllers_axioms, OF ex_owned_view(1) [of "''k''"], unfolded Pair prod.case k]
    have "\<exists>sec'. ref_view t (secret_key (ex_owned_credential ''k'')) = Some (OSecret sec') \<and> map_at (Data sec') ''k'' = ''s3cr3t''"
      using kept [THEN conjunct2, THEN conjunct2, rule_format, OF ex_owned_view(3)] by simp
    with kept show ?thesis unfolding Pair prod.case by (intro conjI) blast+
  qed
qed

text \<open>
  C35. A credential that names \<open>accessKeyId\<close> as the key of its secret key makes its access key the secret key. Let it
  be stored with an access key, usable, its user stored, its secret stored and not refused to it as owner.
  Then, with reliable calls, reconciling it succeeds and reports it ready, and whatever secret key the secret held before,
  it now holds the access key, which is public: whoever knows the access key can authenticate with it.
\<close>

theorem secret_key_published:
  assumes "controllers_ok r view T1 T2" and "view s (KCredential, req) = Some (OCredential c)"
    and "view s (secret_key c) = Some (OSecret sec)" and "can_own r c sec"
    and "SecretKey (cred_Spec c) = ''accessKeyId''" and "cs_AccessKeyID (cred_Spec c) \<noteq> ''''"
    and "usable T2 c" and "view s (KUser, Namespace c, ur_Name (cs_UserRef (cred_Spec c))) = Some (OUser u)"
  shows "case run_state (CredentialReconcile r req) s of (res, t) \<Rightarrow> res = Reconciled noRequeue None \<and>
     (\<exists>d sec'. view t (KCredential, req) = Some (OCredential d) \<and> cred_Spec d = cred_Spec c \<and> Ready (OCredential d) \<and>
        view t (secret_key c) = Some (OSecret sec') \<and>
        map_at (Data sec') (SecretKey (cred_Spec c)) = cs_AccessKeyID (cred_Spec c))"
  by (rule controllers_ok.wp_secret_published [OF assms, unfolded wp_def])

lemma ex_owned_simps:
  "SecretKey (cred_Spec (ex_owned_credential ''accessKeyId'')) = ''accessKeyId''"
  "cs_AccessKeyID (cred_Spec (ex_owned_credential k)) = ''AK1''" "usable T (ex_owned_credential k)"
  "Namespace (ex_owned_credential k) = ''data''" "ur_Name (cs_UserRef (cred_Spec (ex_owned_credential k))) = ''alice''"
  by (simp_all add: ex_owned_credential_def SecretKey_def usable_def ObjectMeta.extend_def new_meta_def)

theorem secret_key_published_witness:
  "case run_state (CredentialReconcile ref_reconciler (''data'', ''lakefs-cred-ak1'')) (ex_owned_world ''accessKeyId'') of
     (res, t) \<Rightarrow> res = Reconciled noRequeue None \<and>
     (\<exists>d sec'. ref_view t (KCredential, ''data'', ''lakefs-cred-ak1'') = Some (OCredential d) \<and>
        cred_Spec d = cred_Spec (ex_owned_credential ''accessKeyId'') \<and> Ready (OCredential d) \<and>
        ref_view t (secret_key (ex_owned_credential ''accessKeyId'')) = Some (OSecret sec') \<and>
        map_at (Data sec') ''accessKeyId'' = ''AK1'')"
proof -
  have "can_own ref_reconciler (ex_owned_credential k) (new_secret ''ak1'' ''data'' None m)" for k m
    by (simp add: can_own_def ref_lib_def ref_SetControllerReference_def new_secret_def ObjectMeta.extend_def new_meta_def
        ObjectMeta.truncate_def)
  note own = this
  show ?thesis
    using secret_key_published [OF ref_rec.controllers_ok_axioms, OF ex_owned_view(1) ex_owned_view(3) own ex_owned_simps(1)]
      ex_owned_view(2) [of "''accessKeyId''"]
    unfolding ex_owned_simps by (simp add: ex_owned_simps(3))
qed

end
