(* ===== verification/LakefsClient.thy ===== *)
theory LakefsClient
  imports AuthTypes RefStore
begin

section \<open>The client of the lakeFS API (internal/lakefs/client.go)\<close>

text \<open>
  How the repository controller talks to lakeFS. \<open>net/http\<close> is the environment: the record \<open>Http\<close>
  holds \<open>(*http.Client).Do\<close>, a function from the request to a response or an error. The errors of
  \<open>http.NewRequestWithContext\<close>, which the source returns in the same way, are among its errors. A
  request body is the JSON value that \<open>json.Marshal\<close> prints, a response body the bytes that
  \<open>io.ReadAll\<close> delivers. The locale \<open>lakefs_api\<close> states what the lakeFS API promises about its
  repositories; what the client's functions achieve is proved in it.
\<close>

subsection \<open>Requests and responses\<close>

record HttpRequest =
  rq_Method :: string
  rq_URL :: string
  rq_Body :: "json option"
  rq_ContentType :: "string option"
  rq_BasicAuth :: "(string \<times> string) option"

record HttpResponse =
  rs_StatusCode :: nat
  rs_Body :: string

record 's Http =
  hc_Do :: "HttpRequest \<Rightarrow> ('s, (string, HttpResponse) result) state"

record 's LakefsClient =
  lc_endpoint :: string
  lc_accessKeyID :: string
  lc_secretAccessKey :: string
  lc_httpClient :: "'s Http"

record RepositorySpec =
  sp_Name :: string
  sp_StorageNamespace :: string
  sp_DefaultBranch :: string
  sp_SampleData :: bool

record GCRule =
  gl_BranchID :: string
  gl_RetentionDays :: int

record GCRules =
  gr_DefaultRetentionDays :: int
  gr_Branches :: "GCRule list"

subsection \<open>URLs\<close>

text \<open>
  \<open>url.PathEscape\<close>: every byte but the unreserved characters of RFC 3986 and \<open>$ & + : = @\<close> is
  written as a percent sign and two hexadecimal digits.
\<close>

definition unescaped :: "char \<Rightarrow> bool" where
  "unescaped c \<longleftrightarrow>
     (let n = of_char c :: nat in
      97 \<le> n \<and> n \<le> 122 \<or> 65 \<le> n \<and> n \<le> 90 \<or> 48 \<le> n \<and> n \<le> 57) \<or> c \<in> set ''-_.~$&+:=@''"

definition hex_upper :: "nat \<Rightarrow> char" where
  "hex_upper n = ''0123456789ABCDEF'' ! n"

definition escape_byte :: "char \<Rightarrow> string" where
  "escape_byte c =
     (if unescaped c then [c]
      else [CHR ''%'', hex_upper (of_char c div 16), hex_upper (of_char c mod 16)])"

definition PathEscape :: "string \<Rightarrow> string" where
  "PathEscape s = concat (map escape_byte s)"

definition repositoryURL :: "'s LakefsClient \<Rightarrow> string \<Rightarrow> string" where
  "repositoryURL c name = lc_endpoint c @ ''/api/v1/repositories/'' @ PathEscape name"

definition repositoriesURL :: "'s LakefsClient \<Rightarrow> string" where
  "repositoriesURL c = lc_endpoint c @ ''/api/v1/repositories?bare=false''"

subsection \<open>The client\<close>

text \<open>\<open>NewClient\<close>; \<open>defaultClient\<close> is \<open>http.DefaultClient\<close>.\<close>

definition NewClient :: "'s Http \<Rightarrow> string \<Rightarrow> string \<Rightarrow> string \<Rightarrow> 's Http option \<Rightarrow> 's LakefsClient" where
  "NewClient defaultClient endpoint accessKeyID secretAccessKey httpClient =
     \<lparr>lc_endpoint = TrimRight endpoint ''/'', lc_accessKeyID = accessKeyID,
      lc_secretAccessKey = secretAccessKey,
      lc_httpClient = (case httpClient of None \<Rightarrow> defaultClient | Some h \<Rightarrow> h)\<rparr>"

definition authorize :: "'s LakefsClient \<Rightarrow> HttpRequest \<Rightarrow> HttpRequest" where
  "authorize c req = req\<lparr>rq_BasicAuth := Some (lc_accessKeyID c, lc_secretAccessKey c)\<rparr>"

definition newRequest :: "string \<Rightarrow> string \<Rightarrow> json option \<Rightarrow> HttpRequest" where
  "newRequest method url body =
     \<lparr>rq_Method = method, rq_URL = url, rq_Body = body, rq_ContentType = None, rq_BasicAuth = None\<rparr>"

text \<open>\<open>responseError\<close>: at most 4096 bytes of the body are told.\<close>

definition responseError :: "string \<Rightarrow> HttpResponse \<Rightarrow> string" where
  "responseError message resp =
     (let detail = TrimSpace (take 4096 (rs_Body resp)) in
      if detail = '''' then message @ '' with HTTP '' @ Sprint (int (rs_StatusCode resp))
      else message @ '' with HTTP '' @ Sprint (int (rs_StatusCode resp)) @ '': '' @ detail)"

text \<open>What \<open>json.Marshal\<close> makes of the map of a new repository (keys sorted) and of the rules.\<close>

definition repositoryBody :: "RepositorySpec \<Rightarrow> json" where
  "repositoryBody repository = JObject
     [(''default_branch'', JString (sp_DefaultBranch repository)),
      (''name'', JString (sp_Name repository)),
      (''sample_data'', JBool (sp_SampleData repository)),
      (''storage_namespace'', JString (sp_StorageNamespace repository))]"

definition rulesBody :: "GCRules \<Rightarrow> json" where
  "rulesBody rules = JObject
     [(''default_retention_days'', JNumber (Sprint (gr_DefaultRetentionDays rules))),
      (''branches'', JArray (map (\<lambda>b. JObject
         [(''branch_id'', JString (gl_BranchID b)),
          (''retention_days'', JNumber (Sprint (gl_RetentionDays b)))]) (gr_Branches rules)))]"

text \<open>The functions return the error, if any.\<close>

definition repositoryExists :: "'s LakefsClient \<Rightarrow> string \<Rightarrow> ('s, (string, bool) result) state" where
  "repositoryExists c name = do {
     let req = authorize c (newRequest ''GET'' (repositoryURL c name) None);
     resp \<leftarrow> hc_Do (lc_httpClient c) req;
     return (case resp of
         Inl err \<Rightarrow> Inl err
       | Inr resp \<Rightarrow>
           if rs_StatusCode resp = 200 then Inr True
           else if rs_StatusCode resp = 404 then Inr False
           else Inl (responseError ''lakeFS repository lookup failed'' resp)) }"

definition createRepository :: "'s LakefsClient \<Rightarrow> RepositorySpec \<Rightarrow> ('s, string option) state" where
  "createRepository c repository = do {
     let body = repositoryBody repository;
     let req = newRequest ''POST'' (repositoriesURL c) (Some body);
     let req = authorize c (req\<lparr>rq_ContentType := Some ''application/json''\<rparr>);
     resp \<leftarrow> hc_Do (lc_httpClient c) req;
     return (case resp of
         Inl err \<Rightarrow> Some err
       | Inr resp \<Rightarrow>
           if rs_StatusCode resp \<in> {200, 201, 409} then None
           else Some (responseError ''lakeFS repository create failed'' resp)) }"

definition EnsureRepository :: "'s LakefsClient \<Rightarrow> RepositorySpec \<Rightarrow> ('s, string option) state" where
  "EnsureRepository c repository = do {
     exists \<leftarrow> repositoryExists c (sp_Name repository);
     (case exists of
        Inl err \<Rightarrow> return (Some err)
      | Inr exists \<Rightarrow> if exists then return None else createRepository c repository) }"

definition SetGCRules :: "'s LakefsClient \<Rightarrow> string \<Rightarrow> GCRules \<Rightarrow> ('s, string option) state" where
  "SetGCRules c repository rules = do {
     let body = rulesBody rules;
     let req = newRequest ''PUT'' (repositoryURL c repository @ ''/settings/gc_rules'') (Some body);
     let req = authorize c (req\<lparr>rq_ContentType := Some ''application/json''\<rparr>);
     resp \<leftarrow> hc_Do (lc_httpClient c) req;
     return (case resp of
         Inl err \<Rightarrow> Some err
       | Inr resp \<Rightarrow>
           if rs_StatusCode resp \<in> {200, 204} then None
           else Some (responseError ''lakeFS GC rules update failed'' resp)) }"

definition DeleteRepository :: "'s LakefsClient \<Rightarrow> string \<Rightarrow> ('s, string option) state" where
  "DeleteRepository c name = do {
     let req = authorize c (newRequest ''DELETE'' (repositoryURL c name @ ''?force=true'') None);
     resp \<leftarrow> hc_Do (lc_httpClient c) req;
     return (case resp of
         Inl err \<Rightarrow> Some err
       | Inr resp \<Rightarrow>
           if rs_StatusCode resp \<in> {204, 404} then None
           else Some (responseError ''lakeFS repository delete failed'' resp)) }"

subsection \<open>Different repositories have different URLs\<close>

definition hex_val :: "char \<Rightarrow> nat" where
  "hex_val c = (let n = of_char c in if n \<le> 57 then n - 48 else n - 55)"

text \<open>\<open>url.PathUnescape\<close> on the output of \<open>PathEscape\<close>.\<close>

fun PathUnescape :: "string \<Rightarrow> string" where
  "PathUnescape [] = []"
| "PathUnescape (c # cs) =
     (if c = CHR ''%'' then
        (case cs of
           a # b # r \<Rightarrow> char_of (16 * hex_val a + hex_val b) # PathUnescape r
         | _ \<Rightarrow> [])
      else c # PathUnescape cs)"

lemma hex_upper_val: "n < 16 \<Longrightarrow> hex_val (hex_upper n) = n \<and> hex_upper n \<noteq> CHR ''/'' \<and> hex_upper n \<noteq> CHR ''%''"
proof -
  have "\<forall>n \<in> set [0..<16]. hex_val (hex_upper n) = n \<and> hex_upper n \<noteq> CHR ''/'' \<and> hex_upper n \<noteq> CHR ''%''"
    by code_simp
  then show "n < 16 \<Longrightarrow> ?thesis" by simp
qed

lemma unescaped_percent [simp]: "\<not> unescaped CHR ''%''" "\<not> unescaped CHR ''/''"
  by (simp_all add: unescaped_def)

lemma byte_nibbles: "(of_char c :: nat) div 16 < 16" "(of_char c :: nat) mod 16 < 16"
  using nat_of_char_less_256 [of c] by (simp_all add: less_mult_imp_div_less)

lemma PathUnescape_escape: "PathUnescape (escape_byte c @ s) = c # PathUnescape s"
proof (cases "unescaped c")
  case True
  then have "c \<noteq> CHR ''%''" by auto
  with True show ?thesis by (simp add: escape_byte_def)
next
  case False
  with byte_nibbles [of c] show ?thesis by (simp add: escape_byte_def hex_upper_val)
qed

lemma PathUnescape_PathEscape: "PathUnescape (PathEscape s) = s"
  unfolding PathEscape_def by (induction s) (simp_all add: PathUnescape_escape)

lemma slash_PathEscape: "CHR ''/'' \<notin> set (PathEscape s)"
proof -
  have "CHR ''/'' \<notin> set (escape_byte c)" for c
  proof (cases "unescaped c")
    case True
    then have "c \<noteq> CHR ''/''" by auto
    with True show ?thesis by (simp add: escape_byte_def)
  next
    case False
    with byte_nibbles [of c, THEN hex_upper_val] show ?thesis by (auto simp: escape_byte_def)
  qed
  then show ?thesis by (auto simp: PathEscape_def)
qed

lemma last_segment:
  assumes "x @ c # u = y @ c # v" and "c \<notin> set u" and "c \<notin> set v"
  shows "x = y \<and> u = v"
proof -
  have take: "takeWhile (\<lambda>d. d \<noteq> c) (rev (x @ c # u)) = rev u" if "c \<notin> set u" for x u
  proof -
    have "takeWhile (\<lambda>d. d \<noteq> c) (rev u @ c # rev x) = rev u @ takeWhile (\<lambda>d. d \<noteq> c) (c # rev x)"
      by (rule takeWhile_append2) (use that in auto)
    then show ?thesis by simp
  qed
  have "rev u = rev v" using take [OF assms(2), of x] take [OF assms(3), of y] assms(1) by metis
  with assms(1) show ?thesis by simp
qed

definition repositories_path :: string where
  "repositories_path = ''/api/v1/repositories''"

lemma repositoryURL_parts: "repositoryURL c name = (lc_endpoint c @ repositories_path) @ CHR ''/'' # PathEscape name"
  by (simp add: repositoryURL_def repositories_path_def)

text \<open>
  C25. Different repositories never share a URL: the URL of a repository determines the endpoint and
  the name, whatever bytes the name has.
\<close>

theorem repository_url_injective:
  "repositoryURL c n = repositoryURL d m \<longleftrightarrow> lc_endpoint c = lc_endpoint d \<and> n = m"
  (is "?eq \<longleftrightarrow> ?same")
proof
  assume ?eq
  then have "lc_endpoint c @ repositories_path = lc_endpoint d @ repositories_path \<and> PathEscape n = PathEscape m"
    unfolding repositoryURL_parts by (rule last_segment [OF _ slash_PathEscape slash_PathEscape])
  then show ?same using PathUnescape_PathEscape by (metis append_same_eq)
qed (simp add: repositoryURL_def)

subsection \<open>What the lakeFS API promises\<close>

text \<open>
  The repositories a lakeFS server holds, by their URL. The law describes the four requests the
  client makes: what a status says of the repositories, and that an answer that is none of the
  documented ones, or no answer at all, leaves open whether the request was served. \<open>view\<close> stands
  for what requests to lakeFS do not touch, the objects of the Kubernetes API.
\<close>

record lakeRepo =
  lr_StorageNamespace :: string
  lr_DefaultBranch :: string
  lr_SampleData :: bool
  lr_GCRules :: "json option"

definition fresh_repo :: "RepositorySpec \<Rightarrow> lakeRepo" where
  "fresh_repo spec = \<lparr>lr_StorageNamespace = sp_StorageNamespace spec, lr_DefaultBranch = sp_DefaultBranch spec,
     lr_SampleData = sp_SampleData spec, lr_GCRules = None\<rparr>"

definition status_in :: "(string, HttpResponse) result \<Rightarrow> nat set \<Rightarrow> bool" where
  "status_in res S \<longleftrightarrow> (case res of Inl _ \<Rightarrow> False | Inr resp \<Rightarrow> rs_StatusCode resp \<in> S)"

definition repository_url :: "string \<Rightarrow> string \<Rightarrow> string" where
  "repository_url endpoint name = endpoint @ ''/api/v1/repositories/'' @ PathEscape name"

definition served_get where
  "served_get url v res v' \<longleftrightarrow> v' = v \<and>
     (status_in res {200} \<longrightarrow> v url \<noteq> None) \<and> (status_in res {404} \<longrightarrow> v url = None)"

definition served_post where
  "served_post endpoint spec v res v' \<longleftrightarrow>
     (let url = repository_url endpoint (sp_Name spec); created = v url = None \<and> v' = v(url \<mapsto> fresh_repo spec) in
      if status_in res {200, 201} then created
      else if status_in res {409} then v url \<noteq> None \<and> v' = v
      else v' = v \<or> created)"

definition served_rules where
  "served_rules url rules v res v' \<longleftrightarrow>
     (let set = (\<exists>x. v url = Some x \<and> v' = v(url \<mapsto> x\<lparr>lr_GCRules := Some rules\<rparr>)) in
      if status_in res {200, 204} then set else v' = v \<or> set)"

definition served_delete where
  "served_delete url v res v' \<longleftrightarrow>
     (if status_in res {204} then v' = v(url := None)
      else if status_in res {404} then v url = None \<and> v' = v
      else v' = v \<or> v' = v(url := None))"

locale lakefs_api =
  fixes http :: "'s Http" and repos :: "'s \<Rightarrow> string \<rightharpoonup> lakeRepo" and view :: "'s \<Rightarrow> 'v"
  assumes get_served: "rq_Method rq = ''GET'' \<Longrightarrow>
      wp (hc_Do http rq) (\<lambda>res t. view t = view s \<and> served_get (rq_URL rq) (repos s) res (repos t)) s"
    and post_served: "rq_Method rq = ''POST'' \<Longrightarrow> rq_URL rq = endpoint @ ''/api/v1/repositories?bare=false'' \<Longrightarrow>
      rq_Body rq = Some (repositoryBody spec) \<Longrightarrow>
      wp (hc_Do http rq) (\<lambda>res t. view t = view s \<and> served_post endpoint spec (repos s) res (repos t)) s"
    and rules_served: "rq_Method rq = ''PUT'' \<Longrightarrow> rq_URL rq = url @ ''/settings/gc_rules'' \<Longrightarrow>
      rq_Body rq = Some rules \<Longrightarrow>
      wp (hc_Do http rq) (\<lambda>res t. view t = view s \<and> served_rules url rules (repos s) res (repos t)) s"
    and delete_served: "rq_Method rq = ''DELETE'' \<Longrightarrow> rq_URL rq = url @ ''?force=true'' \<Longrightarrow>
      wp (hc_Do http rq) (\<lambda>res t. view t = view s \<and> served_delete url (repos s) res (repos t)) s"

text \<open>A server that answers, with the documented statuses.\<close>

locale lakefs_up = lakefs_api +
  assumes get_up: "rq_Method rq = ''GET'' \<Longrightarrow> wp (hc_Do http rq) (\<lambda>res _. status_in res {200, 404}) s"
    and post_up: "rq_Method rq = ''POST'' \<Longrightarrow> wp (hc_Do http rq) (\<lambda>res _. status_in res {201, 409}) s"
    and rules_up: "rq_Method rq = ''PUT'' \<Longrightarrow> rq_URL rq = url @ ''/settings/gc_rules'' \<Longrightarrow> repos s url \<noteq> None \<Longrightarrow>
      wp (hc_Do http rq) (\<lambda>res _. status_in res {204}) s"
    and delete_up: "rq_Method rq = ''DELETE'' \<Longrightarrow> wp (hc_Do http rq) (\<lambda>res _. status_in res {204, 404}) s"

lemma authorize_simps [simp]:
  "rq_Method (authorize c rq) = rq_Method rq" "rq_URL (authorize c rq) = rq_URL rq" "rq_Body (authorize c rq) = rq_Body rq"
  by (simp_all add: authorize_def)

lemma newRequest_simps [simp]:
  "rq_Method (newRequest m u b) = m" "rq_URL (newRequest m u b) = u" "rq_Body (newRequest m u b) = b"
  by (simp_all add: newRequest_def)

lemma repositoryURL_url: "repositoryURL c name = repository_url (lc_endpoint c) name"
  by (simp add: repositoryURL_def repository_url_def)

lemma status_in_simps [simp]:
  "status_in (Inl e) S \<longleftrightarrow> False" "status_in (Inr resp) S \<longleftrightarrow> rs_StatusCode resp \<in> S"
  by (simp_all add: status_in_def)

text \<open>What the client's functions achieve, and that an error is reported when it may not have.\<close>

definition ensured_repo :: "string \<Rightarrow> RepositorySpec \<Rightarrow> (string \<rightharpoonup> lakeRepo) \<Rightarrow> string option \<Rightarrow> (string \<rightharpoonup> lakeRepo) \<Rightarrow> bool" where
  "ensured_repo url spec v err v' \<longleftrightarrow> (err = None \<longrightarrow> v' url \<noteq> None) \<and>
     (v' = v \<or> v url = None \<and> v' = v(url \<mapsto> fresh_repo spec))"

definition rules_set :: "string \<Rightarrow> json \<Rightarrow> (string \<rightharpoonup> lakeRepo) \<Rightarrow> string option \<Rightarrow> (string \<rightharpoonup> lakeRepo) \<Rightarrow> bool" where
  "rules_set url rules v err v' \<longleftrightarrow>
     (err \<noteq> None \<and> v' = v \<or> (\<exists>x. v url = Some x \<and> v' = v(url \<mapsto> x\<lparr>lr_GCRules := Some rules\<rparr>)))"

definition deleted_repo :: "string \<Rightarrow> (string \<rightharpoonup> lakeRepo) \<Rightarrow> 'e option \<Rightarrow> (string \<rightharpoonup> lakeRepo) \<Rightarrow> bool" where
  "deleted_repo url v err v' \<longleftrightarrow> (err = None \<longrightarrow> v' url = None) \<and> (v' = v \<or> v' = v(url := None))"

lemma deleted_repo_failed [simp]: "deleted_repo url v (Some e) v"
  by (simp add: deleted_repo_def)

lemma deleted_repo_map [simp]: "deleted_repo url v (map_option f err) v' \<longleftrightarrow> deleted_repo url v err v'"
  by (simp add: deleted_repo_def)

lemma ensured_repo_same: "ensured_repo url spec v err v \<longleftrightarrow> (err = None \<longrightarrow> v url \<noteq> None)"
  by (auto simp: ensured_repo_def)

lemma served_post_ensured:
  assumes "served_post endpoint spec v res v'"
    and "err = None \<Longrightarrow> status_in res {200, 201, 409}"
  shows "ensured_repo (repository_url endpoint (sp_Name spec)) spec v err v'"
proof -
  let ?url = "repository_url endpoint (sp_Name spec)"
  consider "v ?url = None" "v' = v(?url \<mapsto> fresh_repo spec)"
    | "v ?url \<noteq> None" "v' = v" | "v' = v" "\<not> status_in res {200, 201, 409}"
    using assms(1) unfolding served_post_def Let_def status_in_def
    by (auto split: if_splits sum.splits)
  then show ?thesis using assms(2) unfolding ensured_repo_def by cases auto
qed

context lakefs_api
begin

lemma wp_repositoryExists:
  assumes "lc_httpClient c = http"
  shows "wp (repositoryExists c name) (\<lambda>res t. view t = view s \<and> repos t = repos s \<and>
     (\<forall>b. res = Inr b \<longrightarrow> (b \<longleftrightarrow> repos s (repositoryURL c name) \<noteq> None))) s"
  unfolding repositoryExists_def Let_def wp_bind assms
  by (rule wp_mono [OF get_served]) (auto simp: served_get_def split: sum.split)

lemma wp_createRepository:
  assumes "lc_httpClient c = http"
  shows "wp (createRepository c spec) (\<lambda>err t. view t = view s \<and>
     ensured_repo (repositoryURL c (sp_Name spec)) spec (repos s) err (repos t)) s"
  unfolding createRepository_def Let_def wp_bind assms
  by (rule wp_mono [OF post_served [where endpoint = "lc_endpoint c" and spec = spec]], simp_all only: wp_return)
    (auto simp only: repositoryURL_url intro!: served_post_ensured,
      auto simp: repositoriesURL_def status_in_def split: sum.splits if_splits)

lemma wp_EnsureRepository:
  assumes http: "lc_httpClient c = http"
  shows "wp (EnsureRepository c spec) (\<lambda>err t. view t = view s \<and>
     ensured_repo (repositoryURL c (sp_Name spec)) spec (repos s) err (repos t)) s"
  unfolding EnsureRepository_def wp_bind
proof (rule wp_mono [OF wp_repositoryExists [OF http]])
  fix res :: "(string, bool) result" and t
  assume res: "view t = view s \<and> repos t = repos s \<and>
     (\<forall>b. res = Inr b \<longrightarrow> (b \<longleftrightarrow> repos s (repositoryURL c (sp_Name spec)) \<noteq> None))"
  have "wp (createRepository c spec) (\<lambda>err u. view u = view s \<and>
     ensured_repo (repositoryURL c (sp_Name spec)) spec (repos s) err (repos u)) t"
    using wp_createRepository [OF http, of spec t] res by simp
  with res show "wp (case res of Inl err \<Rightarrow> return (Some err)
      | Inr exists \<Rightarrow> if exists then return None else createRepository c spec)
    (\<lambda>err u. view u = view s \<and>
     ensured_repo (repositoryURL c (sp_Name spec)) spec (repos s) err (repos u)) t"
    by (cases res) (simp_all add: ensured_repo_same)
qed

lemma wp_SetGCRules:
  assumes "lc_httpClient c = http"
  shows "wp (SetGCRules c name rules) (\<lambda>err t. view t = view s \<and>
     rules_set (repositoryURL c name) (rulesBody rules) (repos s) err (repos t)) s"
  unfolding SetGCRules_def Let_def wp_bind assms
  by (rule wp_mono [OF rules_served [where url = "repositoryURL c name"]])
    (auto simp: served_rules_def rules_set_def Let_def split: sum.split if_splits)

lemma wp_DeleteRepository:
  assumes "lc_httpClient c = http"
  shows "wp (DeleteRepository c name) (\<lambda>err t. view t = view s \<and>
     deleted_repo (repositoryURL c name) (repos s) err (repos t)) s"
  unfolding DeleteRepository_def Let_def wp_bind assms
  by (rule wp_mono [OF delete_served [where url = "repositoryURL c name"]])
    (auto simp: served_delete_def deleted_repo_def Let_def split: sum.split if_splits)

end

context lakefs_up
begin

lemma wp_repositoryExists_up:
  assumes "lc_httpClient c = http"
  shows "wp (repositoryExists c name) (\<lambda>res t. \<exists>b. res = Inr b) s"
  unfolding repositoryExists_def Let_def wp_bind assms
  by (rule wp_mono [OF get_up]) (auto simp: status_in_def split: sum.splits)

lemma wp_EnsureRepository_up:
  assumes "lc_httpClient c = http"
  shows "wp (EnsureRepository c spec) (\<lambda>err t. err = None) s"
  unfolding EnsureRepository_def createRepository_def Let_def wp_bind
  by (rule wp_mono [OF wp_repositoryExists_up [OF assms]])
    (auto simp: assms status_in_def intro!: wp_mono [OF post_up] split: sum.splits)

lemma wp_SetGCRules_up:
  assumes "lc_httpClient c = http" and "repos s (repositoryURL c name) \<noteq> None"
  shows "wp (SetGCRules c name rules) (\<lambda>err t. err = None) s"
  unfolding SetGCRules_def Let_def wp_bind assms(1)
  by (rule wp_mono [OF rules_up [OF _ _ assms(2)]]) (auto simp: status_in_def split: sum.splits)

lemma wp_DeleteRepository_up:
  assumes "lc_httpClient c = http"
  shows "wp (DeleteRepository c name) (\<lambda>err t. err = None) s"
  unfolding DeleteRepository_def Let_def wp_bind assms
  by (rule wp_mono [OF delete_up]) (auto simp: status_in_def split: sum.splits)

end

subsection \<open>A concrete lakeFS server\<close>

text \<open>
  A server that keeps the promises, beside the concrete API server of RefStore. It is not part of
  the program; it shows that the hypotheses can hold.
\<close>

record lake_world = world +
  w_lake :: "string \<rightharpoonup> lakeRepo"

type_synonym 'z lw = "'z lake_world_scheme"

definition strip_suffix :: "string \<Rightarrow> string \<Rightarrow> string" where
  "strip_suffix suf x = take (length x - length suf) x"

lemma strip_suffix_append [simp]: "strip_suffix suf (x @ suf) = x"
  by (simp add: strip_suffix_def)

definition json_string :: "(string \<times> json) list \<Rightarrow> string \<Rightarrow> string" where
  "json_string fs key = (case map_of fs key of Some (JString x) \<Rightarrow> x | _ \<Rightarrow> '''')"

definition ref_spec :: "json option \<Rightarrow> RepositorySpec" where
  "ref_spec body = (let fs = (case body of Some (JObject fs) \<Rightarrow> fs | _ \<Rightarrow> []) in
     \<lparr>sp_Name = json_string fs ''name'', sp_StorageNamespace = json_string fs ''storage_namespace'',
      sp_DefaultBranch = json_string fs ''default_branch'', sp_SampleData = (map_of fs ''sample_data'' = Some (JBool True))\<rparr>)"

lemma ref_spec_body [simp]: "ref_spec (Some (repositoryBody spec)) = spec"
  by (simp add: ref_spec_def repositoryBody_def json_string_def)

definition ref_Do :: "HttpRequest \<Rightarrow> ('z lw, (string, HttpResponse) result) state" where
  "ref_Do rq = State (\<lambda>s.
     let answer = (\<lambda>code. Inr \<lparr>rs_StatusCode = code, rs_Body = ''''\<rparr>); lake = w_lake s in
     if rq_Method rq = ''GET'' then (answer (if lake (rq_URL rq) = None then 404 else 200), s)
     else if rq_Method rq = ''DELETE'' then
       (let url = strip_suffix ''?force=true'' (rq_URL rq) in
        if lake url = None then (answer 404, s) else (answer 204, s\<lparr>w_lake := lake(url := None)\<rparr>))
     else if rq_Method rq = ''PUT'' then
       (let url = strip_suffix ''/settings/gc_rules'' (rq_URL rq) in
        case lake url of
          None \<Rightarrow> (answer 404, s)
        | Some x \<Rightarrow> (answer 204, s\<lparr>w_lake := lake(url \<mapsto> x\<lparr>lr_GCRules := rq_Body rq\<rparr>)\<rparr>))
     else
       (let spec = ref_spec (rq_Body rq);
            url = repository_url (strip_suffix ''/api/v1/repositories?bare=false'' (rq_URL rq)) (sp_Name spec) in
        if lake url = None then (answer 201, s\<lparr>w_lake := lake(url \<mapsto> fresh_repo spec)\<rparr>) else (answer 409, s)))"

definition ref_http :: "'z lw Http" where
  "ref_http = \<lparr>hc_Do = ref_Do\<rparr>"

lemma ref_view_lake [simp]: "ref_view (s\<lparr>w_lake := x\<rparr>) = ref_view s"
  by (simp add: ref_view_def fun_eq_iff)

interpretation ref_lake: lakefs_up ref_http w_lake ref_view
proof
  fix s :: "'z lw" and rq
  show "wp (hc_Do ref_http rq) (\<lambda>res t. ref_view t = ref_view s \<and> served_get (rq_URL rq) (w_lake s) res (w_lake t)) s"
    if "rq_Method rq = ''GET''"
    using that by (simp add: wp_def ref_http_def ref_Do_def served_get_def Let_def)
  show "wp (hc_Do ref_http rq) (\<lambda>res t. ref_view t = ref_view s \<and>
      served_post endpoint spec (w_lake s) res (w_lake t)) s"
    if "rq_Method rq = ''POST''" "rq_URL rq = endpoint @ ''/api/v1/repositories?bare=false''"
      "rq_Body rq = Some (repositoryBody spec)" for endpoint spec
    using that by (simp add: wp_def ref_http_def ref_Do_def served_post_def Let_def del: append.simps)
  show "wp (hc_Do ref_http rq) (\<lambda>res t. ref_view t = ref_view s \<and>
      served_rules url rules (w_lake s) res (w_lake t)) s"
    if "rq_Method rq = ''PUT''" "rq_URL rq = url @ ''/settings/gc_rules''" "rq_Body rq = Some rules" for url rules
    using that by (simp add: wp_def ref_http_def ref_Do_def served_rules_def Let_def split: option.split)
  show "wp (hc_Do ref_http rq) (\<lambda>res t. ref_view t = ref_view s \<and>
      served_delete url (w_lake s) res (w_lake t)) s"
    if "rq_Method rq = ''DELETE''" "rq_URL rq = url @ ''?force=true''" for url
    using that by (simp add: wp_def ref_http_def ref_Do_def served_delete_def Let_def)
  show "wp (hc_Do ref_http rq) (\<lambda>res _. status_in res {200, 404}) s" if "rq_Method rq = ''GET''"
    using that by (simp add: wp_def ref_http_def ref_Do_def Let_def)
  show "wp (hc_Do ref_http rq) (\<lambda>res _. status_in res {201, 409}) s" if "rq_Method rq = ''POST''"
    using that by (simp add: wp_def ref_http_def ref_Do_def Let_def)
  show "wp (hc_Do ref_http rq) (\<lambda>res _. status_in res {204}) s"
    if "rq_Method rq = ''PUT''" "rq_URL rq = url @ ''/settings/gc_rules''" "w_lake s url \<noteq> None" for url
    using that by (auto simp: wp_def ref_http_def ref_Do_def Let_def)
  show "wp (hc_Do ref_http rq) (\<lambda>res _. status_in res {204, 404}) s" if "rq_Method rq = ''DELETE''"
    using that by (simp add: wp_def ref_http_def ref_Do_def Let_def)
qed

end
