(* ===== verification/RepositoryController.thy ===== *)
theory RepositoryController
  imports Reconciling LakefsClient
begin

section \<open>The controller of repositories (internal/controller/lakefsrepository_controller.go)\<close>

text \<open>
  A \<open>LakeFSRepository\<close> stands for a repository in lakeFS and, unless switched off, for the cron job
  that collects its garbage by the rules of a GC policy. The controller creates and deletes the
  lakeFS repository over HTTP (the argument \<open>http\<close> is \<open>http.DefaultClient\<close>), guards the deletion by a
  finalizer, and keeps the rules and the cron job up to date. The file ends with what one
  reconciliation does to the stored objects and to lakeFS.
\<close>

unbundle bit_operations_syntax

subsection \<open>Names and small values\<close>

definition lakeFSRepositoryFinalizer :: string where
  "lakeFSRepositoryFinalizer = ''lakefs-oss-contrib.versioneer.at/repository''"

definition lakeFSGCCronJobNameMaxLength :: nat where
  "lakeFSGCCronJobNameMaxLength = 52"

text \<open>\<open>time.Minute\<close>.\<close>

definition Minute :: time where
  "Minute = 60 * 1000000000"

text \<open>FNV-1a over 32 bits, and \<open>fmt.Sprintf("%08x", ...)\<close> of its sum.\<close>

definition fnv1a_32 :: "string \<Rightarrow> 32 word" where
  "fnv1a_32 name = foldl (\<lambda>hash c. (hash XOR of_char c) * 16777619) 2166136261 name"

definition hex08 :: "32 word \<Rightarrow> string" where
  "hex08 w = map (\<lambda>i. ''0123456789abcdef'' ! unat (drop_bit (4 * i) w AND 15)) (rev [0..<8])"

definition gcCronJobName :: "LakeFSRepository \<Rightarrow> string" where
  "gcCronJobName repository =
     (let name = Name repository @ ''-gc'' in
      if length name \<le> lakeFSGCCronJobNameMaxLength then name
      else let suffix = hex08 (fnv1a_32 name);
               prefixLength = lakeFSGCCronJobNameMaxLength - length suffix - 1
           in take prefixLength name @ ''-'' @ suffix)"

definition gcLabels :: "LakeFSRepository \<Rightarrow> LakeFSGCPolicy \<Rightarrow> string \<rightharpoonup> string" where
  "gcLabels repository policy =
     [''app.kubernetes.io/name'' \<mapsto> ''lakefs-oss-contrib'',
      ''app.kubernetes.io/component'' \<mapsto> ''gc'',
      ''lakefs.versioneer.at/repo-cr'' \<mapsto> Name repository,
      ''lakefs.versioneer.at/gc-policy'' \<mapsto> Name policy]"

definition mergeStringMap :: "gomap \<Rightarrow> (string \<rightharpoonup> string) \<Rightarrow> gomap" where
  "mergeStringMap base overlay = Some ((case base of None \<Rightarrow> Map.empty | Some m \<Rightarrow> m) ++ overlay)"

definition int32PtrValue :: "int option \<Rightarrow> int \<Rightarrow> int option" where
  "int32PtrValue value fallback = (case value of Some v \<Rightarrow> Some v | None \<Rightarrow> Some fallback)"

text \<open>
  \<open>%q\<close>: Go's quoted form of a string of ASCII characters; bytes outside ASCII are left as they are.
\<close>

definition quote_byte :: "char \<Rightarrow> string" where
  "quote_byte c =
     (let n = of_char c :: nat in
      if c = CHR ''\"'' \<or> c = CHR 0x5C then [CHR 0x5C, c]
      else if n = 7 then [CHR 0x5C, CHR ''a''] else if n = 8 then [CHR 0x5C, CHR ''b'']
      else if n = 9 then [CHR 0x5C, CHR ''t''] else if n = 10 then [CHR 0x5C, CHR ''n'']
      else if n = 11 then [CHR 0x5C, CHR ''v''] else if n = 12 then [CHR 0x5C, CHR ''f'']
      else if n = 13 then [CHR 0x5C, CHR ''r'']
      else if n < 32 \<or> n = 127
      then [CHR 0x5C, CHR ''x'', ''0123456789abcdef'' ! (n div 16), ''0123456789abcdef'' ! (n mod 16)]
      else [c])"

definition Quote :: "string \<Rightarrow> string" where
  "Quote s = ''\"'' @ concat (map quote_byte s) @ ''\"''"

subsection \<open>What is derived from the policy\<close>

definition gcRulesFromPolicy :: "LakeFSGCPolicy \<Rightarrow> GCRules" where
  "gcRulesFromPolicy policy =
     \<lparr>gr_DefaultRetentionDays = DefaultRetentionDays policy,
      gr_Branches = map (\<lambda>branch. \<lparr>gl_BranchID = rule_BranchID branch, gl_RetentionDays = rule_RetentionDays branch\<rparr>)
        (ret_Branches (gp_Retention (gcp_Spec policy)))\<rparr>"

text \<open>The policy spec's zero value, and the default policy.\<close>

definition zeroGCPolicySpec :: LakeFSGCPolicySpec where
  "zeroGCPolicySpec =
     \<lparr>gp_Schedule = '''', gp_Suspend = None,
      gp_Retention = \<lparr>ret_DefaultRetentionDays = 0, ret_Branches = []\<rparr>,
      gp_Spark = \<lparr>spark_ClassName = '''', spark_JarURL = '''', spark_Packages = [], spark_Conf = [], spark_Args = []\<rparr>,
      gp_Job = \<lparr>job_Image = '''', job_Command = [], job_ImagePullPolicy = '''', job_ServiceAccountName = '''',
        job_InitContainers = [], job_Env = [], job_EnvFrom = [], job_Resources = '''', job_VolumeMounts = [],
        job_Volumes = [], job_SuccessfulJobsHistoryLimit = None, job_FailedJobsHistoryLimit = None,
        job_BackoffLimit = None, job_TTLSecondsAfterFinished = None\<rparr>\<rparr>"

definition defaultGCPolicy :: "string \<Rightarrow> LakeFSGCPolicy" where
  "defaultGCPolicy namespace = ObjectMeta.extend (new_meta DefaultGCPolicyName namespace)
     \<lparr>gcp_Spec = zeroGCPolicySpec\<lparr>gp_Schedule := DefaultGCSchedule,
        gp_Retention := \<lparr>ret_DefaultRetentionDays = DefaultGCRetentionDays, ret_Branches = []\<rparr>\<rparr>,
      gcp_Status = new_status\<rparr>"

definition gcLakeFSEnv :: "LakeFSRepository \<Rightarrow> EnvVar list" where
  "gcLakeFSEnv repository =
     (let ref = rp_CredentialsSecretRef (repo_Spec repository) in
      [\<lparr>ev_Name = ''LAKEFS_ACCESS_KEY'', ev_Value = '''',
        ev_SecretKeyRef = Some \<lparr>sks_Name = rc_Name ref, sks_Key = AccessKeyIDDataKey ref\<rparr>\<rparr>,
       \<lparr>ev_Name = ''LAKEFS_SECRET_ACCESS_KEY'', ev_Value = '''',
        ev_SecretKeyRef = Some \<lparr>sks_Name = rc_Name ref, sks_Key = SecretAccessKeyDataKey ref\<rparr>\<rparr>])"

definition gcInitContainers :: "LakeFSGCPolicy \<Rightarrow> Container list" where
  "gcInitContainers policy =
     map (\<lambda>item. \<lparr>c_Name = ic_Name item, c_Image = ic_Image item, c_ImagePullPolicy = ic_ImagePullPolicy item,
        c_Command = ic_Command item, c_Args = ic_Args item, c_Env = ic_Env item, c_EnvFrom = [],
        c_Resources = '''', c_VolumeMounts = ic_VolumeMounts item\<rparr>)
       (job_InitContainers (gp_Job (gcp_Spec policy)))"

definition gcVolumes :: "LakeFSGCPolicy \<Rightarrow> Volume list" where
  "gcVolumes policy =
     map (\<lambda>item. \<lparr>v_Name = vol_Name item, v_EmptyDir = vol_EmptyDir item\<rparr>) (job_Volumes (gp_Job (gcp_Spec policy)))"

definition gcSparkArgs :: "LakeFSRepository \<Rightarrow> LakeFSGCPolicy \<Rightarrow> string list" where
  "gcSparkArgs repository policy =
     (let args = [''--class'', SparkClassName policy];
          packages = SparkPackages policy;
          args = (if length packages > 0 then args @ [''--packages'', Join packages '','']  else args);
          conf = (if length packages > 0
                  then [\<lparr>conf_Name = ''spark.jars.ivy'', conf_Value = DefaultGCSparkIvyDir\<rparr>] else []);
          lakeFSAPIURL = TrimRight (rp_Endpoint (repo_Spec repository)) ''/'' @ ''/api/v1'';
          conf = conf @
            [\<lparr>conf_Name = ''spark.hadoop.lakefs.api.url'', conf_Value = lakeFSAPIURL\<rparr>,
             \<lparr>conf_Name = ''spark.hadoop.lakefs.api.access_key'', conf_Value = ''$(LAKEFS_ACCESS_KEY)''\<rparr>,
             \<lparr>conf_Name = ''spark.hadoop.lakefs.api.secret_key'', conf_Value = ''$(LAKEFS_SECRET_ACCESS_KEY)''\<rparr>];
          conf = conf @ spark_Conf (gp_Spark (gcp_Spec policy));
          args = args @ concat (map (\<lambda>item. [''-c'', conf_Name item @ ''='' @ conf_Value item]) conf)
      in args @ [SparkJarURL policy, RepositoryName repository] @ spark_Args (gp_Spark (gcp_Spec policy)))"

subsection \<open>The cron job\<close>

definition zeroCronJobSpec :: CronJobSpec where
  "zeroCronJobSpec =
     \<lparr>cj_Schedule = '''', cj_Suspend = None, cj_ConcurrencyPolicy = '''', cj_SuccessfulJobsHistoryLimit = None,
      cj_FailedJobsHistoryLimit = None, cj_JobLabels = None, cj_BackoffLimit = None,
      cj_TTLSecondsAfterFinished = None, cj_PodLabels = None, cj_RestartPolicy = '''',
      cj_ServiceAccountName = '''', cj_InitContainers = [], cj_Volumes = [], cj_Containers = []\<rparr>"

definition new_cronjob :: "string \<Rightarrow> string \<Rightarrow> CronJob" where
  "new_cronjob name namespace = ObjectMeta.extend (new_meta name namespace) \<lparr>cronjob_Spec = zeroCronJobSpec\<rparr>"

text \<open>The function that \<open>ensureGCCronJob\<close> hands to \<open>CreateOrUpdate\<close>.\<close>

definition mutateCronJob ::
  "'s Reconciler \<Rightarrow> LakeFSRepository \<Rightarrow> LakeFSGCPolicy \<Rightarrow> CronJob \<Rightarrow> (string, CronJob) result" where
  "mutateCronJob r repository policy cronJob =
     (case SetControllerReference (rec_Lib r) (ORepository repository) (OCronJob cronJob) of
        Inl err \<Rightarrow> Inl err
      | Inr refs \<Rightarrow>
          (let labels = gcLabels repository policy; job = gp_Job (gcp_Spec policy) in
           Inr (cronJob\<lparr>OwnerReferences := refs,
             Labels := mergeStringMap (Labels cronJob) labels,
             cronjob_Spec := (cronjob_Spec cronJob)
               \<lparr>cj_Schedule := Schedule policy,
                cj_Suspend := gp_Suspend (gcp_Spec policy),
                cj_ConcurrencyPolicy := ''Forbid'',
                cj_SuccessfulJobsHistoryLimit :=
                  int32PtrValue (job_SuccessfulJobsHistoryLimit job) DefaultGCSuccessfulJobs,
                cj_FailedJobsHistoryLimit := int32PtrValue (job_FailedJobsHistoryLimit job) DefaultGCFailedJobs,
                cj_JobLabels := Some labels,
                cj_BackoffLimit := int32PtrValue (job_BackoffLimit job) DefaultGCBackoffLimit,
                cj_TTLSecondsAfterFinished := int32PtrValue (job_TTLSecondsAfterFinished job) DefaultGCTTLSeconds,
                cj_PodLabels := Some labels,
                cj_RestartPolicy := ''OnFailure'',
                cj_ServiceAccountName := job_ServiceAccountName job,
                cj_InitContainers := gcInitContainers policy,
                cj_Volumes := gcVolumes policy,
                cj_Containers :=
                  [\<lparr>c_Name = ''gc'', c_Image = SparkImage policy, c_ImagePullPolicy = job_ImagePullPolicy job,
                    c_Command = SparkCommand policy, c_Args = gcSparkArgs repository policy,
                    c_Env = gcLakeFSEnv repository @ job_Env job, c_EnvFrom = job_EnvFrom job,
                    c_Resources = job_Resources job, c_VolumeMounts = job_VolumeMounts job\<rparr>]\<rparr>\<rparr>)))"

definition ensureGCCronJob ::
  "'s Reconciler \<Rightarrow> LakeFSRepository \<Rightarrow> LakeFSGCPolicy \<Rightarrow> ('s, rerror option) state" where
  "ensureGCCronJob r repository policy =
     (if CredentialsSecretNamespace repository \<noteq> Namespace repository then
        return (Some (Failed (''managed GC requires credentialsSecretRef Secret ''
          @ rc_Name (rp_CredentialsSecretRef (repo_Spec repository))
          @ '' to be in LakeFSRepository namespace '' @ Namespace repository)))
      else CreateOrUpdate (rec_Lib r) (new_cronjob (gcCronJobName repository) (Namespace repository))
        (mutateCronJob r repository policy))"

text \<open>\<open>client.IgnoreNotFound\<close> on the error of \<open>Delete\<close>.\<close>

definition deleteGCCronJob :: "'s Reconciler \<Rightarrow> LakeFSRepository \<Rightarrow> ('s, rerror option) state" where
  "deleteGCCronJob r repository = do {
     deleted \<leftarrow> Delete (rec_Client r) CronJobT (new_cronjob (gcCronJobName repository) (Namespace repository));
     return (case deleted of
         Inl err \<Rightarrow> if IsNotFound err then None else Some (ApiError err)
       | Inr _ \<Rightarrow> None) }"

subsection \<open>The lakeFS client of a repository\<close>

definition repositoryClient ::
  "'s Http \<Rightarrow> 's Reconciler \<Rightarrow> LakeFSRepository \<Rightarrow> ('s, (string, 's LakefsClient) result) state" where
  "repositoryClient http r repository = do {
     let ref = rp_CredentialsSecretRef (repo_Spec repository);
     let secretKey = (CredentialsSecretNamespace repository, rc_Name ref);
     got \<leftarrow> Get (rec_Client r) SecretT secretKey;
     return (case got of
         Inl err \<Rightarrow> Inl (''Credentials Secret '' @ NamespacedName_String secretKey @ '' is not available'')
       | Inr secret \<Rightarrow>
           (let accessKeyID = map_at (Data secret) (AccessKeyIDDataKey ref);
                secretAccessKey = map_at (Data secret) (SecretAccessKeyDataKey ref)
            in if accessKeyID = '''' \<or> secretAccessKey = ''''
               then Inl (''Credentials Secret '' @ NamespacedName_String secretKey @ '' is missing configured keys'')
               else Inr (NewClient http (rp_Endpoint (repo_Spec repository)) accessKeyID secretAccessKey None))) }"

text \<open>The error of \<open>repositoryClient\<close> comes with the condition that tells it.\<close>

definition repositoryClientForStatus ::
  "'s Http \<Rightarrow> 's Reconciler \<Rightarrow> LakeFSRepository \<Rightarrow> ('s, (Condition, 's LakefsClient) result) state" where
  "repositoryClientForStatus http r repository = do {
     c \<leftarrow> repositoryClient http r repository;
     return (case c of
         Inl err \<Rightarrow> Inl (readyCondition ConditionFalse ReasonUnavailable err (Generation repository))
       | Inr c \<Rightarrow> Inr c) }"

subsection \<open>Reconciliation\<close>

definition deleteRepository :: "'s Http \<Rightarrow> 's Reconciler \<Rightarrow> LakeFSRepository \<Rightarrow> ('s, rerror option) state" where
  "deleteRepository http r repository =
     (let repositoryName = RepositoryName repository in
      if repositoryName = '''' then return (Some (Failed ''LakeFSRepository must resolve to a repository name''))
      else if rp_Endpoint (repo_Spec repository) = ''''
      then return (Some (Failed ''LakeFSRepository must set spec.endpoint''))
      else do {
        c \<leftarrow> repositoryClient http r repository;
        (case c of
           Inl err \<Rightarrow> return (Some (Failed err))
         | Inr c \<Rightarrow> do {
             err \<leftarrow> DeleteRepository c repositoryName;
             return (map_option Failed err) }) })"

text \<open>
  The GC policy of a repository: the named one, or the default policy, which is created where it is
  missing; otherwise the condition and the error to report.
\<close>

definition findGCPolicy ::
  "'s Reconciler \<Rightarrow> LakeFSRepository \<Rightarrow> ('s, (Condition \<times> rerror option, LakeFSGCPolicy) result) state" where
  "findGCPolicy r repository = do {
     let condition = (\<lambda>reason message. readyCondition ConditionFalse reason message (Generation repository));
     got \<leftarrow> Get (rec_Client r) GCPolicyT (Namespace repository, GCPolicyName repository);
     (case got of
        Inr policy \<Rightarrow> return (Inr policy)
      | Inl err \<Rightarrow>
          if IsNotFound err then
            if GCPolicyName repository = DefaultGCPolicyName then do {
              created \<leftarrow> Create (rec_Client r) GCPolicyT (defaultGCPolicy (Namespace repository));
              return (case created of
                  Inr policy \<Rightarrow> Inr policy
                | Inl createErr \<Rightarrow>
                    if \<not> IsAlreadyExists createErr
                    then Inl (condition ReasonUnavailable ''default LakeFSGCPolicy could not be created'',
                           Some (ApiError createErr))
                    else Inl (condition ReasonUnavailable ''default LakeFSGCPolicy is being created'', None)) }
            else return (Inl (condition ReasonInvalid (''LakeFSGCPolicy '' @ Quote (GCPolicyName repository)
              @ '' is not available in namespace '' @ Quote (Namespace repository)), None))
          else return (Inl (condition ReasonUnavailable ''LakeFSGCPolicy could not be read'', Some (ApiError err)))) }"

text \<open>
  \<open>ensureRepository\<close>: what follows once the policy is found, what follows once lakeFS holds the
  repository, and the whole.
\<close>

definition ensureGCByPolicy ::
  "'s Reconciler \<Rightarrow> 's LakefsClient \<Rightarrow> LakeFSRepository \<Rightarrow> LakeFSGCPolicy \<Rightarrow> ('s, Condition \<times> rerror option) state" where
  "ensureGCByPolicy r c repository policy = do {
     let condition = (\<lambda>status reason message. readyCondition status reason message (Generation repository));
     err \<leftarrow> SetGCRules c (RepositoryName repository) (gcRulesFromPolicy policy);
     (case err of
        Some err \<Rightarrow> return (condition ConditionFalse ReasonUnavailable
          ''lakeFS GC retention rules could not be ensured'', Some (Failed err))
      | None \<Rightarrow> do {
          err \<leftarrow> ensureGCCronJob r repository policy;
          return (case err of
              Some err \<Rightarrow> (condition ConditionFalse ReasonUnavailable
                ''managed GC CronJob could not be ensured'', Some err)
            | None \<Rightarrow> (condition ConditionTrue ReasonResolved
                ''lakeFS repository and managed GC exist'', None)) }) }"

definition ensureGC ::
  "'s Reconciler \<Rightarrow> 's LakefsClient \<Rightarrow> LakeFSRepository \<Rightarrow> ('s, Condition \<times> rerror option) state" where
  "ensureGC r c repository = do {
     let condition = (\<lambda>status reason message. readyCondition status reason message (Generation repository));
     (if \<not> GCEnabled repository then do {
        err \<leftarrow> deleteGCCronJob r repository;
        return (case err of
            Some err \<Rightarrow> (condition ConditionFalse ReasonUnavailable ''managed GC CronJob could not be deleted'', Some err)
          | None \<Rightarrow> (condition ConditionTrue ReasonResolved ''lakeFS repository exists; managed GC is disabled'', None)) }
      else do {
        policy \<leftarrow> findGCPolicy r repository;
        (case policy of
           Inl told \<Rightarrow> return told
         | Inr policy \<Rightarrow> ensureGCByPolicy r c repository policy) }) }"

definition ensureRepository ::
  "'s Http \<Rightarrow> 's Reconciler \<Rightarrow> LakeFSRepository \<Rightarrow> ('s, Condition \<times> rerror option) state" where
  "ensureRepository http r repository = do {
     let condition = (\<lambda>reason message. readyCondition ConditionFalse reason message (Generation repository));
     let repositoryName = RepositoryName repository;
     (if repositoryName = '''' then
        return (condition ReasonInvalid ''LakeFSRepository must resolve to a repository name'', None)
      else if rp_Endpoint (repo_Spec repository) = '''' then
        return (condition ReasonInvalid ''LakeFSRepository must set spec.endpoint'', None)
      else if rp_StorageNamespace (repo_Spec repository) = '''' then
        return (condition ReasonInvalid ''LakeFSRepository must set spec.storageNamespace'', None)
      else do {
        lakeFSClient \<leftarrow> repositoryClientForStatus http r repository;
        (case lakeFSClient of
           Inl condition \<Rightarrow> return (condition, None)
         | Inr lakeFSClient \<Rightarrow> do {
             err \<leftarrow> EnsureRepository lakeFSClient
               \<lparr>sp_Name = repositoryName, sp_StorageNamespace = rp_StorageNamespace (repo_Spec repository),
                sp_DefaultBranch = DefaultBranchName repository, sp_SampleData = rp_SampleData (repo_Spec repository)\<rparr>;
             (case err of
                Some err \<Rightarrow> return (condition ReasonUnavailable ''lakeFS repository could not be ensured'', Some (Failed err))
              | None \<Rightarrow> ensureGC r lakeFSClient repository) }) }) }"

text \<open>
  \<open>Reconcile\<close>: writing the status, what is done once the finalizer is in place, and the whole.
\<close>

definition writeRepositoryStatus ::
  "'s Reconciler \<Rightarrow> LakeFSRepository \<Rightarrow> Condition \<times> rerror option \<Rightarrow> ('s, reconciled) state" where
  "writeRepositoryStatus r repository ensured =
     (case ensured of
        (condition, reconcileErr) \<Rightarrow> do {
          conditions \<leftarrow> metaSetStatusCondition (rec_Lib r) (Conditions (repo_Status repository)) condition;
          updated \<leftarrow> StatusUpdate (rec_Client r) RepositoryT (repository\<lparr>repo_Status :=
            \<lparr>ObservedGeneration = Generation repository, Conditions = conditions,
             rst_Repository = RepositoryName repository,
             rst_GCPolicy = (if GCEnabled repository then GCPolicyName repository else ''''),
             rst_GCCronJob = (if GCEnabled repository then gcCronJobName repository else '''')\<rparr>\<rparr>);
          return (case updated of
              Inl err \<Rightarrow> Reconciled noRequeue (Some (ApiError err))
            | Inr _ \<Rightarrow>
                (case reconcileErr of
                   Some err \<Rightarrow> Reconciled \<lparr>RequeueAfter = Minute\<rparr> (Some err)
                 | None \<Rightarrow>
                     if cond_Status condition \<noteq> ConditionTrue then Reconciled \<lparr>RequeueAfter = Minute\<rparr> None
                     else Reconciled noRequeue None)) })"

definition reconcilePresent :: "'s Http \<Rightarrow> 's Reconciler \<Rightarrow> LakeFSRepository \<Rightarrow> ('s, reconciled) state" where
  "reconcilePresent http r repository = do {
     ensured \<leftarrow> ensureRepository http r repository;
     writeRepositoryStatus r repository ensured }"

definition RepositoryReconcile :: "'s Http \<Rightarrow> 's Reconciler \<Rightarrow> NamespacedName \<Rightarrow> ('s, reconciled) state" where
  "RepositoryReconcile http r req = do {
     got \<leftarrow> Get (rec_Client r) RepositoryT req;
     (case got of
        Inl err \<Rightarrow>
          if IsNotFound err then return (Reconciled noRequeue None)
          else return (Reconciled noRequeue (Some (ApiError err)))
      | Inr repository \<Rightarrow>
          if DeletionTimestamp repository \<noteq> None then
            if \<not> ContainsFinalizer (rec_Lib r) (Finalizers repository) lakeFSRepositoryFinalizer
            then return (Reconciled noRequeue None)
            else do {
              err \<leftarrow> deleteRepository http r repository;
              (case err of
                 Some err \<Rightarrow> return (Reconciled \<lparr>RequeueAfter = Minute\<rparr> (Some err))
               | None \<Rightarrow> do {
                   updated \<leftarrow> Update (rec_Client r) RepositoryT (repository\<lparr>Finalizers :=
                     RemoveFinalizer (rec_Lib r) (Finalizers repository) lakeFSRepositoryFinalizer\<rparr>);
                   return (Reconciled noRequeue (case updated of Inl err \<Rightarrow> Some (ApiError err) | Inr _ \<Rightarrow> None)) }) }
          else if \<not> ContainsFinalizer (rec_Lib r) (Finalizers repository) lakeFSRepositoryFinalizer then do {
            updated \<leftarrow> Update (rec_Client r) RepositoryT (repository\<lparr>Finalizers :=
              AddFinalizer (rec_Lib r) (Finalizers repository) lakeFSRepositoryFinalizer\<rparr>);
            (case updated of
               Inl err \<Rightarrow> return (Reconciled noRequeue (Some (ApiError err)))
             | Inr repository \<Rightarrow> reconcilePresent http r repository) }
          else reconcilePresent http r repository) }"

subsection \<open>Which repositories a policy concerns\<close>

definition repositoriesForPolicy :: "'s Reconciler \<Rightarrow> obj \<Rightarrow> ('s, NamespacedName list) state" where
  "repositoriesForPolicy r object = do {
     repositories \<leftarrow> ListOf (rec_Client r) RepositoryT
       \<lparr>InNamespace = Some (Namespace (meta object)), MatchingFields = None\<rparr>;
     return (case repositories of
         Inl err \<Rightarrow> []
       | Inr items \<Rightarrow>
           map (\<lambda>repository. (Namespace repository, Name repository))
             (filter (\<lambda>repository. GCEnabled repository \<and> GCPolicyName repository = Name (meta object)) items)) }"

end
