(* ===== verification/RepositoryReconciliation.thy ===== *)
theory RepositoryReconciliation
  imports RepositoryController
begin

section \<open>What a reconciliation of a repository does\<close>

text \<open>
  The effect of \<open>RepositoryReconcile\<close> on the stored objects and on the repositories lakeFS holds.
  The locale \<open>repository_controller\<close> puts the contracts of the Kubernetes API, the library and the
  lakeFS API together; calls to Kubernetes do not touch lakeFS. A repository is resolved if lakeFS
  holds it and its garbage collection is as its spec says.
\<close>

subsection \<open>Keys and contracts\<close>

definition lake_url :: "LakeFSRepository \<Rightarrow> string" where
  "lake_url R = repository_url (TrimRight (rp_Endpoint (repo_Spec R)) ''/'') (RepositoryName R)"

definition cronjob_key :: "LakeFSRepository \<Rightarrow> okey" where
  "cronjob_key R = (KCronJob, Namespace R, gcCronJobName R)"

definition policy_key :: "LakeFSRepository \<Rightarrow> okey" where
  "policy_key R = (KGCPolicy, Namespace R, GCPolicyName R)"

locale repository_controller = controllers r view T1 T2 + lakefs_api http repos view
  for r :: "'s Reconciler" and view :: "'s \<Rightarrow> okey \<rightharpoonup> obj" and T1 T2 :: time
    and http :: "'s Http" and repos :: "'s \<Rightarrow> string \<rightharpoonup> lakeRepo" +
  assumes kube_keeps_lake: "keeps repos (cl_Get (rec_Client r) k key)" "keeps repos (cl_Create (rec_Client r) x)"
      "keeps repos (cl_Update (rec_Client r) x)" "keeps repos (cl_StatusUpdate (rec_Client r) x)"
      "keeps repos (cl_Delete (rec_Client r) x)"
    and lib_keeps_lake: "keeps repos (SetStatusCondition (rec_Lib r) cs c)"
      "keeps repos (CreateOrUpdate (rec_Lib r) j f)"

locale repository_controller_ok =
  repository_controller r view T1 T2 http repos + reliable_api "rec_Client r" view + lakefs_up http repos view
  for r :: "'s Reconciler" and view :: "'s \<Rightarrow> okey \<rightharpoonup> obj" and T1 T2 :: time
    and http :: "'s Http" and repos :: "'s \<Rightarrow> string \<rightharpoonup> lakeRepo"

lemma wp_keepsI:
  assumes "keeps f m" and "wp m (\<lambda>a t. f t = f s \<longrightarrow> Q a t) s"
  shows "wp m Q s"
  by (rule wp_mono [OF wp_conj [OF keeps_wp [OF assms(1)] assms(2)]]) blast

context repository_controller
begin

lemma keeps_lake [keeps_intros]:
  "keeps repos (Get (rec_Client r) T key)" "keeps repos (Create (rec_Client r) T x)"
  "keeps repos (Update (rec_Client r) T x)" "keeps repos (StatusUpdate (rec_Client r) T x)"
  "keeps repos (Delete (rec_Client r) T x)" "keeps repos (metaSetStatusCondition (rec_Lib r) cs c)"
  unfolding Get_def Create_def Update_def StatusUpdate_def Delete_def metaSetStatusCondition_def
  by (auto intro!: keeps_intros kube_keeps_lake lib_keeps_lake)

lemma keeps_lake_parts [keeps_intros]:
  "keeps repos (repositoryClient h r R)" "keeps repos (findGCPolicy r R)"
  "keeps repos (ensureGCCronJob r R p)" "keeps repos (deleteGCCronJob r R)"
  unfolding repositoryClient_def findGCPolicy_def ensureGCCronJob_def deleteGCCronJob_def
  by (auto intro!: keeps_intros lib_keeps_lake)

lemma keeps_lake_clientForStatus [keeps_intros]: "keeps repos (repositoryClientForStatus h r R)"
  unfolding repositoryClientForStatus_def by (auto intro!: keeps_intros)

end

subsection \<open>The cron job, the policy and the client\<close>

text \<open>
  The job that a cron job runs for a repository and a policy: one container that runs Spark with the
  arguments for this repository, on the policy's schedule, never two at a time, and owned by the
  repository.
\<close>

definition gc_job :: "LakeFSRepository \<Rightarrow> LakeFSGCPolicy \<Rightarrow> CronJob \<Rightarrow> bool" where
  "gc_job R p j \<longleftrightarrow>
     cj_Schedule (cronjob_Spec j) = Schedule p \<and> cj_Suspend (cronjob_Spec j) = gp_Suspend (gcp_Spec p) \<and>
     cj_ConcurrencyPolicy (cronjob_Spec j) = ''Forbid'' \<and>
     (\<exists>job. cj_Containers (cronjob_Spec j) = [job] \<and> c_Image job = SparkImage p \<and> c_Command job = SparkCommand p \<and>
        c_Args job = gcSparkArgs R p \<and> set (gcLakeFSEnv R) \<subseteq> set (c_Env job)) \<and>
     controlled_by (meta (OCronJob j)) (meta (ORepository R))"

definition job_stored :: "LakeFSRepository \<Rightarrow> LakeFSGCPolicy \<Rightarrow> (okey \<rightharpoonup> obj) \<Rightarrow> (okey \<rightharpoonup> obj) \<Rightarrow> bool" where
  "job_stored R p v v' \<longleftrightarrow> (\<exists>j. gc_job R p j \<and> v' = v(cronjob_key R \<mapsto> OCronJob j))"

lemma job_storedI: "gc_job R p j \<Longrightarrow> v' = v(cronjob_key R \<mapsto> OCronJob j) \<Longrightarrow> job_stored R p v v'"
  by (auto simp: job_stored_def)

lemma mutateCronJob_keeps:
  "mutateCronJob r R p old = Inr new \<Longrightarrow> okey_of (OCronJob new) = okey_of (OCronJob old) \<and> Finalizers new = Finalizers old"
  by (auto simp: mutateCronJob_def Let_def split: sum.splits)

lemma new_cronjob_simps [simp]: "Name (new_cronjob n ns) = n" "Namespace (new_cronjob n ns) = ns"
  by (simp_all add: new_cronjob_def ObjectMeta.defs new_meta_def)

definition policy_effect :: "LakeFSRepository \<Rightarrow> (okey \<rightharpoonup> obj) \<Rightarrow> (okey \<rightharpoonup> obj) \<Rightarrow> bool" where
  "policy_effect R v v' \<longleftrightarrow> v' = v \<or>
     (v (policy_key R) = None \<and> GCPolicyName R = DefaultGCPolicyName \<and>
      (\<exists>p. gcp_Spec p = gcp_Spec (defaultGCPolicy (Namespace R)) \<and> v' = v(policy_key R \<mapsto> OGCPolicy p)))"

lemma policy_effectI:
  "GCPolicyName R = DefaultGCPolicyName \<Longrightarrow> v (KGCPolicy, Namespace R, DefaultGCPolicyName) = None \<Longrightarrow>
   gcp_Spec p = gcp_Spec (defaultGCPolicy (Namespace R)) \<Longrightarrow>
   policy_effect R v (v((KGCPolicy, Namespace R, DefaultGCPolicyName) \<mapsto> OGCPolicy p))"
  by (auto simp: policy_effect_def policy_key_def)

lemma policy_effect_refl [simp]: "policy_effect R v v"
  by (simp add: policy_effect_def)

lemma policy_effect_same: "policy_effect R v v' \<Longrightarrow> k \<noteq> policy_key R \<Longrightarrow> v' k = v k"
  by (auto simp: policy_effect_def)

lemma defaultGCPolicy_simps [simp]:
  "Name (defaultGCPolicy ns) = DefaultGCPolicyName" "Namespace (defaultGCPolicy ns) = ns"
  by (simp_all add: defaultGCPolicy_def ObjectMeta.defs new_meta_def)

context controllers
begin

lemma mutateCronJob_job:
  assumes "mutateCronJob r R p old = Inr new" and "stored_as (OCronJob new) (OCronJob y)"
  shows "gc_job R p y"
proof -
  from assms(1) obtain refs where refs: "SetControllerReference (rec_Lib r) (ORepository R) (OCronJob old) = Inr refs"
    by (auto simp: mutateCronJob_def split: sum.splits)
  from owner_law [OF this] have "controlled_by ((meta (OCronJob old))\<lparr>OwnerReferences := refs\<rparr>) (meta (ORepository R))" .
  with assms refs show ?thesis
    by (auto simp: gc_job_def mutateCronJob_def Let_def stored_as_def controlled_by_def)
qed

lemma applied_job:
  assumes "applied_effect (new_cronjob (gcCronJobName R) (Namespace R)) (mutateCronJob r R p) v err v'"
  shows "err \<noteq> None \<and> v' = v \<or> err = None \<and> job_stored R p v v'"
proof (cases err)
  case None
  with assms obtain old new y where "mutateCronJob r R p old = Inr new" "stored_as (OCronJob new) (OCronJob y)"
    "v' = v(cronjob_key R \<mapsto> OCronJob y)"
    by (auto simp: applied_effect_def cronjob_key_def)
  with None show ?thesis using job_storedI [OF mutateCronJob_job] by blast
qed (use assms in simp)

lemma wp_ensureGCCronJob:
  "wp (ensureGCCronJob r R p) (\<lambda>err t. err \<noteq> None \<and> view t = view s \<or>
     err = None \<and> job_stored R p (view s) (view t)) s"
  unfolding ensureGCCronJob_def
  by (auto intro!: wp_mono [OF apply_law] simp del: not_None_eq dest: mutateCronJob_keeps applied_job)

lemma wp_deleteGCCronJob:
  "wp (deleteGCCronJob r R) (\<lambda>err t. only_gone (view s) (view t) {cronjob_key R} \<and>
     (err = None \<longrightarrow> gone (view t) (cronjob_key R))) s"
  unfolding deleteGCCronJob_def wp_bind
  by (rule wp_Delete) (auto simp: only_gone_def gone_def cronjob_key_def IsNotFound_def)

lemma wp_findGCPolicy:
  "wp (findGCPolicy r R) (\<lambda>res t. policy_effect R (view s) (view t) \<and>
     (case res of
        Inr p \<Rightarrow> view t (policy_key R) = Some (OGCPolicy p)
      | Inl (c, err) \<Rightarrow> judged (Generation R) False c)) s"
  unfolding findGCPolicy_def Let_def
  by (auto intro!: wp_Get wp_Create policy_effectI simp: policy_key_def stored_as_def IsNotFound_def)

lemma wp_repositoryClient:
  "wp (repositoryClient h r R) (\<lambda>res t. view t = view s \<and>
     (\<forall>c. res = Inr c \<longrightarrow> lc_httpClient c = h \<and> repositoryURL c (RepositoryName R) = lake_url R)) s"
  unfolding repositoryClient_def Let_def
  by (auto intro!: wp_Get simp: NewClient_def repositoryURL_url lake_url_def)

lemma wp_repositoryClientForStatus:
  "wp (repositoryClientForStatus h r R) (\<lambda>res t. view t = view s \<and>
     (case res of
        Inr c \<Rightarrow> lc_httpClient c = h \<and> repositoryURL c (RepositoryName R) = lake_url R
      | Inl c \<Rightarrow> judged (Generation R) False c)) s"
  unfolding repositoryClientForStatus_def
  by (auto intro!: wp_mono [OF wp_repositoryClient] split: sum.split)

end

subsection \<open>Resolved repositories\<close>

text \<open>
  lakeFS holds the repository. If its garbage is to be collected, the policy is stored, its rules are
  those lakeFS has for the repository, and the cron job is stored; otherwise there is no cron job.
\<close>

definition gc_ensured :: "LakeFSRepository \<Rightarrow> (okey \<rightharpoonup> obj) \<Rightarrow> lakeRepo \<Rightarrow> bool" where
  "gc_ensured R v x \<longleftrightarrow>
     (\<exists>p j. v (policy_key R) = Some (OGCPolicy p) \<and> lr_GCRules x = Some (rulesBody (gcRulesFromPolicy p)) \<and>
        v (cronjob_key R) = Some (OCronJob j) \<and> gc_job R p j)"

definition repository_resolved :: "LakeFSRepository \<Rightarrow> (okey \<rightharpoonup> obj) \<Rightarrow> (string \<rightharpoonup> lakeRepo) \<Rightarrow> bool" where
  "repository_resolved R v lake \<longleftrightarrow>
     (\<exists>x. lake (lake_url R) = Some x \<and> (if GCEnabled R then gc_ensured R v x else gone v (cronjob_key R)))"

text \<open>Nothing but the cron job, the default policy and the lakeFS repository has changed.\<close>

definition repository_effect ::
  "LakeFSRepository \<Rightarrow> (okey \<rightharpoonup> obj) \<Rightarrow> (string \<rightharpoonup> lakeRepo) \<Rightarrow> (okey \<rightharpoonup> obj) \<Rightarrow> (string \<rightharpoonup> lakeRepo) \<Rightarrow> bool" where
  "repository_effect R v lake v' lake' \<longleftrightarrow> same_but {cronjob_key R, policy_key R} v v' \<and>
     (\<forall>url. url \<noteq> lake_url R \<longrightarrow> lake' url = lake url)"

lemma repository_effect_refl [simp]: "repository_effect R v l v l"
  by (simp add: repository_effect_def)

lemma repository_effect_trans:
  "repository_effect R v l v' l' \<Longrightarrow> repository_effect R v' l' v'' l'' \<Longrightarrow> repository_effect R v l v'' l''"
  by (auto simp: repository_effect_def same_but_def)

lemma repository_effect_lake: "repository_effect R v l v (l(lake_url R := x))"
  by (auto simp: repository_effect_def)

lemma policy_effect_repository: "policy_effect R v v' \<Longrightarrow> repository_effect R v l v' l"
  by (auto simp: repository_effect_def policy_effect_def same_but_def)

lemma job_stored_repository: "job_stored R p v v' \<Longrightarrow> repository_effect R v l v' l"
  by (auto simp: repository_effect_def job_stored_def same_but_def)

lemma only_gone_repository: "only_gone v v' {cronjob_key R} \<Longrightarrow> repository_effect R v l v' l"
  by (auto simp: repository_effect_def only_gone_def same_but_def)

lemma rules_set_repository:
  "rules_set (lake_url R) rules l err l' \<Longrightarrow> repository_effect R v l v l'"
  by (auto simp: rules_set_def repository_effect_lake)

lemma ensured_repository:
  "ensured_repo (lake_url R) spec l err l' \<Longrightarrow> repository_effect R v l v l'"
  by (auto simp: ensured_repo_def repository_effect_lake)

lemma cronjob_policy_neq [simp]: "cronjob_key R \<noteq> policy_key R" "policy_key R \<noteq> cronjob_key R"
  "okey_of (ORepository R) \<noteq> cronjob_key R" "okey_of (ORepository R) \<noteq> policy_key R"
  by (simp_all add: cronjob_key_def policy_key_def)

lemma gc_resolved:
  assumes "GCEnabled R" and "rules_set (lake_url R) (rulesBody (gcRulesFromPolicy p)) lake None lake'"
    and "v (policy_key R) = Some (OGCPolicy p)" and "job_stored R p v v'"
  shows "repository_resolved R v' lake'"
  using assms by (auto simp: repository_resolved_def rules_set_def job_stored_def gc_ensured_def)

definition repository_judged ::
  "LakeFSRepository \<Rightarrow> (okey \<rightharpoonup> obj) \<Rightarrow> (string \<rightharpoonup> lakeRepo) \<Rightarrow> Condition \<times> rerror option \<Rightarrow>
   (okey \<rightharpoonup> obj) \<Rightarrow> (string \<rightharpoonup> lakeRepo) \<Rightarrow> bool" where
  "repository_judged R v lake ce v' lake' \<longleftrightarrow> repository_effect R v lake v' lake' \<and>
     judged (Generation R) (snd ce = None \<and> repository_resolved R v' lake') (fst ce)"

lemma judged_weaken: "judged g False c \<Longrightarrow> judged g P c"
  by (auto simp: judged_def)

lemma repository_judgedI:
  "judged (Generation R) False c \<Longrightarrow> repository_effect R v l v' l' \<Longrightarrow> repository_judged R v l (c, e) v' l'"
  by (simp add: repository_judged_def judged_weaken)

lemma repository_judged_after:
  "repository_effect R v l v' l' \<Longrightarrow> repository_judged R v' l' ce v'' l'' \<Longrightarrow> repository_judged R v l ce v'' l''"
  by (auto simp: repository_judged_def intro: repository_effect_trans)

context repository_controller
begin

lemma wp_ensureGCCronJob_lake:
  "wp (ensureGCCronJob r R p) (\<lambda>err t. repos t = repos s \<and>
     (err \<noteq> None \<and> view t = view s \<or> err = None \<and> job_stored R p (view s) (view t))) s"
  by (rule wp_conj [OF keeps_wp wp_ensureGCCronJob]) (intro keeps_intros)

lemma wp_findGCPolicy_lake:
  "wp (findGCPolicy r R) (\<lambda>res t. repos t = repos s \<and> policy_effect R (view s) (view t) \<and>
     (case res of
        Inr p \<Rightarrow> view t (policy_key R) = Some (OGCPolicy p)
      | Inl (c, err) \<Rightarrow> judged (Generation R) False c)) s"
  by (rule wp_conj [OF keeps_wp wp_findGCPolicy]) (intro keeps_intros)

lemma wp_ensureGCByPolicy:
  assumes c: "lc_httpClient c = http" "repositoryURL c (RepositoryName R) = lake_url R"
    and R: "GCEnabled R" and p: "view s (policy_key R) = Some (OGCPolicy p)"
  shows "wp (ensureGCByPolicy r c R p) (\<lambda>ce t. repository_judged R (view s) (repos s) ce (view t) (repos t)) s"
  unfolding ensureGCByPolicy_def Let_def wp_bind
proof (rule wp_mono [OF wp_SetGCRules [OF c(1)]], elim conjE)
  fix err :: "string option" and t
  assume t: "view t = view s"
    "rules_set (repositoryURL c (RepositoryName R)) (rulesBody (gcRulesFromPolicy p)) (repos s) err (repos t)"
  then have eff: "repository_effect R (view s) (repos s) (view t) (repos t)"
    using c by (auto intro: rules_set_repository)
  show "wp (case err of
       Some err \<Rightarrow> return (readyCondition ConditionFalse ReasonUnavailable
         ''lakeFS GC retention rules could not be ensured'' (Generation R), Some (Failed err))
     | None \<Rightarrow> do {
         err \<leftarrow> ensureGCCronJob r R p;
         return (case err of
             Some err \<Rightarrow> (readyCondition ConditionFalse ReasonUnavailable
               ''managed GC CronJob could not be ensured'' (Generation R), Some err)
           | None \<Rightarrow> (readyCondition ConditionTrue ReasonResolved
               ''lakeFS repository and managed GC exist'' (Generation R), None)) })
     (\<lambda>ce t. repository_judged R (view s) (repos s) ce (view t) (repos t)) t"
  proof (cases err)
    case None
    have "repository_effect R (view s) (repos s) (view u) (repos t) \<and> repository_resolved R (view u) (repos t)"
      if "job_stored R p (view s) (view u)" for u
      using gc_resolved [OF R _ p that] t None c eff job_stored_repository [OF that]
      by (auto intro: repository_effect_trans)
    with None t eff show ?thesis
      by (auto intro!: wp_mono [OF wp_ensureGCCronJob_lake] simp: repository_judged_def split: option.split)
  qed (use eff in \<open>simp add: repository_judged_def\<close>)
qed

lemma wp_ensureGC:
  assumes c: "lc_httpClient c = http" "repositoryURL c (RepositoryName R) = lake_url R"
    and lake: "repos s (lake_url R) \<noteq> None"
  shows "wp (ensureGC r c R) (\<lambda>ce t. repository_judged R (view s) (repos s) ce (view t) (repos t)) s"
proof (cases "GCEnabled R")
  case False
  then show ?thesis
    unfolding ensureGC_def Let_def
    using lake by (auto intro!: wp_mono [OF wp_conj [OF keeps_wp wp_deleteGCCronJob]] keeps_intros
        simp: repository_judged_def repository_resolved_def only_gone_repository split: option.split)
next
  case True
  have rules: "wp (ensureGCByPolicy r c R p) (\<lambda>ce u. repository_judged R (view s) (repos s) ce (view u) (repos u)) t"
    if t: "repos t = repos s" "policy_effect R (view s) (view t)" "view t (policy_key R) = Some (OGCPolicy p)" for t p
    by (rule wp_mono [OF wp_ensureGCByPolicy [OF c True t(3)]])
      (use t in \<open>auto intro: repository_judged_after policy_effect_repository\<close>)
  show ?thesis
    unfolding ensureGC_def Let_def wp_bind if_not_P [OF not_not [THEN iffD2, OF True]]
    by (rule wp_mono [OF wp_findGCPolicy_lake])
      (auto split: sum.splits intro: rules repository_judgedI policy_effect_repository)
qed

lemma wp_repositoryClientForStatus_lake:
  "wp (repositoryClientForStatus h r R) (\<lambda>res t. repos t = repos s \<and> view t = view s \<and>
     (case res of
        Inr c \<Rightarrow> lc_httpClient c = h \<and> repositoryURL c (RepositoryName R) = lake_url R
      | Inl c \<Rightarrow> judged (Generation R) False c)) s"
  by (rule wp_conj [OF keeps_wp wp_repositoryClientForStatus]) (intro keeps_intros)

lemma wp_ensureRepository:
  "wp (ensureRepository http r R) (\<lambda>ce t. repository_judged R (view s) (repos s) ce (view t) (repos t)) s"
proof -
  let ?J = "\<lambda>ce t. repository_judged R (view s) (repos s) ce (view t) (repos t)"
  let ?spec = "\<lparr>sp_Name = RepositoryName R, sp_StorageNamespace = rp_StorageNamespace (repo_Spec R),
    sp_DefaultBranch = DefaultBranchName R, sp_SampleData = rp_SampleData (repo_Spec R)\<rparr>"
  have gc: "wp (ensureGC r c R) ?J t"
    if "lc_httpClient c = http" "repositoryURL c (RepositoryName R) = lake_url R" "view t = view s"
      "ensured_repo (lake_url R) ?spec (repos s) None (repos t)" for c t
    by (rule wp_mono [OF wp_ensureGC])
      (use that in \<open>auto simp: ensured_repo_def intro: repository_judged_after repository_effect_lake\<close>)
  have ensured: "wp (EnsureRepository c ?spec) (\<lambda>err. wp (case err of
        Some err \<Rightarrow> return (readyCondition ConditionFalse ReasonUnavailable
          ''lakeFS repository could not be ensured'' (Generation R), Some (Failed err))
      | None \<Rightarrow> ensureGC r c R) ?J) t"
    if "lc_httpClient c = http" "repositoryURL c (RepositoryName R) = lake_url R" "view t = view s" "repos t = repos s" for c t
    by (rule wp_mono [OF wp_EnsureRepository])
      (use that in \<open>auto intro: gc repository_judgedI ensured_repository split: option.splits\<close>)
  show ?thesis
    unfolding ensureRepository_def Let_def
    by (auto intro!: repository_judgedI wp_mono [OF wp_repositoryClientForStatus_lake] ensured split: sum.splits)
qed

end

subsection \<open>Reconciling a repository that is to exist\<close>

text \<open>
  The status is written and tells whether the repository is resolved; the reconciliation ends
  without error and without retry exactly if it told that it is. If the status cannot be written,
  there is an error.
\<close>

abbreviation reconciled_well :: reconciled where
  "reconciled_well \<equiv> Reconciled noRequeue None"

definition repository_reported ::
  "LakeFSRepository \<Rightarrow> (okey \<rightharpoonup> obj) \<Rightarrow> (string \<rightharpoonup> lakeRepo) \<Rightarrow> reconciled \<Rightarrow> (okey \<rightharpoonup> obj) \<Rightarrow>
   (string \<rightharpoonup> lakeRepo) \<Rightarrow> bool" where
  "repository_reported R v lake res v' lake' \<longleftrightarrow>
     (\<exists>u. repository_effect R v lake u lake' \<and>
        (res \<noteq> reconciled_well \<and> v' = u \<or>
         (\<exists>y. v' = u(okey_of (ORepository R) \<mapsto> ORepository y) \<and> status_written (ORepository R) (ORepository y) \<and>
            (Ready (ORepository y) \<longleftrightarrow> res = reconciled_well) \<and>
            (Ready (ORepository y) \<longrightarrow> repository_resolved R u lake'))))"

lemma repository_effect_other:
  "repository_effect R v l v' l' \<Longrightarrow> fst k \<notin> {KCronJob, KGCPolicy} \<Longrightarrow> v' k = v k"
  by (auto simp: repository_effect_def cronjob_key_def policy_key_def dest: same_butD [where k = k])

lemma repository_reported_failed:
  "repository_effect R v l v' l' \<Longrightarrow> res \<noteq> reconciled_well \<Longrightarrow> repository_reported R v l res v' l'"
  unfolding repository_reported_def by blast

lemma repository_reported_written:
  assumes "repository_judged R v l (c, err) u l'"
    and "v' = u(okey_of (ORepository R) \<mapsto> ORepository y)" and "status_written (ORepository R) (ORepository y)"
    and "Ready (ORepository y) \<longleftrightarrow> cond_Status c = ConditionTrue"
    and "cond_Status c = ConditionTrue \<and> err = None \<longleftrightarrow> res = reconciled_well"
  shows "repository_reported R v l res v' l'"
proof -
  have "repository_effect R v l u l'" and c: "judged (Generation R) (err = None \<and> repository_resolved R u l') c"
    using assms(1) by (simp_all add: repository_judged_def)
  moreover have "Ready (ORepository y) \<longleftrightarrow> res = reconciled_well"
    and "Ready (ORepository y) \<longrightarrow> repository_resolved R u l'"
    using c assms(4, 5) by (auto simp: judged_def)
  ultimately show ?thesis using assms(2, 3) unfolding repository_reported_def by blast
qed

lemma repository_status_written:
  assumes "judged (Generation R) P c" and "condition_set old c cs"
    and "stored_as (ORepository R) (ORepository y)" and "meta (ORepository y) = meta (ORepository R)"
    and "Conditions (repo_Status y) = cs" and "ObservedGeneration (repo_Status y) = Generation R"
  shows "status_written (ORepository R) (ORepository y)"
    and "Ready (ORepository y) \<longleftrightarrow> cond_Status c = ConditionTrue"
proof -
  have part: "status_part (status_of (ORepository y)) =
      Some \<lparr>ObservedGeneration = Generation (meta (ORepository R)), Conditions = cs\<rparr>"
    using assms(5, 6) by (simp add: Status.truncate_def)
  have c: "judged (Generation (meta (ORepository R))) P c" using assms(1) by simp
  show "status_written (ORepository R) (ORepository y)"
    by (rule status_writtenI(1) [OF assms(3, 4) part assms(2) c])
  show "Ready (ORepository y) \<longleftrightarrow> cond_Status c = ConditionTrue"
    by (rule status_writtenI(2) [OF assms(3, 4) part assms(2) c])
qed

lemma Minute_neq [simp]: "Minute \<noteq> 0"
  by (simp add: Minute_def)

context repository_controller
begin

lemma wp_metaSetStatusCondition_lake:
  assumes "\<And>new t. view t = view s \<Longrightarrow> repos t = repos s \<Longrightarrow> condition_set cs c new \<Longrightarrow> Q new t"
  shows "wp (metaSetStatusCondition (rec_Lib r) cs c) Q s"
  by (rule wp_keepsI [where f = repos]) (auto intro!: keeps_intros wp_metaSetStatusCondition assms)

lemma wp_StatusUpdate_lake:
  assumes "wf_kind T"
    and "\<And>t y old. view s (okey_of (kt_mk T x)) = Some old \<Longrightarrow> stored_as old (kt_mk T y) \<Longrightarrow>
      status_of (kt_mk T y) = status_of (kt_mk T x) \<Longrightarrow> meta (kt_mk T y) = meta old \<Longrightarrow>
      view t = (view s)(okey_of (kt_mk T x) \<mapsto> kt_mk T y) \<Longrightarrow> repos t = repos s \<Longrightarrow> Q (Inr y) t"
    and "\<And>t e. view t = view s \<Longrightarrow> repos t = repos s \<Longrightarrow> Q (Inl e) t"
  shows "wp (StatusUpdate (rec_Client r) T x) Q s"
  by (rule wp_keepsI [where f = repos], intro keeps_intros, rule wp_StatusUpdate [OF assms(1)]) (auto intro: assms(2, 3))

lemma wp_writeRepositoryStatus:
  assumes R: "stored (view s) (ORepository R)" and ce: "repository_judged R v l ce (view s) (repos s)"
  shows "wp (writeRepositoryStatus r R ce) (\<lambda>res t. repository_reported R v l res (view t) (repos t)) s"
proof (cases ce)
  case (Pair c err)
  from ce have eff: "repository_effect R v l (view s) (repos s)"
    and c: "judged (Generation R) (err = None \<and> repository_resolved R (view s) (repos s)) c"
    by (simp_all add: repository_judged_def Pair)
  show ?thesis
    unfolding writeRepositoryStatus_def Pair prod.case wp_bind
    by (rule wp_metaSetStatusCondition_lake, rule wp_StatusUpdate_lake)
      (use R eff in \<open>auto simp: repository_status_written [OF c] repository_reported_failed
        intro!: repository_reported_written [OF ce [unfolded Pair]] split: option.split\<close>)
qed

lemma wp_reconcilePresent:
  assumes R: "stored (view s) (ORepository R)"
  shows "wp (reconcilePresent http r R)
    (\<lambda>res t. repository_reported R (view s) (repos s) res (view t) (repos t)) s"
  unfolding reconcilePresent_def wp_bind
proof (rule wp_mono [OF wp_ensureRepository])
  fix ce t
  assume j: "repository_judged R (view s) (repos s) ce (view t) (repos t)"
  then have "stored (view t) (ORepository R)"
    using R by (auto simp: repository_judged_def repository_effect_other)
  then show "wp (writeRepositoryStatus r R ce)
    (\<lambda>res t. repository_reported R (view s) (repos s) res (view t) (repos t)) t"
    using j by (rule wp_writeRepositoryStatus)
qed

text \<open>
  The finalizer is added first; what the server stores then is the repository as it was, with the
  finalizer.
\<close>

lemma keeps_lake_deleteClient:
  "wp (repositoryClient h r R) (\<lambda>res t. repos t = repos s \<and> view t = view s \<and>
     (\<forall>c. res = Inr c \<longrightarrow> lc_httpClient c = h \<and> repositoryURL c (RepositoryName R) = lake_url R)) s"
  by (rule wp_conj [OF keeps_wp wp_repositoryClient]) (intro keeps_intros)

lemma wp_deleteRepository:
  "wp (deleteRepository http r R) (\<lambda>err t. view t = view s \<and> deleted_repo (lake_url R) (repos s) err (repos t)) s"
proof -
  have del: "wp (DeleteRepository c (RepositoryName R)) (\<lambda>err. wp (return (map_option Failed err)) (\<lambda>err t.
      view t = view s \<and> deleted_repo (lake_url R) (repos s) err (repos t))) t"
    if "lc_httpClient c = http" "repositoryURL c (RepositoryName R) = lake_url R" "view t = view s" "repos t = repos s" for c t
    by (rule wp_mono [OF wp_DeleteRepository [OF that(1)]]) (use that in auto)
  show ?thesis
    unfolding deleteRepository_def Let_def
    by (auto intro!: wp_mono [OF keeps_lake_deleteClient] del split: sum.split)
qed

end

subsection \<open>The whole reconciliation\<close>

text \<open>
  A repository that is being deleted: its finalizer goes only when lakeFS no longer holds the
  repository.
\<close>

definition repository_deleted ::
  "LakeFSRepository \<Rightarrow> (okey \<rightharpoonup> obj) \<Rightarrow> (string \<rightharpoonup> lakeRepo) \<Rightarrow> reconciled \<Rightarrow> (okey \<rightharpoonup> obj) \<Rightarrow>
   (string \<rightharpoonup> lakeRepo) \<Rightarrow> bool" where
  "repository_deleted R v lake res v' lake' \<longleftrightarrow>
     (lake' = lake \<or> lake' = lake(lake_url R := None)) \<and>
     (if res = reconciled_well
      then lake' (lake_url R) = None \<and>
        (if set (Finalizers R) = {lakeFSRepositoryFinalizer} then v' = v(okey_of (ORepository R) := None)
         else \<exists>y. v' = v(okey_of (ORepository R) \<mapsto> ORepository y) \<and>
           set (Finalizers y) = set (Finalizers R) - {lakeFSRepositoryFinalizer})
      else v' = v)"

lemma repository_deletedI:
  assumes "deleted_repo (lake_url R) lake None lake'"
    and "lakeFSRepositoryFinalizer \<in> set (Finalizers R)" and "set fs = set (Finalizers R) - {lakeFSRepositoryFinalizer}"
    and "Finalizers y = fs"
    and "v' = (if fs = [] then v(okey_of (ORepository R) := None) else v(okey_of (ORepository R) \<mapsto> ORepository y))"
  shows "repository_deleted R v lake reconciled_well v' lake'"
proof -
  have single: "A - {x} = {} \<longleftrightarrow> A = {x}" if "x \<in> A" for x :: string and A using that by blast
  have fs: "fs = [] \<longleftrightarrow> set (Finalizers R) = {lakeFSRepositoryFinalizer}"
    using single [OF assms(2)] assms(3) set_empty by metis
  have y: "set (Finalizers y) = set (Finalizers R) - {lakeFSRepositoryFinalizer}" using assms(3, 4) by (simp only:)
  have v': "if set (Finalizers R) = {lakeFSRepositoryFinalizer} then v' = v(okey_of (ORepository R) := None)
     else \<exists>y. v' = v(okey_of (ORepository R) \<mapsto> ORepository y) \<and>
       set (Finalizers y) = set (Finalizers R) - {lakeFSRepositoryFinalizer}"
    unfolding fs [symmetric] using assms(5) y by (cases "fs = []") (simp_all only: if_True if_False simp_thms, blast)
  show ?thesis using assms(1) v' by (simp only: repository_deleted_def deleted_repo_def if_True simp_thms)
qed

lemma repository_deleted_failed:
  "deleted_repo (lake_url R) lake err lake' \<Longrightarrow> v' = v \<Longrightarrow> res \<noteq> reconciled_well \<Longrightarrow>
   repository_deleted R v lake res v' lake'"
  by (simp add: repository_deleted_def deleted_repo_def)

lemma repository_deleted_same [simp]: "res \<noteq> reconciled_well \<Longrightarrow> repository_deleted R v lake res v lake"
  by (simp add: repository_deleted_def)

text \<open>A repository that is to exist: the finalizer is put in place, then it is judged.\<close>

definition repository_present ::
  "LakeFSRepository \<Rightarrow> (okey \<rightharpoonup> obj) \<Rightarrow> (string \<rightharpoonup> lakeRepo) \<Rightarrow> reconciled \<Rightarrow> (okey \<rightharpoonup> obj) \<Rightarrow>
   (string \<rightharpoonup> lakeRepo) \<Rightarrow> bool" where
  "repository_present R v lake res v' lake' \<longleftrightarrow>
     (res \<noteq> reconciled_well \<and> v' = v \<and> lake' = lake \<or>
      (\<exists>x. okey_of (ORepository x) = okey_of (ORepository R) \<and> repo_Spec x = repo_Spec R \<and>
         lakeFSRepositoryFinalizer \<in> set (Finalizers x) \<and>
         repository_reported x (v(okey_of (ORepository R) \<mapsto> ORepository x)) lake res v' lake'))"

lemma repository_presentI:
  assumes "okey_of (ORepository x) = okey_of (ORepository R)" "repo_Spec x = repo_Spec R"
    and "lakeFSRepositoryFinalizer \<in> set (Finalizers x)" "u = v(okey_of (ORepository R) \<mapsto> ORepository x)"
    and "repository_reported x u lake res v' lake'"
  shows "repository_present R v lake res v' lake'"
  using assms unfolding repository_present_def by blast

context repository_controller
begin

lemma wp_Update_lake:
  assumes T: "wf_kind T" and st: "stored (view s) (kt_mk T z)" and key: "okey_of (kt_mk T x) = okey_of (kt_mk T z)"
    and ok: "\<And>t y. stored_as (kt_mk T x) (kt_mk T y) \<Longrightarrow>
      view t = (if DeletionTimestamp (meta (kt_mk T z)) \<noteq> None \<and> Finalizers (meta (kt_mk T x)) = [] \<and>
                   Finalizers (meta (kt_mk T z)) \<noteq> []
                then (view s)(okey_of (kt_mk T z) := None)
                else (view s)(okey_of (kt_mk T z) \<mapsto> kt_mk T y)) \<Longrightarrow> repos t = repos s \<Longrightarrow> Q (Inr y) t"
    and err: "\<And>t e. view t = view s \<Longrightarrow> repos t = repos s \<Longrightarrow> Q (Inl e) t"
  shows "wp (Update (rec_Client r) T x) Q s"
proof (rule wp_keepsI [where f = repos], intro keeps_intros, rule wp_Update [OF T], goal_cases)
  case (1 t y old)
  have old: "old = kt_mk T z" using 1(1) st key by simp
  show ?case by (intro impI ok [OF 1(2)]) (simp_all only: 1(4) old key not_None_eq)
next
  case (2 t e)
  show ?case by (intro impI err 2)
qed

lemma wp_RepositoryReconcile_deleted:
  assumes R: "view s (KRepository, req) = Some (ORepository R)"
    and del: "DeletionTimestamp R \<noteq> None" and fin: "lakeFSRepositoryFinalizer \<in> set (Finalizers R)"
  shows "wp (RepositoryReconcile http r req)
    (\<lambda>res t. repository_deleted R (view s) (repos s) res (view t) (repos t)) s"
proof -
  have key: "(KRepository, req) = okey_of (ORepository R)" using view_okey [OF R] by simp
  have R': "stored (view s) (ORepository R)" using R key by simp
  show ?thesis
    unfolding RepositoryReconcile_def wp_bind
  proof (rule wp_keepsI [where f = repos], intro keeps_intros, rule wp_Get, simp, goal_cases)
    case (1 t x)
    then have x: "x = R" and t: "view t = view s" using R by simp_all
    have upd: "wp (Update (rec_Client r) RepositoryT (R\<lparr>Finalizers :=
          RemoveFinalizer (rec_Lib r) (Finalizers R) lakeFSRepositoryFinalizer\<rparr>))
        (\<lambda>updated. wp (return (Reconciled noRequeue (case updated of Inl err \<Rightarrow> Some (ApiError err) | Inr _ \<Rightarrow> None)))
          (\<lambda>res t. repository_deleted R (view s) (repos s) res (view t) (repos t))) u"
      if u: "view u = view s" "deleted_repo (lake_url R) (repos s) None (repos u)" for u
    proof (rule wp_Update_lake [where z = R], goal_cases)
      case (4 w y)
      have "Finalizers R \<noteq> []" using fin by auto
      with 4 u del show ?case
        unfolding sum.case wp_return
        by (intro repository_deletedI [OF _ fin remove_law, where y = y]) (simp_all add: stored_as_def)
    qed (use u R' in \<open>auto intro: repository_deleted_failed\<close>)
    show ?case
      using t del fin
      by (auto simp: x contains_law intro!: wp_mono [OF wp_deleteRepository] upd
        intro: repository_deleted_failed split: option.split)
  qed (use R in \<open>simp_all add: IsNotFound_def\<close>)
qed

end

context repository_controller
begin

lemma wp_RepositoryReconcile_present:
  assumes R: "view s (KRepository, req) = Some (ORepository R)" and del: "DeletionTimestamp R = None"
  shows "wp (RepositoryReconcile http r req)
    (\<lambda>res t. repository_present R (view s) (repos s) res (view t) (repos t)) s"
proof -
  have key: "(KRepository, req) = okey_of (ORepository R)" using view_okey [OF R] by simp
  have R': "stored (view s) (ORepository R)" using R key by simp
  have present: "wp (reconcilePresent http r x) (\<lambda>res t. repository_present R (view s) (repos s) res (view t) (repos t)) t"
    if "okey_of (ORepository x) = okey_of (ORepository R)" "repo_Spec x = repo_Spec R"
      "lakeFSRepositoryFinalizer \<in> set (Finalizers x)" "view t = (view s)(okey_of (ORepository R) \<mapsto> ORepository x)"
      "repos t = repos s" for x t
  proof (rule wp_mono [OF wp_reconcilePresent])
    show "stored (view t) (ORepository x)" unfolding that(1) that(4) by simp
    show "repository_present R (view s) (repos s) res (view u) (repos u)"
      if "repository_reported x (view t) (repos t) res (view u) (repos u)" for res u
      using that \<open>repos t = repos s\<close> by (intro repository_presentI [OF \<open>okey_of (ORepository x) = okey_of (ORepository R)\<close>
          \<open>repo_Spec x = repo_Spec R\<close> \<open>lakeFSRepositoryFinalizer \<in> set (Finalizers x)\<close>
          \<open>view t = (view s)(okey_of (ORepository R) \<mapsto> ORepository x)\<close>]) simp
  qed
  show ?thesis
    unfolding RepositoryReconcile_def wp_bind
  proof (rule wp_keepsI [where f = repos], intro keeps_intros, rule wp_Get, simp, goal_cases)
    case (1 t x)
    then have x: "x = R" and t: "view t = view s" using R by simp_all
    have upd: "wp (Update (rec_Client r) RepositoryT (R\<lparr>Finalizers :=
          AddFinalizer (rec_Lib r) (Finalizers R) lakeFSRepositoryFinalizer\<rparr>))
        (\<lambda>updated. wp (case updated of
            Inl err \<Rightarrow> return (Reconciled noRequeue (Some (ApiError err)))
          | Inr repository \<Rightarrow> reconcilePresent http r repository)
          (\<lambda>res t. repository_present R (view s) (repos s) res (view t) (repos t))) t"
      if u: "repos t = repos s"
    proof (rule wp_Update_lake [where z = R], goal_cases)
      case (4 w y)
      with t u del show ?case
        unfolding sum.case
        by (intro present) (simp_all add: stored_as_def add_law)
    qed (use t u R' in \<open>auto simp: repository_present_def\<close>)
    have same: "view t = (view s)(okey_of (ORepository R) \<mapsto> ORepository R)" using t R' by auto
    show ?case
      using same del upd by (auto simp: x contains_law intro!: present)
  qed (use R in \<open>simp_all add: IsNotFound_def repository_present_def\<close>)
qed

end

subsection \<open>A working lakeFS and a reliable API\<close>

context repository_controller_ok
begin

lemma wp_repositoryClient_ok:
  assumes "view s (KSecret, CredentialsSecretNamespace R, rc_Name (rp_CredentialsSecretRef (repo_Spec R))) = Some (OSecret sec)"
    and "map_at (Data sec) (AccessKeyIDDataKey (rp_CredentialsSecretRef (repo_Spec R))) \<noteq> ''''"
    and "map_at (Data sec) (SecretAccessKeyDataKey (rp_CredentialsSecretRef (repo_Spec R))) \<noteq> ''''"
  shows "wp (repositoryClient h r R) (\<lambda>res t. repos t = repos s \<and> view t = view s \<and>
     (\<exists>c. res = Inr c \<and> lc_httpClient c = h \<and> repositoryURL c (RepositoryName R) = lake_url R)) s"
proof -
  have "wp (repositoryClient h r R) (\<lambda>res t. \<exists>c. res = Inr c) s"
    unfolding repositoryClient_def Let_def wp_bind by (rule wp_Get_ok) (use assms in auto)
  from wp_conj [OF this keeps_lake_deleteClient] show ?thesis by (rule wp_mono) auto
qed

end

text \<open>What the spec and the secret of a repository must give for the controller to reach lakeFS.\<close>

definition reachable_lake :: "LakeFSRepository \<Rightarrow> (okey \<rightharpoonup> obj) \<Rightarrow> bool" where
  "reachable_lake R v \<longleftrightarrow> RepositoryName R \<noteq> '''' \<and> rp_Endpoint (repo_Spec R) \<noteq> '''' \<and>
     (case v (KSecret, CredentialsSecretNamespace R, rc_Name (rp_CredentialsSecretRef (repo_Spec R))) of
        Some (OSecret sec) \<Rightarrow>
          map_at (Data sec) (AccessKeyIDDataKey (rp_CredentialsSecretRef (repo_Spec R))) \<noteq> '''' \<and>
          map_at (Data sec) (SecretAccessKeyDataKey (rp_CredentialsSecretRef (repo_Spec R))) \<noteq> ''''
      | _ \<Rightarrow> False)"

lemma reachable_lakeE:
  assumes "reachable_lake R v"
  obtains sec where "v (KSecret, CredentialsSecretNamespace R, rc_Name (rp_CredentialsSecretRef (repo_Spec R))) = Some (OSecret sec)"
    and "map_at (Data sec) (AccessKeyIDDataKey (rp_CredentialsSecretRef (repo_Spec R))) \<noteq> ''''"
    and "map_at (Data sec) (SecretAccessKeyDataKey (rp_CredentialsSecretRef (repo_Spec R))) \<noteq> ''''"
  using assms by (auto simp: reachable_lake_def split: option.splits obj.splits)

lemma reachable_lake_cong:
  assumes "repo_Spec x = repo_Spec R" and "Name x = Name R" and "Namespace x = Namespace R"
    and "\<And>k. fst k = KSecret \<Longrightarrow> v' k = v k"
  shows "reachable_lake x v' \<longleftrightarrow> reachable_lake R v"
proof -
  have names: "RepositoryName x = RepositoryName R" "CredentialsSecretNamespace x = CredentialsSecretNamespace R"
    using assms(1-3) by (simp_all add: RepositoryName_def CredentialsSecretNamespace_def)
  show ?thesis unfolding reachable_lake_def names assms(1) by (simp add: assms(4))
qed

context repository_controller_ok
begin

lemma wp_client_reaches:
  assumes "reachable_lake R (view s)"
  shows "wp (repositoryClient h r R) (\<lambda>res t. repos t = repos s \<and> view t = view s \<and>
     (\<exists>c. res = Inr c \<and> lc_httpClient c = h \<and> repositoryURL c (RepositoryName R) = lake_url R)) s"
  by (rule reachable_lakeE [OF assms]) (rule wp_repositoryClient_ok)

lemma wp_deleteRepository_ok:
  assumes "reachable_lake R (view s)"
  shows "wp (deleteRepository http r R) (\<lambda>err t. err = None) s"
  unfolding deleteRepository_def Let_def
  using assms by (auto simp: reachable_lake_def intro!: wp_mono [OF wp_client_reaches] wp_mono [OF wp_DeleteRepository_up])

lemma wp_deletion_completes:
  assumes R: "view s (KRepository, req) = Some (ORepository R)"
    and del: "DeletionTimestamp R \<noteq> None" and fin: "lakeFSRepositoryFinalizer \<in> set (Finalizers R)"
    and lake: "reachable_lake R (view s)"
  shows "wp (RepositoryReconcile http r req) (\<lambda>res t. res = reconciled_well) s"
  unfolding RepositoryReconcile_def wp_bind
proof (rule wp_Get_ok, simp, goal_cases)
  case (1 t x)
  then have x: "x = R" and t: "view t = view s" using R by simp_all
  have key: "(KRepository, req) = okey_of (ORepository R)" using view_okey [OF R] by simp
  have deleted: "wp (deleteRepository http r R) (\<lambda>err t. err = None \<and> view t = view s) t"
    using wp_conj [OF wp_deleteRepository_ok wp_deleteRepository, of R t] lake t by (auto elim: wp_mono)
  show ?case
    using del fin t R key by (auto simp: x contains_law intro!: wp_mono [OF deleted] wp_Update_ok)
qed (use R in simp)

lemma wp_ensureRepository_ok:
  assumes lake: "reachable_lake R (view s)" and ns: "rp_StorageNamespace (repo_Spec R) \<noteq> ''''" and gc: "\<not> GCEnabled R"
  shows "wp (ensureRepository http r R) (\<lambda>(c, err) t. err = None \<and> cond_Status c = ConditionTrue) s"
proof -
  have delete: "wp (deleteGCCronJob r R) (\<lambda>err _. err = None) t" for t
    unfolding deleteGCCronJob_def wp_bind by (rule wp_Delete_ok) (simp_all add: IsNotFound_def)
  have client_ok: "wp (repositoryClientForStatus http r R) (\<lambda>res t. \<exists>c. res = Inr c \<and> lc_httpClient c = http) s"
    unfolding repositoryClientForStatus_def by (auto intro!: wp_mono [OF wp_client_reaches [OF lake]])
  have gc_ok: "wp (ensureGC r c R) (\<lambda>(c, err) t. err = None \<and> cond_Status c = ConditionTrue) t" for c t
    unfolding ensureGC_def Let_def using gc by (auto intro!: wp_mono [OF delete])
  show ?thesis
    unfolding ensureRepository_def Let_def
    using lake ns by (auto simp: reachable_lake_def intro!: wp_mono [OF client_ok] wp_mono [OF wp_EnsureRepository_up] gc_ok)
qed

lemma wp_reconcilePresent_ok:
  assumes R: "stored (view s) (ORepository R)"
    and lake: "reachable_lake R (view s)" and ns: "rp_StorageNamespace (repo_Spec R) \<noteq> ''''" and gc: "\<not> GCEnabled R"
  shows "wp (reconcilePresent http r R) (\<lambda>res t. res = reconciled_well) s"
  unfolding reconcilePresent_def wp_bind
proof (rule wp_mono [OF wp_conj [OF wp_ensureRepository wp_ensureRepository_ok [OF lake ns gc]]], clarify, goal_cases)
  case (1 c err t)
  then have "stored (view t) (ORepository R)"
    using R by (auto simp: repository_judged_def repository_effect_other)
  with 1 show ?case
    unfolding writeRepositoryStatus_def
    by (auto intro!: wp_metaSetStatusCondition wp_StatusUpdate_ok)
qed

lemma wp_repository_becomes_ready:
  assumes R: "view s (KRepository, req) = Some (ORepository R)" and del: "DeletionTimestamp R = None"
    and lake: "reachable_lake R (view s)" and ns: "rp_StorageNamespace (repo_Spec R) \<noteq> ''''" and gc: "\<not> GCEnabled R"
  shows "wp (RepositoryReconcile http r req) (\<lambda>res t. res = reconciled_well) s"
  unfolding RepositoryReconcile_def wp_bind
proof (rule wp_Get_ok, simp, goal_cases)
  case (1 t x)
  then have x: "x = R" and t: "view t = view s" using R by simp_all
  have key: "(KRepository, req) = okey_of (ORepository R)" using view_okey [OF R] by simp
  have present: "wp (reconcilePresent http r y) (\<lambda>res t. res = reconciled_well) u"
    if "repo_Spec y = repo_Spec R" "Name y = Name R" "Namespace y = Namespace R"
      "view u = (view s)(okey_of (ORepository R) \<mapsto> ORepository y)" for y u
  proof (rule wp_reconcilePresent_ok)
    show "stored (view u) (ORepository y)" using that by (simp add: okey_of_def key_of_def)
    have "reachable_lake y (view u) \<longleftrightarrow> reachable_lake R (view s)"
      by (rule reachable_lake_cong) (use that in auto)
    with lake show "reachable_lake y (view u)" by simp
  qed (use that ns gc in \<open>simp_all add: GCEnabled_def\<close>)
  have same: "view t = (view s)(okey_of (ORepository R) \<mapsto> ORepository R)" using t R key by auto
  show ?case
    using del R key t by (auto simp: x contains_law stored_as_def intro!: wp_Update_ok present same)
qed (use R in simp)

end

lemma repository_deletedD:
  assumes "repository_deleted R v lake res v' lake'"
  shows "v' = v \<or> lake' (lake_url R) = None" and "lake' = lake \<or> lake' = lake(lake_url R := None)"
    and "\<And>k. k \<noteq> (KRepository, Namespace R, Name R) \<Longrightarrow> v' k = v k"
proof -
  show "v' = v \<or> lake' (lake_url R) = None" and "lake' = lake \<or> lake' = lake(lake_url R := None)"
    using assms unfolding repository_deleted_def by meson+
  consider "v' = v" | "v' = v(okey_of (ORepository R) := None)" | y where "v' = v(okey_of (ORepository R) \<mapsto> ORepository y)"
    using assms unfolding repository_deleted_def by meson
  then show "v' k = v k" if "k \<noteq> (KRepository, Namespace R, Name R)" for k
    using that by cases simp_all
qed

context repository_controller
begin

lemma repository_okey: "view s (KRepository, req) = Some (ORepository R) \<Longrightarrow> req = (Namespace R, Name R)"
  using view_okey [of s "(KRepository, req)" "ORepository R"] by simp

lemma wp_finalizer_safe:
  assumes R: "view s (KRepository, req) = Some (ORepository R)"
    and "DeletionTimestamp R \<noteq> None" and "lakeFSRepositoryFinalizer \<in> set (Finalizers R)"
  shows "wp (RepositoryReconcile http r req) (\<lambda>res t.
     (view t = view s \<or> repos t (lake_url R) = None) \<and>
     (repos t = repos s \<or> repos t = (repos s)(lake_url R := None)) \<and>
     (\<forall>k. k \<noteq> (KRepository, req) \<longrightarrow> view t k = view s k)) s"
proof (rule wp_mono [OF wp_RepositoryReconcile_deleted [OF assms]], goal_cases)
  case (1 res t)
  show ?case
    using repository_deletedD [OF 1] unfolding repository_okey [OF R] by blast
qed

end

lemma repository_resolved_cong:
  assumes "repo_Spec x = repo_Spec R" and "Name x = Name R" and "Namespace x = Namespace R"
  shows "lake_url x = lake_url R" and "cronjob_key x = cronjob_key R" and "policy_key x = policy_key R"
    and "GCEnabled x = GCEnabled R" and "gcSparkArgs x p = gcSparkArgs R p"
proof -
  have names: "RepositoryName x = RepositoryName R" "GCPolicyName x = GCPolicyName R" "gcCronJobName x = gcCronJobName R"
    using assms by (simp_all add: RepositoryName_def GCPolicyName_def gcCronJobName_def)
  show "lake_url x = lake_url R" "cronjob_key x = cronjob_key R" "policy_key x = policy_key R"
    "GCEnabled x = GCEnabled R" "gcSparkArgs x p = gcSparkArgs R p"
    using names assms by (simp_all add: lake_url_def cronjob_key_def policy_key_def GCEnabled_def gcSparkArgs_def)
qed

text \<open>What an undisturbed reconciliation leaves behind, spelled out.\<close>

definition ready_state :: "LakeFSRepository \<Rightarrow> NamespacedName \<Rightarrow> (okey \<rightharpoonup> obj) \<Rightarrow> (string \<rightharpoonup> lakeRepo) \<Rightarrow> bool" where
  "ready_state R req v lake \<longleftrightarrow>
     (\<exists>R' x. v (KRepository, req) = Some (ORepository R') \<and> repo_Spec R' = repo_Spec R \<and>
        lakeFSRepositoryFinalizer \<in> set (Finalizers R') \<and> Ready (ORepository R') \<and>
        lake (lake_url R) = Some x \<and>
        (if GCEnabled R
         then \<exists>p j. v (policy_key R) = Some (OGCPolicy p) \<and> lr_GCRules x = Some (rulesBody (gcRulesFromPolicy p)) \<and>
           v (cronjob_key R) = Some (OCronJob j) \<and> cj_Schedule (cronjob_Spec j) = Schedule p \<and>
           map c_Args (cj_Containers (cronjob_Spec j)) = [gcSparkArgs R p] \<and>
           controlled_by (meta (OCronJob j)) (meta (ORepository R'))
         else gone v (cronjob_key R)))"

lemma repository_present_ready:
  assumes "repository_present R v lake reconciled_well v' lake'"
  shows "ready_state R (Namespace R, Name R) v' lake'"
proof -
  from assms obtain x u y where x: "okey_of (ORepository x) = okey_of (ORepository R)" "repo_Spec x = repo_Spec R"
      "lakeFSRepositoryFinalizer \<in> set (Finalizers x)"
    and v': "v' = u(okey_of (ORepository x) \<mapsto> ORepository y)" and y: "status_written (ORepository x) (ORepository y)"
      "Ready (ORepository y)" and resolved: "repository_resolved x u lake'"
    unfolding repository_present_def repository_reported_def by blast
  have names: "Name x = Name R" "Namespace x = Namespace R" using x(1) by simp_all
  note same = repository_resolved_cong [OF x(2) names]
  have stored: "repo_Spec y = repo_Spec R" "Finalizers y = Finalizers x" "meta (ORepository y) = meta (ORepository x)"
    using y(1) x(2) by (auto simp: status_written_def stored_as_def)
  have key: "cronjob_key R \<noteq> okey_of (ORepository x)" "policy_key R \<noteq> okey_of (ORepository x)"
    by (simp_all add: cronjob_key_def policy_key_def)
  have job: "gc_job x p j \<Longrightarrow> cj_Schedule (cronjob_Spec j) = Schedule p \<and>
      map c_Args (cj_Containers (cronjob_Spec j)) = [gcSparkArgs R p] \<and> controlled_by (meta (OCronJob j)) (meta (ORepository y))"
    for p j using same(5) stored(3) by (auto simp: gc_job_def)
  from resolved obtain lr where lr: "lake' (lake_url R) = Some lr"
    and gc: "if GCEnabled R then gc_ensured x u lr else gone u (cronjob_key R)"
    unfolding repository_resolved_def same by blast
  have "if GCEnabled R
     then \<exists>p j. v' (policy_key R) = Some (OGCPolicy p) \<and> lr_GCRules lr = Some (rulesBody (gcRulesFromPolicy p)) \<and>
       v' (cronjob_key R) = Some (OCronJob j) \<and> cj_Schedule (cronjob_Spec j) = Schedule p \<and>
       map c_Args (cj_Containers (cronjob_Spec j)) = [gcSparkArgs R p] \<and>
       controlled_by (meta (OCronJob j)) (meta (ORepository y))
     else gone v' (cronjob_key R)"
  proof (cases "GCEnabled R")
    case True
    with gc obtain p j where "u (policy_key R) = Some (OGCPolicy p)" "lr_GCRules lr = Some (rulesBody (gcRulesFromPolicy p))"
      "u (cronjob_key R) = Some (OCronJob j)" "gc_job x p j"
      unfolding gc_ensured_def same by auto
    with job True key show ?thesis unfolding v' by auto
  next
    case False
    with gc key show ?thesis unfolding v' gone_def by auto
  qed
  moreover have "v' (KRepository, Namespace R, Name R) = Some (ORepository y)" using v' names by simp
  ultimately show ?thesis using lr stored x(3) y(2) unfolding ready_state_def by auto
qed

context repository_controller
begin

lemma wp_ready_means:
  assumes R: "view s (KRepository, req) = Some (ORepository R)" and del: "DeletionTimestamp R = None"
  shows "wp (RepositoryReconcile http r req)
    (\<lambda>res t. res = reconciled_well \<longrightarrow> ready_state R req (view t) (repos t)) s"
  by (rule wp_mono [OF wp_RepositoryReconcile_present [OF assms]])
    (use repository_okey [OF R] in \<open>auto intro: repository_present_ready\<close>)

end

context repository_controller_ok
begin

lemma wp_deletion_done:
  assumes R: "view s (KRepository, req) = Some (ORepository R)" and del: "DeletionTimestamp R \<noteq> None"
    and fin: "set (Finalizers R) = {lakeFSRepositoryFinalizer}" and lake: "reachable_lake R (view s)"
  shows "wp (RepositoryReconcile http r req) (\<lambda>res t. res = reconciled_well \<and> repos t (lake_url R) = None \<and>
     view t = (view s)((KRepository, req) := None)) s"
proof -
  have mem: "lakeFSRepositoryFinalizer \<in> set (Finalizers R)" by (simp add: fin)
  show ?thesis
    by (rule wp_mono [OF wp_conj [OF wp_RepositoryReconcile_deleted [OF R del mem] wp_deletion_completes [OF R del mem lake]]])
      (simp add: repository_deleted_def fin repository_okey [OF R])
qed

lemma wp_becomes_ready:
  assumes R: "view s (KRepository, req) = Some (ORepository R)" and "DeletionTimestamp R = None"
    and "reachable_lake R (view s)" and "rp_StorageNamespace (repo_Spec R) \<noteq> ''''" and "\<not> GCEnabled R"
  shows "wp (RepositoryReconcile http r req) (\<lambda>res t. res = reconciled_well \<and> repos t (lake_url R) \<noteq> None \<and>
     (\<exists>R'. view t (KRepository, req) = Some (ORepository R') \<and> Ready (ORepository R'))) s"
  by (rule wp_mono [OF wp_conj [OF wp_ready_means [OF assms(1, 2)] wp_repository_becomes_ready [OF assms]]])
    (auto simp: ready_state_def)

end

subsection \<open>The contract can hold\<close>

lemma keeps_w_lake:
  "keeps w_lake (cl_Get ref_client k key)" "keeps w_lake (cl_Create ref_client x)"
  "keeps w_lake (cl_Update ref_client x)" "keeps w_lake (cl_StatusUpdate ref_client x)"
  "keeps w_lake (cl_Delete ref_client x)"
  by (auto simp: keeps_def ref_defs split: option.splits)

lemma keeps_w_lake_lib:
  "keeps w_lake (SetStatusCondition ref_lib cs c)" "keeps w_lake (CreateOrUpdate ref_lib j f)"
  by (auto simp: ref_lib_def ref_CreateOrUpdate_def Get_def Create_def Update_def intro!: keeps_intros keeps_w_lake)

interpretation ref_repo: repository_controller_ok ref_reconciler ref_view 1000000000 1000000000 ref_http w_lake
  by (intro repository_controller_ok.intro repository_controller.intro repository_controller_axioms.intro)
    (simp_all add: ref_rec.controllers_axioms ref.reliable_api_axioms ref_lake.lakefs_api_axioms
      ref_lake.lakefs_up_axioms keeps_w_lake keeps_w_lake_lib)

text \<open>A repository, with a managed garbage collection or without.\<close>

definition ex_repo_spec :: "bool \<Rightarrow> LakeFSRepositorySpec" where
  "ex_repo_spec gc =
     \<lparr>rp_Repository = ''main-repo'', rp_Endpoint = ''http://lakefs/'', rp_StorageNamespace = ''s3://bucket'',
      rp_DefaultBranch = '''', rp_SampleData = False,
      rp_CredentialsSecretRef = \<lparr>rc_Name = ''lake'', rc_Namespace = '''', rc_AccessKeyIDKey = '''', rc_SecretAccessKeyKey = ''''\<rparr>,
      rp_GC = \<lparr>gc_Enabled = Some gc, gc_PolicyRef = \<lparr>gr_Name = ''''\<rparr>\<rparr>\<rparr>"

definition ex_repository :: "bool \<Rightarrow> string list \<Rightarrow> time option \<Rightarrow> LakeFSRepository" where
  "ex_repository gc fins del = ObjectMeta.extend
     ((new_meta ''repo'' ''data'')\<lparr>UID := ''uid-7'', Generation := 2, Finalizers := fins, DeletionTimestamp := del\<rparr>)
     \<lparr>repo_Spec = ex_repo_spec gc,
      repo_Status = \<lparr>ObservedGeneration = 0, Conditions = [], rst_Repository = '''', rst_GCPolicy = '''', rst_GCCronJob = ''''\<rparr>\<rparr>"

definition ex_lake_world :: "LakeFSRepository \<Rightarrow> obj list \<Rightarrow> (string \<rightharpoonup> lakeRepo) \<Rightarrow> lake_world" where
  "ex_lake_world R xs lake = \<lparr>w_objs = ORepository R # OSecret (new_secret ''lake'' ''data'' None
     (Some [''accessKeyId'' \<mapsto> ''AK'', ''secretAccessKey'' \<mapsto> ''SK''])) # xs, w_lake = lake\<rparr>"

definition ex_lake :: "string \<rightharpoonup> lakeRepo" where
  "ex_lake = [''http://lakefs/api/v1/repositories/main-repo'' \<mapsto>
     \<lparr>lr_StorageNamespace = ''s3://bucket'', lr_DefaultBranch = ''main'', lr_SampleData = False, lr_GCRules = None\<rparr>]"

lemma ex_repository_sel [simp]:
  "Finalizers (ex_repository gc fins del) = fins" "DeletionTimestamp (ex_repository gc fins del) = del"
  "Name (ex_repository gc fins del) = ''repo''" "Namespace (ex_repository gc fins del) = ''data''"
  "repo_Spec (ex_repository gc fins del) = ex_repo_spec gc"
  by (simp_all add: ex_repository_def ObjectMeta.extend_def new_meta_def)

lemma ex_lake_world_repo [simp]:
  "ref_view (ex_lake_world (ex_repository gc fins del) xs lake) (KRepository, ''data'', ''repo'') =
     Some (ORepository (ex_repository gc fins del))"
  by (simp add: ref_view_def ex_lake_world_def)

lemma ex_lake_world_reachable [simp]:
  "reachable_lake (ex_repository gc fins del) (ref_view (ex_lake_world (ex_repository gc fins del) xs lake))"
  by (simp add: reachable_lake_def ex_lake_world_def ref_view_def RepositoryName_def CredentialsSecretNamespace_def
      ex_repo_spec_def map_at_def AccessKeyIDDataKey_def SecretAccessKeyDataKey_def)

subsection \<open>Properties\<close>

text \<open>
  C3. The finalizer guards the lakeFS repository: when a repository that is being deleted is
  reconciled, its object changes (the finalizer goes) only if lakeFS no longer holds the repository;
  no other repository in lakeFS and no other stored object is touched.
\<close>

theorem repository_finalizer_safe:
  assumes "repository_controller r view T1 T2 http repos" and "view s (KRepository, req) = Some (ORepository R)"
    and "DeletionTimestamp R \<noteq> None" and "lakeFSRepositoryFinalizer \<in> set (Finalizers R)"
  shows "case run_state (RepositoryReconcile http r req) s of (res, t) \<Rightarrow>
     (view t = view s \<or> repos t (lake_url R) = None) \<and>
     (repos t = repos s \<or> repos t = (repos s)(lake_url R := None)) \<and>
     (\<forall>k. k \<noteq> (KRepository, req) \<longrightarrow> view t k = view s k)"
  by (rule repository_controller.wp_finalizer_safe [OF assms, unfolded wp_def])

theorem repository_finalizer_safe_witness:
  "case run_state (RepositoryReconcile ref_http ref_reconciler (''data'', ''repo''))
       (ex_lake_world (ex_repository True [lakeFSRepositoryFinalizer] (Some 5)) [] ex_lake) of (res, t) \<Rightarrow>
     (ref_view t = ref_view (ex_lake_world (ex_repository True [lakeFSRepositoryFinalizer] (Some 5)) [] ex_lake) \<or>
      w_lake t (lake_url (ex_repository True [lakeFSRepositoryFinalizer] (Some 5))) = None) \<and>
     (w_lake t = w_lake (ex_lake_world (ex_repository True [lakeFSRepositoryFinalizer] (Some 5)) [] ex_lake) \<or>
      w_lake t = (w_lake (ex_lake_world (ex_repository True [lakeFSRepositoryFinalizer] (Some 5)) [] ex_lake))
        (lake_url (ex_repository True [lakeFSRepositoryFinalizer] (Some 5)) := None)) \<and>
     (\<forall>k. k \<noteq> (KRepository, ''data'', ''repo'') \<longrightarrow>
        ref_view t k = ref_view (ex_lake_world (ex_repository True [lakeFSRepositoryFinalizer] (Some 5)) [] ex_lake) k)"
  by (rule repository_finalizer_safe [OF ref_repo.repository_controller_axioms]) simp_all

text \<open>
  C4. What a reconciliation without error and without retry means for a repository that is to exist:
  it is stored with its finalizer, its spec unchanged, and reported ready; lakeFS holds the
  repository at its URL; if its garbage is to be collected, the GC policy is stored, its rules are
  those lakeFS has, and the cron job is stored with the policy's schedule and the Spark arguments of
  the repository, controlled by it; otherwise there is no cron job.
\<close>

theorem repository_ready_means:
  assumes "repository_controller r view T1 T2 http repos" and "view s (KRepository, req) = Some (ORepository R)"
    and "DeletionTimestamp R = None"
  shows "case run_state (RepositoryReconcile http r req) s of (res, t) \<Rightarrow>
     res = Reconciled noRequeue None \<longrightarrow>
     (\<exists>R' x. view t (KRepository, req) = Some (ORepository R') \<and> repo_Spec R' = repo_Spec R \<and>
        lakeFSRepositoryFinalizer \<in> set (Finalizers R') \<and> Ready (ORepository R') \<and>
        repos t (lake_url R) = Some x \<and>
        (if GCEnabled R
         then \<exists>p j. view t (policy_key R) = Some (OGCPolicy p) \<and> lr_GCRules x = Some (rulesBody (gcRulesFromPolicy p)) \<and>
           view t (cronjob_key R) = Some (OCronJob j) \<and> cj_Schedule (cronjob_Spec j) = Schedule p \<and>
           map c_Args (cj_Containers (cronjob_Spec j)) = [gcSparkArgs R p] \<and>
           controlled_by (meta (OCronJob j)) (meta (ORepository R'))
         else gone (view t) (cronjob_key R)))"
  by (rule repository_controller.wp_ready_means [OF assms, unfolded wp_def ready_state_def])

text \<open>
  The reconciliation of a new repository with garbage collection in the concrete world ends well.
\<close>

lemma ex_repository_reconciled:
  "fst (run_state (RepositoryReconcile ref_http ref_reconciler (''data'', ''repo''))
       (ex_lake_world (ex_repository True [] None) [] Map.empty)) = Reconciled noRequeue None"
  by code_simp

theorem repository_ready_means_witness:
  "case run_state (RepositoryReconcile ref_http ref_reconciler (''data'', ''repo''))
       (ex_lake_world (ex_repository True [] None) [] Map.empty) of (res, t) \<Rightarrow>
     (\<exists>R' x. ref_view t (KRepository, (''data'', ''repo'')) = Some (ORepository R') \<and>
        repo_Spec R' = repo_Spec (ex_repository True [] None) \<and>
        lakeFSRepositoryFinalizer \<in> set (Finalizers R') \<and> Ready (ORepository R') \<and>
        w_lake t (lake_url (ex_repository True [] None)) = Some x \<and>
        (if GCEnabled (ex_repository True [] None)
         then \<exists>p j. ref_view t (policy_key (ex_repository True [] None)) = Some (OGCPolicy p) \<and>
           lr_GCRules x = Some (rulesBody (gcRulesFromPolicy p)) \<and>
           ref_view t (cronjob_key (ex_repository True [] None)) = Some (OCronJob j) \<and>
           cj_Schedule (cronjob_Spec j) = Schedule p \<and>
           map c_Args (cj_Containers (cronjob_Spec j)) = [gcSparkArgs (ex_repository True [] None) p] \<and>
           controlled_by (meta (OCronJob j)) (meta (ORepository R'))
         else gone (ref_view t) (cronjob_key (ex_repository True [] None))))"
  by (rule run_mp [OF _ ex_repository_reconciled], rule repository_ready_means [OF ref_repo.repository_controller_axioms])
    simp_all

text \<open>
  C10. Deletion completes: if lakeFS works, the API does not fail, and the repository names its
  lakeFS and a secret with credentials, then one reconciliation of a repository that is being
  deleted ends without error, lakeFS no longer holds it, and its object is gone if there was no
  other finalizer.
\<close>

theorem repository_deletion_completes:
  assumes "repository_controller_ok r view T1 T2 http repos" and "view s (KRepository, req) = Some (ORepository R)"
    and "DeletionTimestamp R \<noteq> None" and "set (Finalizers R) = {lakeFSRepositoryFinalizer}"
    and "reachable_lake R (view s)"
  shows "case run_state (RepositoryReconcile http r req) s of (res, t) \<Rightarrow> res = Reconciled noRequeue None \<and>
     repos t (lake_url R) = None \<and> view t = (view s)((KRepository, req) := None)"
  by (rule repository_controller_ok.wp_deletion_done [OF assms, unfolded wp_def])

theorem repository_deletion_completes_witness:
  "case run_state (RepositoryReconcile ref_http ref_reconciler (''data'', ''repo''))
       (ex_lake_world (ex_repository True [lakeFSRepositoryFinalizer] (Some 5)) [] ex_lake) of (res, t) \<Rightarrow>
     res = Reconciled noRequeue None \<and>
     w_lake t (lake_url (ex_repository True [lakeFSRepositoryFinalizer] (Some 5))) = None \<and>
     ref_view t = (ref_view (ex_lake_world (ex_repository True [lakeFSRepositoryFinalizer] (Some 5)) [] ex_lake))
       ((KRepository, ''data'', ''repo'') := None)"
  by (rule repository_deletion_completes [OF ref_repo.repository_controller_ok_axioms]) simp_all

text \<open>
  C11. A repository without managed garbage collection becomes ready: if lakeFS works, the API does
  not fail, and the spec names a repository, an endpoint, a storage namespace and a secret with
  credentials, then one reconciliation, with the finalizer in place or not, ends without error and
  without retry and reports the repository ready, and lakeFS holds it.
\<close>

theorem repository_becomes_ready:
  assumes "repository_controller_ok r view T1 T2 http repos" and "view s (KRepository, req) = Some (ORepository R)"
    and "DeletionTimestamp R = None" and "reachable_lake R (view s)" and "rp_StorageNamespace (repo_Spec R) \<noteq> ''''"
    and "\<not> GCEnabled R"
  shows "case run_state (RepositoryReconcile http r req) s of (res, t) \<Rightarrow> res = Reconciled noRequeue None \<and>
     repos t (lake_url R) \<noteq> None \<and>
     (\<exists>R'. view t (KRepository, req) = Some (ORepository R') \<and> Ready (ORepository R'))"
  by (rule repository_controller_ok.wp_becomes_ready [OF assms, unfolded wp_def])

theorem repository_becomes_ready_witness:
  "case run_state (RepositoryReconcile ref_http ref_reconciler (''data'', ''repo''))
       (ex_lake_world (ex_repository False [] None) [] Map.empty) of (res, t) \<Rightarrow> res = Reconciled noRequeue None \<and>
     w_lake t (lake_url (ex_repository False [] None)) \<noteq> None \<and>
     (\<exists>R'. ref_view t (KRepository, ''data'', ''repo'') = Some (ORepository R') \<and> Ready (ORepository R'))"
  by (rule repository_becomes_ready [OF ref_repo.repository_controller_ok_axioms])
    (simp_all add: GCEnabled_def ex_repo_spec_def)

text \<open>
  C34. The name of the cron job never exceeds the 52 characters that Kubernetes allows for a cron
  job; it is the repository's name with \<open>-gc\<close> where that fits, and otherwise has exactly 52
  characters, of which the first 43 are those of the long name.
\<close>

theorem gc_cronjob_name_bounded:
  "length (gcCronJobName R) \<le> 52 \<and>
   (gcCronJobName R = Name R @ ''-gc'' \<and> length (Name R) \<le> 49 \<or>
    length (gcCronJobName R) = 52 \<and> take 43 (gcCronJobName R) = take 43 (Name R @ ''-gc''))"
  by (simp add: gcCronJobName_def lakeFSGCCronJobNameMaxLength_def hex08_def Let_def min_def)

definition ex_foreign_cronjob :: CronJob where
  "ex_foreign_cronjob = (new_cronjob ''repo-gc'' ''data'')\<lparr>OwnerReferences := [\<lparr>or_UID = ''uid-other'', or_Controller = True\<rparr>]\<rparr>"

text \<open>
  Where garbage collection is switched off, the controller deletes the cron job by its name
  alone: a cron job that another object controls is deleted too, and the repository is reported
  ready.
\<close>

lemma foreign_cronjob_deleted:
  "case run_state (RepositoryReconcile ref_http ref_reconciler (''data'', ''repo''))
       (ex_lake_world (ex_repository False [lakeFSRepositoryFinalizer] None) [OCronJob ex_foreign_cronjob] ex_lake) of
     (res, t) \<Rightarrow> res = Reconciled noRequeue None \<and>
     (case (ref_view (ex_lake_world (ex_repository False [lakeFSRepositoryFinalizer] None) [OCronJob ex_foreign_cronjob] ex_lake)
              (cronjob_key (ex_repository False [lakeFSRepositoryFinalizer] None)),
            ref_view t (cronjob_key (ex_repository False [lakeFSRepositoryFinalizer] None)),
            ref_view t (KRepository, ''data'', ''repo'')) of
        (Some (OCronJob j), None, Some (ORepository R)) \<Rightarrow>
          map or_UID (filter or_Controller (OwnerReferences j)) = [''uid-other''] \<and> UID R \<noteq> ''uid-other'' \<and>
          Ready (ORepository R)
      | _ \<Rightarrow> False)"
  by code_simp

end
