(* ===== verification/StateInvariants.thy ===== *)
theory StateInvariants
  imports Kube
begin

section \<open>Programs that maintain an invariant of the world\<close>

text \<open>
  The partial counterpart of \<open>keeps\<close>: a program that leads from states in which an invariant holds
  to such states. The rules follow the structure of programs, so that an invariant of the stored
  objects is carried through a whole handler by the rules for the calls that write. The locale
  \<open>kind_invariant\<close> is for invariants that depend on the objects of some kinds \<open>K\<close> only, and at the objects of the
  kinds \<open>S\<close> on nothing that a status update changes.
\<close>

named_theorems maintains_intros "programs that maintain an invariant"

definition maintains :: "('s \<Rightarrow> bool) \<Rightarrow> ('s, 'a) state \<Rightarrow> bool" where
  "maintains I m \<longleftrightarrow> (\<forall>s. I s \<longrightarrow> I (snd (run_state m s)))"

lemma maintainsD: "maintains I m \<Longrightarrow> I s \<Longrightarrow> run_state m s = (a, t) \<Longrightarrow> I t"
  by (metis maintains_def snd_conv)

lemma maintains_wp: "maintains I m \<longleftrightarrow> (\<forall>s. I s \<longrightarrow> wp m (\<lambda>_ t. I t) s)"
  by (simp add: maintains_def wp_def split_beta)

lemma maintainsI: "(\<And>s. I s \<Longrightarrow> wp m (\<lambda>_ t. I t) s) \<Longrightarrow> maintains I m"
  by (simp add: maintains_wp)

lemma maintains_keeps: "keeps f m \<Longrightarrow> maintains (\<lambda>s. P (f s)) m"
  by (simp add: maintains_def keeps_def)

lemma maintains_return [maintains_intros]: "maintains I (return a)"
  by (simp add: maintains_def)

lemma maintains_bind [maintains_intros]:
  "maintains I m \<Longrightarrow> (\<And>a. maintains I (g a)) \<Longrightarrow> maintains I (State_Monad.bind m g)"
  by (simp add: maintains_wp) (blast intro: wp_mono)

lemma maintains_if [maintains_intros]:
  "(b \<Longrightarrow> maintains I m) \<Longrightarrow> (\<not> b \<Longrightarrow> maintains I n) \<Longrightarrow> maintains I (if b then m else n)"
  by simp

lemma maintains_case_option [maintains_intros]:
  "(x = None \<Longrightarrow> maintains I m) \<Longrightarrow> (\<And>y. x = Some y \<Longrightarrow> maintains I (g y)) \<Longrightarrow>
   maintains I (case x of None \<Rightarrow> m | Some y \<Rightarrow> g y)"
  by (simp split: option.splits)

lemma maintains_case_sum [maintains_intros]:
  "(\<And>e. x = Inl e \<Longrightarrow> maintains I (g e)) \<Longrightarrow> (\<And>y. x = Inr y \<Longrightarrow> maintains I (h y)) \<Longrightarrow>
   maintains I (case x of Inl e \<Rightarrow> g e | Inr y \<Rightarrow> h y)"
  by (simp split: sum.splits)

lemma maintains_case_prod [maintains_intros]:
  "(\<And>a b. x = (a, b) \<Longrightarrow> maintains I (g a b)) \<Longrightarrow> maintains I (case x of (a, b) \<Rightarrow> g a b)"
  by (simp split: prod.splits)

lemma maintains_case_list [maintains_intros]:
  "(xs = [] \<Longrightarrow> maintains I m) \<Longrightarrow> (\<And>y ys. xs = y # ys \<Longrightarrow> maintains I (g y ys)) \<Longrightarrow>
   maintains I (case xs of [] \<Rightarrow> m | y # ys \<Rightarrow> g y ys)"
  by (simp split: list.splits)

lemma maintains_Let [maintains_intros]:
  "(\<And>y. y = x \<Longrightarrow> maintains I (g y)) \<Longrightarrow> maintains I (Let x g)"
  by (simp add: Let_def)

lemma maintains_forEach [maintains_intros]:
  "(\<And>x. x \<in> set xs \<Longrightarrow> maintains I (body x)) \<Longrightarrow> maintains I (forEach xs body)"
  by (induction xs) (auto intro!: maintains_intros)

lemma maintains_collect [maintains_intros]:
  "(\<And>x. x \<in> set xs \<Longrightarrow> maintains I (body x)) \<Longrightarrow> maintains I (collect xs body)"
  by (induction xs) (auto intro!: maintains_intros)

text \<open>An invariant that is maintained from the states in which \<open>H\<close> holds as well.\<close>

definition maintains_when :: "('s \<Rightarrow> bool) \<Rightarrow> ('s \<Rightarrow> bool) \<Rightarrow> ('s, 'a) state \<Rightarrow> bool" where
  "maintains_when H I m \<longleftrightarrow> (\<forall>s. H s \<longrightarrow> I s \<longrightarrow> I (snd (run_state m s)))"

lemma maintains_when_wp: "maintains_when H I m \<longleftrightarrow> (\<forall>s. H s \<longrightarrow> I s \<longrightarrow> wp m (\<lambda>_ t. I t) s)"
  by (simp add: maintains_when_def wp_def split_beta)

lemma maintains_whenD: "maintains_when H I m \<Longrightarrow> H s \<Longrightarrow> I s \<Longrightarrow> run_state m s = (a, t) \<Longrightarrow> I t"
  by (metis maintains_when_def snd_conv)

lemma maintains_when: "maintains I m \<Longrightarrow> maintains_when H I m"
  by (simp add: maintains_def maintains_when_def)

lemma maintains_when_branches:
  "(b \<Longrightarrow> maintains_when H I m) \<Longrightarrow> (\<not> b \<Longrightarrow> maintains_when H I n) \<Longrightarrow> maintains_when H I (if b then m else n)"
  "(\<And>y. y = x \<Longrightarrow> maintains_when H I (g y)) \<Longrightarrow> maintains_when H I (Let x g)"
  by (simp_all add: Let_def)

subsection \<open>Invariants of the stored objects\<close>

locale kind_invariant = kube_api cl view
  for cl :: "'s Client" and view :: "'s \<Rightarrow> okey \<rightharpoonup> obj" +
  fixes K S :: "kind set" and P :: "(okey \<rightharpoonup> obj) \<Rightarrow> bool"
  assumes other_kinds: "P v \<Longrightarrow> fst k \<notin> K \<Longrightarrow> P (v(k := z))"
    and status_only: "P v \<Longrightarrow> fst k \<in> S \<Longrightarrow> v k = Some old \<Longrightarrow> okey_of y = k \<Longrightarrow> stored_as old y \<Longrightarrow> meta y = meta old \<Longrightarrow> P (v(k \<mapsto> y))"
begin

abbreviation maintained :: "('s, 'a) state \<Rightarrow> bool" where
  "maintained m \<equiv> maintains (\<lambda>s. P (view s)) m"

lemma maintains_reads [maintains_intros]: "maintained (Get cl T key)" "maintained (ListOf cl T lo)"
  by (simp_all add: maintains_keeps [OF keeps_Get] maintains_keeps [OF keeps_ListOf])

lemma fst_okey: "wf_kind T \<Longrightarrow> fst (okey_of (kt_mk T x)) = kt_kind T"
  by (simp add: okey_of_def wf_kindD)

lemma maintains_writes [maintains_intros]:
  assumes "wf_kind T" and "kt_kind T \<notin> K"
  shows "maintained (Create cl T x)" and "maintained (Update cl T x)" and "maintained (Delete cl T x)"
proof -
  have upd: "P (v(okey_of (kt_mk T x) := z))" if "P v" for v z
    by (rule other_kinds [OF that]) (simp add: fst_okey assms)
  show "maintained (Create cl T x)"
    by (rule maintainsI, rule wp_Create [OF assms(1)]) (simp_all add: upd)
  show "maintained (Update cl T x)"
    by (rule maintainsI, rule wp_Update [OF assms(1)]) (simp_all add: upd)
  show "maintained (Delete cl T x)"
    by (rule maintainsI, rule wp_Delete) (simp_all add: upd)
qed

lemma maintains_StatusUpdate [maintains_intros]:
  assumes T: "wf_kind T" and S: "kt_kind T \<in> S"
  shows "maintained (StatusUpdate cl T x)"
proof (rule maintainsI, rule wp_StatusUpdate [OF T])
  fix s t y old
  assume "P (view s)" and old: "view s (okey_of (kt_mk T x)) = Some old" and y: "stored_as old (kt_mk T y)"
    "meta (kt_mk T y) = meta old" and t: "view t = (view s)(okey_of (kt_mk T x) \<mapsto> kt_mk T y)"
  moreover have "okey_of (kt_mk T y) = okey_of (kt_mk T x)"
    using view_okey [OF old] y(1) by (simp add: stored_as_okey)
  moreover have "fst (okey_of (kt_mk T x)) \<in> S" using S by (simp add: fst_okey [OF T])
  ultimately show "P (view t)" unfolding t by (intro status_only)
qed simp

end

end
