(* ===== verification/Composition.thy ===== *)
theory Composition
  imports Routes StatusControllers CredentialController RepositoryReconciliation StateInvariants
begin

section \<open>The auth server and the controllers together\<close>

text \<open>
  The auth server and the seven controllers work on the same stored objects. An \<open>event\<close> is a request
  to the server or one reconciliation; the step relation \<open>system\<close> is any sequence of events, with
  changes from outside in between. Requests and reconciliations are taken one at a time. The
  properties are those that no part has alone: what the controllers do to what users may do, and
  that a revoked access key stays refused whatever the parts do after it was revoked.
\<close>

subsection \<open>Events and runs\<close>

datatype event =
    Serve Request
  | ReconcileUser NamespacedName
  | ReconcileGroup NamespacedName
  | ReconcileRole NamespacedName
  | ReconcileRoleBinding NamespacedName
  | ReconcileCredential NamespacedName
  | ReconcileRepository NamespacedName
  | ReconcileGCPolicy NamespacedName

definition ignoring :: "('s, 'a) state \<Rightarrow> ('s, unit) state" where
  "ignoring m = do { _ \<leftarrow> m; return () }"

fun run_event :: "'s Runtime \<Rightarrow> 's Server \<Rightarrow> 's Reconciler \<Rightarrow> 's Http \<Rightarrow> event \<Rightarrow> ('s, unit) state" where
  "run_event rt srv r http (Serve q) = ignoring (handle rt srv q)"
| "run_event rt srv r http (ReconcileUser req) = ignoring (UserReconcile r req)"
| "run_event rt srv r http (ReconcileGroup req) = ignoring (GroupReconcile r req)"
| "run_event rt srv r http (ReconcileRole req) = ignoring (RoleReconcile r req)"
| "run_event rt srv r http (ReconcileRoleBinding req) = ignoring (RoleBindingReconcile r req)"
| "run_event rt srv r http (ReconcileCredential req) = ignoring (CredentialReconcile r req)"
| "run_event rt srv r http (ReconcileRepository req) = ignoring (RepositoryReconcile http r req)"
| "run_event rt srv r http (ReconcileGCPolicy req) = ignoring (GCPolicyReconcile r req)"

text \<open>The kind of the object that a reconciliation is for.\<close>

fun event_kind :: "event \<Rightarrow> kind option" where
  "event_kind (Serve q) = None"
| "event_kind (ReconcileUser req) = Some KUser"
| "event_kind (ReconcileGroup req) = Some KGroup"
| "event_kind (ReconcileRole req) = Some KRole"
| "event_kind (ReconcileRoleBinding req) = Some KRoleBinding"
| "event_kind (ReconcileCredential req) = Some KCredential"
| "event_kind (ReconcileRepository req) = Some KRepository"
| "event_kind (ReconcileGCPolicy req) = Some KGCPolicy"

text \<open>
  The states that can be reached: events that are \<open>allowed\<close> in the state they happen in, and changes from outside that \<open>env\<close>
  describes, in any order.
\<close>

inductive system :: "(event \<Rightarrow> ('s, unit) state) \<Rightarrow> ('s \<Rightarrow> event \<Rightarrow> bool) \<Rightarrow> ('s \<Rightarrow> 's \<Rightarrow> bool) \<Rightarrow> 's \<Rightarrow> 's \<Rightarrow> bool"
  for run allowed env s where
  start: "system run allowed env s s"
| event: "system run allowed env s t \<Longrightarrow> allowed t e \<Longrightarrow> run_state (run e) t = (x, u) \<Longrightarrow> system run allowed env s u"
| outside: "system run allowed env s t \<Longrightarrow> env t u \<Longrightarrow> system run allowed env s u"

lemma system_invariant:
  assumes "system run allowed env s t" and "I s"
    and "\<And>e. maintains_when (\<lambda>t. allowed t e) I (run e)" and "\<And>t u. env t u \<Longrightarrow> I t \<Longrightarrow> I u"
  shows "I t"
  using assms(1, 2)
proof (induction rule: system.induct)
  case (event t e x u)
  with maintains_whenD [OF assms(3) event.hyps(2) _ event.hyps(3)] show ?case by blast
qed (use assms(4) in blast)+

lemma maintains_when_ignoring: "maintains_when H I m \<Longrightarrow> maintains_when H I (ignoring m)"
  by (auto simp: maintains_when_wp ignoring_def elim!: wp_mono)

lemma maintains_ignoring [maintains_intros]: "maintains I m \<Longrightarrow> maintains I (ignoring m)"
  unfolding ignoring_def by (intro maintains_intros)

subsection \<open>Revoked access keys\<close>

text \<open>Every stored credential with the access key is revoked.\<close>

definition revoked_everywhere :: "string \<Rightarrow> (okey \<rightharpoonup> obj) \<Rightarrow> bool" where
  "revoked_everywhere k v \<longleftrightarrow> (\<forall>key c. v (KCredential, key) = Some (OCredential c) \<longrightarrow>
     cs_AccessKeyID (cred_Spec c) = k \<longrightarrow> cs_Revoked (cred_Spec c))"

lemma revoked_everywhere_upd:
  assumes "revoked_everywhere k v"
    and "\<And>c. z = Some (OCredential c) \<Longrightarrow> cs_AccessKeyID (cred_Spec c) = k \<Longrightarrow> cs_Revoked (cred_Spec c)"
  shows "revoked_everywhere k (v(ok := z))"
  using assms by (auto simp: revoked_everywhere_def)

lemma revoked_everywhereD:
  "revoked_everywhere k v \<Longrightarrow> v ok = Some (OCredential c) \<Longrightarrow> fst ok = KCredential \<Longrightarrow>
   cs_AccessKeyID (cred_Spec c) = k \<Longrightarrow> cs_Revoked (cred_Spec c)"
  by (cases ok) (auto simp: revoked_everywhere_def)

lemma stored_as_credential:
  assumes "stored_as old (OCredential c)"
  obtains d where "old = OCredential d" and "cred_Spec c = cred_Spec d"
  using assms by (cases old) (auto simp: stored_as_def)

sublocale kube_api \<subseteq> revoked: kind_invariant cl view "{KCredential}" UNIV "revoked_everywhere k" for k
proof unfold_locales
  show "revoked_everywhere k (v(ok := z))" if "revoked_everywhere k v" "fst ok \<notin> {KCredential}" for v ok z
    using that by (cases ok) (auto simp: revoked_everywhere_def)
  show "revoked_everywhere k (v(ok \<mapsto> y))"
    if "revoked_everywhere k v" "v ok = Some old" "okey_of y = ok" "stored_as old y" "meta y = meta old" for v ok old y
  proof (rule revoked_everywhere_upd [OF that(1)])
    fix c
    assume c: "Some y = Some (OCredential c)" "cs_AccessKeyID (cred_Spec c) = k"
    with that(4) obtain d where "old = OCredential d" "cred_Spec c = cred_Spec d"
      by (auto elim: stored_as_credential)
    with c that(1-3) show "cs_Revoked (cred_Spec c)" by (auto dest: revoked_everywhereD)
  qed
qed

context kube_api
begin

lemma revoked_writes [maintains_intros]:
  shows "maintains (\<lambda>s. revoked_everywhere k (view s)) (Delete cl CredentialT c)"
    and "cs_Revoked (cred_Spec c) \<Longrightarrow> maintains (\<lambda>s. revoked_everywhere k (view s)) (Update cl CredentialT c)"
    and "cs_AccessKeyID (cred_Spec c) \<noteq> k \<Longrightarrow> maintains (\<lambda>s. revoked_everywhere k (view s)) (Create cl CredentialT c)"
proof -
  show "maintains (\<lambda>s. revoked_everywhere k (view s)) (Delete cl CredentialT c)"
  proof (rule maintainsI, rule wp_Delete)
    fix s t old y
    assume inv: "revoked_everywhere k (view s)" and old: "view s (okey_of (kt_mk CredentialT c)) = Some old"
      and y: "stored_as old y" and t: "view t = (view s)(okey_of (kt_mk CredentialT c) \<mapsto> y)"
    show "revoked_everywhere k (view t)"
      unfolding t
    proof (rule revoked_everywhere_upd [OF inv])
      fix d
      assume d: "Some y = Some (OCredential d)" "cs_AccessKeyID (cred_Spec d) = k"
      with y obtain e where "old = OCredential e" "cred_Spec d = cred_Spec e" by (auto elim: stored_as_credential)
      with d inv old show "cs_Revoked (cred_Spec d)" by (auto dest: revoked_everywhereD)
    qed
  qed (auto intro: revoked_everywhere_upd)
  show "maintains (\<lambda>s. revoked_everywhere k (view s)) (Update cl CredentialT c)" if "cs_Revoked (cred_Spec c)"
    by (rule maintainsI, rule wp_Update) (use that in \<open>auto intro!: revoked_everywhere_upd simp: stored_as_def\<close>)
  show "maintains (\<lambda>s. revoked_everywhere k (view s)) (Create cl CredentialT c)" if "cs_AccessKeyID (cred_Spec c) \<noteq> k"
    by (rule maintainsI, rule wp_Create) (use that in \<open>auto intro!: revoked_everywhere_upd simp: stored_as_def\<close>)
qed

end

subsection \<open>The server maintains the revocation of a key\<close>

text \<open>
  A request asks for a new credential with the key \<open>k\<close> if it names \<open>k\<close>, or names no key and the random
  generator can yield \<open>k\<close> again. The key is created anew only by such a request, and only where no object of
  the name made from it is stored: \<open>key_held\<close> says that one is, in the namespace of every stored user.
\<close>

definition fresh_tokens :: "'s Runtime \<Rightarrow> string \<Rightarrow> bool" where
  "fresh_tokens rt k \<longleftrightarrow> (\<forall>s. wp (env_RandRead rt 18)
     (\<lambda>buf _. \<forall>b. buf = Some b \<longrightarrow> ''lakefs_ak_'' @ randomToken b \<noteq> k) s)"

definition asks_for :: "'s Runtime \<Rightarrow> string \<Rightarrow> Request \<Rightarrow> bool" where
  "asks_for rt k q \<longleftrightarrow> asked_key q = k \<or> asked_key q = '''' \<and> \<not> fresh_tokens rt k"

definition key_held :: "string \<Rightarrow> (okey \<rightharpoonup> obj) \<Rightarrow> bool" where
  "key_held k v \<longleftrightarrow> (\<forall>u. stored v (OUser u) \<longrightarrow> v (credential_key (Namespace u) k) \<noteq> None)"

lemma maintains_bind_wp:
  assumes "\<And>s. I s \<Longrightarrow> wp m (\<lambda>a t. I t \<and> R a) s" and "\<And>a. R a \<Longrightarrow> maintains I (g a)"
  shows "maintains I (State_Monad.bind m g)"
  using assms by (simp add: maintains_wp) (blast intro: wp_mono)

lemma key_heldD: "key_held k v \<Longrightarrow> stored v (OUser u) \<Longrightarrow> v (credential_key (Namespace u) k) \<noteq> None"
  unfolding key_held_def by blast

context auth_api
begin

lemma revoked_lookups [maintains_intros]:
  "revoked.maintained k (resolveCredential srv x)" "revoked.maintained k (resolveUser srv x)"
  "revoked.maintained k (resolveGroup srv x)" "revoked.maintained k (resolveRoleForPolicy srv x repo)"
  "revoked.maintained k (groupsForUser srv u)"
  by (simp_all add: maintains_keeps keeps_lookups)

lemma revoked_reads [maintains_intros]:
  "revoked.maintained k (listUsers srv q)" "revoked.maintained k (getUser srv q x)"
  "revoked.maintained k (listUserGroups srv q x)" "revoked.maintained k (listUserPolicies srv q x)"
  "revoked.maintained k (listGroups srv q)" "revoked.maintained k (listGroupMembers srv q x)"
  "revoked.maintained k (getGroup srv q x)" "revoked.maintained k (listGroupPolicies srv q x)"
  "revoked.maintained k (listPolicies srv q)" "revoked.maintained k (getPolicy srv q x)"
  by (simp_all add: maintains_keeps keeps_user_reads keeps_group_reads keeps_policy_reads)

lemma revoked_shared [maintains_intros]:
  "revoked.maintained k (ensureGroup srv x d)" "revoked.maintained k (ensureRoleBinding srv ns kind n ro repo)"
  "revoked.maintained k (deleteRoleBinding srv ns kind n ro repo)"
  "revoked.maintained k (deleteRoleBindingsForSubject srv ns kind n)"
  "revoked.maintained k (deleteRoleBindingsForRole srv ns n)" "revoked.maintained k (removeUserFromGroups srv u)"
  "revoked.maintained k (deleteCredentialsForUser srv u)"
  unfolding ensureGroup_def ensureRoleBinding_def deleteRoleBinding_def deleteRoleBindingsForSubject_def
    deleteRoleBindingsForRole_def removeUserFromGroups_def deleteCredentialsForUser_def
  by (intro maintains_intros; simp)+

lemma revoked_user_writes [maintains_intros]:
  "revoked.maintained k (createUser srv q)" "revoked.maintained k (deleteUser srv q x)"
  "revoked.maintained k (attachPolicyToUser srv q x y)" "revoked.maintained k (detachPolicyFromUser srv q x y)"
  unfolding createUser_def deleteUser_def attachPolicyToUser_def detachPolicyFromUser_def write_defs
  by (intro maintains_intros; simp)+

lemma revoked_group_writes [maintains_intros]:
  "revoked.maintained k (createGroup srv q)" "revoked.maintained k (deleteGroup srv q x)"
  "revoked.maintained k (addGroupMembership srv q x y)" "revoked.maintained k (removeGroupMembership srv q x y)"
  "revoked.maintained k (attachPolicyToGroup srv q x y)" "revoked.maintained k (detachPolicyFromGroup srv q x y)"
  unfolding createGroup_def deleteGroup_def addGroupMembership_def removeGroupMembership_def
    attachPolicyToGroup_def detachPolicyFromGroup_def write_defs
  by (intro maintains_intros; simp)+

lemma revoked_policy_writes [maintains_intros]:
  "revoked.maintained k (createPolicy srv q)" "revoked.maintained k (updatePolicy srv q x)"
  "revoked.maintained k (deletePolicy srv q x)"
  unfolding createPolicy_def updatePolicy_def writePolicy_def deletePolicy_def write_defs
  by (intro maintains_intros; simp)+

lemma revoked_revokes [maintains_intros]: "revoked.maintained k (revokeUserCredential srv q x y)"
  unfolding revokeUserCredential_def write_defs by (intro maintains_intros; simp)

end

context auth_clock
begin

lemma keeps_clock: "keeps view (env_Now rt)" "keeps view (env_RandRead rt n)"
  by (auto intro!: keepsI dest: wp_run [OF now_law] wp_run [OF rand_law])

lemma revoked_clock [maintains_intros]: "revoked.maintained k (env_Now rt)" "revoked.maintained k (env_RandRead rt n)"
  by (simp_all add: maintains_keeps keeps_clock)

lemma revoked_credential_reads [maintains_intros]:
  "revoked.maintained k (listUserCredentials rt srv q x)" "revoked.maintained k (getCredentialByAccessKey rt srv q x y)"
  by (simp_all add: maintains_keeps keeps_credential_reads [OF keeps_clock(1)])

lemma revoked_wait [maintains_intros]: "revoked.maintained k (waitForCredentialSecret n srv c)"
  by (induction n) (auto simp: getCredentialSecret_def intro!: maintains_intros)

lemma revoked_answer [maintains_intros]: "revoked.maintained k (answerCredential rt srv u x y c)"
  unfolding answerCredential_def ensureCredentialSecret_def write_defs by (intro maintains_intros; simp)

lemma wp_createCredentialObject_revoked:
  assumes "revoked_everywhere k (view s)" and "stored (view s) (OUser u)"
    and "a = k \<Longrightarrow> key_held k (view s)"
  shows "wp (createCredentialObject srv u a) (\<lambda>_ t. revoked_everywhere k (view t)) s"
proof -
  let ?x = "new_credential (objectName (''lakefs-cred-'' @ a)) (Namespace u)
       \<lparr>cs_UserRef = \<lparr>ur_Name = Name u\<rparr>, cs_AccessKeyID = a,
        cs_SecretRef = \<lparr>sr_Name = objectName (''lakefs-cred-'' @ a), sr_Key = ''secretAccessKey''\<rparr>,
        cs_ExpiresAt = None, cs_Revoked = False\<rparr>"
  have created: "revoked_everywhere k (view t)"
    if "view s (okey_of (OCredential ?x)) = None" "stored_as (OCredential ?x) (OCredential y)"
      "view t = (view s)(okey_of (OCredential ?x) \<mapsto> OCredential y)" for t y
  proof -
    have "view s (credential_key (Namespace u) a) = None" using that(1) by (simp add: credential_key_def)
    with key_heldD [OF assms(3) assms(2)] have "a \<noteq> k" by auto
    with assms(1) that(2) show ?thesis
      unfolding that(3) by (intro revoked_everywhere_upd) (auto simp: stored_as_def)
  qed
  show ?thesis
    unfolding createCredentialObject_def Let_def wp_bind
    by (rule wp_Create) (use assms(1) created in \<open>auto intro!: wp_Get simp del: okey_simps\<close>)
qed

lemma revoked_createUserCredential:
  "maintains_when (\<lambda>t. asks_for rt k q \<longrightarrow> key_held k (view t)) (\<lambda>t. revoked_everywhere k (view t))
     (createUserCredential rt srv q x)"
  unfolding maintains_when_wp
proof (intro allI impI)
  fix s
  assume held: "asks_for rt k q \<longrightarrow> key_held k (view s)" and rev: "revoked_everywhere k (view s)"
  let ?given = "asked_key q"
  have token: "wp (if ?given = '''' then env_RandRead rt 18 else return (Some ''''))
      (\<lambda>a t. view t = view s \<and> (\<forall>b. a = Some b \<longrightarrow>
         (if ?given = '''' then ''lakefs_ak_'' @ randomToken b else ?given) = k \<longrightarrow> key_held k (view s))) s0"
    if "view s0 = view s" for s0
  proof (cases "fresh_tokens rt k")
    case True
    then have "wp (env_RandRead rt 18) (\<lambda>buf _. \<forall>b. buf = Some b \<longrightarrow> ''lakefs_ak_'' @ randomToken b \<noteq> k) s0"
      by (simp add: fresh_tokens_def)
    from wp_conj [OF rand_law [of 18 s0] this] show ?thesis
      using held that by (auto simp: asks_for_def elim!: wp_mono)
  next
    case False
    show ?thesis
      using held that False by (auto simp: asks_for_def intro!: wp_mono [OF rand_law])
  qed
  have object: "wp (createCredentialObject srv u a) (\<lambda>_ t. revoked_everywhere k (view t)) t"
    if "view t = view s" "stored (view s) (OUser u)" "a = k \<longrightarrow> key_held k (view s)" for t u a
    by (rule wp_createCredentialObject_revoked) (use that rev in simp_all)
  have answer: "wp (answerCredential rt srv u a sk c) (\<lambda>_ t. revoked_everywhere k (view t)) t"
    if "revoked_everywhere k (view t)" for t u a sk c
    using revoked_answer [of k u a sk c] that by (simp add: maintains_wp)
  show "wp (createUserCredential rt srv q x) (\<lambda>_ t. revoked_everywhere k (view t)) s"
    unfolding createUserCredential_def Let_def write_defs asked_key_def [symmetric] wp_bind
  proof (rule users.wp_resolve)
    fix t u
    assume t: "view t = view s" and u: "stored (view s) (OUser u)"
    show "wp (case Some u of
        None \<Rightarrow> return (Respond StatusNotFound (ErrorBody ''user not found''))
      | Some u \<Rightarrow> do {
          token \<leftarrow> (if ?given = '''' then env_RandRead rt 18 else return (Some ''''));
          (case token of
             None \<Rightarrow> return (Panicked ''failed to read random bytes'')
           | Some buf \<Rightarrow> do {
               object \<leftarrow> createCredentialObject srv u (if ?given = '''' then ''lakefs_ak_'' @ randomToken buf else ?given);
               (case object of
                  Inl out \<Rightarrow> return out
                | Inr c \<Rightarrow> answerCredential rt srv u (if ?given = '''' then ''lakefs_ak_'' @ randomToken buf else ?given)
                    (firstNonEmpty [query_Get q ''secret_access_key'', query_Get q ''secret_key'']) c) }) })
       (\<lambda>_ t. revoked_everywhere k (view t)) t"
      unfolding option.case wp_bind
      by (rule wp_mono [OF token [OF t]])
        (auto simp: rev intro!: wp_mono [OF object [OF _ u]] answer split: option.split sum.split)
  qed (use rev in simp)
qed

lemma revoked_handle:
  "maintains_when (\<lambda>t. asks_for rt k q \<longrightarrow> key_held k (view t)) (\<lambda>t. revoked_everywhere k (view t)) (handle rt srv q)"
  unfolding handle_def handleUserPath_def handlePolicyPath_def handleGroupPath_def write_defs
  by (intro maintains_when_branches revoked_createUserCredential; rule maintains_when, intro maintains_intros)

end

subsection \<open>What the controllers leave alone\<close>

text \<open>
  The controllers write nothing but statuses, and the secrets, cron jobs, GC policies and repositories
  that are theirs. So every invariant that does not depend on those is maintained by all of them.
\<close>

locale controller_invariant =
  repository_controller r view T1 T2 http repos + kind_invariant "rec_Client r" view K S P
  for r :: "'s Reconciler" and view :: "'s \<Rightarrow> okey \<rightharpoonup> obj" and T1 T2 :: time
    and http :: "'s Http" and repos :: "'s \<Rightarrow> string \<rightharpoonup> lakeRepo"
    and K S :: "kind set" and P :: "(okey \<rightharpoonup> obj) \<Rightarrow> bool" +
  assumes not_owned: "K \<inter> {KSecret, KCronJob, KGCPolicy, KRepository} = {}"
begin

lemma owned_kinds [simp]: "KSecret \<notin> K" "KCronJob \<notin> K" "KGCPolicy \<notin> K" "KRepository \<notin> K"
  using not_owned by auto

lemma maintained_lib [maintains_intros]:
  "maintained (metaSetStatusCondition (rec_Lib r) cs c)" "maintained (env_Now (rec_Runtime r))"
  "maintained (randomCredentialToken r n)"
  by (auto intro!: maintainsI wp_metaSetStatusCondition wp_randomCredentialToken wp_mono [OF now_law])

lemma maintained_status_reconcile:
  assumes "wf_kind T" and "kt_kind T \<in> S" and "\<And>x. maintained (resolve x)"
  shows "maintained (status_reconcile r T resolve conds put req)"
  unfolding status_reconcile_def by (intro maintains_intros assms)

lemma maintained_judging: "maintained m \<Longrightarrow> (\<And>x. resolve x = m) \<Longrightarrow> maintained (judging resolve x)"
  unfolding judging_def by (auto intro!: maintains_intros)

lemma maintained_status_controllers:
  "KUser \<in> S \<Longrightarrow> maintained (UserReconcile r req)" "KRole \<in> S \<Longrightarrow> maintained (RoleReconcile r req)"
  "KGCPolicy \<in> S \<Longrightarrow> maintained (GCPolicyReconcile r req)" "KGroup \<in> S \<Longrightarrow> maintained (GroupReconcile r req)"
  "KRoleBinding \<in> S \<Longrightarrow> maintained (RoleBindingReconcile r req)"
proof -
  have members: "maintained (resolveMembers r g ms)" for g ms
    by (induction ms) (auto simp: Let_def intro!: maintains_intros)
  show "KUser \<in> S \<Longrightarrow> maintained (UserReconcile r req)" "KRole \<in> S \<Longrightarrow> maintained (RoleReconcile r req)"
    "KGCPolicy \<in> S \<Longrightarrow> maintained (GCPolicyReconcile r req)"
    unfolding UserReconcile_shape RoleReconcile_shape GCPolicyReconcile_shape
    by (auto intro!: maintained_status_reconcile maintains_intros simp: judging_def)
  show "KGroup \<in> S \<Longrightarrow> maintained (GroupReconcile r req)"
    unfolding GroupReconcile_shape reconcilerResolveGroup_def
    by (auto intro!: maintained_status_reconcile maintains_intros members simp: judging_def)
  show "KRoleBinding \<in> S \<Longrightarrow> maintained (RoleBindingReconcile r req)"
    unfolding RoleBindingReconcile_shape resolveRoleBinding_def
    by (auto intro!: maintained_status_reconcile maintains_intros simp: judging_def Let_def)
qed

lemma maintained_secret [maintains_intros]: "maintained (reconcilerEnsureSecret r c key)"
  unfolding reconcilerEnsureSecret_def createSecret_def completeSecret_def storeSecret_def Let_def
  by (intro maintains_intros) simp_all

lemma maintained_credential_controller: "KCredential \<in> S \<Longrightarrow> maintained (CredentialReconcile r req)"
  unfolding CredentialReconcile_def reconcilerResolveCredential_def resolveCredentialSecret_def Let_def
  by (intro maintains_intros) simp_all

lemma maintained_http [maintains_intros]:
  "lc_httpClient c = http \<Longrightarrow> maintained (EnsureRepository c spec)"
  "lc_httpClient c = http \<Longrightarrow> maintained (SetGCRules c n rules)"
  "lc_httpClient c = http \<Longrightarrow> maintained (DeleteRepository c n)"
  by (auto intro!: maintainsI wp_mono [OF wp_EnsureRepository] wp_mono [OF wp_SetGCRules] wp_mono [OF wp_DeleteRepository])

lemma other_kinds_same_but:
  assumes "P v" and "same_but ks v v'" and "finite ks" and "\<And>k. k \<in> ks \<Longrightarrow> fst k \<notin> K"
  shows "P v'"
  using assms(3, 2, 4)
proof (induction ks arbitrary: v' rule: finite_induct)
  case empty
  then have "v' = v" by (auto simp: same_but_def)
  with assms(1) show ?case by simp
next
  case (insert k ks)
  have "P (v'(k := v k))"
    by (rule insert.IH) (use insert.prems in \<open>auto simp: same_but_def\<close>)
  then have "P ((v'(k := v k))(k := v' k))" by (rule other_kinds) (use insert.prems in simp)
  then show ?case by simp
qed

lemma P_repository_effect: "repository_effect R v l v' l' \<Longrightarrow> P v \<Longrightarrow> P v'"
  by (rule other_kinds_same_but [where v = v and ks = "{cronjob_key R, policy_key R}"])
    (auto simp: repository_effect_def cronjob_key_def policy_key_def)

lemma maintained_ensureRepository [maintains_intros]: "maintained (ensureRepository http r R)"
  by (rule maintainsI, rule wp_mono [OF wp_ensureRepository])
    (auto simp: repository_judged_def intro: P_repository_effect)

lemma maintained_deleteRepository [maintains_intros]: "maintained (deleteRepository http r R)"
  by (rule maintainsI, rule wp_mono [OF wp_deleteRepository]) auto

lemma maintained_repository_controller: "KRepository \<in> S \<Longrightarrow> maintained (RepositoryReconcile http r req)"
  unfolding RepositoryReconcile_def reconcilePresent_def writeRepositoryStatus_def
  by (intro maintains_intros) simp_all

lemma maintained_controllers:
  assumes "event_kind e = Some k" and "k \<in> S"
  shows "maintained (run_event rt srv r http e)"
  using assms by (cases e) (auto intro!: maintains_ignoring maintained_status_controllers maintained_credential_controller
      maintained_repository_controller)

end

sublocale repository_controller \<subseteq> revoked_controllers:
  controller_invariant r view T1 T2 http repos "{KCredential}" UNIV "revoked_everywhere k" for k
  by unfold_locales simp

subsection \<open>What users may do, as the controllers leave it\<close>

text \<open>
  The part of the stored objects that decides what users may do: users, groups, roles and bindings,
  up to their statuses.
\<close>

definition access_kinds :: "kind set" where
  "access_kinds = {KUser, KGroup, KRole, KRoleBinding}"

definition core :: "obj \<Rightarrow> ObjectMeta \<times> content" where
  "core x = (meta x, content_of x)"

definition same_access :: "(okey \<rightharpoonup> obj) \<Rightarrow> (okey \<rightharpoonup> obj) \<Rightarrow> bool" where
  "same_access v v' \<longleftrightarrow> (\<forall>k. fst k \<in> access_kinds \<longrightarrow> map_option core (v' k) = map_option core (v k))"

lemma same_accessE: "same_access v v' \<Longrightarrow> fst k \<in> access_kinds \<Longrightarrow> map_option core (v' k) = map_option core (v k)"
  unfolding same_access_def by blast

lemma same_access_upd:
  assumes "same_access v0 v" and "fst ok \<in> access_kinds \<Longrightarrow> map_option core z = map_option core (v ok)"
  shows "same_access v0 (v(ok := z))"
  using assms unfolding same_access_def by (metis fun_upd_apply)

lemma same_access_refl [simp]: "same_access v v"
  by (simp add: same_access_def)

lemma same_access_sym: "same_access v v' \<Longrightarrow> same_access v' v"
  unfolding same_access_def by simp

sublocale kube_api \<subseteq> access: kind_invariant cl view access_kinds UNIV "same_access v0" for v0
  by unfold_locales (auto intro!: same_access_upd simp: core_def stored_as_def simp del: split_paired_All)

sublocale repository_controller \<subseteq> access_controllers:
  controller_invariant r view T1 T2 http repos access_kinds UNIV "same_access v0" for v0
  by unfold_locales (simp add: access_kinds_def)

text \<open>The grants are a function of that part.\<close>

lemma same_accessD:
  assumes "same_access v v'"
  shows "v k = Some (ORoleBinding b) \<Longrightarrow> fst k = KRoleBinding \<Longrightarrow>
      \<exists>b'. v' k = Some (ORoleBinding b') \<and> binding_Spec b' = binding_Spec b \<and> ObjectMeta.truncate b' = ObjectMeta.truncate b"
    and "v k = Some (OGroup g) \<Longrightarrow> fst k = KGroup \<Longrightarrow>
      \<exists>g'. v' k = Some (OGroup g') \<and> group_Spec g' = group_Spec g \<and> ObjectMeta.truncate g' = ObjectMeta.truncate g"
    and "v k = Some (ORole h) \<Longrightarrow> fst k = KRole \<Longrightarrow>
      \<exists>h'. v' k = Some (ORole h') \<and> role_Spec h' = role_Spec h \<and> ObjectMeta.truncate h' = ObjectMeta.truncate h"
proof -
  have *: "\<exists>y. v' k = Some y \<and> meta y = meta x \<and> content_of y = content_of x"
    if "v k = Some x" "fst k \<in> access_kinds" for x
  proof -
    have "map_option core (v' k) = map_option core (v k)" by (rule same_accessE [OF assms that(2)])
    with that(1) show ?thesis by (auto simp: core_def)
  qed
  have obj: "content_of y = PRoleBinding bs \<Longrightarrow> \<exists>b. y = ORoleBinding b" "content_of y = PGroup gs \<Longrightarrow> \<exists>g. y = OGroup g"
    "content_of y = PRole rs \<Longrightarrow> \<exists>h. y = ORole h" for y bs gs rs
    by (cases y; simp)+
  show "v k = Some (ORoleBinding b) \<Longrightarrow> fst k = KRoleBinding \<Longrightarrow>
      \<exists>b'. v' k = Some (ORoleBinding b') \<and> binding_Spec b' = binding_Spec b \<and> ObjectMeta.truncate b' = ObjectMeta.truncate b"
  proof -
    assume "v k = Some (ORoleBinding b)" "fst k = KRoleBinding"
    then obtain y where "v' k = Some y" "meta y = meta (ORoleBinding b)" "content_of y = content_of (ORoleBinding b)"
      using * [of "ORoleBinding b"] by (auto simp: access_kinds_def)
    with obj(1) [of y] show ?thesis by auto
  qed
  show "v k = Some (OGroup g) \<Longrightarrow> fst k = KGroup \<Longrightarrow>
      \<exists>g'. v' k = Some (OGroup g') \<and> group_Spec g' = group_Spec g \<and> ObjectMeta.truncate g' = ObjectMeta.truncate g"
  proof -
    assume "v k = Some (OGroup g)" "fst k = KGroup"
    then obtain y where "v' k = Some y" "meta y = meta (OGroup g)" "content_of y = content_of (OGroup g)"
      using * [of "OGroup g"] by (auto simp: access_kinds_def)
    with obj(2) [of y] show ?thesis by auto
  qed
  show "v k = Some (ORole h) \<Longrightarrow> fst k = KRole \<Longrightarrow>
      \<exists>h'. v' k = Some (ORole h') \<and> role_Spec h' = role_Spec h \<and> ObjectMeta.truncate h' = ObjectMeta.truncate h"
  proof -
    assume "v k = Some (ORole h)" "fst k = KRole"
    then obtain y where "v' k = Some y" "meta y = meta (ORole h)" "content_of y = content_of (ORole h)"
      using * [of "ORole h"] by (auto simp: access_kinds_def)
    with obj(3) [of y] show ?thesis by auto
  qed
qed

lemma truncate_eqD:
  assumes "ObjectMeta.truncate x = ObjectMeta.truncate y"
  shows "Name x = Name y" "Namespace x = Namespace y" "CreationTimestamp x = CreationTimestamp y"
  using assms by (simp_all add: ObjectMeta.truncate_def)

lemma grants_mono:
  assumes "same_access v v'"
  shows "grants v ns kind n \<subseteq> grants v' ns kind n"
proof
  fix p
  assume "p \<in> grants v ns kind n"
  then obtain b h where b: "stored v (ORoleBinding b)" "Namespace b = ns"
      "bs_Subject (binding_Spec b) = \<lparr>sb_Kind = kind, sb_Name = n\<rparr>"
    and h: "v (KRole, ns, rr_Name (bs_RoleRef (binding_Spec b))) = Some (ORole h)"
    and p: "p \<in> set (policiesFromRole h (bs_Repository (binding_Spec b)))"
    by (auto simp: grants_def)
  from same_accessD(1) [OF assms b(1)] obtain b' where b': "v' (okey_of (ORoleBinding b)) = Some (ORoleBinding b')"
    "binding_Spec b' = binding_Spec b" "ObjectMeta.truncate b' = ObjectMeta.truncate b" by auto
  from same_accessD(3) [OF assms h] obtain h' where h': "v' (KRole, ns, rr_Name (bs_RoleRef (binding_Spec b))) = Some (ORole h')"
    "role_Spec h' = role_Spec h" "ObjectMeta.truncate h' = ObjectMeta.truncate h" by auto
  have "stored v' (ORoleBinding b')" "Namespace b' = ns"
    using b' b(2) truncate_eqD [OF b'(3)] by simp_all
  moreover have "policiesFromRole h' repo = policiesFromRole h repo" for repo
    using h'(2) truncate_eqD(3) [OF h'(3)] by (simp add: policiesFromRole_def)
  ultimately show "p \<in> grants v' ns kind n"
    using b(3) h'(1) p b'(2) by (auto simp: grants_def intro!: exI [of _ b'] exI [of _ h'])
qed

lemma same_access_grants: "same_access v v' \<Longrightarrow> grants v' ns kind n = grants v ns kind n"
  by (rule equalityI [OF grants_mono [OF same_access_sym] grants_mono])

lemma user_grants_mono:
  assumes "same_access v v'"
  shows "user_grants v u \<subseteq> user_grants v' u"
proof -
  have "\<exists>g'. stored v' (OGroup g') \<and> Namespace g' = Namespace u \<and> member_of (Name u) g' \<and> Name g' = Name g"
    if "stored v (OGroup g)" "Namespace g = Namespace u" "member_of (Name u) g" for g
  proof -
    from same_accessD(2) [OF assms that(1)] obtain g' where g': "v' (okey_of (OGroup g)) = Some (OGroup g')"
      "group_Spec g' = group_Spec g" "ObjectMeta.truncate g' = ObjectMeta.truncate g" by auto
    with that truncate_eqD [OF g'(3)] show ?thesis by (auto simp: member_of_def intro!: exI [of _ g'])
  qed
  then show ?thesis
    unfolding user_grants_def same_access_grants [OF assms, symmetric] by fastforce
qed

lemma same_access_user_grants: "same_access v v' \<Longrightarrow> user_grants v' u = user_grants v u"
  by (rule equalityI [OF user_grants_mono [OF same_access_sym] user_grants_mono])

subsection \<open>The parts on the same objects\<close>

text \<open>
  The controllers and the auth server work on the same stored objects, each with its own client and
  clock.
\<close>

locale composed = repository_controller r view T1 T2 http repos + server: auth_clock srv view rt S1 S2
  for r :: "'s Reconciler" and view :: "'s \<Rightarrow> okey \<rightharpoonup> obj" and T1 T2 :: time
    and http :: "'s Http" and repos :: "'s \<Rightarrow> string \<rightharpoonup> lakeRepo"
    and srv :: "'s Server" and rt :: "'s Runtime" and S1 S2 :: time

locale composed_ok = composed r view T1 T2 http repos srv rt S1 S2 + server: auth_clock_ok srv view rt S1 S2
  for r :: "'s Reconciler" and view :: "'s \<Rightarrow> okey \<rightharpoonup> obj" and T1 T2 :: time
    and http :: "'s Http" and repos :: "'s \<Rightarrow> string \<rightharpoonup> lakeRepo"
    and srv :: "'s Server" and rt :: "'s Runtime" and S1 S2 :: time

text \<open>A credential that the controller has just reported ready is found with all it needs.\<close>

lemma credential_reported_ready:
  assumes rec: "credential_reconciled T req v (Reconciled noRequeue None) v'"
    and c: "v (KCredential, req) = Some (OCredential c)"
    and ready: "v' (KCredential, req) = Some (OCredential c')" "Ready (OCredential c')"
    and okey: "\<And>ok x. v ok = Some x \<Longrightarrow> okey_of x = ok"
  obtains u sec where "backed_by v' c' u sec" and "cred_Spec c' = cred_Spec c"
    and "cs_AccessKeyID (cred_Spec c) \<noteq> ''''" and "\<not> cs_Revoked (cred_Spec c)"
proof -
  have key: "okey_of (OCredential c) = (KCredential, req)" by (rule okey [OF c])
  from rec c obtain w where eff: "secret_effect c v w" and rep: "reported (OCredential c) (credential_resolved T c w) w v'"
    by (auto simp: credential_reconciled_def)
  from rep obtain y where v': "v' = w((KCredential, req) \<mapsto> y)" and y: "status_written (OCredential c) y"
      "Ready y \<longrightarrow> credential_resolved T c w"
    unfolding reported_def key by blast
  have y': "y = OCredential c'" using ready(1) v' by simp
  with y ready(2) obtain u sec where b: "backed_by w c u sec" and k: "cs_AccessKeyID (cred_Spec c) \<noteq> ''''"
      "\<not> cs_Revoked (cred_Spec c)"
    by (auto simp: credential_resolved_def usable_def)
  have same: "cred_Spec c' = cred_Spec c" "Namespace c' = Namespace c" "Name c' = Name c"
    using y(1) by (simp_all add: y' status_written_def stored_as_def)
  have "backed_by v' c' u sec"
    using b same key by (simp add: backed_by_def v' y')
  then show thesis by (rule that) (fact same(1), fact k(1), fact k(2))
qed

lemma credential_reconciled_credentials:
  assumes rec: "credential_reconciled T req v res v'" and c: "v (KCredential, req) = Some (OCredential c)"
    and okey: "\<And>ok x. v ok = Some x \<Longrightarrow> okey_of x = ok"
    and k: "fst k = KCredential" "k \<noteq> (KCredential, req)"
  shows "v' k = v k"
  by (rule credential_reconciled_other [OF rec c k(2) _ okey]) (use k(1) in \<open>auto simp: secret_key_def\<close>)

lemma unique_key_after:
  assumes "unique_key v k" and c: "v (KCredential, req) = Some (OCredential c)" and c': "v' (KCredential, req) = Some (OCredential c')"
    and spec: "cred_Spec c' = cred_Spec c" and key: "okey_of (OCredential c) = (KCredential, req)"
      "okey_of (OCredential c') = (KCredential, req)"
    and others: "\<And>ok. fst ok = KCredential \<Longrightarrow> ok \<noteq> (KCredential, req) \<Longrightarrow> v' ok = v ok"
  shows "unique_key v' k"
proof -
  have earlier: "\<exists>e. stored v (OCredential e) \<and> credential_answers k e \<and> okey_of (OCredential e) = okey_of (OCredential d) \<and>
      (e = d \<or> okey_of (OCredential d) = (KCredential, req))"
    if d: "stored v' (OCredential d)" "credential_answers k d" for d
  proof (cases "okey_of (OCredential d) = (KCredential, req)")
    case True
    with d(1) c' have "d = c'" by simp
    with d True c spec key show ?thesis by (intro exI [of _ c]) (simp add: credential_answers_def)
  next
    case False
    with others [of "okey_of (OCredential d)"] d show ?thesis by (intro exI [of _ d]) simp
  qed
  show ?thesis
    unfolding unique_key_def
  proof (intro allI impI)
    fix d e
    assume de: "stored v' (OCredential d)" "stored v' (OCredential e)" "credential_answers k d" "credential_answers k e"
    from earlier [OF de(1, 3)] obtain d' where d': "stored v (OCredential d')" "credential_answers k d'"
      "okey_of (OCredential d') = okey_of (OCredential d)" by blast
    from earlier [OF de(2, 4)] obtain e' where e': "stored v (OCredential e')" "credential_answers k e'"
      "okey_of (OCredential e') = okey_of (OCredential e)" by blast
    have "d' = e'" using assms(1) d' e' by (simp add: unique_key_def)
    with d'(3) e'(3) de(1, 2) show "d = e" by simp
  qed
qed

context composed_ok
begin

lemma wp_ready_credential:
  assumes c: "view s (KCredential, req) = Some (OCredential c)"
    and uniq: "unique_key (view s) (cs_AccessKeyID (cred_Spec c))"
    and time: "\<And>e. cs_ExpiresAt (cred_Spec c) = Some e \<Longrightarrow> S2 < e"
  shows "wp (do {
      res \<leftarrow> CredentialReconcile r req;
      out \<leftarrow> getCredentialByAccessKey rt srv q (cs_AccessKeyID (cred_Spec c)) '''';
      return (res, out) })
    (\<lambda>(res, out) t. res = Reconciled noRequeue None \<longrightarrow>
       (\<exists>c'. view t (KCredential, req) = Some (OCredential c') \<and> Ready (OCredential c')) \<longrightarrow>
       \<not> cs_Revoked (cred_Spec c) \<and>
       (\<exists>b. out = Respond 200 (SecretBody b) \<and> cw_AccessKeyID b = cs_AccessKeyID (cred_Spec c) \<and>
          cw_SecretAccessKey b \<noteq> '''')) s"
  unfolding wp_bind
proof (rule wp_mono [OF wp_CredentialReconcile])
  fix res t
  assume rec: "credential_reconciled T1 req (view s) res (view t)"
  let ?k = "cs_AccessKeyID (cred_Spec c)"
  let ?found = "\<exists>c'. view t (KCredential, req) = Some (OCredential c') \<and> Ready (OCredential c')"
  have keep: "wp (getCredentialByAccessKey rt srv q ?k '''') (\<lambda>_ u. view u = view t) t"
    by (rule wp_mono [OF server.wp_getCredentialByAccessKey]) simp
  have found: "wp (getCredentialByAccessKey rt srv q ?k '''')
      (\<lambda>out _. \<not> cs_Revoked (cred_Spec c) \<and>
        (\<exists>b. out = Respond 200 (SecretBody b) \<and> cw_AccessKeyID b = ?k \<and> cw_SecretAccessKey b \<noteq> '''')) t"
    if res: "res = Reconciled noRequeue None" and ready: ?found
  proof -
    from ready obtain c' where c': "view t (KCredential, req) = Some (OCredential c')" "Ready (OCredential c')" by blast
    obtain u sec where b: "backed_by (view t) c' u sec" and spec: "cred_Spec c' = cred_Spec c" and k: "?k \<noteq> ''''"
      and valid: "\<not> cs_Revoked (cred_Spec c)"
      by (rule credential_reported_ready [OF rec [unfolded res] c c', rotated], blast, rule view_okey)
    have uniq': "unique_key (view t) ?k"
      by (rule unique_key_after [where v = "view s" and v' = "view t", OF uniq c c'(1) spec view_okey [OF c] view_okey [OF c'(1)]])
        (rule credential_reconciled_credentials [OF rec c view_okey])
    have "wp (getCredentialByAccessKey rt srv q ?k '''') (\<lambda>out _. out = Respond 200 (SecretBody (answer c' u sec))) t"
      by (rule server.wp_getCredentialByAccessKey_found [OF uniq' _ b])
        (use spec k valid time in \<open>simp_all add: credential_answers_def usable_def split: option.split\<close>)
    then show ?thesis
      by (rule wp_mono) (use b spec valid in \<open>auto simp: answer_def backed_by_def\<close>)
  qed
  show "wp (getCredentialByAccessKey rt srv q ?k '''') (\<lambda>out. wp (return (res, out)) (\<lambda>(res, out) u.
       res = Reconciled noRequeue None \<longrightarrow>
       (\<exists>c'. view u (KCredential, req) = Some (OCredential c') \<and> Ready (OCredential c')) \<longrightarrow>
       \<not> cs_Revoked (cred_Spec c) \<and>
       (\<exists>b. out = Respond 200 (SecretBody b) \<and> cw_AccessKeyID b = ?k \<and> cw_SecretAccessKey b \<noteq> ''''))) t"
  proof (cases "res = Reconciled noRequeue None \<and> ?found")
    case True
    show ?thesis by (rule wp_mono [OF found]) (use True in auto)
  next
    case False
    show ?thesis by (rule wp_mono [OF keep]) (use False in auto)
  qed
qed

end

context composed
begin

lemma revoked_events:
  "maintains_when (\<lambda>t. \<forall>q. e = Serve q \<longrightarrow> asks_for rt k q \<longrightarrow> key_held k (view t))
     (\<lambda>t. revoked_everywhere k (view t)) (run_event rt srv r http e)"
proof (cases "event_kind e")
  case None
  then obtain q where e: "e = Serve q" by (cases e) auto
  from maintains_when_ignoring [OF server.revoked_handle] show ?thesis by (simp add: e)
next
  case (Some kind)
  show ?thesis by (rule maintains_when, rule revoked_controllers.maintained_controllers [OF Some]) simp
qed

lemma revoked_reachable:
  assumes "revoked_everywhere k (view s)"
    and "\<And>t u key. env t u \<Longrightarrow> view u (KCredential, key) = view t (KCredential, key)"
    and "system (run_event rt srv r http)
      (\<lambda>t e. \<forall>q. e = Serve q \<longrightarrow> asks_for rt k q \<longrightarrow> key_held k (view t)) env s t"
  shows "revoked_everywhere k (view t)"
  using assms(3, 1) revoked_events
proof (rule system_invariant [where I = "\<lambda>s. revoked_everywhere k (view s)"])
  show "revoked_everywhere k (view u)" if "env t u" "revoked_everywhere k (view t)" for t u
    using that assms(2) by (simp add: revoked_everywhere_def)
qed

lemma wp_revoked_refused:
  assumes "revoked_everywhere k (view s)"
  shows "wp (getCredentialByAccessKey rt srv q k un) (\<lambda>out _. \<exists>m. out = Respond 404 (ErrorBody m)) s"
  by (rule wp_mono [OF server.wp_getCredentialByAccessKey])
    (use assms in \<open>auto simp: authenticates_def backed_by_def credential_answers_def usable_def revoked_everywhere_def\<close>)

end

context repository_controller
begin

lemma access_reachable:
  assumes "\<And>t u k. env t u \<Longrightarrow> fst k \<in> access_kinds \<Longrightarrow> view u k = view t k"
    and "system (run_event rt srv r http) (\<lambda>_ e. \<forall>q. e \<noteq> Serve q) env s t"
  shows "same_access (view s) (view t)"
  using assms(2) same_access_refl
proof (rule system_invariant [where I = "\<lambda>t. same_access (view s) (view t)"])
  show "maintains_when (\<lambda>_. \<forall>q. e \<noteq> Serve q) (\<lambda>t. same_access (view s) (view t)) (run_event rt srv r http e)" for e
  proof (cases "event_kind e")
    case None
    then show ?thesis by (cases e) (auto simp: maintains_when_def)
  next
    case (Some kind)
    show ?thesis by (rule maintains_when, rule access_controllers.maintained_controllers [OF Some]) simp
  qed
  show "same_access (view s) (view u)" if "env t u" "same_access (view s) (view t)" for t u
    using that assms(1) unfolding same_access_def by metis
qed

end

context controllers
begin

lemma stored_role: "view s (KRole, key) = Some x \<Longrightarrow> \<exists>h. x = ORole h"
  and stored_user: "view s (KUser, key) = Some x \<Longrightarrow> \<exists>u. x = OUser u"
  by (cases x; auto dest: view_okey)+

lemma wp_ready_binding:
  assumes b: "view s (KRoleBinding, req) = Some (ORoleBinding b)"
    and user: "sb_Kind (bs_Subject (binding_Spec b)) = LakeFSRoleBindingSubjectKindUser"
  shows "wp (RoleBindingReconcile r req) (\<lambda>res t. res = Reconciled noRequeue None \<longrightarrow>
     (\<exists>b'. view t (KRoleBinding, req) = Some (ORoleBinding b') \<and> Ready (ORoleBinding b')) \<longrightarrow>
     (\<exists>u h. view t (KUser, Namespace b, sb_Name (bs_Subject (binding_Spec b))) = Some (OUser u) \<and>
        view t (KRole, Namespace b, rr_Name (bs_RoleRef (binding_Spec b))) = Some (ORole h) \<and>
        set (policiesFromRole h (bs_Repository (binding_Spec b))) \<subseteq> user_grants (view t) u)) s"
  unfolding RoleBindingReconcile_shape
proof (rule wp_mono [OF binding_controller.wp_status_reconcile], intro impI)
  fix res t
  assume rec: "binding_controller.reconciled_to req (view s) res (view t)" and res: "res = Reconciled noRequeue None"
    and ready: "\<exists>b'. view t (KRoleBinding, req) = Some (ORoleBinding b') \<and> Ready (ORoleBinding b')"
  have key: "okey_of (ORoleBinding b) = (KRoleBinding, req)" by (rule view_okey [OF b])
  from rec res b obtain y where t: "view t = (view s)((KRoleBinding, req) \<mapsto> y)"
    and y: "status_written (ORoleBinding b) y" "Ready y \<longrightarrow> binding_resolved b (view s)"
    unfolding binding_controller.reconciled_to_def binding_controller.judged_to_def reported_def
    using key by (auto split: if_splits)
  have "binding_resolved b (view s)" using ready y(2) t by auto
  then obtain x z where x: "view s (KUser, Namespace b, sb_Name (bs_Subject (binding_Spec b))) = Some x"
    and z: "view s (KRole, Namespace b, rr_Name (bs_RoleRef (binding_Spec b))) = Some z"
    using user by (auto simp: binding_resolved_def subject_kind_def)
  obtain u where u: "x = OUser u" using stored_user [OF x] by blast
  obtain h where h: "z = ORole h" using stored_role [OF z] by blast
  obtain b' where b': "y = ORoleBinding b'" using ready t by auto
  have same: "binding_Spec b' = binding_Spec b" "Namespace b' = Namespace b" "Name b' = Name b"
    using y(1) by (simp_all add: b' status_written_def stored_as_def)
  have names: "Namespace u = Namespace b" "Name u = sb_Name (bs_Subject (binding_Spec b))"
    using view_okey [OF x] by (simp_all add: u)
  have "set (policiesFromRole h (bs_Repository (binding_Spec b))) \<subseteq> user_grants (view t) u"
    using z key same user
    by (auto simp: user_grants_def grants_def t b' h names subject_eq intro!: exI [of _ b'])
  then show "\<exists>u h. view t (KUser, Namespace b, sb_Name (bs_Subject (binding_Spec b))) = Some (OUser u) \<and>
        view t (KRole, Namespace b, rr_Name (bs_RoleRef (binding_Spec b))) = Some (ORole h) \<and>
        set (policiesFromRole h (bs_Repository (binding_Spec b))) \<subseteq> user_grants (view t) u"
    using x z by (intro exI [of _ u] exI [of _ h]) (simp add: t u h)
qed

end

subsection \<open>The concrete system\<close>

interpretation ref_composed: composed_ok ref_reconciler ref_view 1000000000 1000000000 ref_http w_lake
  ref_server ref_runtime 1000000000 1000000000
  by (intro composed_ok.intro composed.intro ref_repo.repository_controller_axioms ref_clock.auth_clock_axioms
      ref_clock.auth_clock_ok_axioms)

text \<open>Alice's credential as it is after its revocation, a binding of a role to her, and the worlds.\<close>

definition ex_revoked :: LakeFSCredential where
  "ex_revoked = ex_credential\<lparr>cred_Spec := (cred_Spec ex_credential)\<lparr>cs_Revoked := True\<rparr>\<rparr>"

definition ex_user_binding :: LakeFSRoleBinding where
  "ex_user_binding = new_binding ''rb'' ''data''
     \<lparr>bs_Subject = \<lparr>sb_Kind = ''LakeFSUser'', sb_Name = ''alice''\<rparr>,
      bs_RoleRef = \<lparr>rr_Name = ''lakefs-policy-read''\<rparr>, bs_Repository = ''demo''\<rparr>"

definition ex_system :: "LakeFSCredential \<Rightarrow> lake_world" where
  "ex_system c = \<lparr>w_objs = [OUser (ex_user ''alice'' ''alice@example.org''), OCredential c, OSecret ex_secret,
     ORole ex_role, ORoleBinding ex_user_binding], w_lake = Map.empty\<rparr>"

lemma ex_system_view:
  "ref_view (ex_system c) (KCredential, key) = Some x \<Longrightarrow> x = OCredential c"
  by (auto simp: ref_view_def ex_system_def okey_of_def split: if_splits)

lemma ex_system_unique:
  "unique_key (ref_view (ex_system c)) k"
  unfolding unique_key_def using ex_system_view by (metis obj.inject(5) okey_simps(5))

lemma system_step:
  "system run allowed env s t \<Longrightarrow> allowed t e \<Longrightarrow> system run allowed env s (snd (run_state (run e) t))"
  by (rule system.event [OF _ _ prod.collapse [symmetric]])

lemmas ex_step = system_step [OF system.start]

subsection \<open>Properties\<close>

text \<open>
  C2. A revoked access key stays refused: from a state in which every stored credential with that key is revoked,
  after any sequence of requests to the server and reconciliations of the seven controllers, with changes from outside
  to anything but credentials in between, the lookup of that access key answers 404. Requests that ask for the very
  same key again (or name no key, should the random generator yield it again) are among them, as long as the name made
  from the key is still taken in the namespace of every stored user, as it is while the revoked credential is stored in
  the only namespace with users: they never make it valid. What is excluded is such a request where that name is
  free, since it creates a new credential with the key.
\<close>

theorem revoked_key_stays_refused:
  assumes "composed r view T1 T2 http repos srv rt S1 S2"
    and "revoked_everywhere k (view s)"
    and "\<And>t u key. env t u \<Longrightarrow> view u (KCredential, key) = view t (KCredential, key)"
    and "system (run_event rt srv r http)
      (\<lambda>t e. \<forall>q. e = Serve q \<longrightarrow> asks_for rt k q \<longrightarrow> key_held k (view t)) env s t"
  shows "case run_state (getCredentialByAccessKey rt srv q k un) t of
    (out, _) \<Rightarrow> \<exists>m. out = Respond 404 (ErrorBody m)"
  by (rule composed.wp_revoked_refused [OF assms(1) composed.revoked_reachable [OF assms], unfolded wp_def])

text \<open>The key is revoked, then asked for again, then its credential is reconciled, then it is looked up.\<close>

definition ex_ask_again :: Request where
  "ex_ask_again = \<lparr>r_Method = ''POST'', r_Path = ''/auth/users/alice/credentials'',
     r_Query = [(''access_key_id'', ''AK1''), (''secret_access_key'', ''again'')], r_Body = None\<rparr>"

definition ex_asked_again :: lake_world where
  "ex_asked_again = snd (run_state (run_event ref_runtime ref_server ref_reconciler ref_http (Serve ex_ask_again))
     (ex_system ex_revoked))"

lemma ex_ask_again_served:
  "case run_state (handle ref_runtime ref_server ex_ask_again) (ex_system ex_revoked) of (out, t) \<Rightarrow>
     (case out of Respond c (SecretBody b) \<Rightarrow> c = 201 \<and> cw_AccessKeyID b = ''AK1'' | _ \<Rightarrow> False)"
  by code_simp

theorem revoked_key_stays_refused_witness:
  "case run_state (getCredentialByAccessKey ref_runtime ref_server (ex_request []) ''AK1'' '''')
      (snd (run_state (run_event ref_runtime ref_server ref_reconciler ref_http
        (ReconcileCredential (''data'', ''lakefs-cred-ak1''))) ex_asked_again)) of
    (out, _) \<Rightarrow> \<exists>m. out = Respond 404 (ErrorBody m)"
proof (rule revoked_key_stays_refused [OF ref_composed.composed_axioms, where env = "\<lambda>_ _. False"])
  show "revoked_everywhere ''AK1'' (ref_view (ex_system ex_revoked))"
    by (auto simp: revoked_everywhere_def ex_revoked_def dest: ex_system_view)
  have n: "objectName ''lakefs-cred-AK1'' = ''lakefs-cred-ak1''" by code_simp
  have users: "u = ex_user ''alice'' ''alice@example.org''" if "stored (ref_view (ex_system ex_revoked)) (OUser u)" for u
    using ref_view_mem [OF that] by (simp add: ex_system_def)
  have "ref_view (ex_system ex_revoked) (KCredential, ''data'', ''lakefs-cred-ak1'') \<noteq> None"
    by (simp add: ref_view_def ex_system_def ex_revoked_def)
  then have "ref_view (ex_system ex_revoked) (credential_key (Namespace u) ''AK1'') \<noteq> None"
    if "stored (ref_view (ex_system ex_revoked)) (OUser u)" for u
    using users [OF that] by (simp add: credential_key_def n)
  then have held: "key_held ''AK1'' (ref_view (ex_system ex_revoked))"
    unfolding key_held_def by blast
  show "system (run_event ref_runtime ref_server ref_reconciler ref_http)
     (\<lambda>t e. \<forall>q. e = Serve q \<longrightarrow> asks_for ref_runtime ''AK1'' q \<longrightarrow> key_held ''AK1'' (ref_view t)) (\<lambda>_ _. False)
     (ex_system ex_revoked)
     (snd (run_state (run_event ref_runtime ref_server ref_reconciler ref_http
        (ReconcileCredential (''data'', ''lakefs-cred-ak1''))) ex_asked_again))"
    unfolding ex_asked_again_def by (rule system_step [OF ex_step]) (use held in simp_all)
qed simp

text \<open>
  C7. The controllers never change what users may do: whatever sequence of reconciliations the seven
  controllers do, with changes from outside to anything but users, groups, roles and bindings in
  between, every user is granted exactly the policies it was granted before.
\<close>

theorem controllers_keep_grants:
  assumes "repository_controller r view T1 T2 http repos"
    and "\<And>t u k. env t u \<Longrightarrow> fst k \<in> access_kinds \<Longrightarrow> view u k = view t k"
    and "system (run_event rt srv r http) (\<lambda>_ e. \<forall>q. e \<noteq> Serve q) env s t"
  shows "user_grants (view t) u = user_grants (view s) u"
  by (rule same_access_user_grants [OF repository_controller.access_reachable [OF assms]])

theorem controllers_keep_grants_witness:
  "user_grants (ref_view (snd (run_state (run_event ref_runtime ref_server ref_reconciler ref_http
      (ReconcileRoleBinding (''data'', ''rb''))) (ex_system ex_credential))))
     (ex_user ''alice'' ''alice@example.org'') =
   user_grants (ref_view (ex_system ex_credential)) (ex_user ''alice'' ''alice@example.org'')"
  by (rule controllers_keep_grants [OF ref_repo.repository_controller_axioms, where env = "\<lambda>_ _. False", OF _ ex_step]) simp_all

text \<open>
  C8. A credential that the controller reports ready authenticates: if no other stored credential has its access key,
  and a reconciliation of it ends well and reports it ready, then it is not revoked, and unless it expires before,
  the server, asked for its access key next, answers 200 with that access key and a secret key that is not
  empty. (The server's calls reliable.)
\<close>

theorem ready_credential_authenticates:
  assumes "composed_ok r view T1 T2 http repos srv rt S1 S2"
    and "view s (KCredential, req) = Some (OCredential c)"
    and "unique_key (view s) (cs_AccessKeyID (cred_Spec c))"
    and "\<And>e. cs_ExpiresAt (cred_Spec c) = Some e \<Longrightarrow> S2 < e"
  shows "case run_state (do {
      res \<leftarrow> CredentialReconcile r req;
      out \<leftarrow> getCredentialByAccessKey rt srv q (cs_AccessKeyID (cred_Spec c)) '''';
      return (res, out) }) s of
    ((res, out), t) \<Rightarrow> res = Reconciled noRequeue None \<longrightarrow>
       (\<exists>c'. view t (KCredential, req) = Some (OCredential c') \<and> Ready (OCredential c')) \<longrightarrow>
       \<not> cs_Revoked (cred_Spec c) \<and>
       (\<exists>b. out = Respond 200 (SecretBody b) \<and> cw_AccessKeyID b = cs_AccessKeyID (cred_Spec c) \<and>
          cw_SecretAccessKey b \<noteq> '''')"
  by (rule wp_pairD [OF composed_ok.wp_ready_credential [OF assms]])

definition reconcile_and_look_up :: "(lake_world, reconciled \<times> outcome) state" where
  "reconcile_and_look_up = do {
      res \<leftarrow> CredentialReconcile ref_reconciler (''data'', ''lakefs-cred-ak1'');
      out \<leftarrow> getCredentialByAccessKey ref_runtime ref_server (ex_request []) (cs_AccessKeyID (cred_Spec ex_credential)) '''';
      return (res, out) }"

lemma ex_credential_ready:
  "case run_state reconcile_and_look_up (ex_system ex_credential) of
    ((res, _), t) \<Rightarrow> res = Reconciled noRequeue None \<and>
      (case ref_view t (KCredential, (''data'', ''lakefs-cred-ak1'')) of Some (OCredential c') \<Rightarrow> Ready (OCredential c') | _ \<Rightarrow> False)"
  by code_simp

theorem ready_credential_authenticates_witness:
  "case run_state reconcile_and_look_up (ex_system ex_credential) of
    ((res, out), t) \<Rightarrow> res = Reconciled noRequeue None \<and>
       (\<exists>b. out = Respond 200 (SecretBody b) \<and> cw_AccessKeyID b = cs_AccessKeyID (cred_Spec ex_credential) \<and>
          cw_SecretAccessKey b \<noteq> '''')"
proof -
  have "case run_state reconcile_and_look_up (ex_system ex_credential) of
    ((res, out), t) \<Rightarrow> res = Reconciled noRequeue None \<longrightarrow>
       (\<exists>c'. ref_view t (KCredential, (''data'', ''lakefs-cred-ak1'')) = Some (OCredential c') \<and> Ready (OCredential c')) \<longrightarrow>
       \<not> cs_Revoked (cred_Spec ex_credential) \<and>
       (\<exists>b. out = Respond 200 (SecretBody b) \<and> cw_AccessKeyID b = cs_AccessKeyID (cred_Spec ex_credential) \<and>
          cw_SecretAccessKey b \<noteq> '''')"
    unfolding reconcile_and_look_up_def
    by (rule ready_credential_authenticates [OF ref_composed.composed_ok_axioms])
      (simp_all add: ex_system_unique, simp_all add: ex_system_def ref_view_def usable_def ex_credential_def
        new_credential_def ObjectMeta.extend_def new_meta_def)
  with ex_credential_ready show ?thesis by (auto split: prod.splits option.splits obj.splits)
qed

text \<open>
  C23. A role binding that the controller reports ready is in force: if a reconciliation of a binding
  whose subject is a user ends well and reports it ready, then the user and the role are stored, and
  the user is granted every policy of the role, rendered for the binding's repository.
\<close>

theorem ready_binding_in_force:
  assumes "controllers r view T1 T2" and "view s (KRoleBinding, req) = Some (ORoleBinding b)"
    and "sb_Kind (bs_Subject (binding_Spec b)) = LakeFSRoleBindingSubjectKindUser"
  shows "case run_state (RoleBindingReconcile r req) s of (res, t) \<Rightarrow> res = Reconciled noRequeue None \<longrightarrow>
     (\<exists>b'. view t (KRoleBinding, req) = Some (ORoleBinding b') \<and> Ready (ORoleBinding b')) \<longrightarrow>
     (\<exists>u h. view t (KUser, Namespace b, sb_Name (bs_Subject (binding_Spec b))) = Some (OUser u) \<and>
        view t (KRole, Namespace b, rr_Name (bs_RoleRef (binding_Spec b))) = Some (ORole h) \<and>
        set (policiesFromRole h (bs_Repository (binding_Spec b))) \<subseteq> user_grants (view t) u)"
  by (rule controllers.wp_ready_binding [OF assms, unfolded wp_def])

lemma ex_binding_ready:
  "case run_state (RoleBindingReconcile ref_reconciler (''data'', ''rb'')) (ex_system ex_credential) of (res, t) \<Rightarrow>
     res = Reconciled noRequeue None \<and>
     (case ref_view t (KRoleBinding, (''data'', ''rb'')) of Some (ORoleBinding b') \<Rightarrow> Ready (ORoleBinding b') | _ \<Rightarrow> False)"
  by code_simp

theorem ready_binding_in_force_witness:
  "case run_state (RoleBindingReconcile ref_reconciler (''data'', ''rb'')) (ex_system ex_credential) of (res, t) \<Rightarrow>
     (\<exists>u h. ref_view t (KUser, Namespace ex_user_binding, sb_Name (bs_Subject (binding_Spec ex_user_binding))) = Some (OUser u) \<and>
        ref_view t (KRole, Namespace ex_user_binding, rr_Name (bs_RoleRef (binding_Spec ex_user_binding))) = Some (ORole h) \<and>
        set (policiesFromRole h (bs_Repository (binding_Spec ex_user_binding))) \<subseteq> user_grants (ref_view t) u)"
proof -
  have "case run_state (RoleBindingReconcile ref_reconciler (''data'', ''rb'')) (ex_system ex_credential) of (res, t) \<Rightarrow>
     res = Reconciled noRequeue None \<longrightarrow>
     (\<exists>b'. ref_view t (KRoleBinding, (''data'', ''rb'')) = Some (ORoleBinding b') \<and> Ready (ORoleBinding b')) \<longrightarrow>
     (\<exists>u h. ref_view t (KUser, Namespace ex_user_binding, sb_Name (bs_Subject (binding_Spec ex_user_binding))) = Some (OUser u) \<and>
        ref_view t (KRole, Namespace ex_user_binding, rr_Name (bs_RoleRef (binding_Spec ex_user_binding))) = Some (ORole h) \<and>
        set (policiesFromRole h (bs_Repository (binding_Spec ex_user_binding))) \<subseteq> user_grants (ref_view t) u)"
    by (rule ready_binding_in_force [OF ref_rec.controllers_axioms])
      (simp_all add: ex_system_def ref_view_def ex_user_binding_def new_binding_def LakeFSRoleBindingSubjectKindUser_def
        ObjectMeta.extend_def new_meta_def)
  with ex_binding_ready show ?thesis by (auto split: prod.splits option.splits obj.splits)
qed

end
