(* ===== verification/Operator.thy ===== *)
theory Operator
  imports Composition
begin

section \<open>The operator (cmd/operator/main.go) and its watches\<close>

text \<open>
  \<open>main\<close> of the operator: the options it makes of its flags, the registration of the seven
  controllers with controller-runtime's manager, the probes, and the start. Each controller says in
  \<open>SetupWithManager\<close> which objects it reconciles and which changes it wants to hear of; that is a value
  of \<open>Registration\<close> here. The manager itself is a parameter, \<open>Manager\<close>: each of its calls may fail with
  an error. The flags are read by Go's package flag; the model starts from their values.
\<close>

subsection \<open>What a controller registers\<close>

text \<open>
  \<open>ctrl.NewControllerManagedBy(mgr)\<close> with its calls \<open>For\<close>, \<open>Owns\<close>, \<open>Watches\<close> with a map function,
  \<open>Named\<close> and the reconciler given to \<open>Complete\<close>.
\<close>

record 's Registration =
  rg_For :: kind
  rg_Owns :: "kind list"
  rg_Watches :: "(kind \<times> (obj \<Rightarrow> ('s, NamespacedName list) state)) list"
  rg_Named :: string
  rg_Reconcile :: "NamespacedName \<Rightarrow> ('s, reconciled) state"

definition UserSetupWithManager :: "'s Reconciler \<Rightarrow> 's Registration" where
  "UserSetupWithManager r = \<lparr>rg_For = KUser, rg_Owns = [], rg_Watches = [], rg_Named = ''lakefsuser'',
     rg_Reconcile = UserReconcile r\<rparr>"

definition CredentialSetupWithManager :: "'s Reconciler \<Rightarrow> 's Registration" where
  "CredentialSetupWithManager r = \<lparr>rg_For = KCredential, rg_Owns = [], rg_Watches = [], rg_Named = ''lakefscredential'',
     rg_Reconcile = CredentialReconcile r\<rparr>"

definition RepositorySetupWithManager :: "'s Http \<Rightarrow> 's Reconciler \<Rightarrow> 's Registration" where
  "RepositorySetupWithManager http r = \<lparr>rg_For = KRepository, rg_Owns = [KCronJob],
     rg_Watches = [(KGCPolicy, repositoriesForPolicy r)], rg_Named = ''lakefsrepository'',
     rg_Reconcile = RepositoryReconcile http r\<rparr>"

definition RoleSetupWithManager :: "'s Reconciler \<Rightarrow> 's Registration" where
  "RoleSetupWithManager r = \<lparr>rg_For = KRole, rg_Owns = [], rg_Watches = [], rg_Named = ''lakefsrole'',
     rg_Reconcile = RoleReconcile r\<rparr>"

definition GCPolicySetupWithManager :: "'s Reconciler \<Rightarrow> 's Registration" where
  "GCPolicySetupWithManager r = \<lparr>rg_For = KGCPolicy, rg_Owns = [], rg_Watches = [], rg_Named = ''lakefsgcpolicy'',
     rg_Reconcile = GCPolicyReconcile r\<rparr>"

definition GroupSetupWithManager :: "'s Reconciler \<Rightarrow> 's Registration" where
  "GroupSetupWithManager r = \<lparr>rg_For = KGroup, rg_Owns = [], rg_Watches = [], rg_Named = ''lakefsgroup'',
     rg_Reconcile = GroupReconcile r\<rparr>"

definition RoleBindingSetupWithManager :: "'s Reconciler \<Rightarrow> 's Registration" where
  "RoleBindingSetupWithManager r = \<lparr>rg_For = KRoleBinding, rg_Owns = [], rg_Watches = [], rg_Named = ''lakefsrolebinding'',
     rg_Reconcile = RoleBindingReconcile r\<rparr>"

text \<open>The kinds whose changes a registration hears of.\<close>

definition hears_of :: "'s Registration \<Rightarrow> kind set" where
  "hears_of g = insert (rg_For g) (set (rg_Owns g) \<union> fst ` set (rg_Watches g))"

subsection \<open>The manager\<close>

text \<open>
  \<open>tls.Config\<close> as far as the source touches it, the options of the metrics server, where
  \<open>mo_Authentication\<close> says whether \<open>FilterProvider\<close> is set, and the options of the manager.
\<close>

record TLSConfig =
  NextProtos :: "string list"

record MetricsOptions =
  mo_BindAddress :: string
  mo_SecureServing :: bool
  mo_TLSOpts :: "(TLSConfig \<Rightarrow> TLSConfig) list"
  mo_Authentication :: bool
  mo_CertDir :: string
  mo_CertName :: string
  mo_KeyName :: string

record ManagerOptions =
  op_Metrics :: MetricsOptions
  op_HealthProbeBindAddress :: string
  op_LeaderElection :: bool
  op_LeaderElectionID :: string

type_synonym 's call = "('s, string option) state"

record 's Manager =
  mgr_NewManager :: "ManagerOptions \<Rightarrow> 's call"
  mgr_GetClient :: "'s Client"
  mgr_Complete :: "'s Registration \<Rightarrow> 's call"
  mgr_AddHealthzCheck :: "string \<Rightarrow> 's call"
  mgr_AddReadyzCheck :: "string \<Rightarrow> 's call"
  mgr_IndexField :: "kind \<Rightarrow> indexField \<Rightarrow> (obj \<Rightarrow> string list) \<Rightarrow> 's call"
  mgr_Add :: "'s Server \<Rightarrow> 's call"
  mgr_Start :: "'s call"

text \<open>How a process ends: \<open>os.Exit\<close> with a code, or \<open>main\<close> returns.\<close>

datatype ending = Exit nat | Returned

text \<open>\<open>if err := call; err != nil { log; os.Exit(1) }\<close>\<close>

definition or_exit :: "'s call \<Rightarrow> ('s, ending) state \<Rightarrow> ('s, ending) state" where
  "or_exit call rest = do { err \<leftarrow> call; (case err of Some _ \<Rightarrow> return (Exit 1) | None \<Rightarrow> rest) }"

lemma wp_or_exit [simp]:
  "wp (or_exit call rest) Q = wp call (\<lambda>err. case err of Some _ \<Rightarrow> Q (Exit 1) | None \<Rightarrow> wp rest Q)"
  by (rule ext) (simp add: or_exit_def wp_def split: prod.splits option.splits)

subsection \<open>main\<close>

record OperatorFlags =
  of_MetricsAddr :: string
  of_ProbeAddr :: string
  of_LeaderElect :: bool
  of_SecureMetrics :: bool
  of_MetricsCertPath :: string
  of_MetricsCertName :: string
  of_MetricsCertKey :: string
  of_EnableHTTP2 :: bool

definition operatorDefaults :: OperatorFlags where
  "operatorDefaults = \<lparr>of_MetricsAddr = ''0'', of_ProbeAddr = '':8081'', of_LeaderElect = False, of_SecureMetrics = True,
     of_MetricsCertPath = '''', of_MetricsCertName = ''tls.crt'', of_MetricsCertKey = ''tls.key'', of_EnableHTTP2 = False\<rparr>"

definition disableHTTP2 :: "TLSConfig \<Rightarrow> TLSConfig" where
  "disableHTTP2 c = c\<lparr>NextProtos := [''http/1.1'']\<rparr>"

definition operatorMetrics :: "OperatorFlags \<Rightarrow> MetricsOptions" where
  "operatorMetrics fl = (let
       tlsOpts = (if \<not> of_EnableHTTP2 fl then [disableHTTP2] else []);
       opts = \<lparr>mo_BindAddress = of_MetricsAddr fl, mo_SecureServing = of_SecureMetrics fl, mo_TLSOpts = tlsOpts,
         mo_Authentication = False, mo_CertDir = '''', mo_CertName = '''', mo_KeyName = ''''\<rparr>;
       opts = (if of_SecureMetrics fl then opts\<lparr>mo_Authentication := True\<rparr> else opts)
     in (if length (of_MetricsCertPath fl) > 0
         then opts\<lparr>mo_CertDir := of_MetricsCertPath fl, mo_CertName := of_MetricsCertName fl,
           mo_KeyName := of_MetricsCertKey fl\<rparr>
         else opts))"

definition operatorOptions :: "OperatorFlags \<Rightarrow> ManagerOptions" where
  "operatorOptions fl = \<lparr>op_Metrics = operatorMetrics fl, op_HealthProbeBindAddress = of_ProbeAddr fl,
     op_LeaderElection = of_LeaderElect fl, op_LeaderElectionID = ''3fa906b3.internal''\<rparr>"

definition operatorMain :: "'s Manager \<Rightarrow> 's Lib \<Rightarrow> 's Runtime \<Rightarrow> 's Http \<Rightarrow> OperatorFlags \<Rightarrow> ('s, ending) state" where
  "operatorMain mgr lib rt http fl =
     (let r = \<lparr>rec_Client = mgr_GetClient mgr, rec_Lib = lib, rec_Runtime = rt\<rparr> in
      or_exit (mgr_NewManager mgr (operatorOptions fl))
     (or_exit (mgr_Complete mgr (UserSetupWithManager r))
     (or_exit (mgr_Complete mgr (CredentialSetupWithManager r))
     (or_exit (mgr_Complete mgr (RepositorySetupWithManager http r))
     (or_exit (mgr_Complete mgr (RoleSetupWithManager r))
     (or_exit (mgr_Complete mgr (GCPolicySetupWithManager r))
     (or_exit (mgr_Complete mgr (GroupSetupWithManager r))
     (or_exit (mgr_Complete mgr (RoleBindingSetupWithManager r))
     (or_exit (mgr_AddHealthzCheck mgr ''healthz'')
     (or_exit (mgr_AddReadyzCheck mgr ''readyz'')
     (or_exit (mgr_Start mgr)
        (return Returned))))))))))))"

subsection \<open>What the manager is told\<close>

text \<open>
  A manager that keeps a log of the calls that succeeded, and of the start. The laws say no more than
  that each call adds its own entry: what the manager does while it runs is not our business here.
\<close>

datatype entry =
    Controller string kind
  | Healthz string
  | Readyz string
  | Index kind indexField "obj \<Rightarrow> string list"
  | Serving string string
  | Started

locale manager =
  fixes mgr :: "'s Manager" and log :: "'s \<Rightarrow> entry list"
  assumes new_law: "wp (mgr_NewManager mgr opts) (\<lambda>_ t. log t = log s) s"
    and complete_law: "wp (mgr_Complete mgr g)
      (\<lambda>err t. log t = log s @ (if err = None then [Controller (rg_Named g) (rg_For g)] else [])) s"
    and healthz_law: "wp (mgr_AddHealthzCheck mgr n) (\<lambda>err t. log t = log s @ (if err = None then [Healthz n] else [])) s"
    and readyz_law: "wp (mgr_AddReadyzCheck mgr n) (\<lambda>err t. log t = log s @ (if err = None then [Readyz n] else [])) s"
    and index_law: "wp (mgr_IndexField mgr k f ix) (\<lambda>err t. log t = log s @ (if err = None then [Index k f ix] else [])) s"
    and add_law: "wp (mgr_Add mgr srv)
      (\<lambda>err t. log t = log s @ (if err = None then [Serving (bindAddress srv) (defaultUserNamespace srv)] else [])) s"
    and start_law: "wp (mgr_Start mgr) (\<lambda>_ t. log t = log s @ [Started]) s"
begin

lemma wp_or_exit_step:
  assumes "wp call (\<lambda>err t. log t = log s @ (if err = None then es else [])) s"
    and "\<And>t. log t = log s @ es \<Longrightarrow> wp rest Q t" and "\<And>t. log t = log s \<Longrightarrow> Q (Exit 1) t"
  shows "wp (or_exit call rest) Q s"
  using wp_mono [OF assms(1), where R = "\<lambda>err. case err of Some _ \<Rightarrow> Q (Exit 1) | None \<Rightarrow> wp rest Q"] assms(2, 3)
  by (auto split: option.splits if_splits)

lemmas registration_steps =
  wp_or_exit_step [OF complete_law] wp_or_exit_step [OF healthz_law] wp_or_exit_step [OF readyz_law]
  wp_or_exit_step [OF index_law] wp_or_exit_step [OF add_law]

lemma wp_new_step:
  assumes "\<And>t. log t = log s \<Longrightarrow> wp rest Q t" and "\<And>t. log t = log s \<Longrightarrow> Q (Exit 1) t"
  shows "wp (or_exit (mgr_NewManager mgr opts) rest) Q s"
  by (rule wp_or_exit_step [where es = "[]"]) (use new_law assms in simp_all)

lemma wp_start_step:
  assumes "\<And>t. log t = log s @ [Started] \<Longrightarrow> wp rest Q t" and "\<And>t. log t = log s @ [Started] \<Longrightarrow> Q (Exit 1) t"
  shows "wp (or_exit (mgr_Start mgr) rest) Q s"
  using wp_mono [OF start_law, where R = "\<lambda>err. case err of Some _ \<Rightarrow> Q (Exit 1) | None \<Rightarrow> wp rest Q"] assms
  by (auto split: option.splits)

text \<open>Nothing starts before everything is registered; a failure ends the process with code 1.\<close>

definition starts_with :: "entry list \<Rightarrow> ending \<Rightarrow> 's \<Rightarrow> bool" where
  "starts_with es e t \<longleftrightarrow> (Started \<in> set (log t) \<longrightarrow> log t = es @ [Started]) \<and>
     (e = Returned \<and> log t = es @ [Started] \<or> e = Exit 1)"

lemma wp_operatorMain:
  assumes "log s = []"
  shows "wp (operatorMain mgr lib rt http fl) (starts_with
     [Controller ''lakefsuser'' KUser, Controller ''lakefscredential'' KCredential,
      Controller ''lakefsrepository'' KRepository, Controller ''lakefsrole'' KRole,
      Controller ''lakefsgcpolicy'' KGCPolicy, Controller ''lakefsgroup'' KGroup,
      Controller ''lakefsrolebinding'' KRoleBinding, Healthz ''healthz'', Readyz ''readyz'']) s"
  unfolding operatorMain_def Let_def
  by ((rule wp_new_step registration_steps wp_start_step)+)
    (simp_all add: starts_with_def assms UserSetupWithManager_def CredentialSetupWithManager_def
      RepositorySetupWithManager_def RoleSetupWithManager_def GCPolicySetupWithManager_def
      GroupSetupWithManager_def RoleBindingSetupWithManager_def)

end

subsection \<open>Which changes lead to which reconciliations\<close>

text \<open>The seven registrations of \<open>main\<close>, in its order.\<close>

definition operatorControllers :: "'s Http \<Rightarrow> 's Reconciler \<Rightarrow> 's Registration list" where
  "operatorControllers http r = [UserSetupWithManager r, CredentialSetupWithManager r, RepositorySetupWithManager http r,
     RoleSetupWithManager r, GCPolicySetupWithManager r, GroupSetupWithManager r, RoleBindingSetupWithManager r]"

lemmas registrations = operatorControllers_def UserSetupWithManager_def CredentialSetupWithManager_def
  RepositorySetupWithManager_def RoleSetupWithManager_def GCPolicySetupWithManager_def GroupSetupWithManager_def
  RoleBindingSetupWithManager_def

context controllers_ok
begin

lemma wp_repositoriesForPolicy:
  assumes p: "kind_of p = KGCPolicy"
  shows "wp (repositoriesForPolicy r p) (\<lambda>reqs t. view t = view s \<and>
     set reqs = {(Namespace R, Name R) | R. stored (view s) (ORepository R) \<and> GCEnabled R \<and> policy_key R = okey_of p}) s"
  unfolding repositoriesForPolicy_def wp_bind
proof (rule wp_ListOf_ok)
  fix t ys
  assume "view t = view s" and ys: "listed (view s) RepositoryT \<lparr>InNamespace = Some (Namespace (meta p)), MatchingFields = None\<rparr> ys"
  have mem: "R \<in> set ys \<longleftrightarrow> stored (view s) (ORepository R) \<and> Namespace R = Namespace (meta p)" for R
    using ys by (simp add: listed_def selects_def RepositoryT_def)
  have "policy_key R = okey_of p \<longleftrightarrow> Namespace R = Namespace (meta p) \<and> GCPolicyName R = Name (meta p)" for R
    using p by (auto simp: policy_key_def okey_of_def key_of_def)
  with mem \<open>view t = view s\<close>
  show "wp (return (case Inr ys of Inl err \<Rightarrow> []
         | Inr items \<Rightarrow> map (\<lambda>repository. (Namespace repository, Name repository))
             (filter (\<lambda>repository. GCEnabled repository \<and> GCPolicyName repository = Name (meta p)) items)))
     (\<lambda>reqs t. view t = view s \<and>
        set reqs = {(Namespace R, Name R) | R. stored (view s) (ORepository R) \<and> GCEnabled R \<and> policy_key R = okey_of p}) t"
    by (simp add: image_def) (rule Collect_cong, rule ex_cong1, auto)
qed (rule wf_kinds)

end

subsection \<open>Groups are judged only when they are reconciled\<close>

text \<open>What is stored of one group is an invariant of everything but the reconciliation of that group.\<close>

sublocale kube_api \<subseteq> at_group: kind_invariant cl view "{KGroup}" "- {KGroup}" "\<lambda>v. v (KGroup, req) = x" for req x
  by unfold_locales (auto simp del: split_paired_All)

sublocale repository_controller \<subseteq> group_frame:
  controller_invariant r view T1 T2 http repos "{KGroup}" "- {KGroup}" "\<lambda>v. v (KGroup, req) = x" for req x
  by unfold_locales simp

context controllers
begin

lemma GroupReconcile_other:
  assumes "req' \<noteq> req"
  shows "maintains (\<lambda>t. view t (KGroup, req) = x) (GroupReconcile r req')"
proof (rule maintainsI)
  fix s
  assume s: "view s (KGroup, req) = x"
  have "view t (KGroup, req) = x" if "group_controller.reconciled_to req' (view s) res (view t)" for res t
    using that s assms view_okey [of s "(KGroup, req')"]
    by (auto simp: group_controller.reconciled_to_def group_controller.judged_to_def reported_def split: if_splits)
  then show "wp (GroupReconcile r req') (\<lambda>_ t. view t (KGroup, req) = x) s"
    unfolding GroupReconcile_shape by (auto intro: wp_mono [OF group_controller.wp_status_reconcile])
qed

lemma GroupReconcile_unready:
  assumes g: "view s (KGroup, req) = Some (OGroup g)"
    and m: "m \<in> set (gs_Users (group_Spec g))" "view s (KUser, Namespace g, ur_Name m) = None"
  shows "wp (GroupReconcile r req) (\<lambda>res t. res = Reconciled noRequeue None \<longrightarrow>
     (\<exists>h. view t (KGroup, req) = Some (OGroup h) \<and> group_Spec h = group_Spec g \<and> \<not> Ready (OGroup h))) s"
proof -
  have key: "okey_of (OGroup g) = (KGroup, req)" by (rule view_okey [OF g])
  have "\<exists>h. view t (KGroup, req) = Some (OGroup h) \<and> group_Spec h = group_Spec g \<and> \<not> Ready (OGroup h)"
    if "group_controller.reconciled_to req (view s) (Reconciled noRequeue None) (view t)" for t
  proof -
    have no: "\<not> group_resolved g (view s)" using m by (auto simp: group_resolved_def)
    from that g have "reported (OGroup g) (group_resolved g (view s)) (view s) (view t)"
      by (auto simp: group_controller.reconciled_to_def group_controller.judged_to_def)
    with no obtain y where t: "view t = (view s)((KGroup, req) \<mapsto> y)" and y: "status_written (OGroup g) y" "\<not> Ready y"
      unfolding reported_def key by blast
    then obtain h where "y = OGroup h" by (cases y) (auto simp: status_written_def stored_as_def)
    with t y show ?thesis by (auto simp: status_written_def stored_as_def)
  qed
  then show ?thesis
    unfolding GroupReconcile_shape by (auto intro: wp_mono [OF group_controller.wp_status_reconcile])
qed

end

context repository_controller
begin

lemma group_untouched:
  assumes "e \<noteq> ReconcileGroup req" and "\<And>q. e \<noteq> Serve q"
  shows "maintains (\<lambda>t. view t (KGroup, req) = x) (run_event rt srv r http e)"
proof (cases "event_kind e")
  case None
  with assms(2) show ?thesis by (cases e) auto
next
  case (Some k)
  show ?thesis
  proof (cases "k = KGroup")
    case True
    with Some assms(1) obtain req' where "e = ReconcileGroup req'" "req' \<noteq> req" by (cases e) auto
    then show ?thesis by (auto intro: maintains_ignoring GroupReconcile_other)
  next
    case False
    then show ?thesis by (intro group_frame.maintained_controllers [OF Some]) simp
  qed
qed

lemma group_stays_unready:
  assumes g: "view s (KGroup, req) = Some (OGroup g)"
    and m: "m \<in> set (gs_Users (group_Spec g))" "view s (KUser, Namespace g, ur_Name m) = None"
    and run: "run_state (GroupReconcile r req) s = (Reconciled noRequeue None, t)"
    and env: "\<And>a b. env a b \<Longrightarrow> view b (KGroup, req) = view a (KGroup, req)"
    and sys: "system (run_event rt srv r http) (\<lambda>_ e. e \<noteq> ReconcileGroup req \<and> (\<forall>q. e \<noteq> Serve q)) env t u"
  shows "\<exists>h. view u (KGroup, req) = Some (OGroup h) \<and> group_Spec h = group_Spec g \<and> \<not> Ready (OGroup h)"
proof -
  have "\<exists>h. view t (KGroup, req) = Some (OGroup h) \<and> group_Spec h = group_Spec g \<and> \<not> Ready (OGroup h)"
    using wp_run [OF GroupReconcile_unready [OF g m] run] by simp
  moreover from sys have "view u (KGroup, req) = view t (KGroup, req)"
  proof (rule system_invariant [where I = "\<lambda>u. view u (KGroup, req) = view t (KGroup, req)"])
    show "maintains_when (\<lambda>_. e \<noteq> ReconcileGroup req \<and> (\<forall>q. e \<noteq> Serve q))
        (\<lambda>u. view u (KGroup, req) = view t (KGroup, req)) (run_event rt srv r http e)" for e
      using maintains_when [OF group_untouched [of e req "view t (KGroup, req)" rt srv]]
      by (auto simp: maintains_when_def)
  qed (use env in auto)
  ultimately show ?thesis by simp
qed

end

subsection \<open>A concrete manager\<close>

record manager_world = lake_world +
  w_log :: "entry list"

definition ref_call :: "entry list \<Rightarrow> manager_world call" where
  "ref_call es = do { _ \<leftarrow> State_Monad.update (\<lambda>s. s\<lparr>w_log := w_log s @ es\<rparr>); return None }"

definition ref_manager :: "manager_world Manager" where
  "ref_manager = \<lparr>mgr_NewManager = (\<lambda>_. ref_call []), mgr_GetClient = ref_client,
     mgr_Complete = (\<lambda>g. ref_call [Controller (rg_Named g) (rg_For g)]),
     mgr_AddHealthzCheck = (\<lambda>n. ref_call [Healthz n]), mgr_AddReadyzCheck = (\<lambda>n. ref_call [Readyz n]),
     mgr_IndexField = (\<lambda>k f ix. ref_call [Index k f ix]),
     mgr_Add = (\<lambda>srv. ref_call [Serving (bindAddress srv) (defaultUserNamespace srv)]),
     mgr_Start = ref_call [Started]\<rparr>"

interpretation ref_mgr: manager ref_manager w_log
  by unfold_locales (simp_all add: ref_manager_def ref_call_def wp_def State_Monad.update_def State_Monad.get_def
      State_Monad.set_def)

definition ex_empty_world :: manager_world where
  "ex_empty_world = \<lparr>w_objs = [], w_lake = Map.empty, w_log = []\<rparr>"

subsection \<open>Properties\<close>

text \<open>
  C18. The operator starts its manager only with all seven controllers and both probes registered: each
  custom resource has its controller, under a name of its own. If any registration fails, or the manager
  itself, the process ends with code 1; and if \<open>main\<close> returns, the manager was started.
\<close>

theorem operator_starts_complete:
  assumes "manager mgr log" and "log s = []"
  shows "case run_state (operatorMain mgr lib rt http fl) s of (e, t) \<Rightarrow>
     (Started \<in> set (log t) \<longrightarrow> log t =
        [Controller ''lakefsuser'' KUser, Controller ''lakefscredential'' KCredential,
         Controller ''lakefsrepository'' KRepository, Controller ''lakefsrole'' KRole,
         Controller ''lakefsgcpolicy'' KGCPolicy, Controller ''lakefsgroup'' KGroup,
         Controller ''lakefsrolebinding'' KRoleBinding, Healthz ''healthz'', Readyz ''readyz'', Started]) \<and>
     (e = Returned \<and> Started \<in> set (log t) \<or> e = Exit 1)"
  using manager.wp_operatorMain [OF assms, of lib rt http fl]
  by (auto simp: wp_def manager.starts_with_def [OF assms(1)] split: prod.splits)

theorem operator_starts_complete_witness:
  "case run_state (operatorMain ref_manager ref_lib ref_runtime ref_http operatorDefaults) ex_empty_world of (e, t) \<Rightarrow>
     (Started \<in> set (w_log t) \<longrightarrow> w_log t =
        [Controller ''lakefsuser'' KUser, Controller ''lakefscredential'' KCredential,
         Controller ''lakefsrepository'' KRepository, Controller ''lakefsrole'' KRole,
         Controller ''lakefsgcpolicy'' KGCPolicy, Controller ''lakefsgroup'' KGroup,
         Controller ''lakefsrolebinding'' KRoleBinding, Healthz ''healthz'', Readyz ''readyz'', Started]) \<and>
     (e = Returned \<and> Started \<in> set (w_log t) \<or> e = Exit 1)"
  by (rule operator_starts_complete [OF ref_mgr.manager_axioms]) (simp add: ex_empty_world_def)

text \<open>
  C20. A change of a GC policy reaches every repository that it concerns: with a reliable API the requests
  that the repository controller's watch derives from a policy are exactly those for the stored
  repositories with garbage collection whose reconciliation reads that policy; deriving them changes
  nothing.
\<close>

theorem policy_change_reaches_repositories:
  assumes "controllers_ok r view T1 T2" and "kind_of p = KGCPolicy"
  shows "case run_state (repositoriesForPolicy r p) s of (reqs, t) \<Rightarrow> view t = view s \<and>
     set reqs = {(Namespace R, Name R) | R. stored (view s) (ORepository R) \<and> GCEnabled R \<and> policy_key R = okey_of p}"
  by (rule controllers_ok.wp_repositoriesForPolicy [OF assms, unfolded wp_def])

theorem policy_change_reaches_repositories_witness:
  "case run_state (repositoriesForPolicy ref_reconciler (OGCPolicy (defaultGCPolicy ''data'')))
      (ex_lake_world (ex_repository True [] None) [] Map.empty) of (reqs, t) \<Rightarrow>
     ref_view t = ref_view (ex_lake_world (ex_repository True [] None) [] Map.empty) \<and>
     set reqs = {(Namespace R, Name R) | R.
        stored (ref_view (ex_lake_world (ex_repository True [] None) [] Map.empty)) (ORepository R) \<and>
        GCEnabled R \<and> policy_key R = okey_of (OGCPolicy (defaultGCPolicy ''data''))}"
  by (rule policy_change_reaches_repositories [OF ref_rec.controllers_ok_axioms]) simp

text \<open>
  Unless \<open>--enable-http2\<close> is given, HTTP/2 is off: whatever TLS configuration the metrics server starts
  with, the options that \<open>main\<close> passes leave only HTTP/1.1 to be negotiated. A secure metrics endpoint is always
  an authenticated one.
\<close>

lemma operator_metrics_secured:
  "(\<not> of_EnableHTTP2 fl \<longrightarrow>
      NextProtos (fold (\<lambda>opt c. opt c) (mo_TLSOpts (op_Metrics (operatorOptions fl))) c) = [''http/1.1'']) \<and>
   (mo_SecureServing (op_Metrics (operatorOptions fl)) \<longrightarrow> mo_Authentication (op_Metrics (operatorOptions fl)))"
  by (simp add: operatorOptions_def operatorMetrics_def disableHTTP2_def Let_def)

text \<open>
  C36. A group is not judged again when its users come. Of the controllers only that of the users hears of users. And let
  a group be reconciled without error while one of its users is not stored. Then, whatever the controllers
  reconcile after that but this group, and whatever is done from outside to anything but this group, the creation
  of the missing users included, the group is still reported not ready. (The role bindings share this.)
\<close>

theorem group_not_refreshed:
  assumes "repository_controller r view T1 T2 http repos" and "view s (KGroup, req) = Some (OGroup g)"
    and "m \<in> set (gs_Users (group_Spec g))" and "view s (KUser, Namespace g, ur_Name m) = None"
    and "run_state (GroupReconcile r req) s = (Reconciled noRequeue None, t)"
    and "\<And>a b. env a b \<Longrightarrow> view b (KGroup, req) = view a (KGroup, req)"
    and "system (run_event rt srv r http) (\<lambda>_ e. e \<noteq> ReconcileGroup req \<and> (\<forall>q. e \<noteq> Serve q)) env t u"
  shows "map rg_Named (filter (\<lambda>c. KUser \<in> hears_of c) (operatorControllers http r)) = [''lakefsuser''] \<and>
     (\<exists>h. view u (KGroup, req) = Some (OGroup h) \<and> group_Spec h = group_Spec g \<and> \<not> Ready (OGroup h))"
  using repository_controller.group_stays_unready [OF assms]
  by (simp add: registrations hears_of_def)

text \<open>The group of Alice is reconciled, then Alice is created and reconciled.\<close>

definition ex_lone_group :: lake_world where
  "ex_lone_group = \<lparr>w_objs = [OGroup ex_ready_group], w_lake = Map.empty\<rparr>"

definition ex_judged_group :: lake_world where
  "ex_judged_group = snd (run_state (GroupReconcile ref_reconciler (''data'', ''devs'')) ex_lone_group)"

definition alice_comes :: "lake_world \<Rightarrow> lake_world" where
  "alice_comes w = snd (run_state (Create ref_client UserT (ex_user ''alice'' ''alice@example.org'')) w)"

definition ex_alice_reconciled :: lake_world where
  "ex_alice_reconciled = snd (run_state (run_event ref_runtime ref_server ref_reconciler ref_http
     (ReconcileUser (''data'', ''alice''))) (alice_comes ex_judged_group))"

lemma ex_group_judged:
  "fst (run_state (GroupReconcile ref_reconciler (''data'', ''devs'')) ex_lone_group) = Reconciled noRequeue None"
  by code_simp

lemma ex_alice_stored: "\<not> Option.is_none (ref_view ex_alice_reconciled (KUser, ''data'', ''alice''))"
  by code_simp

lemma alice_comes_group: "ref_view (alice_comes w) (KGroup, k) = ref_view w (KGroup, k)"
proof -
  have "wp (Create ref_client UserT (ex_user ''alice'' ''alice@example.org'')) (\<lambda>_ t. ref_view t (KGroup, k) = ref_view w (KGroup, k)) w"
    by (rule ref.wp_Create) simp_all
  then show ?thesis by (simp add: alice_comes_def wp_def split_beta)
qed

theorem group_not_refreshed_witness:
  "ref_view ex_alice_reconciled (KUser, ''data'', ''alice'') \<noteq> None \<and>
   map rg_Named (filter (\<lambda>c. KUser \<in> hears_of c)
      (operatorControllers ref_http (ref_reconciler :: lake_world Reconciler))) = [''lakefsuser''] \<and>
   (\<exists>h. ref_view ex_alice_reconciled (KGroup, ''data'', ''devs'') = Some (OGroup h) \<and>
      group_Spec h = group_Spec ex_ready_group \<and> \<not> Ready (OGroup h))"
proof
  show "ref_view ex_alice_reconciled (KUser, ''data'', ''alice'') \<noteq> None"
    using ex_alice_stored by (auto simp: Option.is_none_def)
  show "map rg_Named (filter (\<lambda>c. KUser \<in> hears_of c)
      (operatorControllers ref_http (ref_reconciler :: lake_world Reconciler))) = [''lakefsuser''] \<and>
   (\<exists>h. ref_view ex_alice_reconciled (KGroup, ''data'', ''devs'') = Some (OGroup h) \<and>
      group_Spec h = group_Spec ex_ready_group \<and> \<not> Ready (OGroup h))"
  proof (rule group_not_refreshed [OF ref_repo.repository_controller_axioms, where env = "\<lambda>a b. b = alice_comes a"])
    show "ref_view ex_lone_group (KGroup, ''data'', ''devs'') = Some (OGroup ex_ready_group)"
      and "ref_view ex_lone_group (KUser, Namespace ex_ready_group, ur_Name \<lparr>ur_Name = ''alice''\<rparr>) = None"
      by (simp_all add: ref_view_def ex_lone_group_def ex_ready_group_def ObjectMeta.extend_def new_meta_def)
    show "\<lparr>ur_Name = ''alice''\<rparr> \<in> set (gs_Users (group_Spec ex_ready_group))"
      by (simp add: ex_ready_group_def ObjectMeta.extend_def new_meta_def)
    show "run_state (GroupReconcile ref_reconciler (''data'', ''devs'')) ex_lone_group = (Reconciled noRequeue None, ex_judged_group)"
      by (simp add: ex_judged_group_def prod_eq_iff ex_group_judged)
    show "ref_view b (KGroup, ''data'', ''devs'') = ref_view a (KGroup, ''data'', ''devs'')" if "b = alice_comes a" for a b
      by (simp add: that alice_comes_group)
    show "system (run_event ref_runtime ref_server ref_reconciler ref_http)
       (\<lambda>_ e. e \<noteq> ReconcileGroup (''data'', ''devs'') \<and> (\<forall>q. e \<noteq> Serve q)) (\<lambda>a b. b = alice_comes a)
       ex_judged_group ex_alice_reconciled"
      unfolding ex_alice_reconciled_def by (rule system_step, rule system.outside, rule system.start, rule refl) simp
  qed
qed

end
