(* ===== verification/AuthServerCommand.thy ===== *)
theory AuthServerCommand
  imports Operator
begin

section \<open>The auth server's command (cmd/authserver/main.go) and its start\<close>

text \<open>
  \<open>main\<close> of the auth server: it makes a manager without leader election, registers the probes and the four
  field indexes that the handlers' queries rest on, adds the server and starts the manager, which calls
  the server's \<open>Start\<close>. Like the operator's \<open>main\<close> it ends with code 1 at the first error. Serving HTTP is
  the business of net/http: \<open>HttpServing\<close> has one function per thing \<open>Start\<close> waits for.
\<close>

subsection \<open>Start (internal/authserver/server.go)\<close>

text \<open>
  What \<open>ListenAndServe\<close> returns, which is never nil, and what \<open>select\<close> sees first: the end of the context
  or the return of \<open>ListenAndServe\<close>.
\<close>

datatype serveError = ErrServerClosed | ServeFailed string

datatype selected = ContextDone | Served serveError

text \<open>The mux: patterns and their handlers. The pattern \<open>/\<close> matches every path.\<close>

type_synonym 's mux = "(string \<times> (Request \<Rightarrow> ('s, outcome) state)) list"

definition routes :: "'s Runtime \<Rightarrow> 's Server \<Rightarrow> 's mux" where
  "routes rt srv = [(''/'', handle rt srv)]"

record 's httpServer =
  Addr :: string
  Handler :: "'s mux"
  ReadHeaderTimeout :: time

record 's HttpServing =
  hs_AwaitDone :: "('s, unit) state"
  hs_Select :: "'s httpServer \<Rightarrow> ('s, selected) state"
  hs_Shutdown :: "time \<Rightarrow> ('s, string option) state"

definition Second :: time where
  "Second = 1000000000"

definition Start :: "'s HttpServing \<Rightarrow> 's Runtime \<Rightarrow> 's Server \<Rightarrow> ('s, string option) state" where
  "Start env rt srv =
     (if bindAddress srv = '''' \<or> bindAddress srv = ''0'' then do {
        _ \<leftarrow> hs_AwaitDone env;
        return None }
      else do {
        first \<leftarrow> hs_Select env \<lparr>Addr = bindAddress srv, Handler = routes rt srv, ReadHeaderTimeout = 5 * Second\<rparr>;
        (case first of
           ContextDone \<Rightarrow> do {
             err \<leftarrow> hs_Shutdown env (10 * Second);
             (case err of Some e \<Rightarrow> return (Some e) | None \<Rightarrow> return None) }
         | Served ErrServerClosed \<Rightarrow> return None
         | Served (ServeFailed e) \<Rightarrow> return (Some e)) })"

subsection \<open>main\<close>

record AuthFlags =
  af_AuthServerAddr :: string
  af_MetricsAddr :: string
  af_ProbeAddr :: string
  af_DefaultUserNamespace :: string

text \<open>The defaults; the namespace is that of the environment variable \<open>POD_NAMESPACE\<close>.\<close>

definition authDefaults :: "string \<Rightarrow> AuthFlags" where
  "authDefaults podNamespace = \<lparr>af_AuthServerAddr = '':8080'', af_MetricsAddr = ''0'', af_ProbeAddr = '':8082'',
     af_DefaultUserNamespace = podNamespace\<rparr>"

definition authOptions :: "AuthFlags \<Rightarrow> ManagerOptions" where
  "authOptions fl = \<lparr>op_Metrics = \<lparr>mo_BindAddress = af_MetricsAddr fl, mo_SecureServing = False, mo_TLSOpts = [],
       mo_Authentication = False, mo_CertDir = '''', mo_CertName = '''', mo_KeyName = ''''\<rparr>,
     op_HealthProbeBindAddress = af_ProbeAddr fl, op_LeaderElection = False, op_LeaderElectionID = ''''\<rparr>"

text \<open>\<open>indexFields\<close> of the source; the functions are those of \<^term>\<open>indexFields\<close>.\<close>

definition registerIndexes :: "'s Manager \<Rightarrow> ('s, ending) state \<Rightarrow> ('s, ending) state" where
  "registerIndexes mgr rest =
      or_exit (mgr_IndexField mgr KCredential CredentialAccessKeyIDField (indexFields CredentialAccessKeyIDField))
     (or_exit (mgr_IndexField mgr KCredential CredentialUserField (indexFields CredentialUserField))
     (or_exit (mgr_IndexField mgr KUser UserExternalIDField (indexFields UserExternalIDField))
     (or_exit (mgr_IndexField mgr KGroup GroupExternalIDField (indexFields GroupExternalIDField))
        rest)))"

definition authMain :: "'s Manager \<Rightarrow> AuthFlags \<Rightarrow> ('s, ending) state" where
  "authMain mgr fl =
      or_exit (mgr_NewManager mgr (authOptions fl))
     (or_exit (mgr_AddHealthzCheck mgr ''healthz'')
     (or_exit (mgr_AddReadyzCheck mgr ''readyz'')
     (registerIndexes mgr
     (or_exit (mgr_Add mgr (New (mgr_GetClient mgr) (af_AuthServerAddr fl)
         [WithDefaultUserNamespace (af_DefaultUserNamespace fl)]))
     (or_exit (mgr_Start mgr)
        (return Returned))))))"

lemma New_simps [simp]:
  "bindAddress (New cl addr [WithDefaultUserNamespace ns]) = addr"
  "defaultUserNamespace (New cl addr [WithDefaultUserNamespace ns]) = (if ns = '''' then ''lakefs-oss-contrib-system'' else ns)"
  by (simp_all add: New_def WithDefaultUserNamespace_def)

context manager
begin

lemma wp_authMain:
  assumes "log s = []"
  shows "wp (authMain mgr fl) (starts_with
     ([Healthz ''healthz'', Readyz ''readyz''] @
      map (\<lambda>(k, f). Index k f (indexFields f)) [(KCredential, CredentialAccessKeyIDField),
        (KCredential, CredentialUserField), (KUser, UserExternalIDField), (KGroup, GroupExternalIDField)] @
      [Serving (af_AuthServerAddr fl)
        (if af_DefaultUserNamespace fl = '''' then ''lakefs-oss-contrib-system'' else af_DefaultUserNamespace fl)])) s"
  unfolding authMain_def registerIndexes_def
  by ((rule wp_new_step registration_steps wp_start_step)+) (simp_all add: starts_with_def assms)

end

subsection \<open>Properties\<close>

text \<open>
  C19. The auth server is started only with both probes and all four field indexes registered, each with
  its function, so that the queries of the handlers find what they ask for; its default namespace is the
  configured one, or lakefs-oss-contrib-system if none is configured. Any failure before ends the process with
  code 1.
\<close>

theorem auth_server_starts_indexed:
  assumes "manager mgr log" and "log s = []"
  shows "case run_state (authMain mgr fl) s of (e, t) \<Rightarrow>
     (Started \<in> set (log t) \<longrightarrow> log t =
        [Healthz ''healthz'', Readyz ''readyz'',
         Index KCredential CredentialAccessKeyIDField (indexFields CredentialAccessKeyIDField),
         Index KCredential CredentialUserField (indexFields CredentialUserField),
         Index KUser UserExternalIDField (indexFields UserExternalIDField),
         Index KGroup GroupExternalIDField (indexFields GroupExternalIDField),
         Serving (af_AuthServerAddr fl)
           (if af_DefaultUserNamespace fl = '''' then ''lakefs-oss-contrib-system'' else af_DefaultUserNamespace fl),
         Started]) \<and>
     (e = Returned \<and> Started \<in> set (log t) \<or> e = Exit 1)"
  using manager.wp_authMain [OF assms, of fl]
  by (auto simp: wp_def manager.starts_with_def [OF assms(1)] split: prod.splits)

theorem auth_server_starts_indexed_witness:
  "case run_state (authMain ref_manager (authDefaults ''data'')) ex_empty_world of (e, t) \<Rightarrow>
     (Started \<in> set (w_log t) \<longrightarrow> w_log t =
        [Healthz ''healthz'', Readyz ''readyz'',
         Index KCredential CredentialAccessKeyIDField (indexFields CredentialAccessKeyIDField),
         Index KCredential CredentialUserField (indexFields CredentialUserField),
         Index KUser UserExternalIDField (indexFields UserExternalIDField),
         Index KGroup GroupExternalIDField (indexFields GroupExternalIDField),
         Serving (af_AuthServerAddr (authDefaults ''data''))
           (if af_DefaultUserNamespace (authDefaults ''data'') = '''' then ''lakefs-oss-contrib-system''
            else af_DefaultUserNamespace (authDefaults ''data'')),
         Started]) \<and>
     (e = Returned \<and> Started \<in> set (w_log t) \<or> e = Exit 1)"
  by (rule auth_server_starts_indexed [OF ref_mgr.manager_axioms]) (simp add: ex_empty_world_def)

end
