(* ===== verification/GoMemory.thy ===== *)
theory GoMemory
  imports Prelude
begin

section \<open>Memory: pointers, slices and copies that share nothing\<close>

text \<open>
  Everywhere else in this development Go's structs are records and its slices are lists, so copying
  is the identity. This theory is about the memory behind them: a heap of cells, values that are
  scalars, structs or references into the heap, and the statements that generated copying code is
  made of. The type descriptors \<open>ty\<close> say what a struct of the API looks like in memory, \<open>denotes\<close>
  what value a piece of memory holds, and \<open>deep_copies\<close> what it means for a function to copy a value
  without sharing memory. One rule per kind of field composes the copies of a struct's fields.
\<close>

subsection \<open>Values and the heap\<close>

datatype scalar = SString string | SInt int | SBool bool

text \<open>
  A value as it lies in memory. \<open>VNil\<close> is the nil pointer and the nil slice; \<open>VRef\<close> is a pointer that
  is not nil, or a slice that is not nil. A struct lists its fields by name.
\<close>

type_synonym addr = nat

datatype gval = VScalar scalar | VNil | VRef addr | VStruct "(string \<times> gval) list"

text \<open>
  A cell holds the elements of a slice's array, or the one target of a pointer. Addresses are given
  out in order, so the addresses below the length of the heap are those in use.
\<close>

type_synonym heap = "gval list list"

definition cells :: "heap \<Rightarrow> addr \<Rightarrow> gval list" where
  "cells h a = (if a < length h then h ! a else [])"

definition allocate :: "gval list \<Rightarrow> (heap, addr) state" where
  "allocate xs = do { h \<leftarrow> State_Monad.get; _ \<leftarrow> State_Monad.set (h @ [xs]); return (length h) }"

definition load :: "addr \<Rightarrow> (heap, gval list) state" where
  "load a = do { h \<leftarrow> State_Monad.get; return (cells h a) }"

definition store :: "addr \<Rightarrow> gval list \<Rightarrow> (heap, unit) state" where
  "store a xs = State_Monad.update (\<lambda>h. h[a := xs])"

lemma wp_memory [simp]:
  "wp (allocate xs) P h = P (length h) (h @ [xs])"
  "wp (load a) Q h = Q (cells h a) h"
  "wp (store a xs) R h = R () (h[a := xs])"
  by (simp_all add: allocate_def load_def store_def wp_def State_Monad.get_def State_Monad.set_def
      State_Monad.update_def)

lemma wp_fun [simp]:
  "wp (return a) Q = Q a"
  "wp (State_Monad.bind m f) Q = wp m (\<lambda>a. wp (f a) Q)"
  "wp (store b xs) R = (\<lambda>h. R () (h[b := xs]))"
  by (rule ext, simp)+

text \<open>Fields of a struct.\<close>

fun fld :: "gval \<Rightarrow> string \<Rightarrow> gval" where
  "fld (VStruct fs) n = (case map_of fs n of Some x \<Rightarrow> x | None \<Rightarrow> VNil)"
| "fld _ n = VNil"

fun set_fld :: "gval \<Rightarrow> string \<Rightarrow> gval \<Rightarrow> gval" where
  "set_fld (VStruct fs) n x = VStruct (map (\<lambda>(m, y). (m, if m = n then x else y)) fs)"
| "set_fld v n x = v"

lemma map_of_map_if:
  "map_of (map (\<lambda>(m, y). (m, if m = n then x else y)) fs) m =
     (if m = n then map_option (\<lambda>_. x) (map_of fs m) else map_of fs m)"
  by (induction fs) auto

lemma fld_set_fld: "fld (set_fld (VStruct fs) n x) m = (if m = n \<and> n \<in> fst ` set fs then x else fld (VStruct fs) m)"
proof (cases "map_of fs m")
  case None
  then have "m \<notin> fst ` set fs" by (simp add: map_of_eq_None_iff)
  with None show ?thesis by (auto simp: map_of_map_if)
next
  case (Some y)
  then have "m \<in> fst ` set fs" by (metis weak_map_of_SomeI domI dom_map_of_conv_image_fst)
  with Some show ?thesis by (auto simp: map_of_map_if)
qed

subsection \<open>Types and the values they hold\<close>

datatype ty = TScalar | TPtr ty | TSlice ty | TStruct "(string \<times> ty) list"

text \<open>What a value in memory stands for: the value with the references followed.\<close>

datatype tree = LScalar scalar | LNil | LRef "tree list" | LStruct "(string \<times> tree) list"

fun lfld :: "tree \<Rightarrow> string \<Rightarrow> tree" where
  "lfld (LStruct fs) n = (case map_of fs n of Some x \<Rightarrow> x | None \<Rightarrow> LNil)"
| "lfld _ n = LNil"

text \<open>
  \<open>denotes h A T v t\<close>: in the heap \<open>h\<close> the value \<open>v\<close> of type \<open>T\<close> stands for \<open>t\<close>, and all memory that can
  be reached from \<open>v\<close> is at addresses in \<open>A\<close>.
\<close>

function denotes :: "heap \<Rightarrow> addr set \<Rightarrow> ty \<Rightarrow> gval \<Rightarrow> tree \<Rightarrow> bool" where
  "denotes h A TScalar v t = (\<exists>s. v = VScalar s \<and> t = LScalar s)"
| "denotes h A (TPtr T) v t = (v = VNil \<and> t = LNil \<or>
     (\<exists>a x u. v = VRef a \<and> t = LRef [u] \<and> a \<in> A \<and> a < length h \<and> cells h a = [x] \<and> denotes h A T x u))"
| "denotes h A (TSlice T) v t = (v = VNil \<and> t = LNil \<or>
     (\<exists>a us. v = VRef a \<and> t = LRef us \<and> a \<in> A \<and> a < length h \<and> length (cells h a) = length us \<and>
        (\<forall>i < length us. denotes h A T (cells h a ! i) (us ! i))))"
| "denotes h A (TStruct Fs) v t = (\<exists>fs us. v = VStruct fs \<and> t = LStruct us \<and> map fst fs = map fst Fs \<and>
     map fst us = map fst Fs \<and> (\<forall>p \<in> set Fs. denotes h A (snd p) (fld v (fst p)) (lfld t (fst p))))"
  by pat_completeness auto

lemma size_field: "p \<in> set Fs \<Longrightarrow> size (snd p) < size (TStruct Fs)"
  by (induction Fs) (auto simp: size_prod_simp)

termination denotes
  by (relation "measure (\<lambda>(h, A, T, v, t). size T)") (simp_all add: size_field del: ty.size(8))

lemmas denotes_induct = denotes.induct [case_names scalar pointer slice struct]

text \<open>Memory outside the reach of a value does not matter to it.\<close>

lemma denotes_frame:
  "denotes h A T v t \<Longrightarrow> A \<subseteq> B \<Longrightarrow> (\<And>a. a \<in> A \<Longrightarrow> a < length h \<Longrightarrow> a < length h' \<and> cells h' a = cells h a) \<Longrightarrow>
   denotes h' B T v t"
proof (induction h A T v t rule: denotes_induct)
  case (pointer h A T v t)
  show ?case
  proof (cases "v = VNil")
    case False
    with pointer.prems(1) obtain a x u where v: "v = VRef a" "t = LRef [u]" "a \<in> A" "a < length h" "cells h a = [x]"
      and x: "denotes h A T x u" by auto
    with pointer.prems(2) pointer.prems(3) [of a] have "a \<in> B" "a < length h'" "cells h' a = [x]" by auto
    with v pointer.IH [OF x pointer.prems(2, 3)] show ?thesis by simp
  qed (use pointer.prems(1) in simp)
next
  case (slice h A T v t)
  show ?case
  proof (cases "v = VNil")
    case False
    with slice.prems(1) obtain a us where v: "v = VRef a" "t = LRef us" "a \<in> A" "a < length h" "length (cells h a) = length us"
      and us: "\<And>i. i < length us \<Longrightarrow> denotes h A T (cells h a ! i) (us ! i)" by auto
    with slice.prems(2) slice.prems(3) [of a] have a: "a \<in> B" "a < length h'" "cells h' a = cells h a" by auto
    have "denotes h' B T (cells h a ! i) (us ! i)" if "i < length us" for i
      by (rule slice.IH [OF that us [OF that] slice.prems(2, 3)])
    with v a show ?thesis by simp
  qed (use slice.prems(1) in simp)
next
  case (struct h A Fs v t)
  have "denotes h' B (snd p) (fld v (fst p)) (lfld t (fst p))" if p: "p \<in> set Fs" for p
    by (rule struct.IH [OF p _ struct.prems(2, 3)]) (use struct.prems(1) p in auto)
  with struct.prems(1) show ?case by auto
qed simp

lemma denotes_mono: "denotes h A T v t \<Longrightarrow> A \<subseteq> B \<Longrightarrow> denotes h B T v t"
  by (erule denotes_frame) simp_all

lemma denotes_bounded: "denotes h A T v t \<Longrightarrow> denotes h (A \<inter> {..<length h}) T v t"
  by (induction h A T v t rule: denotes_induct) auto

subsection \<open>Heaps that grow\<close>

definition extends :: "heap \<Rightarrow> heap \<Rightarrow> bool" where
  "extends h h' \<longleftrightarrow> (\<exists>new. h' = h @ new)"

lemma extends_refl [simp]: "extends h h"
  by (simp add: extends_def)

lemma extends_append [simp]: "extends h (h @ new)"
  by (simp add: extends_def)

lemma extends_trans: "extends h h' \<Longrightarrow> extends h' h'' \<Longrightarrow> extends h h''"
  by (auto simp: extends_def)

lemma extends_store: "extends h h' \<Longrightarrow> length h \<le> b \<Longrightarrow> extends h (h'[b := xs])"
  by (auto simp: extends_def list_update_append)

lemma extendsD: "extends h h' \<Longrightarrow> length h \<le> length h'" "extends h h' \<Longrightarrow> a < length h \<Longrightarrow> cells h' a = cells h a"
  by (auto simp: extends_def cells_def nth_append)

lemma denotes_extends: "extends h h' \<Longrightarrow> denotes h A T v t \<Longrightarrow> A \<subseteq> B \<Longrightarrow> denotes h' B T v t"
  by (erule denotes_frame) (auto dest: extendsD)

lemma cells_store [simp]: "cells (h[b := xs]) a = (if a = b \<and> b < length h then xs else cells h a)"
  by (auto simp: cells_def)

lemma cells_append [simp]: "cells (h @ [xs]) (length h) = xs"
  by (simp add: cells_def)

lemma denotes_store: "denotes h A T v t \<Longrightarrow> b \<notin> A \<Longrightarrow> A \<subseteq> B \<Longrightarrow> denotes (h[b := xs]) B T v t"
  by (erule denotes_frame) auto

subsection \<open>Deep copies\<close>

text \<open>
  A function copies the values of a type deeply if the copy stands for the same value, lies in memory
  that was not in use before, and the memory that was in use is as it was.
\<close>

definition deep_copies :: "ty \<Rightarrow> (gval \<Rightarrow> (heap, gval) state) \<Rightarrow> bool" where
  "deep_copies T f \<longleftrightarrow> (\<forall>h v t. denotes h UNIV T v t \<longrightarrow>
     wp (f v) (\<lambda>v' h'. extends h h' \<and> denotes h' {length h..} T v' t) h)"

lemma deep_copiesD:
  assumes "deep_copies T f" and "denotes h UNIV T v t"
  shows "wp (f v) (\<lambda>v' h'. extends h h' \<and> denotes h' {length h..} T v' t) h"
  using assms by (simp add: deep_copies_def)

text \<open>Types without references: plain assignment copies them.\<close>

function flat :: "ty \<Rightarrow> bool" where
  "flat TScalar = True"
| "flat (TPtr T) = False"
| "flat (TSlice T) = False"
| "flat (TStruct Fs) = (\<forall>p \<in> set Fs. flat (snd p))"
  by pat_completeness auto

termination flat
  by (relation "measure size") (simp_all add: size_field del: ty.size(8))

lemma denotes_flat: "denotes h A T v t \<Longrightarrow> flat T \<Longrightarrow> denotes h' B T v t"
proof (induction h A T v t rule: denotes_induct)
  case (struct h A Fs v t)
  have "denotes h' B (snd p) (fld v (fst p)) (lfld t (fst p))" if p: "p \<in> set Fs" for p
    by (rule struct.IH [OF p]) (use struct.prems p in auto)
  with struct.prems(1) show ?case by auto
qed simp_all

lemma deep_copies_flat: "flat T \<Longrightarrow> deep_copies T return"
  by (auto simp: deep_copies_def intro: denotes_flat)

subsection \<open>The statements of copying code\<close>

text \<open>
  Each is one statement of a generated \<open>DeepCopyInto\<close>, which begins with \<open>*out = *in\<close>: \<open>inp\<close> is the
  value \<open>*in\<close>, \<open>out\<close> the value \<open>*out\<close> so far; \<open>n\<close> names the field. (Nothing but the copying code
  refers to \<open>*out\<close>, and it does not read what \<open>make\<close> and \<open>new\<close> put into fresh memory before it has
  overwritten it; \<open>VNil\<close> stands for that.)
\<close>

type_synonym copier = "gval \<Rightarrow> (heap, gval) state"

text \<open>\<open>out.F = in.F\<close>\<close>

definition assign :: "string \<Rightarrow> gval \<Rightarrow> copier" where
  "assign n inp out = return (set_fld out n (fld inp n))"

text \<open>\<open>in.F.DeepCopyInto(&out.F)\<close>\<close>

definition copy_field :: "copier \<Rightarrow> string \<Rightarrow> gval \<Rightarrow> copier" where
  "copy_field f n inp out = do { y \<leftarrow> f (fld inp n); return (set_fld out n y) }"

text \<open>\<open>for i := range *in { (*in)[i].DeepCopyInto(&(*out)[i]) }\<close>, the slices' arrays being at \<open>a\<close> and \<open>b\<close>\<close>

definition copy_elements :: "copier \<Rightarrow> addr \<Rightarrow> addr \<Rightarrow> nat \<Rightarrow> (heap, unit) state" where
  "copy_elements f a b n = forEach [0..<n] (\<lambda>i. do {
     xs \<leftarrow> load a;
     y \<leftarrow> f (xs ! i);
     ys \<leftarrow> load b;
     store b (ys[i := y]) })"

text \<open>\<open>if in.F != nil { *out = make([]T, len(*in)); for i := range *in { ... } }\<close>\<close>

definition copy_slice :: "copier \<Rightarrow> string \<Rightarrow> gval \<Rightarrow> copier" where
  "copy_slice f n inp out = (case fld inp n of
     VRef a \<Rightarrow> do {
       xs \<leftarrow> load a;
       b \<leftarrow> allocate (replicate (length xs) VNil);
       _ \<leftarrow> copy_elements f a b (length xs);
       return (set_fld out n (VRef b)) }
   | _ \<Rightarrow> return out)"

text \<open>\<open>if in.F != nil { *out = make([]T, len(*in)); copy(*out, *in) }\<close>\<close>

definition copy_array :: "string \<Rightarrow> gval \<Rightarrow> copier" where
  "copy_array n inp out = (case fld inp n of
     VRef a \<Rightarrow> do {
       xs \<leftarrow> load a;
       b \<leftarrow> allocate (replicate (length xs) VNil);
       _ \<leftarrow> store b xs;
       return (set_fld out n (VRef b)) }
   | _ \<Rightarrow> return out)"

text \<open>\<open>if in.F != nil { *out = new(T); **out = **in }\<close>\<close>

definition copy_pointer :: "string \<Rightarrow> gval \<Rightarrow> copier" where
  "copy_pointer n inp out = (case fld inp n of
     VRef a \<Rightarrow> do {
       b \<leftarrow> allocate [VNil];
       xs \<leftarrow> load a;
       _ \<leftarrow> store b xs;
       return (set_fld out n (VRef b)) }
   | _ \<Rightarrow> return out)"

text \<open>\<open>new(T)\<close>, filled by \<open>DeepCopyInto\<close> with a copy of what \<open>a\<close> points to\<close>

definition new_copy :: "copier \<Rightarrow> addr \<Rightarrow> (heap, gval) state" where
  "new_copy f a = do {
     b \<leftarrow> allocate [VNil];
     xs \<leftarrow> load a;
     y \<leftarrow> f (hd xs);
     _ \<leftarrow> store b [y];
     return (VRef b) }"

text \<open>\<open>if in.F != nil { *out = new(T); (*in).DeepCopyInto(*out) }\<close>\<close>

definition copy_pointee :: "copier \<Rightarrow> string \<Rightarrow> gval \<Rightarrow> copier" where
  "copy_pointee f n inp out = (case fld inp n of
     VRef a \<Rightarrow> do { y \<leftarrow> new_copy f a; return (set_fld out n y) }
   | _ \<Rightarrow> return out)"

text \<open>\<open>if in.F != nil { *out = (*in).DeepCopy() }\<close>\<close>

definition copy_method :: "copier \<Rightarrow> string \<Rightarrow> gval \<Rightarrow> copier" where
  "copy_method f n inp out = (case fld inp n of
     VRef a \<Rightarrow> do { y \<leftarrow> f (VRef a); return (set_fld out n y) }
   | _ \<Rightarrow> return out)"

text \<open>\<open>func (in *T) DeepCopy() *T\<close>: nil for nil, else a new \<open>T\<close> that \<open>DeepCopyInto\<close> fills.\<close>

definition deep_copy :: "copier \<Rightarrow> copier" where
  "deep_copy f p = (case p of VRef a \<Rightarrow> new_copy f a | _ \<Rightarrow> return VNil)"

text \<open>\<open>DeepCopyObject\<close>: the same pointer as an interface value; nil stays nil.\<close>

definition deep_copy_object :: "copier \<Rightarrow> copier" where
  "deep_copy_object f p = do { c \<leftarrow> f p; return (if c \<noteq> VNil then c else VNil) }"

lemma deep_copy_object_same [simp]: "(if c \<noteq> VNil then c else VNil) = c"
  by simp

subsection \<open>What the statements do\<close>

text \<open>
  The loop over a slice: cell \<open>b\<close> is fresh, the source \<open>a\<close> is old; after \<open>k\<close> rounds the first \<open>k\<close>
  elements of \<open>b\<close> are deep copies.
\<close>

definition elements_copied :: "ty \<Rightarrow> heap \<Rightarrow> addr \<Rightarrow> tree list \<Rightarrow> nat \<Rightarrow> heap \<Rightarrow> bool" where
  "elements_copied T h b us k h' \<longleftrightarrow> extends h h' \<and> length h \<le> b \<and> b < length h' \<and> length (cells h' b) = length us \<and>
     (\<forall>j < k. denotes h' {b<..} T (cells h' b ! j) (us ! j))"

lemma elements_copied_step:
  assumes inv: "elements_copied T h b us k h'" and k: "k < length us"
    and h'': "extends h' h''" and y: "denotes h'' {length h'..} T y (us ! k)"
  shows "elements_copied T h b us (Suc k) (h''[b := (cells h'' b)[k := y]])"
proof -
  from inv have b: "length h \<le> b" "b < length h'" "length (cells h' b) = length us" and ext: "extends h h'"
    and el: "\<And>j. j < k \<Longrightarrow> denotes h' {b<..} T (cells h' b ! j) (us ! j)"
    by (auto simp: elements_copied_def)
  have cell: "cells h'' b = cells h' b" "b < length h''"
    using extendsD [OF h''] b by auto
  let ?h = "h''[b := (cells h'' b)[k := y]]"
  have "denotes ?h {b<..} T (cells h' b ! j) (us ! j)" if "j < k" for j
    by (rule denotes_store [OF denotes_extends [OF h'' el [OF that] order_refl]]) simp_all
  moreover have "denotes ?h {b<..} T y (us ! k)"
    by (rule denotes_store [OF y]) (use b in auto)
  moreover have "extends h ?h"
    using b by (intro extends_store extends_trans [OF ext h''])
  ultimately show ?thesis
    using b cell k by (auto simp: elements_copied_def nth_list_update less_Suc_eq)
qed

lemma wp_copy_elements:
  assumes f: "deep_copies T f" and a: "a < length h" "length (cells h a) = length us" and b: "length h \<le> b"
    and us: "\<And>i. i < length us \<Longrightarrow> denotes h UNIV T (cells h a ! i) (us ! i)"
    and init: "elements_copied T h b us 0 h0"
  shows "wp (copy_elements f a b (length us)) (\<lambda>_. elements_copied T h b us (length us)) h0"
proof -
  let ?inv = "\<lambda>is h'. \<exists>k \<le> length us. [k..<length us] = is \<and> elements_copied T h b us k h'"
  have "wp (copy_elements f a b (length us)) (\<lambda>_. ?inv []) h0"
    unfolding copy_elements_def
  proof (rule wp_forEach [where Inv = ?inv])
    show "?inv [0..<length us] h0" using init by auto
    fix y ys h' assume "?inv (y # ys) h'"
    then obtain k where k: "[k..<length us] = y # ys" "elements_copied T h b us k h'" by metis
    from upt_eq_Cons_conv [THEN iffD1, OF k(1)]
    have "k < length us \<and> y = k \<and> ys = [Suc k..<length us]" by (metis Suc_eq_plus1)
    then have lt: "k < length us" and y: "y = k" and ys: "ys = [Suc k..<length us]" by blast+
    from k(2) have ext: "extends h h'" by (simp add: elements_copied_def)
    then have src: "cells h' a = cells h a" using a(1) by (rule extendsD(2))
    have "wp (f (cells h' a ! k)) (\<lambda>v' h''. extends h' h'' \<and> denotes h'' {length h'..} T v' (us ! k)) h'"
      unfolding src by (rule deep_copiesD [OF f denotes_extends [OF ext us [OF lt] order_refl]])
    then show "wp (do { xs \<leftarrow> load a; z \<leftarrow> f (xs ! y); zs \<leftarrow> load b; store b (zs[y := z]) }) (\<lambda>_. ?inv ys) h'"
      unfolding y ys using lt
      by (auto elim!: wp_mono intro!: exI [of _ "Suc k"] elements_copied_step [OF k(2) lt])
  qed
  then show ?thesis by (rule wp_mono) auto
qed

text \<open>
  The state in the middle of a struct's \<open>DeepCopyInto\<close>: the fields in \<open>D\<close> are copied, the others are
  still the ones of \<open>*in\<close>.
\<close>

definition copying :: "heap \<Rightarrow> (string \<times> ty) list \<Rightarrow> gval \<Rightarrow> tree \<Rightarrow> string set \<Rightarrow> gval \<Rightarrow> heap \<Rightarrow> bool" where
  "copying h0 Fs v t D out h \<longleftrightarrow> extends h0 h \<and> denotes h0 UNIV (TStruct Fs) v t \<and> distinct (map fst Fs) \<and>
     (\<exists>fs. out = VStruct fs \<and> map fst fs = map fst Fs) \<and>
     (\<forall>p \<in> set Fs. if fst p \<in> D then denotes h {length h0..} (snd p) (fld out (fst p)) (lfld t (fst p))
        else fld out (fst p) = fld v (fst p))"

lemma copying_start: "denotes h UNIV (TStruct Fs) v t \<Longrightarrow> distinct (map fst Fs) \<Longrightarrow> copying h Fs v t {} v h"
  by (auto simp: copying_def)

lemma copying_fieldD:
  assumes "copying h0 Fs v t D out h" and "(n, T) \<in> set Fs"
  shows "denotes h UNIV T (fld v n) (lfld t n)" and "denotes h0 UNIV T (fld v n) (lfld t n)"
proof -
  show h0: "denotes h0 UNIV T (fld v n) (lfld t n)" using assms by (force simp: copying_def)
  show "denotes h UNIV T (fld v n) (lfld t n)"
    by (rule denotes_extends [OF _ h0 order_refl]) (use assms in \<open>simp add: copying_def\<close>)
qed

text \<open>A field gets a deep copy of its value.\<close>

lemma copying_set:
  assumes c: "copying h0 Fs v t D out h" and f: "(n, T) \<in> set Fs"
    and ext: "extends h h'" and y: "denotes h' {length h0..} T y (lfld t n)"
  shows "copying h0 Fs v t (insert n D) (set_fld out n y) h'"
proof -
  from c obtain fs where out: "out = VStruct fs" "map fst fs = map fst Fs" by (auto simp: copying_def)
  have names: "fst ` set fs = fst ` set Fs" using out(2) by (metis list.set_map)
  have T: "snd p = T" if "p \<in> set Fs" "fst p = n" for p
    using c f that by (metis copying_def eq_key_imp_eq_value prod.collapse)
  have old: "denotes h' {length h0..} (snd p) (fld out (fst p)) (lfld t (fst p))" if "p \<in> set Fs" "fst p \<in> D" for p
    by (rule denotes_extends [OF ext _ order_refl]) (use c that in \<open>auto simp: copying_def\<close>)
  have "if fst p \<in> insert n D then denotes h' {length h0..} (snd p) (fld (set_fld out n y) (fst p)) (lfld t (fst p))
        else fld (set_fld out n y) (fst p) = fld v (fst p)" if p: "p \<in> set Fs" for p
  proof (cases "fst p = n")
    case True
    then have "n \<in> fst ` set fs" using p by (auto simp: names)
    with y True T [OF p] show ?thesis by (simp add: out(1) fld_set_fld del: fld.simps set_fld.simps)
  next
    case False
    with old [OF p] c p show ?thesis by (auto simp: out(1) fld_set_fld copying_def simp del: fld.simps set_fld.simps)
  qed
  moreover have "\<exists>gs. set_fld out n y = VStruct gs \<and> map fst gs = map fst Fs"
    using out by (auto simp: comp_def case_prod_beta)
  ultimately show ?thesis
    using c extends_trans [OF _ ext] by (simp add: copying_def)
qed

text \<open>A nil pointer or slice is its own copy.\<close>

lemma copying_nil:
  assumes c: "copying h0 Fs v t D out h" and f: "(n, T) \<in> set Fs" and n: "n \<notin> D" and nil: "fld v n = VNil"
    and T: "T = TPtr U \<or> T = TSlice U"
  shows "copying h0 Fs v t (insert n D) out h"
proof -
  have "lfld t n = LNil" using copying_fieldD(1) [OF c f] nil T by auto
  moreover have "fld out n = VNil" using c f n nil by (force simp: copying_def)
  moreover have "snd p = T" if "p \<in> set Fs" "fst p = n" for p
    using c f that by (metis copying_def eq_key_imp_eq_value prod.collapse)
  ultimately show ?thesis using c T by (fastforce simp: copying_def)
qed

subsection \<open>One rule per statement\<close>

text \<open>
  Each statement brings the field it names into the set of copied fields, if it copies what the type
  of the field asks for. A proof about a \<open>DeepCopyInto\<close> applies one rule per statement.
\<close>

definition copies_field :: "(gval \<Rightarrow> copier) \<Rightarrow> string \<Rightarrow> ty \<Rightarrow> bool" where
  "copies_field step n T \<longleftrightarrow> (\<forall>h0 Fs v t D out h. copying h0 Fs v t D out h \<longrightarrow> (n, T) \<in> set Fs \<longrightarrow> n \<notin> D \<longrightarrow>
     wp (step v out) (copying h0 Fs v t (insert n D)) h)"

lemma copies_fieldD:
  "copies_field step n T \<Longrightarrow> copying h0 Fs v t D out h \<Longrightarrow> (n, T) \<in> set Fs \<Longrightarrow> n \<notin> D \<Longrightarrow>
   wp (step v out) (copying h0 Fs v t (insert n D)) h"
  by (simp add: copies_field_def)

text \<open>
  For a field that holds a reference: nil stays, and for a reference that is not nil the statement
  must yield a fresh copy.
\<close>

lemma copies_fieldI:
  assumes ref: "\<And>h a u. denotes h UNIV T (VRef a) u \<Longrightarrow>
      wp (g a) (\<lambda>y h'. extends h h' \<and> denotes h' {length h..} T y u) h"
    and T: "T = TPtr U \<or> T = TSlice U"
    and step: "\<And>v out. step v out = (case fld v n of
        VRef a \<Rightarrow> do { y \<leftarrow> g a; return (set_fld out n y) } | _ \<Rightarrow> return out)"
  shows "copies_field step n T"
  unfolding copies_field_def
proof (intro allI impI)
  fix h0 Fs v t D out h
  assume c: "copying h0 Fs v t D out h" and f: "(n, T) \<in> set Fs" and n: "n \<notin> D"
  note d = copying_fieldD(1) [OF c f]
  have ext: "extends h0 h" using c by (simp add: copying_def)
  show "wp (step v out) (copying h0 Fs v t (insert n D)) h"
  proof (cases "fld v n")
    case (VRef a)
    have "wp (g a) (\<lambda>y. copying h0 Fs v t (insert n D) (set_fld out n y)) h"
    proof (rule wp_mono [OF ref [OF d [unfolded VRef]]])
      fix y h' assume y: "extends h h' \<and> denotes h' {length h..} T y (lfld t n)"
      then have "denotes h' {length h0..} T y (lfld t n)"
        using extendsD(1) [OF ext] by (auto elim: denotes_frame)
      with y show "copying h0 Fs v t (insert n D) (set_fld out n y) h'" by (intro copying_set [OF c f]) auto
    qed
    then show ?thesis by (simp add: step VRef)
  next
    case VNil
    with copying_nil [OF c f n VNil T] show ?thesis by (simp add: step)
  qed (use d T in auto)
qed

lemma copies_copy_field: "deep_copies T f \<Longrightarrow> copies_field (copy_field f n) n T"
  unfolding copies_field_def
proof (intro allI impI)
  fix h0 Fs v t D out h
  assume f: "deep_copies T f" and c: "copying h0 Fs v t D out h" and n: "(n, T) \<in> set Fs"
  have ext: "extends h0 h" using c by (simp add: copying_def)
  have "wp (f (fld v n)) (\<lambda>y. copying h0 Fs v t (insert n D) (set_fld out n y)) h"
  proof (rule wp_mono [OF deep_copiesD [OF f copying_fieldD(1) [OF c n]]])
    fix y h' assume y: "extends h h' \<and> denotes h' {length h..} T y (lfld t n)"
    then have "denotes h' {length h0..} T y (lfld t n)"
      using extendsD(1) [OF ext] by (auto elim: denotes_frame)
    with y show "copying h0 Fs v t (insert n D) (set_fld out n y) h'" by (intro copying_set [OF c n]) auto
  qed
  then show "wp (copy_field f n v out) (copying h0 Fs v t (insert n D)) h" by (simp add: copy_field_def)
qed

lemma copies_copy_method: "deep_copies (TPtr T) f \<Longrightarrow> copies_field (copy_method f n) n (TPtr T)"
  by (rule copies_fieldI [where g = "\<lambda>a. f (VRef a)"])
    (auto simp: copy_method_def deep_copiesD simp del: denotes.simps)

text \<open>A fresh cell that holds a copy.\<close>

lemma denotes_pointer:
  assumes h: "extends (h @ [ys]) h'" and y: "denotes h' {length (h @ [ys])..} T y u"
  shows "extends h (h'[length h := [y]])" and "denotes (h'[length h := [y]]) {length h..} (TPtr T) (VRef (length h)) (LRef [u])"
proof -
  have "extends h h'" by (rule extends_trans [OF extends_append h])
  then show "extends h (h'[length h := [y]])" by (rule extends_store) simp
  have "length h < length h'" using extendsD(1) [OF h] by simp
  moreover have "denotes (h'[length h := [y]]) {length h..} T y u"
    by (rule denotes_store [OF y]) auto
  ultimately show "denotes (h'[length h := [y]]) {length h..} (TPtr T) (VRef (length h)) (LRef [u])" by simp
qed

lemma cells_old: "a < length h \<Longrightarrow> cells (h @ new) a = cells h a"
  by (simp add: cells_def nth_append)

lemma wp_new_copy:
  assumes f: "deep_copies T f" and d: "denotes h UNIV (TPtr T) (VRef a) u"
  shows "wp (new_copy f a) (\<lambda>y h'. extends h h' \<and> denotes h' {length h..} (TPtr T) y u) h"
proof -
  from d obtain x w where a: "a < length h" "cells h a = [x]" "u = LRef [w]" and x: "denotes h UNIV T x w" by auto
  have "denotes (h @ [[VNil]]) UNIV T x w" by (rule denotes_extends [OF extends_append x order_refl])
  then have "wp (f x) (\<lambda>y h'. extends (h @ [[VNil]]) h' \<and> denotes h' {length (h @ [[VNil]])..} T y w) (h @ [[VNil]])"
    by (rule deep_copiesD [OF f])
  then have "wp (f x) (\<lambda>y h'. extends h (h'[length h := [y]]) \<and>
      denotes (h'[length h := [y]]) {length h..} (TPtr T) (VRef (length h)) (LRef [w])) (h @ [[VNil]])"
    by (rule wp_mono) (use denotes_pointer in blast)
  then show ?thesis
    using a by (simp add: new_copy_def cells_old del: denotes.simps)
qed

lemma deep_copies_pointer: "deep_copies T f \<Longrightarrow> deep_copies (TPtr T) (deep_copy f)"
  unfolding deep_copies_def [of "TPtr T"]
proof (intro allI impI)
  fix h v t
  assume f: "deep_copies T f" and d: "denotes h UNIV (TPtr T) v t"
  show "wp (deep_copy f v) (\<lambda>v' h'. extends h h' \<and> denotes h' {length h..} (TPtr T) v' t) h"
  proof (cases v)
    case (VRef a)
    with wp_new_copy [OF f d [unfolded VRef]] show ?thesis by (simp add: deep_copy_def del: denotes.simps)
  next
    case VNil
    with d show ?thesis by (simp add: deep_copy_def)
  qed (use d in auto)
qed

lemma deep_copies_object: "deep_copies T f \<Longrightarrow> deep_copies T (deep_copy_object f)"
  by (simp add: deep_copies_def deep_copy_object_def cong: if_cong)

lemma copies_copy_pointee: "deep_copies T f \<Longrightarrow> copies_field (copy_pointee f n) n (TPtr T)"
  by (rule copies_fieldI [where g = "new_copy f"])
    (auto simp: copy_pointee_def wp_new_copy simp del: denotes.simps)

lemma copies_copy_slice: "deep_copies T f \<Longrightarrow> copies_field (copy_slice f n) n (TSlice T)"
proof (rule copies_fieldI [where g = "\<lambda>a. do {
     xs \<leftarrow> load a;
     b \<leftarrow> allocate (replicate (length xs) VNil);
     _ \<leftarrow> copy_elements f a b (length xs);
     return (VRef b) }"])
  fix h a u
  assume f: "deep_copies T f" and d: "denotes h UNIV (TSlice T) (VRef a) u"
  then obtain us where u: "u = LRef us" and a: "a < length h" "length (cells h a) = length us"
    and us: "\<And>i. i < length us \<Longrightarrow> denotes h UNIV T (cells h a ! i) (us ! i)" by auto
  have "elements_copied T h (length h) us 0 (h @ [replicate (length us) VNil])"
    by (simp add: elements_copied_def)
  from wp_copy_elements [OF f a order_refl us this]
  have "wp (copy_elements f a (length h) (length us)) (\<lambda>_ h'. extends h h' \<and>
      denotes h' {length h..} (TSlice T) (VRef (length h)) u) (h @ [replicate (length us) VNil])"
  proof (rule wp_mono)
    fix x h' assume e: "elements_copied T h (length h) us (length us) h'"
    have "denotes h' {length h..} T (cells h' (length h) ! j) (us ! j)" if "j < length us" for j
      by (rule denotes_mono [of _ "{length h<..}"]) (use e that in \<open>auto simp: elements_copied_def\<close>)
    with e show "extends h h' \<and> denotes h' {length h..} (TSlice T) (VRef (length h)) u"
      by (simp add: elements_copied_def u)
  qed
  then show "wp (do {
       xs \<leftarrow> load a;
       b \<leftarrow> allocate (replicate (length xs) VNil);
       _ \<leftarrow> copy_elements f a b (length xs);
       return (VRef b) }) (\<lambda>y h'. extends h h' \<and> denotes h' {length h..} (TSlice T) y u) h"
    by (simp add: a del: denotes.simps)
qed (simp_all add: copy_slice_def State_Monad.bind_assoc cong: gval.case_cong)

lemma copies_copy_array: "flat T \<Longrightarrow> copies_field (copy_array n) n (TSlice T)"
proof (rule copies_fieldI [where g = "\<lambda>a. do {
     xs \<leftarrow> load a;
     b \<leftarrow> allocate (replicate (length xs) VNil);
     _ \<leftarrow> store b xs;
     return (VRef b) }"])
  fix h a u
  assume T: "flat T" and d: "denotes h UNIV (TSlice T) (VRef a) u"
  then show "wp (do {
       xs \<leftarrow> load a;
       b \<leftarrow> allocate (replicate (length xs) VNil);
       _ \<leftarrow> store b xs;
       return (VRef b) }) (\<lambda>y h'. extends h h' \<and> denotes h' {length h..} (TSlice T) y u) h"
    by (auto simp: list_update_append intro: denotes_flat)
qed (simp_all add: copy_array_def State_Monad.bind_assoc cong: gval.case_cong)

lemma copies_copy_pointer: "flat T \<Longrightarrow> copies_field (copy_pointer n) n (TPtr T)"
proof (rule copies_fieldI [where g = "\<lambda>a. do {
     b \<leftarrow> allocate [VNil];
     xs \<leftarrow> load a;
     _ \<leftarrow> store b xs;
     return (VRef b) }"])
  fix h a u
  assume T: "flat T" and d: "denotes h UNIV (TPtr T) (VRef a) u"
  then show "wp (do {
       b \<leftarrow> allocate [VNil];
       xs \<leftarrow> load a;
       _ \<leftarrow> store b xs;
       return (VRef b) }) (\<lambda>y h'. extends h h' \<and> denotes h' {length h..} (TPtr T) y u) h"
    by (auto simp: list_update_append cells_old intro: denotes_flat)
qed (simp_all add: copy_pointer_def State_Monad.bind_assoc cong: gval.case_cong)

subsection \<open>Proving that a struct is copied\<close>

lemma deep_copies_struct:
  assumes "distinct (map fst Fs)"
    and "\<And>h v t. copying h Fs v t {} v h \<Longrightarrow>
      wp (f v) (\<lambda>out h'. \<exists>D. copying h Fs v t D out h' \<and> (\<forall>p \<in> set Fs. fst p \<in> D \<or> flat (snd p))) h"
  shows "deep_copies (TStruct Fs) f"
  unfolding deep_copies_def
proof (intro allI impI)
  fix h v t
  assume d: "denotes h UNIV (TStruct Fs) v t"
  show "wp (f v) (\<lambda>v' h'. extends h h' \<and> denotes h' {length h..} (TStruct Fs) v' t) h"
  proof (rule wp_mono [OF assms(2) [OF copying_start [OF d assms(1)]]], elim exE conjE, intro conjI)
    fix out h' D
    assume c: "copying h Fs v t D out h'" and all: "\<forall>p \<in> set Fs. fst p \<in> D \<or> flat (snd p)"
    show "extends h h'" using c by (simp add: copying_def)
    have "denotes h' {length h..} (snd p) (fld out (fst p)) (lfld t (fst p))" if p: "p \<in> set Fs" for p
    proof (cases "fst p \<in> D")
      case False
      with all p have "flat (snd p)" by blast
      moreover have "denotes h' UNIV (snd p) (fld v (fst p)) (lfld t (fst p))"
        by (rule copying_fieldD(1) [OF c]) (use p in simp)
      ultimately show ?thesis using c p False by (auto simp: copying_def intro: denotes_flat)
    qed (use c p in \<open>auto simp: copying_def\<close>)
    with c d show "denotes h' {length h..} (TStruct Fs) out t" by (auto simp: copying_def)
  qed
qed

lemma copying_return:
  "copying h0 Fs v t D out h \<Longrightarrow> \<forall>p \<in> set Fs. fst p \<in> D \<or> flat (snd p) \<Longrightarrow>
   wp (return out) (\<lambda>out h'. \<exists>D. copying h0 Fs v t D out h' \<and> (\<forall>p \<in> set Fs. fst p \<in> D \<or> flat (snd p))) h"
  by auto

lemma copying_step:
  assumes "copying h0 Fs v t D out h" and "copies_field step n T" and "map_of Fs n = Some T" and "n \<notin> D"
    and "\<And>out h. copying h0 Fs v t (insert n D) out h \<Longrightarrow> wp (g out) Q h"
  shows "wp (State_Monad.bind (step v out) g) Q h"
  using wp_mono [OF copies_fieldD [OF assms(2, 1) map_of_SomeD [OF assms(3)] assms(4)] assms(5)] by simp

text \<open>\<open>*out = *in\<close>\<close>

lemma copying_begin: "wp (g v) Q h \<Longrightarrow> wp (State_Monad.bind (return v) g) Q h"
  by simp

lemma copying_assign:
  assumes c: "copying h0 Fs v t D out h" and n: "n \<notin> D"
    and g: "\<And>out h. copying h0 Fs v t D out h \<Longrightarrow> wp (g out) Q h"
  shows "wp (State_Monad.bind (assign n v out) g) Q h"
proof -
  from c obtain fs where out: "out = VStruct fs" "map fst fs = map fst Fs" by (auto simp: copying_def)
  have names: "fst ` set fs = fst ` set Fs" using out(2) by (metis list.set_map)
  have fld: "fld (set_fld out n (fld v n)) (fst p) = fld out (fst p)" if p: "p \<in> set Fs" for p
  proof (cases "fst p = n")
    case True
    have "n \<in> fst ` set fs" using p True by (auto simp: names)
    moreover have "fld out n = fld v n" using c p True n by (auto simp: copying_def)
    ultimately show ?thesis using True by (simp add: out(1) fld_set_fld del: fld.simps set_fld.simps)
  qed (simp add: out(1) fld_set_fld del: fld.simps set_fld.simps)
  have "\<exists>gs. set_fld out n (fld v n) = VStruct gs \<and> map fst gs = map fst Fs"
    using out by (auto simp: comp_def case_prod_beta)
  with c fld have "copying h0 Fs v t D (set_fld out n (fld v n)) h"
    by (simp add: copying_def)
  with g show ?thesis by (simp add: assign_def)
qed

text \<open>
  The steps of a proof: \<open>copying_steps\<close> for the statements that copy with a function, \<open>flat_steps\<close> for
  those that copy flat memory.
\<close>

lemmas copying_steps =
  copying_step [OF _ copies_copy_field] copying_step [OF _ copies_copy_slice]
  copying_step [OF _ copies_copy_pointee] copying_step [OF _ copies_copy_method]

lemma flat_step:
  assumes "copying h0 Fs v t D out h" and "map_of Fs n = Some (TSlice T)" and "flat T" and "n \<notin> D"
    and "\<And>out h. copying h0 Fs v t (insert n D) out h \<Longrightarrow> wp (g out) Q h"
  shows "wp (State_Monad.bind (copy_array n v out) g) Q h"
  by (rule copying_step [OF assms(1) copies_copy_array [OF assms(3)] assms(2) assms(4, 5)])

lemma flat_pointer_step:
  assumes "copying h0 Fs v t D out h" and "map_of Fs n = Some (TPtr T)" and "flat T" and "n \<notin> D"
    and "\<And>out h. copying h0 Fs v t (insert n D) out h \<Longrightarrow> wp (g out) Q h"
  shows "wp (State_Monad.bind (copy_pointer n v out) g) Q h"
  by (rule copying_step [OF assms(1) copies_copy_pointer [OF assms(3)] assms(2) assms(4, 5)])

lemmas flat_steps = flat_step flat_pointer_step

named_theorems deep_copies_intros "functions that copy deeply"

text \<open>
  What it buys: the copy stands for the same value; whatever is written later to the memory of the copy,
  the original stands for its value, and whatever is written to the memory that was there before, the
  copy does.
\<close>

lemma deep_copies_isolated:
  assumes "deep_copies T f" and d: "denotes h UNIV T v t"
  shows "wp (f v) (\<lambda>v' h'. (\<forall>a < length h. cells h' a = cells h a) \<and> denotes h' UNIV T v' t \<and>
     (\<forall>h2. length h' \<le> length h2 \<longrightarrow> (\<forall>a < length h. cells h2 a = cells h a) \<longrightarrow> denotes h2 UNIV T v t) \<and>
     (\<forall>h2. length h' \<le> length h2 \<longrightarrow> (\<forall>a \<ge> length h. cells h2 a = cells h' a) \<longrightarrow> denotes h2 UNIV T v' t)) h"
proof (rule wp_mono [OF deep_copiesD [OF assms]], elim conjE, intro conjI allI impI)
  fix v' h' assume ext: "extends h h'" and v': "denotes h' {length h..} T v' t"
  show "cells h' a = cells h a" if "a < length h" for a by (rule extendsD(2) [OF ext that])
  show "denotes h' UNIV T v' t" by (rule denotes_mono [OF v']) simp
  show "denotes h2 UNIV T v t" if "length h' \<le> length h2" "\<forall>a < length h. cells h2 a = cells h a" for h2
    by (rule denotes_frame [OF denotes_bounded [OF d]]) (use that extendsD(1) [OF ext] in auto)
  show "denotes h2 UNIV T v' t" if "length h' \<le> length h2" "\<forall>a \<ge> length h. cells h2 a = cells h' a" for h2
    by (rule denotes_frame [OF v']) (use that in auto)
qed

end
