(* ===== verification/DeepCopies.thy ===== *)
theory DeepCopies
  imports GoMemory
begin

section \<open>Deep copies of the API types (api/v1beta1/zz_generated.deepcopy.go)\<close>

text \<open>
  The generated methods \<open>DeepCopyInto\<close>, \<open>DeepCopy\<close> and \<open>DeepCopyObject\<close> of every API type, statement by
  statement. The client of controller-runtime hands out and takes in such copies, and the rest of this
  development treats API objects as values; what justifies that is proved here: a copy stands for
  the same value as its original and shares no memory with it. The layout of each type in memory,
  \<open>T_T\<close> for the Go type \<open>T\<close>, is that of its declaration in the files *_types.go; a slice that is
  shared by mistake makes the proof of its type fail. The types of Kubernetes' own packages are
  parameters, with their copying methods: \<open>External\<close> and \<open>ExternalTypes\<close>.
\<close>

subsection \<open>The types of Kubernetes\<close>

record ExternalTypes =
  et_TypeMeta :: ty
  et_ObjectMeta :: ty
  et_ListMeta :: ty
  et_Condition :: ty
  et_Time :: ty
  et_EnvVar :: ty
  et_EnvFromSource :: ty
  et_ResourceRequirements :: ty
  et_VolumeMount :: ty
  et_EmptyDirVolumeSource :: ty

text \<open>Their methods: \<open>DeepCopyInto\<close>, as a function from \<open>*in\<close> to \<open>*out\<close>; of \<open>metav1.Time\<close> the method \<open>DeepCopy\<close>.\<close>

record External =
  ext_ObjectMeta :: copier
  ext_ListMeta :: copier
  ext_Condition :: copier
  ext_Time :: copier
  ext_EnvVar :: copier
  ext_EnvFromSource :: copier
  ext_ResourceRequirements :: copier
  ext_VolumeMount :: copier
  ext_EmptyDirVolumeSource :: copier

subsection \<open>The layout of the API types in memory\<close>

definition LakeFSUserReference_T :: "ty" where
  "LakeFSUserReference_T = TStruct [(''Name'', TScalar)]"

definition LakeFSSecretReference_T :: "ty" where
  "LakeFSSecretReference_T = TStruct [(''Name'', TScalar), (''Key'', TScalar)]"

definition LakeFSCredentialSpec_T :: "ExternalTypes \<Rightarrow> ty" where
  "LakeFSCredentialSpec_T E = TStruct [(''UserRef'', LakeFSUserReference_T), (''AccessKeyID'', TScalar),
     (''SecretRef'', LakeFSSecretReference_T), (''ExpiresAt'', TPtr (et_Time E)),
     (''Revoked'', TScalar)]"

definition LakeFSCredentialStatus_T :: "ExternalTypes \<Rightarrow> ty" where
  "LakeFSCredentialStatus_T E = TStruct [(''ObservedGeneration'', TScalar), (''SecretName'', TScalar), (''SecretKey'', TScalar),
     (''Conditions'', TSlice (et_Condition E))]"

definition LakeFSCredential_T :: "ExternalTypes \<Rightarrow> ty" where
  "LakeFSCredential_T E = TStruct [(''TypeMeta'', et_TypeMeta E), (''ObjectMeta'', et_ObjectMeta E),
     (''Spec'', LakeFSCredentialSpec_T E), (''Status'', LakeFSCredentialStatus_T E)]"

definition LakeFSCredentialList_T :: "ExternalTypes \<Rightarrow> ty" where
  "LakeFSCredentialList_T E = TStruct [(''TypeMeta'', et_TypeMeta E), (''ListMeta'', et_ListMeta E),
     (''Items'', TSlice (LakeFSCredential_T E))]"

definition LakeFSGCInitContainerSpec_T :: "ExternalTypes \<Rightarrow> ty" where
  "LakeFSGCInitContainerSpec_T E = TStruct [(''Name'', TScalar), (''Image'', TScalar), (''ImagePullPolicy'', TScalar),
     (''Command'', TSlice TScalar), (''Args'', TSlice TScalar), (''Env'', TSlice (et_EnvVar E)),
     (''VolumeMounts'', TSlice (et_VolumeMount E))]"

definition LakeFSGCVolumeSpec_T :: "ExternalTypes \<Rightarrow> ty" where
  "LakeFSGCVolumeSpec_T E = TStruct [(''Name'', TScalar), (''EmptyDir'', TPtr (et_EmptyDirVolumeSource E))]"

definition LakeFSGCJobSpec_T :: "ExternalTypes \<Rightarrow> ty" where
  "LakeFSGCJobSpec_T E = TStruct [(''Image'', TScalar), (''Command'', TSlice TScalar), (''ImagePullPolicy'', TScalar),
     (''ServiceAccountName'', TScalar),
     (''InitContainers'', TSlice (LakeFSGCInitContainerSpec_T E)),
     (''Env'', TSlice (et_EnvVar E)), (''EnvFrom'', TSlice (et_EnvFromSource E)),
     (''Resources'', et_ResourceRequirements E), (''VolumeMounts'', TSlice (et_VolumeMount E)),
     (''Volumes'', TSlice (LakeFSGCVolumeSpec_T E)),
     (''SuccessfulJobsHistoryLimit'', TPtr TScalar), (''FailedJobsHistoryLimit'', TPtr TScalar),
     (''BackoffLimit'', TPtr TScalar), (''TTLSecondsAfterFinished'', TPtr TScalar)]"

definition LakeFSGCRetentionRule_T :: "ty" where
  "LakeFSGCRetentionRule_T = TStruct [(''BranchID'', TScalar), (''RetentionDays'', TScalar)]"

definition LakeFSGCRetentionSpec_T :: "ty" where
  "LakeFSGCRetentionSpec_T = TStruct [(''DefaultRetentionDays'', TScalar), (''Branches'', TSlice LakeFSGCRetentionRule_T)]"

definition LakeFSGCSparkConf_T :: "ty" where
  "LakeFSGCSparkConf_T = TStruct [(''Name'', TScalar), (''Value'', TScalar)]"

definition LakeFSGCSparkSpec_T :: "ty" where
  "LakeFSGCSparkSpec_T = TStruct [(''ClassName'', TScalar), (''JarURL'', TScalar), (''Packages'', TSlice TScalar),
     (''Conf'', TSlice LakeFSGCSparkConf_T), (''Args'', TSlice TScalar)]"

definition LakeFSGCPolicySpec_T :: "ExternalTypes \<Rightarrow> ty" where
  "LakeFSGCPolicySpec_T E = TStruct [(''Schedule'', TScalar), (''Suspend'', TPtr TScalar),
     (''Retention'', LakeFSGCRetentionSpec_T), (''Spark'', LakeFSGCSparkSpec_T),
     (''Job'', LakeFSGCJobSpec_T E)]"

definition LakeFSGCPolicyStatus_T :: "ExternalTypes \<Rightarrow> ty" where
  "LakeFSGCPolicyStatus_T E = TStruct [(''ObservedGeneration'', TScalar), (''Conditions'', TSlice (et_Condition E))]"

definition LakeFSGCPolicy_T :: "ExternalTypes \<Rightarrow> ty" where
  "LakeFSGCPolicy_T E = TStruct [(''TypeMeta'', et_TypeMeta E), (''ObjectMeta'', et_ObjectMeta E),
     (''Spec'', LakeFSGCPolicySpec_T E), (''Status'', LakeFSGCPolicyStatus_T E)]"

definition LakeFSGCPolicyList_T :: "ExternalTypes \<Rightarrow> ty" where
  "LakeFSGCPolicyList_T E = TStruct [(''TypeMeta'', et_TypeMeta E), (''ListMeta'', et_ListMeta E),
     (''Items'', TSlice (LakeFSGCPolicy_T E))]"

definition LakeFSGCPolicyReference_T :: "ty" where
  "LakeFSGCPolicyReference_T = TStruct [(''Name'', TScalar)]"

definition LakeFSGroupSpec_T :: "ty" where
  "LakeFSGroupSpec_T = TStruct [(''ExternalID'', TScalar), (''Users'', TSlice LakeFSUserReference_T),
     (''Description'', TScalar)]"

definition LakeFSGroupStatus_T :: "ExternalTypes \<Rightarrow> ty" where
  "LakeFSGroupStatus_T E = TStruct [(''ObservedGeneration'', TScalar), (''Conditions'', TSlice (et_Condition E))]"

definition LakeFSGroup_T :: "ExternalTypes \<Rightarrow> ty" where
  "LakeFSGroup_T E = TStruct [(''TypeMeta'', et_TypeMeta E), (''ObjectMeta'', et_ObjectMeta E),
     (''Spec'', LakeFSGroupSpec_T), (''Status'', LakeFSGroupStatus_T E)]"

definition LakeFSGroupList_T :: "ExternalTypes \<Rightarrow> ty" where
  "LakeFSGroupList_T E = TStruct [(''TypeMeta'', et_TypeMeta E), (''ListMeta'', et_ListMeta E),
     (''Items'', TSlice (LakeFSGroup_T E))]"

definition LakeFSPolicyStatement_T :: "ty" where
  "LakeFSPolicyStatement_T = TStruct [(''Effect'', TScalar), (''Resource'', TScalar), (''Action'', TSlice TScalar)]"

definition LakeFSPolicyTemplate_T :: "ty" where
  "LakeFSPolicyTemplate_T = TStruct [(''Name'', TScalar), (''Statement'', TSlice LakeFSPolicyStatement_T)]"

definition LakeFSRepositoryCredentialSecretReference_T :: "ty" where
  "LakeFSRepositoryCredentialSecretReference_T = TStruct [(''Name'', TScalar), (''Namespace'', TScalar), (''AccessKeyIDKey'', TScalar),
     (''SecretAccessKeyKey'', TScalar)]"

definition LakeFSRepositoryGCSpec_T :: "ty" where
  "LakeFSRepositoryGCSpec_T = TStruct [(''Enabled'', TPtr TScalar), (''PolicyRef'', LakeFSGCPolicyReference_T)]"

definition LakeFSRepositorySpec_T :: "ty" where
  "LakeFSRepositorySpec_T = TStruct [(''Repository'', TScalar), (''Endpoint'', TScalar), (''StorageNamespace'', TScalar),
     (''DefaultBranch'', TScalar), (''SampleData'', TScalar),
     (''CredentialsSecretRef'', LakeFSRepositoryCredentialSecretReference_T),
     (''GC'', LakeFSRepositoryGCSpec_T)]"

definition LakeFSRepositoryStatus_T :: "ExternalTypes \<Rightarrow> ty" where
  "LakeFSRepositoryStatus_T E = TStruct [(''ObservedGeneration'', TScalar), (''Repository'', TScalar), (''GCPolicy'', TScalar),
     (''GCCronJob'', TScalar), (''Conditions'', TSlice (et_Condition E))]"

definition LakeFSRepository_T :: "ExternalTypes \<Rightarrow> ty" where
  "LakeFSRepository_T E = TStruct [(''TypeMeta'', et_TypeMeta E), (''ObjectMeta'', et_ObjectMeta E),
     (''Spec'', LakeFSRepositorySpec_T), (''Status'', LakeFSRepositoryStatus_T E)]"

definition LakeFSRepositoryList_T :: "ExternalTypes \<Rightarrow> ty" where
  "LakeFSRepositoryList_T E = TStruct [(''TypeMeta'', et_TypeMeta E), (''ListMeta'', et_ListMeta E),
     (''Items'', TSlice (LakeFSRepository_T E))]"

definition LakeFSRoleSpec_T :: "ty" where
  "LakeFSRoleSpec_T = TStruct [(''Description'', TScalar), (''Policies'', TSlice LakeFSPolicyTemplate_T)]"

definition LakeFSRoleStatus_T :: "ExternalTypes \<Rightarrow> ty" where
  "LakeFSRoleStatus_T E = TStruct [(''ObservedGeneration'', TScalar), (''Conditions'', TSlice (et_Condition E))]"

definition LakeFSRole_T :: "ExternalTypes \<Rightarrow> ty" where
  "LakeFSRole_T E = TStruct [(''TypeMeta'', et_TypeMeta E), (''ObjectMeta'', et_ObjectMeta E),
     (''Spec'', LakeFSRoleSpec_T), (''Status'', LakeFSRoleStatus_T E)]"

definition LakeFSRoleBindingSubject_T :: "ty" where
  "LakeFSRoleBindingSubject_T = TStruct [(''Kind'', TScalar), (''Name'', TScalar)]"

definition LakeFSRoleReference_T :: "ty" where
  "LakeFSRoleReference_T = TStruct [(''Name'', TScalar)]"

definition LakeFSRoleBindingSpec_T :: "ty" where
  "LakeFSRoleBindingSpec_T = TStruct [(''Subject'', LakeFSRoleBindingSubject_T), (''RoleRef'', LakeFSRoleReference_T),
     (''Repository'', TScalar)]"

definition LakeFSRoleBindingStatus_T :: "ExternalTypes \<Rightarrow> ty" where
  "LakeFSRoleBindingStatus_T E = TStruct [(''ObservedGeneration'', TScalar), (''Conditions'', TSlice (et_Condition E))]"

definition LakeFSRoleBinding_T :: "ExternalTypes \<Rightarrow> ty" where
  "LakeFSRoleBinding_T E = TStruct [(''TypeMeta'', et_TypeMeta E), (''ObjectMeta'', et_ObjectMeta E),
     (''Spec'', LakeFSRoleBindingSpec_T), (''Status'', LakeFSRoleBindingStatus_T E)]"

definition LakeFSRoleBindingList_T :: "ExternalTypes \<Rightarrow> ty" where
  "LakeFSRoleBindingList_T E = TStruct [(''TypeMeta'', et_TypeMeta E), (''ListMeta'', et_ListMeta E),
     (''Items'', TSlice (LakeFSRoleBinding_T E))]"

definition LakeFSRoleList_T :: "ExternalTypes \<Rightarrow> ty" where
  "LakeFSRoleList_T E = TStruct [(''TypeMeta'', et_TypeMeta E), (''ListMeta'', et_ListMeta E),
     (''Items'', TSlice (LakeFSRole_T E))]"

definition LakeFSUserSpec_T :: "ty" where
  "LakeFSUserSpec_T = TStruct [(''ExternalID'', TScalar), (''FriendlyName'', TScalar)]"

definition LakeFSUserStatus_T :: "ExternalTypes \<Rightarrow> ty" where
  "LakeFSUserStatus_T E = TStruct [(''ObservedGeneration'', TScalar), (''Conditions'', TSlice (et_Condition E))]"

definition LakeFSUser_T :: "ExternalTypes \<Rightarrow> ty" where
  "LakeFSUser_T E = TStruct [(''TypeMeta'', et_TypeMeta E), (''ObjectMeta'', et_ObjectMeta E),
     (''Spec'', LakeFSUserSpec_T), (''Status'', LakeFSUserStatus_T E)]"

definition LakeFSUserList_T :: "ExternalTypes \<Rightarrow> ty" where
  "LakeFSUserList_T E = TStruct [(''TypeMeta'', et_TypeMeta E), (''ListMeta'', et_ListMeta E),
     (''Items'', TSlice (LakeFSUser_T E))]"

subsection \<open>DeepCopyInto\<close>

definition LakeFSUserReference_DeepCopyInto :: copier where
  "LakeFSUserReference_DeepCopyInto inp = return inp"

definition LakeFSSecretReference_DeepCopyInto :: copier where
  "LakeFSSecretReference_DeepCopyInto inp = return inp"

definition LakeFSCredentialSpec_DeepCopyInto :: "External \<Rightarrow> copier" where
  "LakeFSCredentialSpec_DeepCopyInto X inp = do {
     out \<leftarrow> return inp;
     out \<leftarrow> assign ''UserRef'' inp out;
     out \<leftarrow> assign ''SecretRef'' inp out;
     out \<leftarrow> copy_method (ext_Time X) ''ExpiresAt'' inp out;
     return out }"

definition LakeFSCredentialStatus_DeepCopyInto :: "External \<Rightarrow> copier" where
  "LakeFSCredentialStatus_DeepCopyInto X inp = do {
     out \<leftarrow> return inp;
     out \<leftarrow> copy_slice (ext_Condition X) ''Conditions'' inp out;
     return out }"

definition LakeFSCredential_DeepCopyInto :: "External \<Rightarrow> copier" where
  "LakeFSCredential_DeepCopyInto X inp = do {
     out \<leftarrow> return inp;
     out \<leftarrow> assign ''TypeMeta'' inp out;
     out \<leftarrow> copy_field (ext_ObjectMeta X) ''ObjectMeta'' inp out;
     out \<leftarrow> copy_field (LakeFSCredentialSpec_DeepCopyInto X) ''Spec'' inp out;
     out \<leftarrow> copy_field (LakeFSCredentialStatus_DeepCopyInto X) ''Status'' inp out;
     return out }"

definition LakeFSCredentialList_DeepCopyInto :: "External \<Rightarrow> copier" where
  "LakeFSCredentialList_DeepCopyInto X inp = do {
     out \<leftarrow> return inp;
     out \<leftarrow> assign ''TypeMeta'' inp out;
     out \<leftarrow> copy_field (ext_ListMeta X) ''ListMeta'' inp out;
     out \<leftarrow> copy_slice (LakeFSCredential_DeepCopyInto X) ''Items'' inp out;
     return out }"

definition LakeFSGCInitContainerSpec_DeepCopyInto :: "External \<Rightarrow> copier" where
  "LakeFSGCInitContainerSpec_DeepCopyInto X inp = do {
     out \<leftarrow> return inp;
     out \<leftarrow> copy_array ''Command'' inp out;
     out \<leftarrow> copy_array ''Args'' inp out;
     out \<leftarrow> copy_slice (ext_EnvVar X) ''Env'' inp out;
     out \<leftarrow> copy_slice (ext_VolumeMount X) ''VolumeMounts'' inp out;
     return out }"

definition LakeFSGCVolumeSpec_DeepCopyInto :: "External \<Rightarrow> copier" where
  "LakeFSGCVolumeSpec_DeepCopyInto X inp = do {
     out \<leftarrow> return inp;
     out \<leftarrow> copy_pointee (ext_EmptyDirVolumeSource X) ''EmptyDir'' inp out;
     return out }"

definition LakeFSGCJobSpec_DeepCopyInto :: "External \<Rightarrow> copier" where
  "LakeFSGCJobSpec_DeepCopyInto X inp = do {
     out \<leftarrow> return inp;
     out \<leftarrow> copy_array ''Command'' inp out;
     out \<leftarrow> copy_slice (LakeFSGCInitContainerSpec_DeepCopyInto X) ''InitContainers'' inp out;
     out \<leftarrow> copy_slice (ext_EnvVar X) ''Env'' inp out;
     out \<leftarrow> copy_slice (ext_EnvFromSource X) ''EnvFrom'' inp out;
     out \<leftarrow> copy_field (ext_ResourceRequirements X) ''Resources'' inp out;
     out \<leftarrow> copy_slice (ext_VolumeMount X) ''VolumeMounts'' inp out;
     out \<leftarrow> copy_slice (LakeFSGCVolumeSpec_DeepCopyInto X) ''Volumes'' inp out;
     out \<leftarrow> copy_pointer ''SuccessfulJobsHistoryLimit'' inp out;
     out \<leftarrow> copy_pointer ''FailedJobsHistoryLimit'' inp out;
     out \<leftarrow> copy_pointer ''BackoffLimit'' inp out;
     out \<leftarrow> copy_pointer ''TTLSecondsAfterFinished'' inp out;
     return out }"

definition LakeFSGCRetentionRule_DeepCopyInto :: copier where
  "LakeFSGCRetentionRule_DeepCopyInto inp = return inp"

definition LakeFSGCRetentionSpec_DeepCopyInto :: "copier" where
  "LakeFSGCRetentionSpec_DeepCopyInto inp = do {
     out \<leftarrow> return inp;
     out \<leftarrow> copy_array ''Branches'' inp out;
     return out }"

definition LakeFSGCSparkConf_DeepCopyInto :: copier where
  "LakeFSGCSparkConf_DeepCopyInto inp = return inp"

definition LakeFSGCSparkSpec_DeepCopyInto :: "copier" where
  "LakeFSGCSparkSpec_DeepCopyInto inp = do {
     out \<leftarrow> return inp;
     out \<leftarrow> copy_array ''Packages'' inp out;
     out \<leftarrow> copy_array ''Conf'' inp out;
     out \<leftarrow> copy_array ''Args'' inp out;
     return out }"

definition LakeFSGCPolicySpec_DeepCopyInto :: "External \<Rightarrow> copier" where
  "LakeFSGCPolicySpec_DeepCopyInto X inp = do {
     out \<leftarrow> return inp;
     out \<leftarrow> copy_pointer ''Suspend'' inp out;
     out \<leftarrow> copy_field LakeFSGCRetentionSpec_DeepCopyInto ''Retention'' inp out;
     out \<leftarrow> copy_field LakeFSGCSparkSpec_DeepCopyInto ''Spark'' inp out;
     out \<leftarrow> copy_field (LakeFSGCJobSpec_DeepCopyInto X) ''Job'' inp out;
     return out }"

definition LakeFSGCPolicyStatus_DeepCopyInto :: "External \<Rightarrow> copier" where
  "LakeFSGCPolicyStatus_DeepCopyInto X inp = do {
     out \<leftarrow> return inp;
     out \<leftarrow> copy_slice (ext_Condition X) ''Conditions'' inp out;
     return out }"

definition LakeFSGCPolicy_DeepCopyInto :: "External \<Rightarrow> copier" where
  "LakeFSGCPolicy_DeepCopyInto X inp = do {
     out \<leftarrow> return inp;
     out \<leftarrow> assign ''TypeMeta'' inp out;
     out \<leftarrow> copy_field (ext_ObjectMeta X) ''ObjectMeta'' inp out;
     out \<leftarrow> copy_field (LakeFSGCPolicySpec_DeepCopyInto X) ''Spec'' inp out;
     out \<leftarrow> copy_field (LakeFSGCPolicyStatus_DeepCopyInto X) ''Status'' inp out;
     return out }"

definition LakeFSGCPolicyList_DeepCopyInto :: "External \<Rightarrow> copier" where
  "LakeFSGCPolicyList_DeepCopyInto X inp = do {
     out \<leftarrow> return inp;
     out \<leftarrow> assign ''TypeMeta'' inp out;
     out \<leftarrow> copy_field (ext_ListMeta X) ''ListMeta'' inp out;
     out \<leftarrow> copy_slice (LakeFSGCPolicy_DeepCopyInto X) ''Items'' inp out;
     return out }"

definition LakeFSGCPolicyReference_DeepCopyInto :: copier where
  "LakeFSGCPolicyReference_DeepCopyInto inp = return inp"

definition LakeFSGroupSpec_DeepCopyInto :: "copier" where
  "LakeFSGroupSpec_DeepCopyInto inp = do {
     out \<leftarrow> return inp;
     out \<leftarrow> copy_array ''Users'' inp out;
     return out }"

definition LakeFSGroupStatus_DeepCopyInto :: "External \<Rightarrow> copier" where
  "LakeFSGroupStatus_DeepCopyInto X inp = do {
     out \<leftarrow> return inp;
     out \<leftarrow> copy_slice (ext_Condition X) ''Conditions'' inp out;
     return out }"

definition LakeFSGroup_DeepCopyInto :: "External \<Rightarrow> copier" where
  "LakeFSGroup_DeepCopyInto X inp = do {
     out \<leftarrow> return inp;
     out \<leftarrow> assign ''TypeMeta'' inp out;
     out \<leftarrow> copy_field (ext_ObjectMeta X) ''ObjectMeta'' inp out;
     out \<leftarrow> copy_field LakeFSGroupSpec_DeepCopyInto ''Spec'' inp out;
     out \<leftarrow> copy_field (LakeFSGroupStatus_DeepCopyInto X) ''Status'' inp out;
     return out }"

definition LakeFSGroupList_DeepCopyInto :: "External \<Rightarrow> copier" where
  "LakeFSGroupList_DeepCopyInto X inp = do {
     out \<leftarrow> return inp;
     out \<leftarrow> assign ''TypeMeta'' inp out;
     out \<leftarrow> copy_field (ext_ListMeta X) ''ListMeta'' inp out;
     out \<leftarrow> copy_slice (LakeFSGroup_DeepCopyInto X) ''Items'' inp out;
     return out }"

definition LakeFSPolicyStatement_DeepCopyInto :: "copier" where
  "LakeFSPolicyStatement_DeepCopyInto inp = do {
     out \<leftarrow> return inp;
     out \<leftarrow> copy_array ''Action'' inp out;
     return out }"

definition LakeFSPolicyTemplate_DeepCopyInto :: "copier" where
  "LakeFSPolicyTemplate_DeepCopyInto inp = do {
     out \<leftarrow> return inp;
     out \<leftarrow> copy_slice LakeFSPolicyStatement_DeepCopyInto ''Statement'' inp out;
     return out }"

definition LakeFSRepositoryCredentialSecretReference_DeepCopyInto :: copier where
  "LakeFSRepositoryCredentialSecretReference_DeepCopyInto inp = return inp"

definition LakeFSRepositoryGCSpec_DeepCopyInto :: "copier" where
  "LakeFSRepositoryGCSpec_DeepCopyInto inp = do {
     out \<leftarrow> return inp;
     out \<leftarrow> copy_pointer ''Enabled'' inp out;
     out \<leftarrow> assign ''PolicyRef'' inp out;
     return out }"

definition LakeFSRepositorySpec_DeepCopyInto :: "copier" where
  "LakeFSRepositorySpec_DeepCopyInto inp = do {
     out \<leftarrow> return inp;
     out \<leftarrow> assign ''CredentialsSecretRef'' inp out;
     out \<leftarrow> copy_field LakeFSRepositoryGCSpec_DeepCopyInto ''GC'' inp out;
     return out }"

definition LakeFSRepositoryStatus_DeepCopyInto :: "External \<Rightarrow> copier" where
  "LakeFSRepositoryStatus_DeepCopyInto X inp = do {
     out \<leftarrow> return inp;
     out \<leftarrow> copy_slice (ext_Condition X) ''Conditions'' inp out;
     return out }"

definition LakeFSRepository_DeepCopyInto :: "External \<Rightarrow> copier" where
  "LakeFSRepository_DeepCopyInto X inp = do {
     out \<leftarrow> return inp;
     out \<leftarrow> assign ''TypeMeta'' inp out;
     out \<leftarrow> copy_field (ext_ObjectMeta X) ''ObjectMeta'' inp out;
     out \<leftarrow> copy_field LakeFSRepositorySpec_DeepCopyInto ''Spec'' inp out;
     out \<leftarrow> copy_field (LakeFSRepositoryStatus_DeepCopyInto X) ''Status'' inp out;
     return out }"

definition LakeFSRepositoryList_DeepCopyInto :: "External \<Rightarrow> copier" where
  "LakeFSRepositoryList_DeepCopyInto X inp = do {
     out \<leftarrow> return inp;
     out \<leftarrow> assign ''TypeMeta'' inp out;
     out \<leftarrow> copy_field (ext_ListMeta X) ''ListMeta'' inp out;
     out \<leftarrow> copy_slice (LakeFSRepository_DeepCopyInto X) ''Items'' inp out;
     return out }"

definition LakeFSRoleSpec_DeepCopyInto :: "copier" where
  "LakeFSRoleSpec_DeepCopyInto inp = do {
     out \<leftarrow> return inp;
     out \<leftarrow> copy_slice LakeFSPolicyTemplate_DeepCopyInto ''Policies'' inp out;
     return out }"

definition LakeFSRoleStatus_DeepCopyInto :: "External \<Rightarrow> copier" where
  "LakeFSRoleStatus_DeepCopyInto X inp = do {
     out \<leftarrow> return inp;
     out \<leftarrow> copy_slice (ext_Condition X) ''Conditions'' inp out;
     return out }"

definition LakeFSRole_DeepCopyInto :: "External \<Rightarrow> copier" where
  "LakeFSRole_DeepCopyInto X inp = do {
     out \<leftarrow> return inp;
     out \<leftarrow> assign ''TypeMeta'' inp out;
     out \<leftarrow> copy_field (ext_ObjectMeta X) ''ObjectMeta'' inp out;
     out \<leftarrow> copy_field LakeFSRoleSpec_DeepCopyInto ''Spec'' inp out;
     out \<leftarrow> copy_field (LakeFSRoleStatus_DeepCopyInto X) ''Status'' inp out;
     return out }"

definition LakeFSRoleBindingSubject_DeepCopyInto :: copier where
  "LakeFSRoleBindingSubject_DeepCopyInto inp = return inp"

definition LakeFSRoleReference_DeepCopyInto :: copier where
  "LakeFSRoleReference_DeepCopyInto inp = return inp"

definition LakeFSRoleBindingSpec_DeepCopyInto :: "copier" where
  "LakeFSRoleBindingSpec_DeepCopyInto inp = do {
     out \<leftarrow> return inp;
     out \<leftarrow> assign ''Subject'' inp out;
     out \<leftarrow> assign ''RoleRef'' inp out;
     return out }"

definition LakeFSRoleBindingStatus_DeepCopyInto :: "External \<Rightarrow> copier" where
  "LakeFSRoleBindingStatus_DeepCopyInto X inp = do {
     out \<leftarrow> return inp;
     out \<leftarrow> copy_slice (ext_Condition X) ''Conditions'' inp out;
     return out }"

definition LakeFSRoleBinding_DeepCopyInto :: "External \<Rightarrow> copier" where
  "LakeFSRoleBinding_DeepCopyInto X inp = do {
     out \<leftarrow> return inp;
     out \<leftarrow> assign ''TypeMeta'' inp out;
     out \<leftarrow> copy_field (ext_ObjectMeta X) ''ObjectMeta'' inp out;
     out \<leftarrow> assign ''Spec'' inp out;
     out \<leftarrow> copy_field (LakeFSRoleBindingStatus_DeepCopyInto X) ''Status'' inp out;
     return out }"

definition LakeFSRoleBindingList_DeepCopyInto :: "External \<Rightarrow> copier" where
  "LakeFSRoleBindingList_DeepCopyInto X inp = do {
     out \<leftarrow> return inp;
     out \<leftarrow> assign ''TypeMeta'' inp out;
     out \<leftarrow> copy_field (ext_ListMeta X) ''ListMeta'' inp out;
     out \<leftarrow> copy_slice (LakeFSRoleBinding_DeepCopyInto X) ''Items'' inp out;
     return out }"

definition LakeFSRoleList_DeepCopyInto :: "External \<Rightarrow> copier" where
  "LakeFSRoleList_DeepCopyInto X inp = do {
     out \<leftarrow> return inp;
     out \<leftarrow> assign ''TypeMeta'' inp out;
     out \<leftarrow> copy_field (ext_ListMeta X) ''ListMeta'' inp out;
     out \<leftarrow> copy_slice (LakeFSRole_DeepCopyInto X) ''Items'' inp out;
     return out }"

definition LakeFSUserSpec_DeepCopyInto :: copier where
  "LakeFSUserSpec_DeepCopyInto inp = return inp"

definition LakeFSUserStatus_DeepCopyInto :: "External \<Rightarrow> copier" where
  "LakeFSUserStatus_DeepCopyInto X inp = do {
     out \<leftarrow> return inp;
     out \<leftarrow> copy_slice (ext_Condition X) ''Conditions'' inp out;
     return out }"

definition LakeFSUser_DeepCopyInto :: "External \<Rightarrow> copier" where
  "LakeFSUser_DeepCopyInto X inp = do {
     out \<leftarrow> return inp;
     out \<leftarrow> assign ''TypeMeta'' inp out;
     out \<leftarrow> copy_field (ext_ObjectMeta X) ''ObjectMeta'' inp out;
     out \<leftarrow> assign ''Spec'' inp out;
     out \<leftarrow> copy_field (LakeFSUserStatus_DeepCopyInto X) ''Status'' inp out;
     return out }"

definition LakeFSUserList_DeepCopyInto :: "External \<Rightarrow> copier" where
  "LakeFSUserList_DeepCopyInto X inp = do {
     out \<leftarrow> return inp;
     out \<leftarrow> assign ''TypeMeta'' inp out;
     out \<leftarrow> copy_field (ext_ListMeta X) ''ListMeta'' inp out;
     out \<leftarrow> copy_slice (LakeFSUser_DeepCopyInto X) ''Items'' inp out;
     return out }"

subsection \<open>DeepCopy and DeepCopyObject\<close>

definition LakeFSUserReference_DeepCopy :: "copier" where
  "LakeFSUserReference_DeepCopy = deep_copy LakeFSUserReference_DeepCopyInto"

definition LakeFSSecretReference_DeepCopy :: "copier" where
  "LakeFSSecretReference_DeepCopy = deep_copy LakeFSSecretReference_DeepCopyInto"

definition LakeFSCredentialSpec_DeepCopy :: "External \<Rightarrow> copier" where
  "LakeFSCredentialSpec_DeepCopy X = deep_copy (LakeFSCredentialSpec_DeepCopyInto X)"

definition LakeFSCredentialStatus_DeepCopy :: "External \<Rightarrow> copier" where
  "LakeFSCredentialStatus_DeepCopy X = deep_copy (LakeFSCredentialStatus_DeepCopyInto X)"

definition LakeFSCredential_DeepCopy :: "External \<Rightarrow> copier" where
  "LakeFSCredential_DeepCopy X = deep_copy (LakeFSCredential_DeepCopyInto X)"

definition LakeFSCredential_DeepCopyObject :: "External \<Rightarrow> copier" where
  "LakeFSCredential_DeepCopyObject X = deep_copy_object (LakeFSCredential_DeepCopy X)"

definition LakeFSCredentialList_DeepCopy :: "External \<Rightarrow> copier" where
  "LakeFSCredentialList_DeepCopy X = deep_copy (LakeFSCredentialList_DeepCopyInto X)"

definition LakeFSCredentialList_DeepCopyObject :: "External \<Rightarrow> copier" where
  "LakeFSCredentialList_DeepCopyObject X = deep_copy_object (LakeFSCredentialList_DeepCopy X)"

definition LakeFSGCInitContainerSpec_DeepCopy :: "External \<Rightarrow> copier" where
  "LakeFSGCInitContainerSpec_DeepCopy X = deep_copy (LakeFSGCInitContainerSpec_DeepCopyInto X)"

definition LakeFSGCVolumeSpec_DeepCopy :: "External \<Rightarrow> copier" where
  "LakeFSGCVolumeSpec_DeepCopy X = deep_copy (LakeFSGCVolumeSpec_DeepCopyInto X)"

definition LakeFSGCJobSpec_DeepCopy :: "External \<Rightarrow> copier" where
  "LakeFSGCJobSpec_DeepCopy X = deep_copy (LakeFSGCJobSpec_DeepCopyInto X)"

definition LakeFSGCRetentionRule_DeepCopy :: "copier" where
  "LakeFSGCRetentionRule_DeepCopy = deep_copy LakeFSGCRetentionRule_DeepCopyInto"

definition LakeFSGCRetentionSpec_DeepCopy :: "copier" where
  "LakeFSGCRetentionSpec_DeepCopy = deep_copy LakeFSGCRetentionSpec_DeepCopyInto"

definition LakeFSGCSparkConf_DeepCopy :: "copier" where
  "LakeFSGCSparkConf_DeepCopy = deep_copy LakeFSGCSparkConf_DeepCopyInto"

definition LakeFSGCSparkSpec_DeepCopy :: "copier" where
  "LakeFSGCSparkSpec_DeepCopy = deep_copy LakeFSGCSparkSpec_DeepCopyInto"

definition LakeFSGCPolicySpec_DeepCopy :: "External \<Rightarrow> copier" where
  "LakeFSGCPolicySpec_DeepCopy X = deep_copy (LakeFSGCPolicySpec_DeepCopyInto X)"

definition LakeFSGCPolicyStatus_DeepCopy :: "External \<Rightarrow> copier" where
  "LakeFSGCPolicyStatus_DeepCopy X = deep_copy (LakeFSGCPolicyStatus_DeepCopyInto X)"

definition LakeFSGCPolicy_DeepCopy :: "External \<Rightarrow> copier" where
  "LakeFSGCPolicy_DeepCopy X = deep_copy (LakeFSGCPolicy_DeepCopyInto X)"

definition LakeFSGCPolicy_DeepCopyObject :: "External \<Rightarrow> copier" where
  "LakeFSGCPolicy_DeepCopyObject X = deep_copy_object (LakeFSGCPolicy_DeepCopy X)"

definition LakeFSGCPolicyList_DeepCopy :: "External \<Rightarrow> copier" where
  "LakeFSGCPolicyList_DeepCopy X = deep_copy (LakeFSGCPolicyList_DeepCopyInto X)"

definition LakeFSGCPolicyList_DeepCopyObject :: "External \<Rightarrow> copier" where
  "LakeFSGCPolicyList_DeepCopyObject X = deep_copy_object (LakeFSGCPolicyList_DeepCopy X)"

definition LakeFSGCPolicyReference_DeepCopy :: "copier" where
  "LakeFSGCPolicyReference_DeepCopy = deep_copy LakeFSGCPolicyReference_DeepCopyInto"

definition LakeFSGroupSpec_DeepCopy :: "copier" where
  "LakeFSGroupSpec_DeepCopy = deep_copy LakeFSGroupSpec_DeepCopyInto"

definition LakeFSGroupStatus_DeepCopy :: "External \<Rightarrow> copier" where
  "LakeFSGroupStatus_DeepCopy X = deep_copy (LakeFSGroupStatus_DeepCopyInto X)"

definition LakeFSGroup_DeepCopy :: "External \<Rightarrow> copier" where
  "LakeFSGroup_DeepCopy X = deep_copy (LakeFSGroup_DeepCopyInto X)"

definition LakeFSGroup_DeepCopyObject :: "External \<Rightarrow> copier" where
  "LakeFSGroup_DeepCopyObject X = deep_copy_object (LakeFSGroup_DeepCopy X)"

definition LakeFSGroupList_DeepCopy :: "External \<Rightarrow> copier" where
  "LakeFSGroupList_DeepCopy X = deep_copy (LakeFSGroupList_DeepCopyInto X)"

definition LakeFSGroupList_DeepCopyObject :: "External \<Rightarrow> copier" where
  "LakeFSGroupList_DeepCopyObject X = deep_copy_object (LakeFSGroupList_DeepCopy X)"

definition LakeFSPolicyStatement_DeepCopy :: "copier" where
  "LakeFSPolicyStatement_DeepCopy = deep_copy LakeFSPolicyStatement_DeepCopyInto"

definition LakeFSPolicyTemplate_DeepCopy :: "copier" where
  "LakeFSPolicyTemplate_DeepCopy = deep_copy LakeFSPolicyTemplate_DeepCopyInto"

definition LakeFSRepositoryCredentialSecretReference_DeepCopy :: "copier" where
  "LakeFSRepositoryCredentialSecretReference_DeepCopy = deep_copy LakeFSRepositoryCredentialSecretReference_DeepCopyInto"

definition LakeFSRepositoryGCSpec_DeepCopy :: "copier" where
  "LakeFSRepositoryGCSpec_DeepCopy = deep_copy LakeFSRepositoryGCSpec_DeepCopyInto"

definition LakeFSRepositorySpec_DeepCopy :: "copier" where
  "LakeFSRepositorySpec_DeepCopy = deep_copy LakeFSRepositorySpec_DeepCopyInto"

definition LakeFSRepositoryStatus_DeepCopy :: "External \<Rightarrow> copier" where
  "LakeFSRepositoryStatus_DeepCopy X = deep_copy (LakeFSRepositoryStatus_DeepCopyInto X)"

definition LakeFSRepository_DeepCopy :: "External \<Rightarrow> copier" where
  "LakeFSRepository_DeepCopy X = deep_copy (LakeFSRepository_DeepCopyInto X)"

definition LakeFSRepository_DeepCopyObject :: "External \<Rightarrow> copier" where
  "LakeFSRepository_DeepCopyObject X = deep_copy_object (LakeFSRepository_DeepCopy X)"

definition LakeFSRepositoryList_DeepCopy :: "External \<Rightarrow> copier" where
  "LakeFSRepositoryList_DeepCopy X = deep_copy (LakeFSRepositoryList_DeepCopyInto X)"

definition LakeFSRepositoryList_DeepCopyObject :: "External \<Rightarrow> copier" where
  "LakeFSRepositoryList_DeepCopyObject X = deep_copy_object (LakeFSRepositoryList_DeepCopy X)"

definition LakeFSRoleSpec_DeepCopy :: "copier" where
  "LakeFSRoleSpec_DeepCopy = deep_copy LakeFSRoleSpec_DeepCopyInto"

definition LakeFSRoleStatus_DeepCopy :: "External \<Rightarrow> copier" where
  "LakeFSRoleStatus_DeepCopy X = deep_copy (LakeFSRoleStatus_DeepCopyInto X)"

definition LakeFSRole_DeepCopy :: "External \<Rightarrow> copier" where
  "LakeFSRole_DeepCopy X = deep_copy (LakeFSRole_DeepCopyInto X)"

definition LakeFSRole_DeepCopyObject :: "External \<Rightarrow> copier" where
  "LakeFSRole_DeepCopyObject X = deep_copy_object (LakeFSRole_DeepCopy X)"

definition LakeFSRoleBindingSubject_DeepCopy :: "copier" where
  "LakeFSRoleBindingSubject_DeepCopy = deep_copy LakeFSRoleBindingSubject_DeepCopyInto"

definition LakeFSRoleReference_DeepCopy :: "copier" where
  "LakeFSRoleReference_DeepCopy = deep_copy LakeFSRoleReference_DeepCopyInto"

definition LakeFSRoleBindingSpec_DeepCopy :: "copier" where
  "LakeFSRoleBindingSpec_DeepCopy = deep_copy LakeFSRoleBindingSpec_DeepCopyInto"

definition LakeFSRoleBindingStatus_DeepCopy :: "External \<Rightarrow> copier" where
  "LakeFSRoleBindingStatus_DeepCopy X = deep_copy (LakeFSRoleBindingStatus_DeepCopyInto X)"

definition LakeFSRoleBinding_DeepCopy :: "External \<Rightarrow> copier" where
  "LakeFSRoleBinding_DeepCopy X = deep_copy (LakeFSRoleBinding_DeepCopyInto X)"

definition LakeFSRoleBinding_DeepCopyObject :: "External \<Rightarrow> copier" where
  "LakeFSRoleBinding_DeepCopyObject X = deep_copy_object (LakeFSRoleBinding_DeepCopy X)"

definition LakeFSRoleBindingList_DeepCopy :: "External \<Rightarrow> copier" where
  "LakeFSRoleBindingList_DeepCopy X = deep_copy (LakeFSRoleBindingList_DeepCopyInto X)"

definition LakeFSRoleBindingList_DeepCopyObject :: "External \<Rightarrow> copier" where
  "LakeFSRoleBindingList_DeepCopyObject X = deep_copy_object (LakeFSRoleBindingList_DeepCopy X)"

definition LakeFSRoleList_DeepCopy :: "External \<Rightarrow> copier" where
  "LakeFSRoleList_DeepCopy X = deep_copy (LakeFSRoleList_DeepCopyInto X)"

definition LakeFSRoleList_DeepCopyObject :: "External \<Rightarrow> copier" where
  "LakeFSRoleList_DeepCopyObject X = deep_copy_object (LakeFSRoleList_DeepCopy X)"

definition LakeFSUserSpec_DeepCopy :: "copier" where
  "LakeFSUserSpec_DeepCopy = deep_copy LakeFSUserSpec_DeepCopyInto"

definition LakeFSUserStatus_DeepCopy :: "External \<Rightarrow> copier" where
  "LakeFSUserStatus_DeepCopy X = deep_copy (LakeFSUserStatus_DeepCopyInto X)"

definition LakeFSUser_DeepCopy :: "External \<Rightarrow> copier" where
  "LakeFSUser_DeepCopy X = deep_copy (LakeFSUser_DeepCopyInto X)"

definition LakeFSUser_DeepCopyObject :: "External \<Rightarrow> copier" where
  "LakeFSUser_DeepCopyObject X = deep_copy_object (LakeFSUser_DeepCopy X)"

definition LakeFSUserList_DeepCopy :: "External \<Rightarrow> copier" where
  "LakeFSUserList_DeepCopy X = deep_copy (LakeFSUserList_DeepCopyInto X)"

definition LakeFSUserList_DeepCopyObject :: "External \<Rightarrow> copier" where
  "LakeFSUserList_DeepCopyObject X = deep_copy_object (LakeFSUserList_DeepCopy X)"

text \<open>The types that are a \<open>runtime.Object\<close>, and the dispatch of that interface's method.\<close>

datatype ApiObject =
    IsLakeFSCredential
  | IsLakeFSCredentialList
  | IsLakeFSGCPolicy
  | IsLakeFSGCPolicyList
  | IsLakeFSGroup
  | IsLakeFSGroupList
  | IsLakeFSRepository
  | IsLakeFSRepositoryList
  | IsLakeFSRole
  | IsLakeFSRoleBinding
  | IsLakeFSRoleBindingList
  | IsLakeFSRoleList
  | IsLakeFSUser
  | IsLakeFSUserList

fun object_T :: "ExternalTypes \<Rightarrow> ApiObject \<Rightarrow> ty" where
  "object_T E IsLakeFSCredential = LakeFSCredential_T E"
| "object_T E IsLakeFSCredentialList = LakeFSCredentialList_T E"
| "object_T E IsLakeFSGCPolicy = LakeFSGCPolicy_T E"
| "object_T E IsLakeFSGCPolicyList = LakeFSGCPolicyList_T E"
| "object_T E IsLakeFSGroup = LakeFSGroup_T E"
| "object_T E IsLakeFSGroupList = LakeFSGroupList_T E"
| "object_T E IsLakeFSRepository = LakeFSRepository_T E"
| "object_T E IsLakeFSRepositoryList = LakeFSRepositoryList_T E"
| "object_T E IsLakeFSRole = LakeFSRole_T E"
| "object_T E IsLakeFSRoleBinding = LakeFSRoleBinding_T E"
| "object_T E IsLakeFSRoleBindingList = LakeFSRoleBindingList_T E"
| "object_T E IsLakeFSRoleList = LakeFSRoleList_T E"
| "object_T E IsLakeFSUser = LakeFSUser_T E"
| "object_T E IsLakeFSUserList = LakeFSUserList_T E"

fun DeepCopyObject :: "External \<Rightarrow> ApiObject \<Rightarrow> copier" where
  "DeepCopyObject X IsLakeFSCredential = LakeFSCredential_DeepCopyObject X"
| "DeepCopyObject X IsLakeFSCredentialList = LakeFSCredentialList_DeepCopyObject X"
| "DeepCopyObject X IsLakeFSGCPolicy = LakeFSGCPolicy_DeepCopyObject X"
| "DeepCopyObject X IsLakeFSGCPolicyList = LakeFSGCPolicyList_DeepCopyObject X"
| "DeepCopyObject X IsLakeFSGroup = LakeFSGroup_DeepCopyObject X"
| "DeepCopyObject X IsLakeFSGroupList = LakeFSGroupList_DeepCopyObject X"
| "DeepCopyObject X IsLakeFSRepository = LakeFSRepository_DeepCopyObject X"
| "DeepCopyObject X IsLakeFSRepositoryList = LakeFSRepositoryList_DeepCopyObject X"
| "DeepCopyObject X IsLakeFSRole = LakeFSRole_DeepCopyObject X"
| "DeepCopyObject X IsLakeFSRoleBinding = LakeFSRoleBinding_DeepCopyObject X"
| "DeepCopyObject X IsLakeFSRoleBindingList = LakeFSRoleBindingList_DeepCopyObject X"
| "DeepCopyObject X IsLakeFSRoleList = LakeFSRoleList_DeepCopyObject X"
| "DeepCopyObject X IsLakeFSUser = LakeFSUser_DeepCopyObject X"
| "DeepCopyObject X IsLakeFSUserList = LakeFSUserList_DeepCopyObject X"

subsection \<open>Every type is copied deeply\<close>

lemma flat_types [simp]:
  "flat LakeFSUserReference_T"
  "flat LakeFSSecretReference_T"
  "flat LakeFSGCRetentionRule_T"
  "flat LakeFSGCSparkConf_T"
  "flat LakeFSGCPolicyReference_T"
  "flat LakeFSRepositoryCredentialSecretReference_T"
  "flat LakeFSRoleBindingSubject_T"
  "flat LakeFSRoleReference_T"
  "flat LakeFSRoleBindingSpec_T"
  "flat LakeFSUserSpec_T"
  by (simp_all add: LakeFSUserReference_T_def LakeFSSecretReference_T_def LakeFSGCRetentionRule_T_def LakeFSGCSparkConf_T_def LakeFSGCPolicyReference_T_def LakeFSRepositoryCredentialSecretReference_T_def LakeFSRoleBindingSubject_T_def LakeFSRoleReference_T_def LakeFSRoleBindingSpec_T_def LakeFSUserSpec_T_def)

text \<open>
  What the code relies on: \<open>TypeMeta\<close> holds no references, and the methods of the Kubernetes types are
  deep copies themselves.
\<close>

locale external_copies =
  fixes E :: ExternalTypes and X :: External
  assumes TypeMeta: "flat (et_TypeMeta E)"
    and ObjectMeta: "deep_copies (et_ObjectMeta E) (ext_ObjectMeta X)"
    and ListMeta: "deep_copies (et_ListMeta E) (ext_ListMeta X)"
    and Condition: "deep_copies (et_Condition E) (ext_Condition X)"
    and Time: "deep_copies (TPtr (et_Time E)) (ext_Time X)"
    and EnvVar: "deep_copies (et_EnvVar E) (ext_EnvVar X)"
    and EnvFromSource: "deep_copies (et_EnvFromSource E) (ext_EnvFromSource X)"
    and ResourceRequirements: "deep_copies (et_ResourceRequirements E) (ext_ResourceRequirements X)"
    and VolumeMount: "deep_copies (et_VolumeMount E) (ext_VolumeMount X)"
    and EmptyDirVolumeSource: "deep_copies (et_EmptyDirVolumeSource E) (ext_EmptyDirVolumeSource X)"

context external_copies
begin

lemmas external [deep_copies_intros] = ObjectMeta ListMeta Condition Time EnvVar EnvFromSource ResourceRequirements
  VolumeMount EmptyDirVolumeSource

declare TypeMeta [simp]

lemma LakeFSUserReference_copied [deep_copies_intros]: "deep_copies LakeFSUserReference_T LakeFSUserReference_DeepCopyInto"
  by (simp add: deep_copies_flat LakeFSUserReference_DeepCopyInto_def [abs_def])

lemma LakeFSSecretReference_copied [deep_copies_intros]: "deep_copies LakeFSSecretReference_T LakeFSSecretReference_DeepCopyInto"
  by (simp add: deep_copies_flat LakeFSSecretReference_DeepCopyInto_def [abs_def])

lemma LakeFSCredentialSpec_copied [deep_copies_intros]: "deep_copies (LakeFSCredentialSpec_T E) (LakeFSCredentialSpec_DeepCopyInto X)"
  unfolding LakeFSCredentialSpec_T_def LakeFSCredentialSpec_DeepCopyInto_def
  by (rule deep_copies_struct, simp, rule copying_begin,
    ((rule copying_assign, assumption, simp) | (rule copying_steps, assumption, rule deep_copies_intros, simp, simp)
      | (rule flat_steps, assumption, simp, simp, simp))+,
    rule copying_return, assumption, simp)

lemma LakeFSCredentialStatus_copied [deep_copies_intros]: "deep_copies (LakeFSCredentialStatus_T E) (LakeFSCredentialStatus_DeepCopyInto X)"
  unfolding LakeFSCredentialStatus_T_def LakeFSCredentialStatus_DeepCopyInto_def
  by (rule deep_copies_struct, simp, rule copying_begin,
    ((rule copying_assign, assumption, simp) | (rule copying_steps, assumption, rule deep_copies_intros, simp, simp)
      | (rule flat_steps, assumption, simp, simp, simp))+,
    rule copying_return, assumption, simp)

lemma LakeFSCredential_copied [deep_copies_intros]: "deep_copies (LakeFSCredential_T E) (LakeFSCredential_DeepCopyInto X)"
  unfolding LakeFSCredential_T_def LakeFSCredential_DeepCopyInto_def
  by (rule deep_copies_struct, simp, rule copying_begin,
    ((rule copying_assign, assumption, simp) | (rule copying_steps, assumption, rule deep_copies_intros, simp, simp)
      | (rule flat_steps, assumption, simp, simp, simp))+,
    rule copying_return, assumption, simp)

lemma LakeFSCredentialList_copied [deep_copies_intros]: "deep_copies (LakeFSCredentialList_T E) (LakeFSCredentialList_DeepCopyInto X)"
  unfolding LakeFSCredentialList_T_def LakeFSCredentialList_DeepCopyInto_def
  by (rule deep_copies_struct, simp, rule copying_begin,
    ((rule copying_assign, assumption, simp) | (rule copying_steps, assumption, rule deep_copies_intros, simp, simp)
      | (rule flat_steps, assumption, simp, simp, simp))+,
    rule copying_return, assumption, simp)

lemma LakeFSGCInitContainerSpec_copied [deep_copies_intros]: "deep_copies (LakeFSGCInitContainerSpec_T E) (LakeFSGCInitContainerSpec_DeepCopyInto X)"
  unfolding LakeFSGCInitContainerSpec_T_def LakeFSGCInitContainerSpec_DeepCopyInto_def
  by (rule deep_copies_struct, simp, rule copying_begin,
    ((rule copying_assign, assumption, simp) | (rule copying_steps, assumption, rule deep_copies_intros, simp, simp)
      | (rule flat_steps, assumption, simp, simp, simp))+,
    rule copying_return, assumption, simp)

lemma LakeFSGCVolumeSpec_copied [deep_copies_intros]: "deep_copies (LakeFSGCVolumeSpec_T E) (LakeFSGCVolumeSpec_DeepCopyInto X)"
  unfolding LakeFSGCVolumeSpec_T_def LakeFSGCVolumeSpec_DeepCopyInto_def
  by (rule deep_copies_struct, simp, rule copying_begin,
    ((rule copying_assign, assumption, simp) | (rule copying_steps, assumption, rule deep_copies_intros, simp, simp)
      | (rule flat_steps, assumption, simp, simp, simp))+,
    rule copying_return, assumption, simp)

lemma LakeFSGCJobSpec_copied [deep_copies_intros]: "deep_copies (LakeFSGCJobSpec_T E) (LakeFSGCJobSpec_DeepCopyInto X)"
  unfolding LakeFSGCJobSpec_T_def LakeFSGCJobSpec_DeepCopyInto_def
  by (rule deep_copies_struct, simp, rule copying_begin,
    ((rule copying_assign, assumption, simp) | (rule copying_steps, assumption, rule deep_copies_intros, simp, simp)
      | (rule flat_steps, assumption, simp, simp, simp))+,
    rule copying_return, assumption, simp)

lemma LakeFSGCRetentionRule_copied [deep_copies_intros]: "deep_copies LakeFSGCRetentionRule_T LakeFSGCRetentionRule_DeepCopyInto"
  by (simp add: deep_copies_flat LakeFSGCRetentionRule_DeepCopyInto_def [abs_def])

lemma LakeFSGCRetentionSpec_copied [deep_copies_intros]: "deep_copies LakeFSGCRetentionSpec_T LakeFSGCRetentionSpec_DeepCopyInto"
  unfolding LakeFSGCRetentionSpec_T_def LakeFSGCRetentionSpec_DeepCopyInto_def
  by (rule deep_copies_struct, simp, rule copying_begin,
    ((rule copying_assign, assumption, simp) | (rule copying_steps, assumption, rule deep_copies_intros, simp, simp)
      | (rule flat_steps, assumption, simp, simp, simp))+,
    rule copying_return, assumption, simp)

lemma LakeFSGCSparkConf_copied [deep_copies_intros]: "deep_copies LakeFSGCSparkConf_T LakeFSGCSparkConf_DeepCopyInto"
  by (simp add: deep_copies_flat LakeFSGCSparkConf_DeepCopyInto_def [abs_def])

lemma LakeFSGCSparkSpec_copied [deep_copies_intros]: "deep_copies LakeFSGCSparkSpec_T LakeFSGCSparkSpec_DeepCopyInto"
  unfolding LakeFSGCSparkSpec_T_def LakeFSGCSparkSpec_DeepCopyInto_def
  by (rule deep_copies_struct, simp, rule copying_begin,
    ((rule copying_assign, assumption, simp) | (rule copying_steps, assumption, rule deep_copies_intros, simp, simp)
      | (rule flat_steps, assumption, simp, simp, simp))+,
    rule copying_return, assumption, simp)

lemma LakeFSGCPolicySpec_copied [deep_copies_intros]: "deep_copies (LakeFSGCPolicySpec_T E) (LakeFSGCPolicySpec_DeepCopyInto X)"
  unfolding LakeFSGCPolicySpec_T_def LakeFSGCPolicySpec_DeepCopyInto_def
  by (rule deep_copies_struct, simp, rule copying_begin,
    ((rule copying_assign, assumption, simp) | (rule copying_steps, assumption, rule deep_copies_intros, simp, simp)
      | (rule flat_steps, assumption, simp, simp, simp))+,
    rule copying_return, assumption, simp)

lemma LakeFSGCPolicyStatus_copied [deep_copies_intros]: "deep_copies (LakeFSGCPolicyStatus_T E) (LakeFSGCPolicyStatus_DeepCopyInto X)"
  unfolding LakeFSGCPolicyStatus_T_def LakeFSGCPolicyStatus_DeepCopyInto_def
  by (rule deep_copies_struct, simp, rule copying_begin,
    ((rule copying_assign, assumption, simp) | (rule copying_steps, assumption, rule deep_copies_intros, simp, simp)
      | (rule flat_steps, assumption, simp, simp, simp))+,
    rule copying_return, assumption, simp)

lemma LakeFSGCPolicy_copied [deep_copies_intros]: "deep_copies (LakeFSGCPolicy_T E) (LakeFSGCPolicy_DeepCopyInto X)"
  unfolding LakeFSGCPolicy_T_def LakeFSGCPolicy_DeepCopyInto_def
  by (rule deep_copies_struct, simp, rule copying_begin,
    ((rule copying_assign, assumption, simp) | (rule copying_steps, assumption, rule deep_copies_intros, simp, simp)
      | (rule flat_steps, assumption, simp, simp, simp))+,
    rule copying_return, assumption, simp)

lemma LakeFSGCPolicyList_copied [deep_copies_intros]: "deep_copies (LakeFSGCPolicyList_T E) (LakeFSGCPolicyList_DeepCopyInto X)"
  unfolding LakeFSGCPolicyList_T_def LakeFSGCPolicyList_DeepCopyInto_def
  by (rule deep_copies_struct, simp, rule copying_begin,
    ((rule copying_assign, assumption, simp) | (rule copying_steps, assumption, rule deep_copies_intros, simp, simp)
      | (rule flat_steps, assumption, simp, simp, simp))+,
    rule copying_return, assumption, simp)

lemma LakeFSGCPolicyReference_copied [deep_copies_intros]: "deep_copies LakeFSGCPolicyReference_T LakeFSGCPolicyReference_DeepCopyInto"
  by (simp add: deep_copies_flat LakeFSGCPolicyReference_DeepCopyInto_def [abs_def])

lemma LakeFSGroupSpec_copied [deep_copies_intros]: "deep_copies LakeFSGroupSpec_T LakeFSGroupSpec_DeepCopyInto"
  unfolding LakeFSGroupSpec_T_def LakeFSGroupSpec_DeepCopyInto_def
  by (rule deep_copies_struct, simp, rule copying_begin,
    ((rule copying_assign, assumption, simp) | (rule copying_steps, assumption, rule deep_copies_intros, simp, simp)
      | (rule flat_steps, assumption, simp, simp, simp))+,
    rule copying_return, assumption, simp)

lemma LakeFSGroupStatus_copied [deep_copies_intros]: "deep_copies (LakeFSGroupStatus_T E) (LakeFSGroupStatus_DeepCopyInto X)"
  unfolding LakeFSGroupStatus_T_def LakeFSGroupStatus_DeepCopyInto_def
  by (rule deep_copies_struct, simp, rule copying_begin,
    ((rule copying_assign, assumption, simp) | (rule copying_steps, assumption, rule deep_copies_intros, simp, simp)
      | (rule flat_steps, assumption, simp, simp, simp))+,
    rule copying_return, assumption, simp)

lemma LakeFSGroup_copied [deep_copies_intros]: "deep_copies (LakeFSGroup_T E) (LakeFSGroup_DeepCopyInto X)"
  unfolding LakeFSGroup_T_def LakeFSGroup_DeepCopyInto_def
  by (rule deep_copies_struct, simp, rule copying_begin,
    ((rule copying_assign, assumption, simp) | (rule copying_steps, assumption, rule deep_copies_intros, simp, simp)
      | (rule flat_steps, assumption, simp, simp, simp))+,
    rule copying_return, assumption, simp)

lemma LakeFSGroupList_copied [deep_copies_intros]: "deep_copies (LakeFSGroupList_T E) (LakeFSGroupList_DeepCopyInto X)"
  unfolding LakeFSGroupList_T_def LakeFSGroupList_DeepCopyInto_def
  by (rule deep_copies_struct, simp, rule copying_begin,
    ((rule copying_assign, assumption, simp) | (rule copying_steps, assumption, rule deep_copies_intros, simp, simp)
      | (rule flat_steps, assumption, simp, simp, simp))+,
    rule copying_return, assumption, simp)

lemma LakeFSPolicyStatement_copied [deep_copies_intros]: "deep_copies LakeFSPolicyStatement_T LakeFSPolicyStatement_DeepCopyInto"
  unfolding LakeFSPolicyStatement_T_def LakeFSPolicyStatement_DeepCopyInto_def
  by (rule deep_copies_struct, simp, rule copying_begin,
    ((rule copying_assign, assumption, simp) | (rule copying_steps, assumption, rule deep_copies_intros, simp, simp)
      | (rule flat_steps, assumption, simp, simp, simp))+,
    rule copying_return, assumption, simp)

lemma LakeFSPolicyTemplate_copied [deep_copies_intros]: "deep_copies LakeFSPolicyTemplate_T LakeFSPolicyTemplate_DeepCopyInto"
  unfolding LakeFSPolicyTemplate_T_def LakeFSPolicyTemplate_DeepCopyInto_def
  by (rule deep_copies_struct, simp, rule copying_begin,
    ((rule copying_assign, assumption, simp) | (rule copying_steps, assumption, rule deep_copies_intros, simp, simp)
      | (rule flat_steps, assumption, simp, simp, simp))+,
    rule copying_return, assumption, simp)

lemma LakeFSRepositoryCredentialSecretReference_copied [deep_copies_intros]: "deep_copies LakeFSRepositoryCredentialSecretReference_T LakeFSRepositoryCredentialSecretReference_DeepCopyInto"
  by (simp add: deep_copies_flat LakeFSRepositoryCredentialSecretReference_DeepCopyInto_def [abs_def])

lemma LakeFSRepositoryGCSpec_copied [deep_copies_intros]: "deep_copies LakeFSRepositoryGCSpec_T LakeFSRepositoryGCSpec_DeepCopyInto"
  unfolding LakeFSRepositoryGCSpec_T_def LakeFSRepositoryGCSpec_DeepCopyInto_def
  by (rule deep_copies_struct, simp, rule copying_begin,
    ((rule copying_assign, assumption, simp) | (rule copying_steps, assumption, rule deep_copies_intros, simp, simp)
      | (rule flat_steps, assumption, simp, simp, simp))+,
    rule copying_return, assumption, simp)

lemma LakeFSRepositorySpec_copied [deep_copies_intros]: "deep_copies LakeFSRepositorySpec_T LakeFSRepositorySpec_DeepCopyInto"
  unfolding LakeFSRepositorySpec_T_def LakeFSRepositorySpec_DeepCopyInto_def
  by (rule deep_copies_struct, simp, rule copying_begin,
    ((rule copying_assign, assumption, simp) | (rule copying_steps, assumption, rule deep_copies_intros, simp, simp)
      | (rule flat_steps, assumption, simp, simp, simp))+,
    rule copying_return, assumption, simp)

lemma LakeFSRepositoryStatus_copied [deep_copies_intros]: "deep_copies (LakeFSRepositoryStatus_T E) (LakeFSRepositoryStatus_DeepCopyInto X)"
  unfolding LakeFSRepositoryStatus_T_def LakeFSRepositoryStatus_DeepCopyInto_def
  by (rule deep_copies_struct, simp, rule copying_begin,
    ((rule copying_assign, assumption, simp) | (rule copying_steps, assumption, rule deep_copies_intros, simp, simp)
      | (rule flat_steps, assumption, simp, simp, simp))+,
    rule copying_return, assumption, simp)

lemma LakeFSRepository_copied [deep_copies_intros]: "deep_copies (LakeFSRepository_T E) (LakeFSRepository_DeepCopyInto X)"
  unfolding LakeFSRepository_T_def LakeFSRepository_DeepCopyInto_def
  by (rule deep_copies_struct, simp, rule copying_begin,
    ((rule copying_assign, assumption, simp) | (rule copying_steps, assumption, rule deep_copies_intros, simp, simp)
      | (rule flat_steps, assumption, simp, simp, simp))+,
    rule copying_return, assumption, simp)

lemma LakeFSRepositoryList_copied [deep_copies_intros]: "deep_copies (LakeFSRepositoryList_T E) (LakeFSRepositoryList_DeepCopyInto X)"
  unfolding LakeFSRepositoryList_T_def LakeFSRepositoryList_DeepCopyInto_def
  by (rule deep_copies_struct, simp, rule copying_begin,
    ((rule copying_assign, assumption, simp) | (rule copying_steps, assumption, rule deep_copies_intros, simp, simp)
      | (rule flat_steps, assumption, simp, simp, simp))+,
    rule copying_return, assumption, simp)

lemma LakeFSRoleSpec_copied [deep_copies_intros]: "deep_copies LakeFSRoleSpec_T LakeFSRoleSpec_DeepCopyInto"
  unfolding LakeFSRoleSpec_T_def LakeFSRoleSpec_DeepCopyInto_def
  by (rule deep_copies_struct, simp, rule copying_begin,
    ((rule copying_assign, assumption, simp) | (rule copying_steps, assumption, rule deep_copies_intros, simp, simp)
      | (rule flat_steps, assumption, simp, simp, simp))+,
    rule copying_return, assumption, simp)

lemma LakeFSRoleStatus_copied [deep_copies_intros]: "deep_copies (LakeFSRoleStatus_T E) (LakeFSRoleStatus_DeepCopyInto X)"
  unfolding LakeFSRoleStatus_T_def LakeFSRoleStatus_DeepCopyInto_def
  by (rule deep_copies_struct, simp, rule copying_begin,
    ((rule copying_assign, assumption, simp) | (rule copying_steps, assumption, rule deep_copies_intros, simp, simp)
      | (rule flat_steps, assumption, simp, simp, simp))+,
    rule copying_return, assumption, simp)

lemma LakeFSRole_copied [deep_copies_intros]: "deep_copies (LakeFSRole_T E) (LakeFSRole_DeepCopyInto X)"
  unfolding LakeFSRole_T_def LakeFSRole_DeepCopyInto_def
  by (rule deep_copies_struct, simp, rule copying_begin,
    ((rule copying_assign, assumption, simp) | (rule copying_steps, assumption, rule deep_copies_intros, simp, simp)
      | (rule flat_steps, assumption, simp, simp, simp))+,
    rule copying_return, assumption, simp)

lemma LakeFSRoleBindingSubject_copied [deep_copies_intros]: "deep_copies LakeFSRoleBindingSubject_T LakeFSRoleBindingSubject_DeepCopyInto"
  by (simp add: deep_copies_flat LakeFSRoleBindingSubject_DeepCopyInto_def [abs_def])

lemma LakeFSRoleReference_copied [deep_copies_intros]: "deep_copies LakeFSRoleReference_T LakeFSRoleReference_DeepCopyInto"
  by (simp add: deep_copies_flat LakeFSRoleReference_DeepCopyInto_def [abs_def])

lemma LakeFSRoleBindingSpec_copied [deep_copies_intros]: "deep_copies LakeFSRoleBindingSpec_T LakeFSRoleBindingSpec_DeepCopyInto"
  unfolding LakeFSRoleBindingSpec_T_def LakeFSRoleBindingSpec_DeepCopyInto_def
  by (rule deep_copies_struct, simp, rule copying_begin,
    ((rule copying_assign, assumption, simp) | (rule copying_steps, assumption, rule deep_copies_intros, simp, simp)
      | (rule flat_steps, assumption, simp, simp, simp))+,
    rule copying_return, assumption, simp)

lemma LakeFSRoleBindingStatus_copied [deep_copies_intros]: "deep_copies (LakeFSRoleBindingStatus_T E) (LakeFSRoleBindingStatus_DeepCopyInto X)"
  unfolding LakeFSRoleBindingStatus_T_def LakeFSRoleBindingStatus_DeepCopyInto_def
  by (rule deep_copies_struct, simp, rule copying_begin,
    ((rule copying_assign, assumption, simp) | (rule copying_steps, assumption, rule deep_copies_intros, simp, simp)
      | (rule flat_steps, assumption, simp, simp, simp))+,
    rule copying_return, assumption, simp)

lemma LakeFSRoleBinding_copied [deep_copies_intros]: "deep_copies (LakeFSRoleBinding_T E) (LakeFSRoleBinding_DeepCopyInto X)"
  unfolding LakeFSRoleBinding_T_def LakeFSRoleBinding_DeepCopyInto_def
  by (rule deep_copies_struct, simp, rule copying_begin,
    ((rule copying_assign, assumption, simp) | (rule copying_steps, assumption, rule deep_copies_intros, simp, simp)
      | (rule flat_steps, assumption, simp, simp, simp))+,
    rule copying_return, assumption, simp)

lemma LakeFSRoleBindingList_copied [deep_copies_intros]: "deep_copies (LakeFSRoleBindingList_T E) (LakeFSRoleBindingList_DeepCopyInto X)"
  unfolding LakeFSRoleBindingList_T_def LakeFSRoleBindingList_DeepCopyInto_def
  by (rule deep_copies_struct, simp, rule copying_begin,
    ((rule copying_assign, assumption, simp) | (rule copying_steps, assumption, rule deep_copies_intros, simp, simp)
      | (rule flat_steps, assumption, simp, simp, simp))+,
    rule copying_return, assumption, simp)

lemma LakeFSRoleList_copied [deep_copies_intros]: "deep_copies (LakeFSRoleList_T E) (LakeFSRoleList_DeepCopyInto X)"
  unfolding LakeFSRoleList_T_def LakeFSRoleList_DeepCopyInto_def
  by (rule deep_copies_struct, simp, rule copying_begin,
    ((rule copying_assign, assumption, simp) | (rule copying_steps, assumption, rule deep_copies_intros, simp, simp)
      | (rule flat_steps, assumption, simp, simp, simp))+,
    rule copying_return, assumption, simp)

lemma LakeFSUserSpec_copied [deep_copies_intros]: "deep_copies LakeFSUserSpec_T LakeFSUserSpec_DeepCopyInto"
  by (simp add: deep_copies_flat LakeFSUserSpec_DeepCopyInto_def [abs_def])

lemma LakeFSUserStatus_copied [deep_copies_intros]: "deep_copies (LakeFSUserStatus_T E) (LakeFSUserStatus_DeepCopyInto X)"
  unfolding LakeFSUserStatus_T_def LakeFSUserStatus_DeepCopyInto_def
  by (rule deep_copies_struct, simp, rule copying_begin,
    ((rule copying_assign, assumption, simp) | (rule copying_steps, assumption, rule deep_copies_intros, simp, simp)
      | (rule flat_steps, assumption, simp, simp, simp))+,
    rule copying_return, assumption, simp)

lemma LakeFSUser_copied [deep_copies_intros]: "deep_copies (LakeFSUser_T E) (LakeFSUser_DeepCopyInto X)"
  unfolding LakeFSUser_T_def LakeFSUser_DeepCopyInto_def
  by (rule deep_copies_struct, simp, rule copying_begin,
    ((rule copying_assign, assumption, simp) | (rule copying_steps, assumption, rule deep_copies_intros, simp, simp)
      | (rule flat_steps, assumption, simp, simp, simp))+,
    rule copying_return, assumption, simp)

lemma LakeFSUserList_copied [deep_copies_intros]: "deep_copies (LakeFSUserList_T E) (LakeFSUserList_DeepCopyInto X)"
  unfolding LakeFSUserList_T_def LakeFSUserList_DeepCopyInto_def
  by (rule deep_copies_struct, simp, rule copying_begin,
    ((rule copying_assign, assumption, simp) | (rule copying_steps, assumption, rule deep_copies_intros, simp, simp)
      | (rule flat_steps, assumption, simp, simp, simp))+,
    rule copying_return, assumption, simp)

lemma object_copied: "deep_copies (TPtr (object_T E k)) (DeepCopyObject X k)"
  by (cases k) (simp_all only: object_T.simps DeepCopyObject.simps LakeFSCredential_DeepCopyObject_def LakeFSCredentialList_DeepCopyObject_def LakeFSGCPolicy_DeepCopyObject_def LakeFSCredential_DeepCopy_def LakeFSCredentialList_DeepCopy_def LakeFSGCPolicy_DeepCopy_def
      LakeFSGCPolicyList_DeepCopyObject_def LakeFSGroup_DeepCopyObject_def LakeFSGroupList_DeepCopyObject_def LakeFSGCPolicyList_DeepCopy_def LakeFSGroup_DeepCopy_def LakeFSGroupList_DeepCopy_def
      LakeFSRepository_DeepCopyObject_def LakeFSRepositoryList_DeepCopyObject_def LakeFSRole_DeepCopyObject_def LakeFSRepository_DeepCopy_def LakeFSRepositoryList_DeepCopy_def LakeFSRole_DeepCopy_def
      LakeFSRoleBinding_DeepCopyObject_def LakeFSRoleBindingList_DeepCopyObject_def LakeFSRoleList_DeepCopyObject_def LakeFSRoleBinding_DeepCopy_def LakeFSRoleBindingList_DeepCopy_def LakeFSRoleList_DeepCopy_def
      LakeFSUser_DeepCopyObject_def LakeFSUserList_DeepCopyObject_def LakeFSUser_DeepCopy_def LakeFSUserList_DeepCopy_def deep_copies_object deep_copies_pointer
      LakeFSCredential_copied LakeFSCredentialList_copied LakeFSGCPolicy_copied LakeFSGCPolicyList_copied
      LakeFSGroup_copied LakeFSGroupList_copied LakeFSRepository_copied LakeFSRepositoryList_copied
      LakeFSRole_copied LakeFSRoleBinding_copied LakeFSRoleBindingList_copied LakeFSRoleList_copied
      LakeFSUser_copied LakeFSUserList_copied)

lemmas wp_object_isolated = deep_copies_isolated [OF object_copied]

end

subsection \<open>Concrete Kubernetes types\<close>

text \<open>Types with references of every sort, and their copies, for the witness.\<close>

definition ref_OwnerReference_T :: ty where
  "ref_OwnerReference_T = TStruct [(''Name'', TScalar), (''UID'', TScalar), (''Controller'', TPtr TScalar)]"

definition ref_OwnerReference_DeepCopyInto :: copier where
  "ref_OwnerReference_DeepCopyInto inp = do {
     out \<leftarrow> return inp;
     out \<leftarrow> copy_pointer ''Controller'' inp out;
     return out }"

definition ref_ObjectMeta_T :: ty where
  "ref_ObjectMeta_T = TStruct [(''Name'', TScalar), (''Namespace'', TScalar), (''DeletionTimestamp'', TPtr TScalar),
     (''OwnerReferences'', TSlice ref_OwnerReference_T), (''Finalizers'', TSlice TScalar)]"

definition ref_ObjectMeta_DeepCopyInto :: copier where
  "ref_ObjectMeta_DeepCopyInto inp = do {
     out \<leftarrow> return inp;
     out \<leftarrow> copy_pointer ''DeletionTimestamp'' inp out;
     out \<leftarrow> copy_slice ref_OwnerReference_DeepCopyInto ''OwnerReferences'' inp out;
     out \<leftarrow> copy_array ''Finalizers'' inp out;
     return out }"

definition ref_named_T :: ty where
  "ref_named_T = TStruct [(''Name'', TScalar), (''From'', TPtr TScalar)]"

definition ref_named_DeepCopyInto :: copier where
  "ref_named_DeepCopyInto inp = do {
     out \<leftarrow> return inp;
     out \<leftarrow> copy_pointer ''From'' inp out;
     return out }"

definition ref_types :: ExternalTypes where
  "ref_types = \<lparr>et_TypeMeta = TStruct [(''Kind'', TScalar), (''APIVersion'', TScalar)], et_ObjectMeta = ref_ObjectMeta_T,
     et_ListMeta = TStruct [(''Continue'', TScalar)], et_Condition = TStruct [(''Type'', TScalar), (''Status'', TScalar)],
     et_Time = TScalar, et_EnvVar = ref_named_T, et_EnvFromSource = ref_named_T, et_ResourceRequirements = ref_named_T,
     et_VolumeMount = ref_named_T, et_EmptyDirVolumeSource = ref_named_T\<rparr>"

definition ref_external :: External where
  "ref_external = \<lparr>ext_ObjectMeta = ref_ObjectMeta_DeepCopyInto, ext_ListMeta = return, ext_Condition = return,
     ext_Time = deep_copy return, ext_EnvVar = ref_named_DeepCopyInto, ext_EnvFromSource = ref_named_DeepCopyInto,
     ext_ResourceRequirements = ref_named_DeepCopyInto, ext_VolumeMount = ref_named_DeepCopyInto,
     ext_EmptyDirVolumeSource = ref_named_DeepCopyInto\<rparr>"

lemma ref_OwnerReference_copied [deep_copies_intros]: "deep_copies ref_OwnerReference_T ref_OwnerReference_DeepCopyInto"
  unfolding ref_OwnerReference_T_def ref_OwnerReference_DeepCopyInto_def
  by (rule deep_copies_struct, simp, rule copying_begin,
    ((rule copying_assign, assumption, simp) | (rule copying_steps, assumption, rule deep_copies_intros, simp, simp)
      | (rule flat_steps, assumption, simp, simp, simp))+,
    rule copying_return, assumption, simp)

lemma ref_ObjectMeta_copied: "deep_copies ref_ObjectMeta_T ref_ObjectMeta_DeepCopyInto"
  unfolding ref_ObjectMeta_T_def ref_ObjectMeta_DeepCopyInto_def
  by (rule deep_copies_struct, simp, rule copying_begin,
    ((rule copying_assign, assumption, simp) | (rule copying_steps, assumption, rule deep_copies_intros, simp, simp)
      | (rule flat_steps, assumption, simp, simp, simp))+,
    rule copying_return, assumption, simp)

lemma ref_named_copied: "deep_copies ref_named_T ref_named_DeepCopyInto"
  unfolding ref_named_T_def ref_named_DeepCopyInto_def
  by (rule deep_copies_struct, simp, rule copying_begin,
    ((rule copying_assign, assumption, simp) | (rule copying_steps, assumption, rule deep_copies_intros, simp, simp)
      | (rule flat_steps, assumption, simp, simp, simp))+,
    rule copying_return, assumption, simp)

interpretation ref_copies: external_copies ref_types ref_external
  by unfold_locales
    (simp_all add: ref_types_def ref_external_def ref_ObjectMeta_copied ref_named_copied deep_copies_flat deep_copies_pointer)

subsection \<open>Properties\<close>

text \<open>
  C17. \<open>DeepCopyObject\<close> copies the objects and lists of every API type deeply: the copy stands for the same
  value as the original and no memory in use before is written; and neither is affected by what
  happens to the other afterwards: the original keeps its value whatever is written to the memory of the
  copy, and the copy keeps it whatever is written to the memory that was there before.
\<close>

theorem deep_copy_object_isolated:
  assumes "external_copies E X" and "denotes h UNIV (TPtr (object_T E k)) p t"
  shows "case run_state (DeepCopyObject X k p) h of (q, h') \<Rightarrow>
     (\<forall>a < length h. cells h' a = cells h a) \<and> denotes h' UNIV (TPtr (object_T E k)) q t \<and>
     (\<forall>h2. length h' \<le> length h2 \<longrightarrow> (\<forall>a < length h. cells h2 a = cells h a) \<longrightarrow>
        denotes h2 UNIV (TPtr (object_T E k)) p t) \<and>
     (\<forall>h2. length h' \<le> length h2 \<longrightarrow> (\<forall>a \<ge> length h. cells h2 a = cells h' a) \<longrightarrow>
        denotes h2 UNIV (TPtr (object_T E k)) q t)"
  by (rule external_copies.wp_object_isolated [OF assms, unfolded wp_def])

text \<open>A group with one member: the object at 0, its finalizers at 1, its members at 2.\<close>

definition ex_group_heap :: heap where
  "ex_group_heap = [[VStruct [
     (''TypeMeta'', VStruct [(''Kind'', VScalar (SString ''LakeFSGroup'')), (''APIVersion'', VScalar (SString ''v1beta1''))]),
     (''ObjectMeta'', VStruct [(''Name'', VScalar (SString ''devs'')), (''Namespace'', VScalar (SString ''data'')),
        (''DeletionTimestamp'', VNil), (''OwnerReferences'', VNil), (''Finalizers'', VRef 1)]),
     (''Spec'', VStruct [(''ExternalID'', VScalar (SString ''Devs'')), (''Users'', VRef 2), (''Description'', VScalar (SString ''''))]),
     (''Status'', VStruct [(''ObservedGeneration'', VScalar (SInt 1)), (''Conditions'', VNil)])]],
    [VScalar (SString ''hold'')],
    [VStruct [(''Name'', VScalar (SString ''alice''))]]]"

definition ex_group_tree :: tree where
  "ex_group_tree = LRef [LStruct [
     (''TypeMeta'', LStruct [(''Kind'', LScalar (SString ''LakeFSGroup'')), (''APIVersion'', LScalar (SString ''v1beta1''))]),
     (''ObjectMeta'', LStruct [(''Name'', LScalar (SString ''devs'')), (''Namespace'', LScalar (SString ''data'')),
        (''DeletionTimestamp'', LNil), (''OwnerReferences'', LNil), (''Finalizers'', LRef [LScalar (SString ''hold'')])]),
     (''Spec'', LStruct [(''ExternalID'', LScalar (SString ''Devs'')),
        (''Users'', LRef [LStruct [(''Name'', LScalar (SString ''alice''))]]), (''Description'', LScalar (SString ''''))]),
     (''Status'', LStruct [(''ObservedGeneration'', LScalar (SInt 1)), (''Conditions'', LNil)])]]"

theorem deep_copy_object_isolated_witness:
  "case run_state (DeepCopyObject ref_external IsLakeFSGroup (VRef 0)) ex_group_heap of (q, h') \<Rightarrow>
     (\<forall>a < length ex_group_heap. cells h' a = cells ex_group_heap a) \<and>
     denotes h' UNIV (TPtr (object_T ref_types IsLakeFSGroup)) q ex_group_tree \<and>
     (\<forall>h2. length h' \<le> length h2 \<longrightarrow> (\<forall>a < length ex_group_heap. cells h2 a = cells ex_group_heap a) \<longrightarrow>
        denotes h2 UNIV (TPtr (object_T ref_types IsLakeFSGroup)) (VRef 0) ex_group_tree) \<and>
     (\<forall>h2. length h' \<le> length h2 \<longrightarrow> (\<forall>a \<ge> length ex_group_heap. cells h2 a = cells h' a) \<longrightarrow>
        denotes h2 UNIV (TPtr (object_T ref_types IsLakeFSGroup)) q ex_group_tree)"
  by (rule deep_copy_object_isolated [OF ref_copies.external_copies_axioms])
    (simp add: LakeFSGroup_T_def LakeFSGroupSpec_T_def LakeFSGroupStatus_T_def LakeFSUserReference_T_def ref_types_def
      ref_ObjectMeta_T_def ref_OwnerReference_T_def ex_group_heap_def ex_group_tree_def cells_def)

end
