(* ===== verification/SchemeRegistration.thy ===== *)
theory SchemeRegistration
  imports DeepCopies
begin

section \<open>Registration of the API types (api/v1beta1)\<close>

text \<open>
  The file groupversion_info.go makes a scheme builder for the group and version of the API, and the
  \<open>init\<close> of each *_types.go file registers its object and list types with it. The builder is
  apimachinery's; here it is the list of what was registered. Both commands add these types, after those
  of Kubernetes itself, to the scheme their clients work with.
\<close>

record GroupVersion =
  gv_Group :: string
  gv_Version :: string

definition SchemeGroupVersion :: GroupVersion where
  "SchemeGroupVersion = \<lparr>gv_Group = ''pkg.internal'', gv_Version = ''v1beta1''\<rparr>"

record SchemeBuilder =
  sb_GroupVersion :: GroupVersion
  sb_Types :: "ApiObject list"

definition newSchemeBuilder :: SchemeBuilder where
  "newSchemeBuilder = \<lparr>sb_GroupVersion = SchemeGroupVersion, sb_Types = []\<rparr>"

definition Register :: "ApiObject list \<Rightarrow> SchemeBuilder \<Rightarrow> SchemeBuilder" where
  "Register objects b = b\<lparr>sb_Types := sb_Types b @ objects\<rparr>"

subsection \<open>The init functions, one per file\<close>

definition init_lakefscredential :: "SchemeBuilder \<Rightarrow> SchemeBuilder" where
  "init_lakefscredential = Register [IsLakeFSCredential, IsLakeFSCredentialList]"

definition init_lakefsgcpolicy :: "SchemeBuilder \<Rightarrow> SchemeBuilder" where
  "init_lakefsgcpolicy = Register [IsLakeFSGCPolicy, IsLakeFSGCPolicyList]"

definition init_lakefsgroup :: "SchemeBuilder \<Rightarrow> SchemeBuilder" where
  "init_lakefsgroup = Register [IsLakeFSGroup, IsLakeFSGroupList]"

definition init_lakefsrepository :: "SchemeBuilder \<Rightarrow> SchemeBuilder" where
  "init_lakefsrepository = Register [IsLakeFSRepository, IsLakeFSRepositoryList]"

definition init_lakefsrole :: "SchemeBuilder \<Rightarrow> SchemeBuilder" where
  "init_lakefsrole = Register [IsLakeFSRole, IsLakeFSRoleList]"

definition init_lakefsrolebinding :: "SchemeBuilder \<Rightarrow> SchemeBuilder" where
  "init_lakefsrolebinding = Register [IsLakeFSRoleBinding, IsLakeFSRoleBindingList]"

definition init_lakefsuser :: "SchemeBuilder \<Rightarrow> SchemeBuilder" where
  "init_lakefsuser = Register [IsLakeFSUser, IsLakeFSUserList]"

text \<open>
  Go runs the \<open>init\<close> functions of a package in the order of its files' names; each is a function on the
  builder.
\<close>

definition init_v1beta1 :: "SchemeBuilder \<Rightarrow> SchemeBuilder" where
  "init_v1beta1 = init_lakefsuser \<circ> init_lakefsrolebinding \<circ> init_lakefsrole \<circ> init_lakefsrepository \<circ>
     init_lakefsgroup \<circ> init_lakefsgcpolicy \<circ> init_lakefscredential"

text \<open>
  \<open>AddToScheme\<close>: the group, version and type of everything registered joins what the scheme already knows.
\<close>

definition AddToScheme :: "SchemeBuilder \<Rightarrow> (GroupVersion \<times> ApiObject) list \<Rightarrow> (GroupVersion \<times> ApiObject) list" where
  "AddToScheme b scheme = scheme @ map (\<lambda>k. (sb_GroupVersion b, k)) (sb_Types b)"

subsection \<open>Properties\<close>

text \<open>
  Every type of the API that is a \<open>runtime.Object\<close> is registered in the scheme, exactly once, under the
  group pkg.internal and the version v1beta1: no object or list of the API is unknown to the clients, and none has
  two registrations.
\<close>

lemma scheme_complete:
  "map_of (map (\<lambda>(gv, k). (k, gv)) (AddToScheme (init_v1beta1 newSchemeBuilder) [])) k =
     Some \<lparr>gv_Group = ''pkg.internal'', gv_Version = ''v1beta1''\<rparr> \<and>
   count_list (sb_Types (init_v1beta1 newSchemeBuilder)) k = 1"
  by (cases k) (simp_all add: AddToScheme_def init_v1beta1_def Register_def newSchemeBuilder_def SchemeGroupVersion_def
      init_lakefscredential_def init_lakefsgcpolicy_def init_lakefsgroup_def init_lakefsrepository_def
      init_lakefsrole_def init_lakefsrolebinding_def init_lakefsuser_def)

end
