(* ===== verification/Spec2Isabelle.thy ===== *)
theory Spec2Isabelle
  imports AuthServerCommand SchemeRegistration
begin

text \<open>
  Verification of the lakeFS operator and authorization server for Kubernetes.

  \<^bold>\<open>The program.\<close> The repository lets a lakeFS installation take its users, groups, access keys and policies
  from Kubernetes. They are custom resources (api/v1beta1): LakeFSUser, LakeFSGroup, LakeFSCredential, LakeFSRole,
  LakeFSRoleBinding, LakeFSRepository and LakeFSGCPolicy. Two programs work on them. The auth server
  (cmd/authserver, internal/authserver/server.go) answers the HTTP requests with which lakeFS asks who an access
  key belongs to and what a user may do, and with which administrators manage users, groups and policies. The
  operator (cmd/operator, internal/controller) runs seven controllers: five judge an object and write the
  judgement into its status; the controller of credentials also makes the secret of an access key; the controller
  of repositories creates and deletes repositories in lakeFS through its API (internal/lakefs/client.go) and keeps
  the cron job that collects their garbage. The two programs share nothing but the stored objects.

  \<^bold>\<open>How it is modelled.\<close> Structs are records, interfaces over all resources the datatype \<open>obj\<close>, errors
  values of sum types, and effectful functions programs in the state monad over an arbitrary world. What is not part
  of the repository is a parameter: the client of the Kubernetes API (\<open>Client\<close>), net/http (\<open>Http\<close>,
  \<open>HttpServing\<close>), clock and random generator (\<open>Runtime\<close>), the helpers of apimachinery and
  controller-runtime (\<open>Lib\<close>), its manager (\<open>Manager\<close>), and the copying methods of the Kubernetes types
  (\<open>External\<close>). What the source relies on is stated in locales; every locale is interpreted on a concrete instance
  on which the witnesses run the program.

  \<^bold>\<open>Theories, from the bottom up.\<close>
  \<^item> Prelude: the weakest precondition \<open>wp\<close> with a rule per construct, programs that keep an observation,
    loops over lists, and the collections \<open>wp_intros\<close> and \<open>keeps_intros\<close>.
  \<^item> GoMemory and DeepCopies: a heap, and zz_generated.deepcopy.go on it, statement by statement. A copy of an
    API object stands for the same value and shares no memory with the original; this is what allows the other
    theories to treat objects as values. SchemeRegistration: the \<open>init\<close> functions of the API package.
  \<^item> GoStrings: what is used of Go's strings and unicode. ApiTypes: the custom resources and their accessors.
    Naming: object names, binding names, templates, user ids, tokens (the helpers of server.go).
  \<^item> Kube: objects, keys, the field indexes, the client's calls, and the laws \<open>kube_api\<close> (every call fails and
    changes nothing, or has its documented effect) and \<open>reliable_api\<close> (calls fail only for reasons that the stored objects
    give). RefStore: a concrete API server that satisfies both.
  \<^item> AuthTypes: wire types, decoding, requests and answers, the server's configuration. Secrets: the secret of
    a credential, as both programs write it.
  \<^item> Resolve: lookups and the shared writers of server.go, with the abstract \<open>grants\<close> (what a subject may do
    according to the stored bindings and roles) that the computation of a user's policies implements; the locales
    \<open>auth_api\<close>, \<open>auth_clock\<close> and the reusable \<open>lookup\<close>. ExampleWorld: a small world for witnesses.
  \<^item> AuthUsers, AuthGroups, AuthPolicies, AuthCredentials: the handlers, each with its effect on the stored
    objects on every branch. Routes: the dispatch, its routing table, and that both agree.
  \<^item> Reconciling: conditions, what the controllers use of the libraries (\<open>controllers\<close>), and the locale
    \<open>status_controller\<close> for the shape that reading, judging and reporting has in six of the seven reconcilers.
    StatusControllers and CredentialController: those six.
  \<^item> LakefsClient: the lakeFS client, and what lakeFS promises (\<open>lakefs_api\<close>, \<open>lakefs_up\<close>).
    RepositoryController: the controller of repositories; RepositoryReconciliation: what its reconciliations do.
  \<^item> StateInvariants and Composition: the step relation \<open>system\<close>, whose steps are requests, reconciliations
    and changes from outside in any order, and the invariants of its reachable states.
  \<^item> Operator: what each controller registers (\<open>SetupWithManager\<close>), the map from a GC policy to the repositories it
    concerns, and \<open>main\<close>. AuthServerCommand: \<open>main\<close> of the auth server and \<open>Start\<close>.

  \<^bold>\<open>What is shown.\<close>
  \<^item> Access keys: a successful lookup is backed by a stored, unrevoked, unexpired credential, its user and its
    secret, and a usable credential is found; a new key authenticates once it is created, a revoked one is refused, and
    stays refused whatever requests and reconciliations follow, short of a new creation of that very key. A
    credential reported ready authenticates, and a stored secret key is never replaced, except where a credential keeps
    it under the name of its access key, which is shown as well.
  \<^item> Policies: the policies listed for a user are exactly those of the abstract grants; no controller ever changes
    them; writing, attaching and deleting policies has the stated effects; GET requests change nothing.
  \<^item> Repositories: the finalizer goes only when lakeFS no longer holds the repository; ready means that lakeFS
    holds it and that rules and cron job are those of the policy; deletion and creation complete in one reconciliation
    when lakeFS and the API work; a change of a policy reaches exactly the repositories that read it.
  \<^item> The programs: neither manager is started before everything is registered, the wait for a secret ends, and
    copies are deep.
  \<^item> Errors: behaviour that looks unintended is shown as it is, in general and with a witness: requests that are never
    dispatched, a revocation that fails open, a foreign access key that is taken over, a policy attached without effect,
    a secret key replaced by the public access key, and judgements that are not renewed when what they depend on
    appears.

  \<^bold>\<open>Hypotheses, bounds and fuel.\<close>
  \<^item> One request or reconciliation runs at a time; between any two, anything may happen that \<open>env\<close> of \<open>system\<close> allows.
  \<^item> The clock stays within an interval (\<open>T1\<close> to \<open>T2\<close>, for the server \<open>S1\<close> to \<open>S2\<close>) during the run in question, so a
    credential counts as unexpired if it is so at the end of the interval, and as expired if it is at its start.
  \<^item> \<open>waitForCredentialSecret\<close> polls as often as \<open>env_Ticks\<close> says; the loop of the source without such a bound
    is \<open>pollCredentialSecret\<close>, which returns as soon as the context ends, with the result for that number of ticks. (The
    source polls every 200 milliseconds until a timeout; the theorems hold for every number of ticks.)
  \<^item> Request paths consist of proper segments where the routing table is concerned; net/http's mux cleans others.
  \<^item> Kubernetes calls do not touch lakeFS and calls to lakeFS do not touch the stored objects
    (\<open>repository_controller\<close>). A revoked access key stays refused as long as no request asks for that very key
    (\<open>asks_for\<close>: by name, or by none when the random generator may yield it) at a time when the name made from it is
    free (\<open>key_held\<close>): such a request creates the key anew.
  \<^item> The widths that matter are kept: the hashes of \<open>compatibilityUserID\<close> and of the cron job names are computed on 64
    and 32 bit words.

  \<^bold>\<open>Not modelled.\<close> The scanner and printer of encoding/json (a request carries the value its body scans to), net/http itself,
  the parsing of flags and the logging, how controller-runtime turns changes into requests, and concurrent runs of two
  handlers on the same object: the API server's conflict errors are among the errors a call may return, but interleaved calls
  of two handlers are not. test/utils is test support.
\<close>

end
